(* ===== verification/Prelude.thy ===== *)
theory Prelude
  imports Main "HOL-Library.AList" "HOL-Library.Sublist"
begin

text \<open>
  The Python fragment every component of bumper uses: dynamically typed values as the JSON
  values the program stores and exchanges, dictionaries as ordered association lists,
  truth values, the string methods the code calls, exceptions, and programs that read and
  write a state and may raise. Everything here is the language and its standard library;
  the program itself starts in the theories that import this one.
\<close>

section \<open>Collections of facts\<close>

named_theorems py_run \<open>equations that run a program one step: binds, raises, handlers\<close>
named_theorems repo_defs \<open>definitions of the repository operations\<close>
named_theorems resp_defs \<open>definitions of the response builders\<close>

section \<open>Values\<close>

text \<open>
  A value read from a request body, a message payload or the database. \<open>JNull\<close> is
  Python's \<open>None\<close>; a \<open>JObj\<close> is a \<open>dict\<close> with string keys in insertion order.
  Floats do not occur in the modelled code paths.
\<close>

datatype json =
    JNull
  | JBool bool
  | JInt int
  | JStr string
  | JList "json list"
  | JObj "(string \<times> json) list"

type_synonym doc = "(string \<times> json) list"

fun truthy :: "json \<Rightarrow> bool" where
  "truthy JNull = False"
| "truthy (JBool b) = b"
| "truthy (JInt i) = (i \<noteq> 0)"
| "truthy (JStr s) = (s \<noteq> [])"
| "truthy (JList xs) = (xs \<noteq> [])"
| "truthy (JObj d) = (d \<noteq> [])"

text \<open>
  Python's \<open>==\<close>: a \<open>bool\<close> is an \<open>int\<close>, lists compare element by element,
  dictionaries ignore the order of their keys.
\<close>

fun py_eq :: "json \<Rightarrow> json \<Rightarrow> bool" where
  "py_eq JNull JNull = True"
| "py_eq (JBool a) (JBool b) = (a = b)"
| "py_eq (JBool a) (JInt i) = (i = of_bool a)"
| "py_eq (JInt i) (JBool b) = (i = of_bool b)"
| "py_eq (JInt i) (JInt j) = (i = j)"
| "py_eq (JStr s) (JStr t) = (s = t)"
| "py_eq (JList xs) (JList ys) = list_all2 py_eq xs ys"
| "py_eq (JObj xs) (JObj ys) =
     (length xs = length ys \<and>
      list_all (\<lambda>(k, v). case map_of ys k of None \<Rightarrow> False | Some w \<Rightarrow> py_eq v w) xs)"
| "py_eq _ _ = False"

lemma py_eq_JStr [simp]: "py_eq (JStr s) v \<longleftrightarrow> v = JStr s" "py_eq v (JStr s) \<longleftrightarrow> v = JStr s"
  by (cases v; auto)+

lemma py_eq_JNull [simp]: "py_eq JNull v \<longleftrightarrow> v = JNull" "py_eq v JNull \<longleftrightarrow> v = JNull"
  by (cases v; auto)+

section \<open>Dictionaries\<close>

text \<open>
  \<open>dget d k\<close> is \<open>d.get(k)\<close>, \<open>dget_or d k v\<close> is \<open>d.get(k, v)\<close>, \<open>dset d k v\<close>
  is \<open>d[k] = v\<close>, \<open>dupdate d e\<close> is \<open>d.update(e)\<close> (an existing key keeps its
  position), \<open>dpop d k\<close> removes a key.
\<close>

definition dget_or :: "doc \<Rightarrow> string \<Rightarrow> json \<Rightarrow> json" where
  "dget_or d k v = (case map_of d k of None \<Rightarrow> v | Some w \<Rightarrow> w)"

definition dget :: "doc \<Rightarrow> string \<Rightarrow> json" where
  "dget d k = dget_or d k JNull"

abbreviation dset :: "doc \<Rightarrow> string \<Rightarrow> json \<Rightarrow> doc" where
  "dset d k v \<equiv> AList.update k v d"

definition dupdate :: "doc \<Rightarrow> doc \<Rightarrow> doc" where
  "dupdate d e = fold (\<lambda>(k, v) d. dset d k v) e d"

abbreviation dpop :: "doc \<Rightarrow> string \<Rightarrow> doc" where
  "dpop d k \<equiv> AList.delete k d"

lemma dget_or_Nil [simp]: "dget_or [] k v = v"
  by (simp add: dget_or_def)

lemma dget_or_Cons [simp]:
  "dget_or ((k', w) # d) k v = (if k = k' then w else dget_or d k v)"
  by (simp add: dget_or_def)

lemma dget_Nil [simp]: "dget [] k = JNull"
  by (simp add: dget_def)

lemma dget_Cons [simp]: "dget ((k', w) # d) k = (if k = k' then w else dget d k)"
  by (simp add: dget_def)

lemma map_of_dset [simp]: "map_of (dset d k v) = (map_of d)(k \<mapsto> v)"
  by (simp add: update_conv')

lemma dget_or_dset [simp]: "dget_or (dset d k v) k' w = (if k' = k then v else dget_or d k' w)"
  by (simp add: dget_or_def)

lemma dget_dset [simp]: "dget (dset d k v) k' = (if k' = k then v else dget d k')"
  by (simp add: dget_def)

lemma dupdate_Nil [simp]: "dupdate d [] = d"
  by (simp add: dupdate_def)

lemma dupdate_Cons [simp]: "dupdate d ((k, v) # e) = dupdate (dset d k v) e"
  by (simp add: dupdate_def)

lemma map_of_dupdate_notin: "k \<notin> fst ` set e \<Longrightarrow> map_of (dupdate d e) k = map_of d k"
  by (induction e arbitrary: d) (auto simp: dupdate_def)

lemma dget_dupdate_notin [simp]: "k \<notin> fst ` set e \<Longrightarrow> dget (dupdate d e) k = dget d k"
  by (simp add: dget_def dget_or_def map_of_dupdate_notin)

lemma map_of_dupdate:
  "distinct (map fst e) \<Longrightarrow>
   map_of (dupdate d e) k = (case map_of e k of None \<Rightarrow> map_of d k | Some v \<Rightarrow> Some v)"
proof (induction e arbitrary: d)
  case Nil
  then show ?case by simp
next
  case (Cons p e)
  obtain k' v where p: "p = (k', v)" by force
  with Cons.prems have "map_of e k' = None" and "distinct (map fst e)"
    by (auto simp: map_of_eq_None_iff)
  with p Cons.IH show ?case by (auto split: option.splits)
qed

section \<open>Exceptions\<close>

datatype py_exc =
    KeyError
  | IndexError
  | TypeError
  | ValueError
  | AttributeError
  | StopIteration
  | TimeoutError
  | UnicodeError
  | OverflowError
  | PlainException string
  | MigrationError string
  | MqttError string
  | HTTPException nat
  | StructError
  | BlockingIOError nat
  | AssertionError
  | OSError
  | ConnectionError
  | ConnectError nat
  | ProtocolHandlerError
  | InvalidURI
  | InvalidHandshake

text \<open>Reading an attribute or a key of a value that is not a dictionary raises.\<close>

fun as_dict_value :: "json \<Rightarrow> py_exc + doc" where
  "as_dict_value (JObj d) = Inr d"
| "as_dict_value _ = Inl AttributeError"

text \<open>\<open>list(v)\<close>: the elements of a list, the characters of a string, the keys of a dictionary.\<close>

fun py_list :: "json \<Rightarrow> py_exc + json list" where
  "py_list (JList xs) = Inr xs"
| "py_list (JStr s) = Inr (map (\<lambda>c. JStr [c]) s)"
| "py_list (JObj d) = Inr (map (JStr \<circ> fst) d)"
| "py_list _ = Inl TypeError"

text \<open>\<open>v in xs\<close> and \<open>xs.remove(v)\<close> on a list compare with \<open>==\<close>.\<close>

definition py_in :: "json \<Rightarrow> json list \<Rightarrow> bool" where
  "py_in v xs = list_ex (py_eq v) xs"

fun py_remove :: "json \<Rightarrow> json list \<Rightarrow> json list" where
  "py_remove v [] = []"
| "py_remove v (x # xs) = (if py_eq v x then xs else x # py_remove v xs)"

lemma py_in_JStr [simp]: "py_in (JStr s) xs \<longleftrightarrow> JStr s \<in> set xs"
  by (auto simp: py_in_def list_ex_iff)

lemma py_remove_JStr: "py_remove (JStr s) xs = remove1 (JStr s) xs"
  by (induction xs) auto

section \<open>Pure code that may raise\<close>

text \<open>A computation that may raise, and a list comprehension over one.\<close>

definition res_bind :: "py_exc + 'a \<Rightarrow> ('a \<Rightarrow> py_exc + 'b) \<Rightarrow> py_exc + 'b" where
  "res_bind r f = (case r of Inl e \<Rightarrow> Inl e | Inr x \<Rightarrow> f x)"

lemma res_bind_simps [simp]: "res_bind (Inr x) f = f x" "res_bind (Inl e) f = Inl e"
  by (simp_all add: res_bind_def)

lemma res_bind_Inr: "res_bind r f = Inr y \<longleftrightarrow> (\<exists>x. r = Inr x \<and> f x = Inr y)"
  by (cases r) auto

text \<open>Every value a computation returns has a property.\<close>

definition res_all :: "('a \<Rightarrow> bool) \<Rightarrow> py_exc + 'a \<Rightarrow> bool" where
  "res_all P r = (case r of Inl _ \<Rightarrow> True | Inr x \<Rightarrow> P x)"

lemma res_all_simps [simp]: "res_all P (Inl e)" "res_all P (Inr x) \<longleftrightarrow> P x"
  by (simp_all add: res_all_def)

lemma res_all_bind: "(\<And>x. r = Inr x \<Longrightarrow> res_all P (f x)) \<Longrightarrow> res_all P (res_bind r f)"
  by (cases r) auto

lemma res_allD: "res_all P r \<Longrightarrow> r = Inr x \<Longrightarrow> P x"
  by simp

fun res_map :: "('a \<Rightarrow> py_exc + 'b) \<Rightarrow> 'a list \<Rightarrow> py_exc + 'b list" where
  "res_map f [] = Inr []"
| "res_map f (x # xs) = res_bind (f x) (\<lambda>y. res_bind (res_map f xs) (\<lambda>ys. Inr (y # ys)))"

lemma res_map_Inr: "res_map f xs = Inr ys \<longleftrightarrow> list_all2 (\<lambda>x y. f x = Inr y) xs ys"
  by (induction xs arbitrary: ys) (auto simp: res_bind_Inr list_all2_Cons1)

section \<open>Programs\<close>

text \<open>
  A program over a state \<open>'s\<close> runs to an exception or a value and always leaves a
  state: what a program wrote before it raised stays written.
\<close>

type_synonym ('s, 'a) py = "'s \<Rightarrow> (py_exc + 'a) \<times> 's"

definition py_ret :: "'a \<Rightarrow> ('s, 'a) py" where
  "py_ret x s = (Inr x, s)"

definition py_raise :: "py_exc \<Rightarrow> ('s, 'a) py" where
  "py_raise e s = (Inl e, s)"

definition py_bind :: "('s, 'a) py \<Rightarrow> ('a \<Rightarrow> ('s, 'b) py) \<Rightarrow> ('s, 'b) py" where
  "py_bind m f s = (case m s of (Inl e, s') \<Rightarrow> (Inl e, s') | (Inr x, s') \<Rightarrow> f x s')"

definition py_seq :: "('s, 'a) py \<Rightarrow> ('s, 'b) py \<Rightarrow> ('s, 'b) py" where
  "py_seq m n = py_bind m (\<lambda>_. n)"

definition py_try :: "('s, 'a) py \<Rightarrow> (py_exc \<Rightarrow> ('s, 'a) py) \<Rightarrow> ('s, 'a) py" where
  "py_try m h s = (case m s of (Inl e, s') \<Rightarrow> h e s' | (Inr x, s') \<Rightarrow> (Inr x, s'))"

definition py_of :: "py_exc + 'a \<Rightarrow> ('s, 'a) py" where
  "py_of r s = (r, s)"

definition py_gets :: "('s \<Rightarrow> 'a) \<Rightarrow> ('s, 'a) py" where
  "py_gets f s = (Inr (f s), s)"

definition py_modify :: "('s \<Rightarrow> 's) \<Rightarrow> ('s, unit) py" where
  "py_modify f s = (Inr (), f s)"

fun py_for :: "'a list \<Rightarrow> ('a \<Rightarrow> ('s, unit) py) \<Rightarrow> ('s, unit) py" where
  "py_for [] f = py_ret ()"
| "py_for (x # xs) f = py_seq (f x) (py_for xs f)"

text \<open>A program over a part of the state, run on the whole.\<close>

definition py_zoom :: "('s \<Rightarrow> 't) \<Rightarrow> ('t \<Rightarrow> 's \<Rightarrow> 's) \<Rightarrow> ('t, 'a) py \<Rightarrow> ('s, 'a) py" where
  "py_zoom g p m s = (case m (g s) of (r, t) \<Rightarrow> (r, p t s))"

lemmas py_prims = py_ret_def py_raise_def py_bind_def py_seq_def py_try_def py_of_def
  py_gets_def py_modify_def

declare py_prims [py_run]

lemma py_bind_Inr: "m s = (Inr x, s') \<Longrightarrow> py_bind m f s = f x s'"
  by (simp add: py_bind_def)

lemma py_bind_Inl: "m s = (Inl e, s') \<Longrightarrow> py_bind m f s = (Inl e, s')"
  by (simp add: py_bind_def)

lemma py_bind_assoc: "py_bind (py_bind m f) g = py_bind m (\<lambda>x. py_bind (f x) g)"
  by (rule ext) (auto simp: py_bind_def split: prod.splits sum.splits)

lemma py_bind_ret [simp]: "py_bind (py_ret x) f = f x"
  by (rule ext) (simp add: py_bind_def py_ret_def)

text \<open>An invariant of the state that every step of a program keeps, the program keeps.\<close>

definition keeps :: "('s \<Rightarrow> bool) \<Rightarrow> ('s, 'a) py \<Rightarrow> bool" where
  "keeps P m \<longleftrightarrow> (\<forall>s. P s \<longrightarrow> P (snd (m s)))"

lemma keepsD: "keeps P m \<Longrightarrow> P s \<Longrightarrow> P (snd (m s))"
  by (simp add: keeps_def)

lemma keepsI: "(\<And>s. P s \<Longrightarrow> P (snd (m s))) \<Longrightarrow> keeps P m"
  by (simp add: keeps_def)

lemma keeps_ret [intro]: "keeps P (py_ret x)"
  by (simp add: keeps_def py_ret_def)

lemma keeps_raise [intro]: "keeps P (py_raise e)"
  by (simp add: keeps_def py_raise_def)

lemma keeps_of [intro]: "keeps P (py_of r)"
  by (simp add: keeps_def py_of_def)

lemma keeps_gets [intro]: "keeps P (py_gets f)"
  by (simp add: keeps_def py_gets_def)

lemma keeps_bind [intro]:
  assumes "keeps P m" and "\<And>x. keeps P (f x)"
  shows "keeps P (py_bind m f)"
proof (rule keepsI)
  fix s assume "P s"
  with assms(1) have "P (snd (m s))" by (rule keepsD)
  with assms(2) show "P (snd (py_bind m f s))"
    by (auto simp: py_bind_def keeps_def split: prod.splits sum.splits)
qed

lemma keeps_seq [intro]: "keeps P m \<Longrightarrow> keeps P n \<Longrightarrow> keeps P (py_seq m n)"
  unfolding py_seq_def by (rule keeps_bind)

lemma keeps_try [intro]:
  assumes "keeps P m" and "\<And>e. keeps P (h e)"
  shows "keeps P (py_try m h)"
proof (rule keepsI)
  fix s assume "P s"
  with assms(1) have "P (snd (m s))" by (rule keepsD)
  with assms(2) show "P (snd (py_try m h s))"
    by (auto simp: py_try_def keeps_def split: prod.splits sum.splits)
qed

lemma keeps_for [intro]: "(\<And>x. x \<in> set xs \<Longrightarrow> keeps P (f x)) \<Longrightarrow> keeps P (py_for xs f)"
  by (induction xs) auto

lemma keeps_if [intro]: "keeps P m \<Longrightarrow> keeps P n \<Longrightarrow> keeps P (if b then m else n)"
  by simp

lemma keeps_option [intro]: "keeps P m \<Longrightarrow> (\<And>x. keeps P (f x)) \<Longrightarrow> keeps P (case r of None \<Rightarrow> m | Some x \<Rightarrow> f x)"
  by (cases r) auto

text \<open>A program that returns has made a condition true: a step does, and the later ones keep it.\<close>

definition establishes :: "('s \<Rightarrow> bool) \<Rightarrow> ('s, 'a) py \<Rightarrow> bool" where
  "establishes P m \<longleftrightarrow> (\<forall>s x. fst (m s) = Inr x \<longrightarrow> P (snd (m s)))"

lemma establishesD: "establishes P m \<Longrightarrow> m s = (Inr x, s') \<Longrightarrow> P s'"
  by (metis establishes_def fst_conv snd_conv)

lemma establishes_first:
  assumes "establishes P m" and "\<And>x. keeps P (f x)"
  shows "establishes P (py_bind m f)"
  unfolding establishes_def
proof (intro allI impI)
  fix s y assume y: "fst (py_bind m f s) = Inr y"
  obtain r s' where m: "m s = (r, s')" by force
  with y obtain x where "r = Inr x" by (cases r) (auto simp: py_bind_def)
  with m have "m s = (Inr x, s')" by simp
  then have "P s'" by (rule establishesD [OF assms(1)])
  then have "P (snd (f x s'))" by (rule keepsD [OF assms(2)])
  with m \<open>r = Inr x\<close> show "P (snd (py_bind m f s))" by (simp add: py_bind_def)
qed

lemma establishes_later:
  assumes "\<And>x. establishes P (f x)"
  shows "establishes P (py_bind m f)"
  unfolding establishes_def
proof (intro allI impI)
  fix s y assume y: "fst (py_bind m f s) = Inr y"
  obtain r s' where m: "m s = (r, s')" by force
  with y obtain x where "r = Inr x" by (cases r) (auto simp: py_bind_def)
  with m y have "fst (f x s') = Inr y" by (simp add: py_bind_def)
  then have "P (snd (f x s'))" using assms [of x] by (simp add: establishes_def)
  with m \<open>r = Inr x\<close> show "P (snd (py_bind m f s))" by (simp add: py_bind_def)
qed

lemmas establishes_seq = establishes_first [of P m "\<lambda>_. n" for P m n, folded py_seq_def]
  establishes_later [of P "\<lambda>_. n" m for P m n, folded py_seq_def]

lemmas keeps_rules = keeps_ret keeps_raise keeps_of keeps_gets keeps_bind keeps_seq keeps_try keeps_for
  keeps_if keeps_option

end
