(* ===== verification/Py_Strings.thy ===== *)
theory Py_Strings
  imports Prelude "HOL-Library.Char_ord" "HOL-Library.List_Lexorder"
begin

text \<open>
  The methods of \<open>str\<close> the program calls, on lists of characters: \<open>split\<close> and \<open>join\<close> on a
  separator, \<open>find\<close>, \<open>in\<close>, \<open>replace\<close>, slices, \<open>lower\<close> on ASCII letters, and the
  decimal digits of numbers. Strings compare lexicographically by character code, as
  Python's do (the orders of Char_ord and List_Lexorder).
\<close>

section \<open>Splitting and joining\<close>

fun py_split :: "char \<Rightarrow> string \<Rightarrow> string list" where
  "py_split c [] = [[]]"
| "py_split c (x # xs) =
     (if x = c then [] # py_split c xs
      else (case py_split c xs of [] \<Rightarrow> [[x]] | y # ys \<Rightarrow> (x # y) # ys))"

fun py_join :: "string \<Rightarrow> string list \<Rightarrow> string" where
  "py_join sep [] = []"
| "py_join sep [x] = x"
| "py_join sep (x # y # ys) = x @ sep @ py_join sep (y # ys)"

text \<open>\<open>s.split(c, 1)\<close>: one part without a separator, else the parts around the first one.\<close>

fun py_split1 :: "char \<Rightarrow> string \<Rightarrow> string \<times> string option" where
  "py_split1 c [] = ([], None)"
| "py_split1 c (x # xs) =
     (if x = c then ([], Some xs) else (case py_split1 c xs of (a, r) \<Rightarrow> (x # a, r)))"

lemma py_split_ne [simp]: "py_split c s \<noteq> []"
  by (cases s) (auto split: list.splits)

lemma py_join_Cons_head: "py_join sep ((x # a) # ys) = x # py_join sep (a # ys)"
  by (cases ys) auto

lemma py_join_split: "py_join [c] (py_split c s) = s"
proof (induction s)
  case Nil
  then show ?case by simp
next
  case (Cons x s)
  then show ?case
    by (cases "py_split c s") (auto simp: py_join_Cons_head neq_Nil_conv)
qed

lemma py_split_no_sep: "c \<notin> set s \<Longrightarrow> py_split c s = [s]"
  by (induction s) auto

lemma py_split_append: "c \<notin> set a \<Longrightarrow> py_split c (a @ c # b) = a # py_split c b"
  by (induction a) auto

lemma py_split_join:
  "xs \<noteq> [] \<Longrightarrow> \<forall>x \<in> set xs. c \<notin> set x \<Longrightarrow> py_split c (py_join [c] xs) = xs"
proof (induction "[c]" xs rule: py_join.induct)
  case 1
  then show ?case by simp
next
  case (2 x)
  then show ?case by (simp add: py_split_no_sep)
next
  case (3 x y ys)
  then show ?case by (simp add: py_split_append)
qed

lemma py_split_parts_no_sep: "x \<in> set (py_split c s) \<Longrightarrow> c \<notin> set x"
proof (induction s arbitrary: x)
  case Nil
  then show ?case by simp
next
  case (Cons a s)
  then show ?case by (cases "py_split c s") (auto split: if_splits)
qed

lemma py_split1_append: "c \<notin> set a \<Longrightarrow> py_split1 c (a @ c # b) = (a, Some b)"
  by (induction a) auto

lemma py_split1_no_sep: "c \<notin> set s \<Longrightarrow> py_split1 c s = (s, None)"
  by (induction s) auto

lemma py_split1_Some: "py_split1 c s = (a, Some b) \<Longrightarrow> s = a @ c # b \<and> c \<notin> set a"
  by (induction s arbitrary: a) (auto split: if_splits prod.splits)

lemma py_split1_None: "py_split1 c s = (a, None) \<Longrightarrow> s = a \<and> c \<notin> set s"
  by (induction s arbitrary: a) (auto split: if_splits prod.splits)

section \<open>Searching and replacing\<close>

fun py_index :: "string \<Rightarrow> string \<Rightarrow> nat option" where
  "py_index p [] = (if p = [] then Some 0 else None)"
| "py_index p (x # xs) = (if prefix p (x # xs) then Some 0 else map_option Suc (py_index p xs))"

text \<open>\<open>s.find(p)\<close> and \<open>p in s\<close>.\<close>

definition py_find :: "string \<Rightarrow> string \<Rightarrow> int" where
  "py_find p s = (case py_index p s of None \<Rightarrow> - 1 | Some i \<Rightarrow> int i)"

definition contains :: "string \<Rightarrow> string \<Rightarrow> bool" where
  "contains p s = (py_index p s \<noteq> None)"

lemma contains_Cons: "contains p (x # xs) \<longleftrightarrow> prefix p (x # xs) \<or> contains p xs"
  by (simp add: contains_def)

lemma contains_sublist: "contains p s \<longleftrightarrow> sublist p s"
proof (induction s)
  case Nil
  then show ?case by (simp add: contains_def)
next
  case (Cons x s)
  then show ?case by (simp add: contains_Cons sublist_Cons_right)
qed

lemma py_find_nonneg: "py_find p s \<ge> 0 \<longleftrightarrow> contains p s"
  by (auto simp: py_find_def contains_def split: option.splits)

lemma contains_char: "contains [c] s \<longleftrightarrow> c \<in> set s"
  by (induction s) (auto simp: contains_def)

fun py_replace :: "string \<Rightarrow> string \<Rightarrow> string \<Rightarrow> string" where
  "py_replace p r [] = []"
| "py_replace p r (x # xs) =
     (if p \<noteq> [] \<and> prefix p (x # xs) then r @ py_replace p r (drop (length p - 1) xs)
      else x # py_replace p r xs)"

definition slice_index :: "nat \<Rightarrow> int \<Rightarrow> nat" where
  "slice_index n i = (if i < 0 then nat (max 0 (int n + i)) else min n (nat i))"

text \<open>\<open>s[a:b]\<close>: bounds beyond the string are clipped, negative ones count from the end.\<close>

definition py_slice :: "int \<Rightarrow> int \<Rightarrow> 'a list \<Rightarrow> 'a list" where
  "py_slice a b s =
     (let i = slice_index (length s) a; j = slice_index (length s) b in take (j - i) (drop i s))"

definition py_startswith :: "string \<Rightarrow> string \<Rightarrow> bool" where
  "py_startswith s p = prefix p s"

definition lower_char :: "char \<Rightarrow> char" where
  "lower_char c = (let n = of_char c :: nat in if 65 \<le> n \<and> n \<le> 90 then char_of (n + 32) else c)"

definition py_lower :: "string \<Rightarrow> string" where
  "py_lower s = map lower_char s"

lemma lower_char_idem [simp]: "lower_char (lower_char c) = lower_char c"
  by (simp add: lower_char_def Let_def)

lemma py_lower_idem [simp]: "py_lower (py_lower s) = py_lower s"
  by (simp add: py_lower_def)

lemma py_lower_append: "py_lower (a @ b) = py_lower a @ py_lower b"
  by (simp add: py_lower_def)

section \<open>Digits\<close>

definition digit_char :: "nat \<Rightarrow> char" where
  "digit_char n = char_of (48 + n)"

definition is_digit :: "char \<Rightarrow> bool" where
  "is_digit c = (let n = of_char c :: nat in 48 \<le> n \<and> n \<le> 57)"

definition digit_val :: "char \<Rightarrow> nat" where
  "digit_val c = of_char c - 48"

lemma of_char_digit: "n < 10 \<Longrightarrow> (of_char (digit_char n) :: nat) = 48 + n"
  by (simp add: digit_char_def of_char_of)

lemma digit_val_char [simp]: "n < 10 \<Longrightarrow> digit_val (digit_char n) = n"
  by (simp add: digit_val_def of_char_digit)

lemma is_digit_char [simp]: "n < 10 \<Longrightarrow> is_digit (digit_char n)"
  by (simp add: is_digit_def of_char_digit)

lemma digit_char_less: "a < 10 \<Longrightarrow> b < 10 \<Longrightarrow> digit_char a < digit_char b \<longleftrightarrow> a < b"
  by (simp add: less_char_def of_char_digit)

lemma digit_char_inj: "a < 10 \<Longrightarrow> b < 10 \<Longrightarrow> digit_char a = digit_char b \<longleftrightarrow> a = b"
  by (metis digit_val_char)

text \<open>\<open>pad w n\<close>: the last \<open>w\<close> decimal digits of \<open>n\<close>, as the format \<open>%0wd\<close> prints a
  number that fits.\<close>

fun pad :: "nat \<Rightarrow> nat \<Rightarrow> string" where
  "pad 0 n = []"
| "pad (Suc w) n = pad w (n div 10) @ [digit_char (n mod 10)]"

lemma length_pad [simp]: "length (pad w n) = w"
  by (induction w arbitrary: n) auto

fun nat_str :: "nat \<Rightarrow> string" where
  "nat_str n = (if n < 10 then [digit_char n] else nat_str (n div 10) @ [digit_char (n mod 10)])"

declare nat_str.simps [simp del]

definition int_str :: "int \<Rightarrow> string" where
  "int_str i = (if i < 0 then CHR ''-'' # nat_str (nat (- i)) else nat_str (nat i))"

lemma nat_str_ne [simp]: "nat_str n \<noteq> []"
  by (subst nat_str.simps) simp

definition num_of :: "string \<Rightarrow> nat" where
  "num_of s = foldl (\<lambda>a c. a * 10 + digit_val c) 0 s"

lemma num_of_snoc [simp]: "num_of (s @ [c]) = num_of s * 10 + digit_val c"
  by (simp add: num_of_def)

lemma num_of_pad: "n < 10 ^ w \<Longrightarrow> num_of (pad w n) = n"
proof (induction w arbitrary: n)
  case 0
  then show ?case by (simp add: num_of_def)
next
  case (Suc w)
  then have "n div 10 < 10 ^ w" by (simp add: less_mult_imp_div_less mult.commute)
  with Suc.IH show ?case by simp
qed

lemma list_all_digits_pad [simp]: "list_all is_digit (pad w n)"
  by (induction w arbitrary: n) auto

lemma digits_nat_str [simp]: "list_all is_digit (nat_str n)"
proof (induction n rule: nat_str.induct)
  case (1 n)
  then show ?case by (subst nat_str.simps) simp
qed

lemma num_of_nat_str [simp]: "num_of (nat_str n) = n"
proof (induction n rule: nat_str.induct)
  case (1 n)
  show ?case
  proof (cases "n < 10")
    case True
    then show ?thesis by (subst nat_str.simps) (simp add: num_of_def)
  next
    case False
    with 1 show ?thesis by (subst nat_str.simps) simp
  qed
qed

lemma nat_str_inj: "nat_str m = nat_str n \<longleftrightarrow> m = n"
  by (metis num_of_nat_str)

section \<open>Lexicographic order\<close>

lemma less_append_same_length:
  fixes a b x y :: string
  shows "length a = length b \<Longrightarrow> a @ x < b @ y \<longleftrightarrow> a < b \<or> a = b \<and> x < y"
proof (induction a b rule: list_induct2)
  case Nil
  then show ?case by simp
next
  case (Cons p ps q qs)
  then show ?case by (auto simp: Cons_less_Cons)
qed

lemma div_mod_less: "(a::nat) div 10 < b div 10 \<or> a div 10 = b div 10 \<and> a mod 10 < b mod 10 \<longleftrightarrow> a < b"
proof -
  have "a = 10 * (a div 10) + a mod 10" "b = 10 * (b div 10) + b mod 10" by simp_all
  moreover have "a mod 10 < 10" "b mod 10 < 10" by simp_all
  ultimately show ?thesis by linarith
qed

lemma pad_less: "a < 10 ^ w \<Longrightarrow> b < 10 ^ w \<Longrightarrow> pad w a < pad w b \<longleftrightarrow> a < b"
proof (induction w arbitrary: a b)
  case 0
  then show ?case by simp
next
  case (Suc w)
  from Suc.prems have bound: "a div 10 < 10 ^ w" "b div 10 < 10 ^ w"
    by (simp_all add: less_mult_imp_div_less mult.commute)
  have eq: "pad w (a div 10) = pad w (b div 10) \<longleftrightarrow> a div 10 = b div 10"
    using bound by (metis num_of_pad)
  have "pad (Suc w) a < pad (Suc w) b \<longleftrightarrow>
      a div 10 < b div 10 \<or> a div 10 = b div 10 \<and> a mod 10 < b mod 10"
    by (simp add: less_append_same_length Suc.IH[OF bound] eq digit_char_less Cons_less_Cons)
  also have "\<dots> \<longleftrightarrow> a < b"
    by (rule div_mod_less)
  finally show ?case .
qed

lemma pad_eq: "a < 10 ^ w \<Longrightarrow> b < 10 ^ w \<Longrightarrow> pad w a = pad w b \<longleftrightarrow> a = b"
  by (metis num_of_pad)

lemma pad_append_less:
  assumes "a < 10 ^ w" "b < 10 ^ w"
  shows "pad w a @ x < pad w b @ y \<longleftrightarrow> a < b \<or> a = b \<and> x < y"
  using assms by (simp add: less_append_same_length pad_less pad_eq)

end
