(* ===== verification/Py_Datetime.thy ===== *)
theory Py_Datetime
  imports Py_Strings "HOL-Library.Monad_Syntax"
begin

text \<open>
  The standard library's \<open>datetime\<close> as the token store uses it: an aware date and time,
  its ISO text (\<open>isoformat\<close>), the parse back (\<open>fromisoformat\<close>, on the texts \<open>isoformat\<close>
  prints), the addition of a number of seconds on the wall clock, and the instant on the
  UTC time line that comparisons of values with different offsets use. UTC offsets are
  whole minutes.
\<close>

section \<open>The calendar\<close>

record datetime =
  year :: nat
  month :: nat
  day :: nat
  hour :: nat
  minute :: nat
  second :: nat
  micro :: nat
  utcoff :: int

definition is_leap :: "nat \<Rightarrow> bool" where
  "is_leap y \<longleftrightarrow> y mod 4 = 0 \<and> (y mod 100 \<noteq> 0 \<or> y mod 400 = 0)"

definition days_in_month :: "nat \<Rightarrow> nat \<Rightarrow> nat" where
  "days_in_month y m =
     (if m = 2 then (if is_leap y then 29 else 28)
      else if m = 4 \<or> m = 6 \<or> m = 9 \<or> m = 11 then 30 else 31)"

fun days_before_month :: "nat \<Rightarrow> nat \<Rightarrow> nat" where
  "days_before_month y 0 = 0"
| "days_before_month y (Suc m) = (if m = 0 then 0 else days_before_month y m + days_in_month y m)"

definition days_before_year :: "nat \<Rightarrow> nat" where
  "days_before_year y = (let p = y - 1 in p * 365 + p div 4 - p div 100 + p div 400)"

text \<open>\<open>date.toordinal\<close>: 1 January of year 1 is day 1.\<close>

definition ordinal :: "nat \<Rightarrow> nat \<Rightarrow> nat \<Rightarrow> nat" where
  "ordinal y m d = days_before_year y + days_before_month y m + d"

definition valid_date :: "nat \<Rightarrow> nat \<Rightarrow> nat \<Rightarrow> bool" where
  "valid_date y m d \<longleftrightarrow> 1 \<le> y \<and> y \<le> 9999 \<and> 1 \<le> m \<and> m \<le> 12 \<and> 1 \<le> d \<and> d \<le> days_in_month y m"

definition valid_dt :: "datetime \<Rightarrow> bool" where
  "valid_dt t \<longleftrightarrow> valid_date (year t) (month t) (day t) \<and> hour t < 24 \<and> minute t < 60 \<and>
     second t < 60 \<and> micro t < 1000000 \<and> \<bar>utcoff t\<bar> < 1440"

definition second_of_day :: "datetime \<Rightarrow> nat" where
  "second_of_day t = hour t * 3600 + minute t * 60 + second t"

text \<open>Microseconds on the wall clock, and on the UTC time line.\<close>

definition wall :: "datetime \<Rightarrow> int" where
  "wall t = (int (ordinal (year t) (month t) (day t)) * 86400 + int (second_of_day t)) * 1000000
     + int (micro t)"

definition instant :: "datetime \<Rightarrow> int" where
  "instant t = wall t - utcoff t * 60 * 1000000"

section \<open>ISO text\<close>

definition offset_str :: "int \<Rightarrow> string" where
  "offset_str z = (if z < 0 then ''-'' else ''+'') @ pad 2 (nat \<bar>z\<bar> div 60) @ '':'' @ pad 2 (nat \<bar>z\<bar> mod 60)"

definition micro_str :: "nat \<Rightarrow> string" where
  "micro_str u = (if u = 0 then [] else ''.'' @ pad 6 u)"

definition isoformat :: "datetime \<Rightarrow> string" where
  "isoformat t = pad 4 (year t) @ ''-'' @ pad 2 (month t) @ ''-'' @ pad 2 (day t) @ ''T'' @
     pad 2 (hour t) @ '':'' @ pad 2 (minute t) @ '':'' @ pad 2 (second t) @
     micro_str (micro t) @ offset_str (utcoff t)"

text \<open>Eating a fixed number of digits, or one of the given characters.\<close>

definition eat_num :: "nat \<Rightarrow> string \<Rightarrow> (nat \<times> string) option" where
  "eat_num w s =
     (if length (take w s) = w \<and> list_all is_digit (take w s)
      then Some (num_of (take w s), drop w s) else None)"

fun eat_char :: "char \<Rightarrow> string \<Rightarrow> string option" where
  "eat_char c (x # xs) = (if x = c then Some xs else None)"
| "eat_char c [] = None"

fun eat_sign :: "string \<Rightarrow> (int \<times> string) option" where
  "eat_sign (x # xs) = (if x = CHR ''+'' then Some (1, xs) else if x = CHR ''-'' then Some (- 1, xs) else None)"
| "eat_sign [] = None"

definition eat_micro :: "string \<Rightarrow> (nat \<times> string) option" where
  "eat_micro s = (case eat_char CHR ''.'' s of None \<Rightarrow> Some (0, s) | Some r \<Rightarrow> eat_num 6 r)"

definition parse_iso :: "string \<Rightarrow> datetime option" where
  "parse_iso s = do {
     (y, s) \<leftarrow> eat_num 4 s; s \<leftarrow> eat_char CHR ''-'' s;
     (mo, s) \<leftarrow> eat_num 2 s; s \<leftarrow> eat_char CHR ''-'' s;
     (d, s) \<leftarrow> eat_num 2 s; s \<leftarrow> eat_char CHR ''T'' s;
     (h, s) \<leftarrow> eat_num 2 s; s \<leftarrow> eat_char CHR '':'' s;
     (mi, s) \<leftarrow> eat_num 2 s; s \<leftarrow> eat_char CHR '':'' s;
     (sec, s) \<leftarrow> eat_num 2 s;
     (us, s) \<leftarrow> eat_micro s;
     (sg, s) \<leftarrow> eat_sign s;
     (oh, s) \<leftarrow> eat_num 2 s; s \<leftarrow> eat_char CHR '':'' s;
     (om, s) \<leftarrow> eat_num 2 s;
     if s = [] then
       Some \<lparr>year = y, month = mo, day = d, hour = h, minute = mi, second = sec, micro = us,
             utcoff = sg * int (oh * 60 + om)\<rparr>
     else None }"

definition fromisoformat :: "string \<Rightarrow> py_exc + datetime" where
  "fromisoformat s =
     (case parse_iso s of None \<Rightarrow> Inl ValueError
      | Some t \<Rightarrow> if valid_dt t then Inr t else Inl ValueError)"

lemma eat_num_pad [simp]: "n < 10 ^ w \<Longrightarrow> eat_num w (pad w n @ r) = Some (n, r)"
  by (simp add: eat_num_def num_of_pad)

lemma eat_num_pad_end [simp]: "n < 10 ^ w \<Longrightarrow> eat_num w (pad w n) = Some (n, [])"
  using eat_num_pad [of n w "[]"] by simp

lemma eat_micro_str [simp]:
  assumes "u < 1000000"
  shows "eat_micro (micro_str u @ offset_str z) = Some (u, offset_str z)"
proof (cases "u = 0")
  case True
  then show ?thesis by (simp add: eat_micro_def micro_str_def offset_str_def)
next
  case False
  with assms show ?thesis by (simp add: eat_micro_def micro_str_def)
qed

lemma days_in_month_le: "days_in_month y m \<le> 31"
  by (simp add: days_in_month_def)

lemma valid_dt_bounds:
  assumes "valid_dt t"
  shows "year t < 10 ^ 4" "month t < 10 ^ 2" "day t < 10 ^ 2" "hour t < 10 ^ 2" "minute t < 10 ^ 2"
    "second t < 10 ^ 2" "micro t < 1000000" "nat \<bar>utcoff t\<bar> div 60 < 10 ^ 2" "nat \<bar>utcoff t\<bar> mod 60 < 10 ^ 2"
proof -
  have "day t \<le> 31" using assms days_in_month_le [of "year t" "month t"]
    by (simp add: valid_dt_def valid_date_def)
  then show "day t < 10 ^ 2" by simp
  have "nat \<bar>utcoff t\<bar> < 1440" using assms unfolding valid_dt_def by linarith
  then show "nat \<bar>utcoff t\<bar> div 60 < 10 ^ 2" by (simp add: div_less_iff_less_mult)
  have "nat \<bar>utcoff t\<bar> mod 60 < 60" by simp
  then show "nat \<bar>utcoff t\<bar> mod 60 < 10 ^ 2" by simp
qed (use assms in \<open>auto simp: valid_dt_def valid_date_def\<close>)

lemma parse_offset:
  assumes "nat \<bar>z\<bar> div 60 < 10 ^ 2"
  shows "eat_sign (offset_str z) =
    Some (if z < 0 then - 1 else 1, pad 2 (nat \<bar>z\<bar> div 60) @ '':'' @ pad 2 (nat \<bar>z\<bar> mod 60))"
  by (simp add: offset_str_def)

lemma fromisoformat_isoformat:
  assumes "valid_dt t"
  shows "fromisoformat (isoformat t) = Inr t"
proof -
  note b = valid_dt_bounds [OF assms]
  have z: "(if utcoff t < 0 then - 1 else 1) * int (nat \<bar>utcoff t\<bar> div 60 * 60 + nat \<bar>utcoff t\<bar> mod 60)
      = utcoff t"
    by (simp only: div_mult_mod_eq) auto
  have "parse_iso (isoformat t) = Some t"
    using b z by (simp add: parse_iso_def isoformat_def parse_offset)
  with assms show ?thesis by (simp add: fromisoformat_def)
qed

section \<open>Order of the calendar\<close>

lemma days_before_month_mono:
  assumes "1 \<le> m" "m < n"
  shows "days_before_month y m + days_in_month y m \<le> days_before_month y n"
  using assms(2)
proof (induction n)
  case 0
  then show ?case by simp
next
  case (Suc n)
  with assms(1) show ?case by (cases "m = n") auto
qed

lemma days_in_year: "days_before_month y 13 = (if is_leap y then 366 else 365)"
  by (simp add: numeral_eq_Suc days_in_month_def)

lemma leap_count:
  assumes "a' = a + (if A then 1 else 0)" "b' = b + (if B then 1 else 0)" "c' = c + (if C then 1 else 0)"
    and "b \<le> a" "b' \<le> a'" "C \<Longrightarrow> B" "B \<Longrightarrow> A"
  shows "Suc p * 365 + a' - b' + c' = p * 365 + a - b + c + (if A \<and> (\<not> B \<or> C) then 366 else (365::nat))"
  using assms by (cases A; cases B; cases C; simp)

lemma days_before_year_Suc:
  assumes "1 \<le> y"
  shows "days_before_year (Suc y) = days_before_year y + (if is_leap y then 366 else 365)"
proof -
  obtain p where p: "y = Suc p" using assms by (cases y) auto
  have "Suc p * 365 + Suc p div 4 - Suc p div 100 + Suc p div 400 =
    p * 365 + p div 4 - p div 100 + p div 400 +
    (if Suc p mod 4 = 0 \<and> (\<not> Suc p mod 100 = 0 \<or> Suc p mod 400 = 0) then 366 else 365)"
  proof (rule leap_count)
    show "p div 100 \<le> p div 4" "Suc p div 100 \<le> Suc p div 4" by (simp_all add: div_le_mono2)
    show "Suc p mod 400 = 0 \<Longrightarrow> Suc p mod 100 = 0" "Suc p mod 100 = 0 \<Longrightarrow> Suc p mod 4 = 0"
      using dvd_trans [of 100 400 "Suc p"] dvd_trans [of 4 100 "Suc p"]
      by (simp_all add: mod_eq_0_iff_dvd)
  qed (simp_all add: div_Suc)
  then show ?thesis by (simp only: p days_before_year_def is_leap_def Let_def diff_Suc_1)
qed

lemma days_before_year_mono:
  assumes "1 \<le> x" "x < y"
  shows "days_before_year x + (if is_leap x then 366 else 365) \<le> days_before_year y"
  using assms(2)
proof (induction y)
  case 0
  then show ?case by simp
next
  case (Suc y)
  with assms(1) show ?case
    by (cases "x = y") (auto simp: days_before_year_Suc split: if_splits)
qed

lemma day_of_year_le:
  assumes "valid_date y m d"
  shows "days_before_month y m + d \<le> (if is_leap y then 366 else 365)"
  using days_before_month_mono [of m 13 y] assms by (simp add: valid_date_def days_in_year)

text \<open>The ordinal of a date grows as year, month and day do, in this order.\<close>

lemma ordinal_less:
  assumes "valid_date y m d" "valid_date y' m' d'"
  shows "ordinal y m d < ordinal y' m' d' \<longleftrightarrow> y < y' \<or> y = y' \<and> (m < m' \<or> m = m' \<and> d < d')"
proof -
  have year_less: "ordinal a b c < ordinal a' b' c'"
    if "valid_date a b c" "valid_date a' b' c'" "a < a'" for a b c a' b' c'
    using days_before_year_mono [of a a'] day_of_year_le [OF that(1)] that
    by (auto simp: ordinal_def valid_date_def split: if_splits)
  have month_less: "ordinal a b c < ordinal a b' c'"
    if "valid_date a b c" "valid_date a b' c'" "b < b'" for a b c b' c'
    using days_before_month_mono [of b b' a] that by (auto simp: ordinal_def valid_date_def)
  consider "y < y'" | "y' < y" | "y = y'" "m < m'" | "y = y'" "m' < m" | "y = y'" "m = m'"
    by linarith
  then show ?thesis
  proof cases
    case 1
    then show ?thesis using year_less [OF assms] by simp
  next
    case 2
    then show ?thesis using year_less [OF assms(2,1)] by simp
  next
    case 3
    then show ?thesis using month_less [of y' m d m' d'] assms by simp
  next
    case 4
    then show ?thesis using month_less [of y' m' d' m d] assms by simp
  next
    case 5
    then show ?thesis by (simp add: ordinal_def)
  qed
qed

lemma ordinal_eq:
  assumes "valid_date y m d" "valid_date y' m' d'"
  shows "ordinal y m d = ordinal y' m' d' \<longleftrightarrow> y = y' \<and> m = m' \<and> d = d'"
  using ordinal_less [OF assms] ordinal_less [OF assms(2,1)] by force

lemma isoformat_inj: "valid_dt s \<Longrightarrow> valid_dt t \<Longrightarrow> isoformat s = isoformat t \<Longrightarrow> s = t"
  by (metis fromisoformat_isoformat sum.inject(2))

lemma second_of_day_less: "valid_dt t \<Longrightarrow> second_of_day t < 86400"
  by (simp add: valid_dt_def second_of_day_def)

lemma second_of_day_lex:
  assumes "valid_dt s" "valid_dt t"
  shows "second_of_day s < second_of_day t \<longleftrightarrow>
      hour s < hour t \<or> hour s = hour t \<and> (minute s < minute t \<or> minute s = minute t \<and> second s < second t)"
  using assms unfolding valid_dt_def second_of_day_def by auto

lemma second_of_day_eq:
  assumes "valid_dt s" "valid_dt t"
  shows "second_of_day s = second_of_day t \<longleftrightarrow> hour s = hour t \<and> minute s = minute t \<and> second s = second t"
  using second_of_day_lex [OF assms] second_of_day_lex [OF assms(2,1)]
  by (metis nat_neq_iff)

lemma wall_lex:
  assumes "valid_dt s" "valid_dt t"
  shows "wall s < wall t \<longleftrightarrow>
    ordinal (year s) (month s) (day s) < ordinal (year t) (month t) (day t) \<or>
    ordinal (year s) (month s) (day s) = ordinal (year t) (month t) (day t) \<and>
      (second_of_day s < second_of_day t \<or> second_of_day s = second_of_day t \<and> micro s < micro t)"
proof -
  have mixed: "(a * 86400 + b) * 1000000 + c < (a' * 86400 + b') * 1000000 + c' \<longleftrightarrow>
      a < a' \<or> a = a' \<and> (b < b' \<or> b = b' \<and> c < c')"
    if "0 \<le> b" "b < 86400" "0 \<le> b'" "b' < 86400" "0 \<le> c" "c < 1000000" "0 \<le> c'" "c' < 1000000"
    for a b c a' b' c' :: int
    using that by auto
  show ?thesis
    unfolding wall_def using second_of_day_less [OF assms(1)] second_of_day_less [OF assms(2)] assms
    by (subst mixed) (auto simp: valid_dt_def)
qed

text \<open>After the seconds: a missing fraction is a fraction of 0, since the sign of an offset
  sorts before the point.\<close>

lemma micro_str_less:
  assumes "u < 1000000" "v < 1000000"
  shows "micro_str u @ offset_str z < micro_str v @ offset_str z \<longleftrightarrow> u < v"
proof -
  have sign: "offset_str z < ''.'' @ x" "\<not> ''.'' @ x < offset_str z" for x
    by (auto simp: offset_str_def Cons_less_Cons less_char_def)
  consider "u = 0" "v = 0" | "u = 0" "v \<noteq> 0" | "u \<noteq> 0" "v = 0" | "u \<noteq> 0" "v \<noteq> 0" by blast
  then show ?thesis
  proof cases
    case 4
    then have "micro_str u @ offset_str z < micro_str v @ offset_str z \<longleftrightarrow>
        pad 6 u @ offset_str z < pad 6 v @ offset_str z"
      by (simp add: micro_str_def Cons_less_Cons)
    with assms show ?thesis by (simp add: pad_append_less)
  qed (use sign in \<open>auto simp: micro_str_def\<close>)
qed

theorem isoformat_less_wall:
  assumes "valid_dt s" "valid_dt t" "utcoff s = utcoff t"
  shows "isoformat s < isoformat t \<longleftrightarrow> wall s < wall t"
proof -
  note b = valid_dt_bounds [OF assms(1)] valid_dt_bounds [OF assms(2)]
  have d: "valid_date (year s) (month s) (day s)" "valid_date (year t) (month t) (day t)"
    using assms(1,2) by (simp_all add: valid_dt_def)
  have "isoformat s < isoformat t \<longleftrightarrow>
    year s < year t \<or> year s = year t \<and> (month s < month t \<or> month s = month t \<and>
    (day s < day t \<or> day s = day t \<and> (hour s < hour t \<or> hour s = hour t \<and>
    (minute s < minute t \<or> minute s = minute t \<and> (second s < second t \<or> second s = second t \<and>
     micro s < micro t)))))"
    using b assms(3) unfolding isoformat_def
    by (simp add: pad_append_less Cons_less_Cons micro_str_less)
  then show ?thesis
    using wall_lex [OF assms(1,2)] ordinal_less [OF d] ordinal_eq [OF d]
      second_of_day_lex [OF assms(1,2)]
      second_of_day_eq [OF assms(1,2)] by blast
qed

lemma isoformat_less_instant:
  assumes "valid_dt s" "valid_dt t" "utcoff s = utcoff t"
  shows "isoformat s < isoformat t \<longleftrightarrow> instant s < instant t"
  using isoformat_less_wall [OF assms] assms(3) by (simp add: instant_def)

section \<open>Adding seconds on the wall clock\<close>

text \<open>
  \<open>t + timedelta(seconds=n)\<close> moves the fields; the offset of the result is what the time
  zone (the argument \<open>tz\<close>, data of the operating system) has at these fields.
\<close>

fun next_day :: "nat \<times> nat \<times> nat \<Rightarrow> nat \<times> nat \<times> nat" where
  "next_day (y, m, d) =
     (if d < days_in_month y m then (y, m, d + 1)
      else if m < 12 then (y, m + 1, 1) else (y + 1, 1, 1))"

definition dt_add :: "(datetime \<Rightarrow> int) \<Rightarrow> nat \<Rightarrow> datetime \<Rightarrow> datetime" where
  "dt_add tz n t =
     (let total = second_of_day t + n; sod = total mod 86400;
          (y, m, d) = (next_day ^^ (total div 86400)) (year t, month t, day t);
          r = t\<lparr>year := y, month := m, day := d, hour := sod div 3600,
                minute := sod mod 3600 div 60, second := sod mod 60\<rparr>
      in r\<lparr>utcoff := tz r\<rparr>)"

fun ord3 :: "nat \<times> nat \<times> nat \<Rightarrow> nat" where
  "ord3 (y, m, d) = ordinal y m d"

fun valid3 :: "nat \<times> nat \<times> nat \<Rightarrow> bool" where
  "valid3 (y, m, d) = (1 \<le> y \<and> 1 \<le> m \<and> m \<le> 12 \<and> 1 \<le> d \<and> d \<le> days_in_month y m)"

lemma days_in_month_pos [simp]: "Suc 0 \<le> days_in_month y m"
  by (simp add: days_in_month_def)

lemma next_day_step: "valid3 t \<Longrightarrow> valid3 (next_day t) \<and> ord3 (next_day t) = ord3 t + 1"
proof (cases t)
  case (fields y m d)
  assume v: "valid3 t"
  have dec: "days_before_month y 12 + days_in_month y 12 = days_before_month y 13"
    by (simp add: numeral_eq_Suc)
  show ?thesis
  proof (cases "d < days_in_month y m \<or> m < 12")
    case True
    with v fields show ?thesis by (auto simp: ordinal_def days_in_month_pos)
  next
    case False
    with v fields have "m = 12" "d = days_in_month y 12" by auto
    with v fields dec show ?thesis
      by (auto simp: ordinal_def days_before_year_Suc days_in_year days_in_month_pos)
  qed
qed

lemma next_days: "valid3 t \<Longrightarrow> valid3 ((next_day ^^ n) t) \<and> ord3 ((next_day ^^ n) t) = ord3 t + n"
proof (induction n)
  case 0
  then show ?case by simp
next
  case (Suc n)
  then show ?case using next_day_step [of "(next_day ^^ n) t"] by simp
qed

lemma second_of_day_split: "s div 3600 * 3600 + s mod 3600 div 60 * 60 + s mod 60 = (s :: nat)"
proof -
  have "s mod 3600 div 60 * 60 + s mod 3600 mod 60 = s mod 3600" by (rule div_mult_mod_eq)
  moreover have "s mod 3600 mod 60 = s mod 60" by (simp add: mod_mod_cancel)
  moreover have "s div 3600 * 3600 + s mod 3600 = s" by (rule div_mult_mod_eq)
  ultimately show ?thesis by linarith
qed

theorem wall_dt_add:
  assumes "valid_dt t"
  shows "wall (dt_add tz n t) = wall t + int n * 1000000"
proof -
  define total where "total = second_of_day t + n"
  obtain y m d where e: "(next_day ^^ (total div 86400)) (year t, month t, day t) = (y, m, d)"
    by (metis prod_cases3)
  have "valid3 (year t, month t, day t)" using assms by (simp add: valid_dt_def valid_date_def)
  from next_days [OF this, of "total div 86400"] e
  have o: "ordinal y m d = ordinal (year t) (month t) (day t) + total div 86400" by simp
  have sod: "int (total div 86400) * 86400 + int (total mod 86400) = int (second_of_day t) + int n"
  proof -
    have "int (total div 86400) * 86400 + int (total mod 86400) =
        int (total div 86400 * 86400 + total mod 86400)" by (simp only: of_nat_add of_nat_mult of_nat_numeral)
    then show ?thesis by (simp only: div_mult_mod_eq total_def of_nat_add)
  qed
  have "wall (dt_add tz n t) =
      (int (ordinal y m d) * 86400 + int (total mod 86400)) * 1000000 + int (micro t)"
    using second_of_day_split [of "total mod 86400"] e
    by (simp add: dt_add_def Let_def total_def wall_def second_of_day_def)
  also have "int (ordinal y m d) * 86400 + int (total mod 86400) =
      int (ordinal (year t) (month t) (day t)) * 86400 + int (second_of_day t) + int n"
    using sod unfolding o by simp
  finally show ?thesis unfolding wall_def by simp
qed

lemma micro_dt_add [simp]: "micro (dt_add tz n t) = micro t"
  by (simp add: dt_add_def Let_def split: prod.splits)

lemma valid_dt_add:
  assumes "valid_dt t" "\<And>r. \<bar>tz r\<bar> < 1440" "year (dt_add tz n t) \<le> 9999"
  shows "valid_dt (dt_add tz n t)"
proof -
  define total where "total = second_of_day t + n"
  obtain y m d where e: "(next_day ^^ (total div 86400)) (year t, month t, day t) = (y, m, d)"
    by (metis prod_cases3)
  have "valid3 (year t, month t, day t)" using assms(1) by (simp add: valid_dt_def valid_date_def)
  from next_days [OF this, of "total div 86400"] e have "valid3 (y, m, d)" by simp
  moreover have "total mod 86400 div 3600 < 24" "total mod 86400 mod 3600 div 60 < 60"
    by (simp_all add: less_mult_imp_div_less)
  ultimately show ?thesis
    using assms e by (simp add: dt_add_def Let_def total_def valid_dt_def valid_date_def)
qed

end
