(* ===== verification/Doc_Store.thy ===== *)
theory Doc_Store
  imports Py_Datetime
begin

text \<open>
  The interface to TinyDB, the third-party document store under the repositories. The
  content of a table is the list of its rows (document id and document, in insertion
  order); the queries the program builds are a datatype with TinyDB's documented test on a
  document; the operations are the fields of a record that every repository takes as an
  argument. What TinyDB documents about them are the laws of the locale \<open>tinydb\<close>, and
  \<open>mem_store\<close> is a store that satisfies them.
\<close>

section \<open>Tables and queries\<close>

type_synonym row = "nat \<times> doc"
type_synonym table = "row list"
type_synonym db = "string \<Rightarrow> table"

text \<open>
  \<open>query_instance.k == v\<close>, \<open>where(k) < v\<close>, \<open>query_instance.k.any(vs)\<close> and \<open>p & q\<close>. A
  comparison fails on a document without the key.
\<close>

datatype query =
    QEq string json
  | QLt string json
  | QAny string "json list"
  | QAnd query query

fun qmatch :: "query \<Rightarrow> doc \<Rightarrow> bool" where
  "qmatch (QEq k v) d = (case map_of d k of None \<Rightarrow> False | Some w \<Rightarrow> py_eq w v)"
| "qmatch (QLt k v) d =
     (case map_of d k of None \<Rightarrow> False
      | Some w \<Rightarrow> (case (w, v) of (JStr a, JStr b) \<Rightarrow> a < b | (JInt i, JInt j) \<Rightarrow> i < j | _ \<Rightarrow> False))"
| "qmatch (QAny k vs) d =
     (case map_of d k of None \<Rightarrow> False
      | Some w \<Rightarrow> (case py_list w of Inl _ \<Rightarrow> False | Inr xs \<Rightarrow> list_ex (\<lambda>e. py_in e vs) xs))"
| "qmatch (QAnd p q) d = (qmatch p d \<and> qmatch q d)"

text \<open>An order comparison raises on values of different types; on these documents it does not.\<close>

fun q_ok :: "query \<Rightarrow> doc \<Rightarrow> bool" where
  "q_ok (QLt k v) d =
     (case map_of d k of None \<Rightarrow> True
      | Some w \<Rightarrow> (case (w, v) of (JStr a, JStr b) \<Rightarrow> True | (JInt i, JInt j) \<Rightarrow> True | _ \<Rightarrow> False))"
| "q_ok (QAnd p q) d = (q_ok p d \<and> q_ok q d)"
| "q_ok _ d = True"

abbreviation rmatch :: "query \<Rightarrow> row \<Rightarrow> bool" where
  "rmatch q r \<equiv> qmatch q (snd r)"

definition q_safe :: "query \<Rightarrow> table \<Rightarrow> bool" where
  "q_safe q t = list_all (\<lambda>r. q_ok q (snd r)) t"

lemma q_safe_simps [simp]:
  "q_safe (QEq k v) t" "q_safe (QAny k vs) t"
  "q_safe (QAnd p q) t \<longleftrightarrow> q_safe p t \<and> q_safe q t"
  by (auto simp: q_safe_def list_all_iff)

lemma q_safe_Lt_strings:
  "\<forall>r \<in> set t. \<exists>s. map_of (snd r) k = Some (JStr s) \<Longrightarrow> q_safe (QLt k (JStr v)) t"
  by (auto simp: q_safe_def list_all_iff)

section \<open>What the operations do to the rows\<close>

definition rows_update :: "doc \<Rightarrow> query \<Rightarrow> table \<Rightarrow> table" where
  "rows_update e q t = map (\<lambda>(i, d). (i, if qmatch q d then dupdate d e else d)) t"

definition rows_upsert :: "nat \<Rightarrow> doc \<Rightarrow> query \<Rightarrow> table \<Rightarrow> table \<times> nat list" where
  "rows_upsert n e q t =
     (if list_ex (rmatch q) t then (rows_update e q t, map fst (filter (rmatch q) t))
      else (t @ [(n, e)], [n]))"

lemma rows_update_Nil [simp]: "rows_update e q [] = []"
  by (simp add: rows_update_def)

lemma rows_update_Cons [simp]:
  "rows_update e q ((i, d) # t) = (i, if qmatch q d then dupdate d e else d) # rows_update e q t"
  by (simp add: rows_update_def)

lemma map_fst_rows_update [simp]: "map fst (rows_update e q t) = map fst t"
  by (induction t) (auto simp: rows_update_def)

lemma rows_update_no_match: "\<not> list_ex (rmatch q) t \<Longrightarrow> rows_update e q t = t"
  by (induction t) auto

lemma length_rows_update [simp]: "length (rows_update e q t) = length t"
  by (simp add: rows_update_def)

lemma rows_update_all:
  "list_all (\<lambda>r. P (snd r)) t \<Longrightarrow> (\<And>d. P d \<Longrightarrow> P (dupdate d e)) \<Longrightarrow>
   list_all (\<lambda>r. P (snd r)) (rows_update e q t)"
  by (induction t) auto

lemma find_rows_update:
  assumes "\<And>d. qmatch p (dupdate d e) = qmatch p d"
  shows "List.find (rmatch p) (rows_update e q t) =
    map_option (\<lambda>(i, d). (i, if qmatch q d then dupdate d e else d)) (List.find (rmatch p) t)"
proof (induction t)
  case Nil
  then show ?case by simp
next
  case (Cons r t)
  obtain i d where r: "r = (i, d)" by force
  show ?case
    by (cases "qmatch p d") (simp_all add: r assms Cons.IH)
qed

lemma find_filter: "List.find P (filter Q xs) = List.find (\<lambda>x. Q x \<and> P x) xs"
  by (induction xs) auto

lemma find_append: "List.find P (xs @ ys) = (case List.find P xs of None \<Rightarrow> List.find P ys | Some x \<Rightarrow> Some x)"
  by (induction xs) auto

lemma list_ex_find: "list_ex P xs \<longleftrightarrow> List.find P xs \<noteq> None"
  by (induction xs) auto

lemma find_hd_filter: "List.find P xs = (case filter P xs of [] \<Rightarrow> None | x # _ \<Rightarrow> Some x)"
  by (induction xs) auto

lemma find_SomeD: "List.find P xs = Some x \<Longrightarrow> x \<in> set xs \<and> P x"
  by (auto simp: find_Some_iff)

lemma find_cong_pred: "(\<And>x. x \<in> set xs \<Longrightarrow> P x = Q x) \<Longrightarrow> List.find P xs = List.find Q xs"
  by (induction xs) auto

section \<open>The interface\<close>

record store_ops =
  tdb_fresh :: "table \<Rightarrow> nat"
  tdb_all :: "table \<Rightarrow> row list"
  tdb_get :: "table \<Rightarrow> query \<Rightarrow> row option"
  tdb_search :: "table \<Rightarrow> query \<Rightarrow> row list"
  tdb_contains :: "table \<Rightarrow> query \<Rightarrow> bool"
  tdb_insert :: "table \<Rightarrow> doc \<Rightarrow> table \<times> nat"
  tdb_insert_multiple :: "table \<Rightarrow> doc list \<Rightarrow> table \<times> nat list"
  tdb_upsert :: "table \<Rightarrow> doc \<Rightarrow> query \<Rightarrow> table \<times> nat list"
  tdb_remove_ids :: "table \<Rightarrow> nat list \<Rightarrow> table"
  tdb_remove :: "table \<Rightarrow> query \<Rightarrow> table"
  tdb_truncate :: "table \<Rightarrow> table"

fun insert_all :: "(table \<Rightarrow> nat) \<Rightarrow> table \<Rightarrow> doc list \<Rightarrow> table \<times> nat list" where
  "insert_all f t [] = (t, [])"
| "insert_all f t (d # ds) =
     (case insert_all f (t @ [(f t, d)]) ds of (t', ns) \<Rightarrow> (t', f t # ns))"

text \<open>
  An id is fresh for the table it is assigned in. \<open>get\<close> returns the first matching
  document, \<open>search\<close> all of them, in order; \<open>upsert\<close> updates every matching document or
  inserts one; removal by ids is relied on for ids of the table only.
\<close>

locale tinydb =
  fixes D :: store_ops
  assumes fresh_id: "tdb_fresh D t \<notin> fst ` set t"
    and all_rows: "tdb_all D t = t"
    and get_first: "q_safe q t \<Longrightarrow> tdb_get D t q = List.find (rmatch q) t"
    and search_all: "q_safe q t \<Longrightarrow> tdb_search D t q = filter (rmatch q) t"
    and contains_some: "q_safe q t \<Longrightarrow> tdb_contains D t q = list_ex (rmatch q) t"
    and insert_end: "tdb_insert D t d = (t @ [(tdb_fresh D t, d)], tdb_fresh D t)"
    and insert_many: "tdb_insert_multiple D t ds = insert_all (tdb_fresh D) t ds"
    and upsert_rows: "q_safe q t \<Longrightarrow> tdb_upsert D t d q = rows_upsert (tdb_fresh D t) d q t"
    and remove_ids: "set ns \<subseteq> fst ` set t \<Longrightarrow>
      tdb_remove_ids D t ns = filter (\<lambda>r. fst r \<notin> set ns) t"
    and remove_matching: "q_safe q t \<Longrightarrow> tdb_remove D t q = filter (\<lambda>r. \<not> rmatch q r) t"
    and truncate_all: "tdb_truncate D t = []"
begin

lemmas store_laws [simp] = all_rows get_first search_all contains_some insert_end insert_many
  upsert_rows remove_ids remove_matching truncate_all

end

section \<open>A store in memory\<close>

definition mem_fresh :: "table \<Rightarrow> nat" where
  "mem_fresh t = Suc (fold max (map fst t) 0)"

definition mem_store :: store_ops where
  "mem_store = \<lparr>
     tdb_fresh = mem_fresh,
     tdb_all = (\<lambda>t. t),
     tdb_get = (\<lambda>t q. List.find (rmatch q) t),
     tdb_search = (\<lambda>t q. filter (rmatch q) t),
     tdb_contains = (\<lambda>t q. list_ex (rmatch q) t),
     tdb_insert = (\<lambda>t d. (t @ [(mem_fresh t, d)], mem_fresh t)),
     tdb_insert_multiple = insert_all mem_fresh,
     tdb_upsert = (\<lambda>t d q. rows_upsert (mem_fresh t) d q t),
     tdb_remove_ids = (\<lambda>t ns. filter (\<lambda>r. fst r \<notin> set ns) t),
     tdb_remove = (\<lambda>t q. filter (\<lambda>r. \<not> rmatch q r) t),
     tdb_truncate = (\<lambda>t. [])\<rparr>"

lemma le_fold_max: "x \<le> fold max xs (a :: nat) \<longleftrightarrow> x \<le> a \<or> (\<exists>y \<in> set xs. x \<le> y)"
  by (induction xs arbitrary: a) auto

lemma mem_fresh_notin: "mem_fresh t \<notin> fst ` set t"
proof
  assume "mem_fresh t \<in> fst ` set t"
  then have "mem_fresh t \<le> fold max (map fst t) 0" by (force simp: le_fold_max)
  then show False by (simp add: mem_fresh_def)
qed

interpretation mem: tinydb mem_store
  by unfold_locales (simp_all add: mem_store_def mem_fresh_notin)

section \<open>Tables with distinct ids\<close>

definition ids_ok :: "table \<Rightarrow> bool" where
  "ids_ok t = distinct (map fst t)"

lemma ids_ok_Nil [simp]: "ids_ok []"
  by (simp add: ids_ok_def)

lemma ids_ok_filter [intro]: "ids_ok t \<Longrightarrow> ids_ok (filter P t)"
  by (simp add: ids_ok_def distinct_map_filter)

lemma ids_ok_update [simp]: "ids_ok (rows_update e q t) = ids_ok t"
  by (simp add: ids_ok_def)

lemma ids_ok_snoc: "n \<notin> fst ` set t \<Longrightarrow> ids_ok t \<Longrightarrow> ids_ok (t @ [(n, d)])"
  by (simp add: ids_ok_def)

lemma ids_ok_upsert: "n \<notin> fst ` set t \<Longrightarrow> ids_ok t \<Longrightarrow> ids_ok (fst (rows_upsert n e q t))"
  by (simp add: rows_upsert_def ids_ok_snoc)

text \<open>Removing the rows with the ids of some rows removes exactly these.\<close>

lemma filter_ids_rows:
  assumes "ids_ok t" "set rs \<subseteq> set t"
  shows "filter (\<lambda>r. fst r \<notin> fst ` set rs) t = filter (\<lambda>r. r \<notin> set rs) t"
proof (rule filter_cong [OF refl])
  fix r assume r: "r \<in> set t"
  have "fst r \<in> fst ` set rs \<Longrightarrow> r \<in> set rs"
    using assms r by (auto simp: ids_ok_def distinct_map dest: inj_onD)
  then show "(fst r \<notin> fst ` set rs) = (r \<notin> set rs)" by blast
qed

lemma filter_ids_matching:
  assumes "ids_ok t"
  shows "filter (\<lambda>r. fst r \<notin> fst ` set (filter P t)) t = filter (\<lambda>r. \<not> P r) t"
  using filter_ids_rows [OF assms, of "filter P t"] by (simp cong: filter_cong)

end
