(* ===== verification/Py_Format.thy ===== *)
theory Py_Format
  imports Py_Strings
begin

text \<open>
  Text of values and values of text: \<open>str(v)\<close> and \<open>repr(v)\<close>, \<open>json.dumps\<close> with its default
  and its compact separators, \<open>int(s)\<close>. A character is a code point below 256.
\<close>

section \<open>str and repr\<close>

definition hex_digit :: "nat \<Rightarrow> char" where
  "hex_digit n = (if n < 10 then char_of (48 + n) else char_of (87 + n))"

definition hex2 :: "nat \<Rightarrow> string" where
  "hex2 n = [hex_digit (n div 16), hex_digit (n mod 16)]"

definition repr_char :: "char \<Rightarrow> char \<Rightarrow> string" where
  "repr_char quote c =
     (let n = of_char c :: nat in
      if c = quote \<or> n = 92 then [char_of (92::nat), c]
      else if n = 10 then [char_of (92::nat), CHR ''n'']
      else if n = 13 then [char_of (92::nat), CHR ''r'']
      else if n = 9 then [char_of (92::nat), CHR ''t'']
      else if n < 32 \<or> 127 \<le> n \<and> n \<le> 160 \<or> n = 173 then [char_of (92::nat), CHR ''x''] @ hex2 n
      else [c])"

definition quote_for :: "string \<Rightarrow> char" where
  "quote_for s = (if char_of (39::nat) \<in> set s \<and> char_of (34::nat) \<notin> set s then char_of (34::nat) else char_of (39::nat))"

definition repr_str :: "string \<Rightarrow> string" where
  "repr_str s = (let q = quote_for s in [q] @ concat (map (repr_char q) s) @ [q])"

definition comma_sep :: "string list \<Rightarrow> string" where
  "comma_sep xs = py_join '', '' xs"

fun py_repr :: "json \<Rightarrow> string" where
  "py_repr JNull = ''None''"
| "py_repr (JBool b) = (if b then ''True'' else ''False'')"
| "py_repr (JInt i) = int_str i"
| "py_repr (JStr s) = repr_str s"
| "py_repr (JList xs) = ''['' @ comma_sep (map py_repr xs) @ '']''"
| "py_repr (JObj d) = ''{'' @ comma_sep (map (\<lambda>(k, v). repr_str k @ '': '' @ py_repr v) d) @ ''}''"

fun py_str :: "json \<Rightarrow> string" where
  "py_str (JStr s) = s"
| "py_str v = py_repr v"

section \<open>json.dumps\<close>

definition dumps_char :: "char \<Rightarrow> string" where
  "dumps_char c =
     (let n = of_char c :: nat; b = char_of (92::nat) in
      if n = 34 \<or> n = 92 then [b, c]
      else if n = 10 then [b, CHR ''n'']
      else if n = 13 then [b, CHR ''r'']
      else if n = 9 then [b, CHR ''t'']
      else if n = 12 then [b, CHR ''f'']
      else if n = 8 then [b, CHR ''b'']
      else if n < 32 \<or> 127 \<le> n then [b, CHR ''u'', CHR ''0'', CHR ''0''] @ hex2 n
      else [c])"

definition dumps_str :: "string \<Rightarrow> string" where
  "dumps_str s = [char_of (34::nat)] @ concat (map dumps_char s) @ [char_of (34::nat)]"

text \<open>The item and the key separator are arguments, as \<open>separators=(\<dots>)\<close>.\<close>

fun dumps_with :: "string \<Rightarrow> string \<Rightarrow> json \<Rightarrow> string" where
  "dumps_with i k JNull = ''null''"
| "dumps_with i k (JBool b) = (if b then ''true'' else ''false'')"
| "dumps_with i k (JInt n) = int_str n"
| "dumps_with i k (JStr s) = dumps_str s"
| "dumps_with i k (JList xs) = ''['' @ py_join i (map (dumps_with i k) xs) @ '']''"
| "dumps_with i k (JObj d) =
     ''{'' @ py_join i (map (\<lambda>(x, v). dumps_str x @ k @ dumps_with i k v) d) @ ''}''"

definition json_dumps :: "json \<Rightarrow> string" where
  "json_dumps = dumps_with '', '' '': ''"

definition json_dumps_compact :: "json \<Rightarrow> string" where
  "json_dumps_compact = dumps_with '','' '':''"

section \<open>int(s)\<close>

definition is_space :: "char \<Rightarrow> bool" where
  "is_space c = (let n = of_char c :: nat in n = 32 \<or> (9 \<le> n \<and> n \<le> 13) \<or> (28 \<le> n \<and> n \<le> 31) \<or> n = 133 \<or> n = 160)"

definition py_strip :: "string \<Rightarrow> string" where
  "py_strip s = rev (dropWhile is_space (rev (dropWhile is_space s)))"

text \<open>Digits, with single underscores between them.\<close>

fun digit_text :: "string \<Rightarrow> string option" where
  "digit_text [] = None"
| "digit_text [c] = (if is_digit c then Some [c] else None)"
| "digit_text (c # d # s) =
     (if \<not> is_digit c then None
      else if d = CHR ''_'' then map_option ((#) c) (digit_text s)
      else map_option ((#) c) (digit_text (d # s)))"

definition int_of_str :: "string \<Rightarrow> py_exc + int" where
  "int_of_str s =
     (let t = py_strip s;
          (neg, ds) = (case t of [] \<Rightarrow> (False, [])
            | c # r \<Rightarrow> if c = CHR ''-'' then (True, r) else if c = CHR ''+'' then (False, r) else (False, t))
      in case digit_text ds of None \<Rightarrow> Inl ValueError
         | Some d \<Rightarrow> Inr (if neg then - int (num_of d) else int (num_of d)))"

text \<open>\<open>int(v)\<close> of any value.\<close>

fun py_int :: "json \<Rightarrow> py_exc + int" where
  "py_int (JBool b) = Inr (of_bool b)"
| "py_int (JInt i) = Inr i"
| "py_int (JStr s) = int_of_str s"
| "py_int _ = Inl TypeError"

section \<open>Facts\<close>

lemma digit_text_digits: "ds \<noteq> [] \<Longrightarrow> list_all is_digit ds \<Longrightarrow> digit_text ds = Some ds"
  by (induction ds rule: digit_text.induct) (auto simp: is_digit_def)

lemma digit_not_space: "is_digit c \<Longrightarrow> \<not> is_space c"
  by (auto simp: is_digit_def is_space_def Let_def)

lemma strip_digits:
  assumes "list_all is_digit ds"
  shows "py_strip ds = ds"
proof -
  have "dropWhile is_space xs = xs" if "list_all is_digit xs" for xs
    using that by (cases xs) (auto simp: digit_not_space)
  with assms show ?thesis by (simp add: py_strip_def list_all_iff)
qed

lemma int_of_nat_str: "int_of_str (nat_str n) = Inr (int n)"
proof -
  have d: "list_all is_digit (nat_str n)" by simp
  obtain c r where cr: "nat_str n = c # r" by (cases "nat_str n") auto
  with d have "is_digit c" by simp
  then have "c \<noteq> CHR ''-''" "c \<noteq> CHR ''+''" by (auto simp: is_digit_def)
  then show ?thesis
    using digit_text_digits [OF _ d] strip_digits [OF d] by (simp add: int_of_str_def cr)
      (metis cr num_of_nat_str)
qed

end
