(* ===== verification/Settings.thy ===== *)
theory Settings
  imports Doc_Store Py_Format
begin

text \<open>
  The configuration (src/bumper/utils/settings.py): one record field per setting the
  modelled code reads, the values the class body computes from the environment, and the
  defaults. Directories and temporary files the class body creates are not modelled; the
  host address and the package version are arguments.
\<close>

definition str_to_bool :: "json \<Rightarrow> bool" where
  "str_to_bool v = (py_lower (py_str v) \<in> {''true'', ''1'', ''t'', ''y'', ''on'', ''yes''})"

section \<open>The environment\<close>

type_synonym environ = "string \<Rightarrow> string option"

definition env_get :: "environ \<Rightarrow> string \<Rightarrow> json" where
  "env_get e k = (case e k of None \<Rightarrow> JNull | Some s \<Rightarrow> JStr s)"

text \<open>\<open>os.environ.get(k, d)\<close> and \<open>os.environ.get(k) or d\<close>: the second also replaces an empty value.\<close>

definition env_or_missing :: "environ \<Rightarrow> string \<Rightarrow> string \<Rightarrow> string" where
  "env_or_missing e k d = (case e k of None \<Rightarrow> d | Some s \<Rightarrow> s)"

definition env_or_empty :: "environ \<Rightarrow> string \<Rightarrow> string \<Rightarrow> string" where
  "env_or_empty e k d = (case e k of None \<Rightarrow> d | Some s \<Rightarrow> if s = [] then d else s)"

definition env_flag :: "environ \<Rightarrow> string \<Rightarrow> bool" where
  "env_flag e k = (str_to_bool (env_get e k) \<or> False)"

definition env_int :: "environ \<Rightarrow> string \<Rightarrow> int \<Rightarrow> py_exc + int" where
  "env_int e k d = (case e k of None \<Rightarrow> Inr d | Some s \<Rightarrow> if s = [] then Inr d else int_of_str s)"

section \<open>The configuration\<close>

record config =
  ECOVACS_DEFAULT_COUNTRY :: string
  ECOVACS_DEFAULT_COUNTRY_LANG :: string
  LOCAL_TIMEZONE :: string
  SYNC_TIMEZONE :: bool
  ECOVACS_UPDATE_SERVER :: string
  ECOVACS_UPDATE_SERVER_PORT :: int
  data_dir :: string
  certs_dir :: string
  ca_cert :: string
  ca_key :: string
  ca_pem :: string
  server_cert :: string
  server_key :: string
  CA_CERT_API_ONLY_BUMPER_CERT :: bool
  ca_valid_days :: int
  server_valid_days :: int
  cert_key_type :: string
  cert_rsa_key_size :: int
  db_file :: string
  bumper_listen :: string
  bumper_announce_ip :: string
  debug_bumper_level :: string
  debug_bumper_verbose :: int
  DEBUG_LOGGING_API_REQUEST :: bool
  DEBUG_LOGGING_API_REQUEST_MISSING :: bool
  DEBUG_LOGGING_XMPP_REQUEST_ORIGINAL :: bool
  DEBUG_LOGGING_XMPP_REQUEST_REFACTORED :: bool
  DEBUG_LOGGING_XMPP_RESPONSE :: bool
  DEBUG_LOGGING_SA_RESULT :: bool
  USE_AUTH :: bool
  TOKEN_VALIDITY_SECONDS :: nat
  TOKEN_JWT_ALG :: string
  BUMPER_PROXY_MQTT :: bool
  BUMPER_PROXY_WEB :: bool
  PROXY_MQTT_DOMAIN :: string
  DOMAIN_ALI :: string
  DOMAIN_MAIN :: string
  DOM_SUB_PORT :: string
  DOM_SUB_1 :: string
  DOM_SUB_2 :: string
  DOM_SUB_3 :: string
  DOMAIN_SEC :: string
  DOMAIN_SEC1 :: string
  DOMAIN_SEC2 :: string
  DOMAIN_SEC3 :: string
  DOMAIN_SEC4 :: string
  DOMAIN_SEC5 :: string
  DOMAIN_SEC6 :: string
  WEB_SERVER_TLS_LISTEN_PORT :: int
  WEB_SERVER_LISTEN_PORT :: int
  MQTT_LISTEN_PORT :: int
  MQTT_LISTEN_PORT_TLS :: int
  XMPP_LISTEN_PORT :: int
  XMPP_LISTEN_PORT_TLS :: int
  HOME_ID :: string
  USER_USERNAME_DEFAULT :: string
  USER_NICKNAME_DEFAULT :: string
  USER_MAIL_DEFAULT :: string
  USER_REALMS :: "string list"
  APP_VERSION :: string
  GITHUB_REPO :: string
  GITHUB_RELEASE :: string

text \<open>The numbers the class body converts; the first malformed one ends the start-up.\<close>

definition config_ints :: "environ \<Rightarrow> py_exc + int list" where
  "config_ints e =
     foldr (\<lambda>(k, d) r. case env_int e k d of Inl x \<Rightarrow> Inl x
        | Inr i \<Rightarrow> (case r of Inl x \<Rightarrow> Inl x | Inr is \<Rightarrow> Inr (i # is)))
       [(''BUMPER_CA_VALID_DAYS'', 6669), (''BUMPER_VALID_DAYS'', 666), (''CERT_RSA_KEY_SIZE'', 2048),
        (''DEBUG_BUMPER_VERBOSE'', 1), (''WEB_SERVER_HTTPS_PORT'', 443), (''WEB_SERVER_LISTEN_PORT'', 8007),
        (''MQTT_LISTEN_PORT'', 1883), (''MQTT_LISTEN_PORT_TLS'', 8883), (''XMPP_LISTEN_PORT'', 1223),
        (''XMPP_LISTEN_PORT_TLS'', 5223)] (Inr [])"

definition path_join :: "string \<Rightarrow> string \<Rightarrow> string" where
  "path_join a b = a @ ''/'' @ b"

definition upper_char :: "char \<Rightarrow> char" where
  "upper_char c = (let n = of_char c :: nat in if 97 \<le> n \<and> n \<le> 122 then char_of (n - 32) else c)"

definition config_of :: "environ \<Rightarrow> string \<Rightarrow> string \<Rightarrow> string \<Rightarrow> int list \<Rightarrow> config" where
  "config_of e cwd host ver is =
    (let data = env_or_missing e ''BUMPER_DATA'' (path_join cwd ''data'');
         certs = env_or_missing e ''BUMPER_CERTS'' (path_join cwd ''certs'');
         env_ca = env_or_empty e ''BUMPER_CA_CERT'' (env_or_missing e ''BUMPER_CA'' []);
         listen = env_or_missing e ''BUMPER_LISTEN'' host;
         main = ''ecouser.net''; sec = ''ecovacs.com''; user = ''bumper''
     in \<lparr>ECOVACS_DEFAULT_COUNTRY = ''us'',
         ECOVACS_DEFAULT_COUNTRY_LANG = ''en'',
         LOCAL_TIMEZONE = env_or_missing e ''TZ'' ''UTC'',
         SYNC_TIMEZONE = env_flag e ''SYNC_TIMEZONE'',
         ECOVACS_UPDATE_SERVER = ''3.68.172.231'',
         ECOVACS_UPDATE_SERVER_PORT = 8005,
         data_dir = data,
         certs_dir = certs,
         ca_cert = (if env_ca \<noteq> [] then env_ca else path_join certs ''ca.crt''),
         ca_key = env_or_missing e ''BUMPER_CA_KEY'' (path_join certs ''ca.key''),
         ca_pem = env_or_missing e ''BUMPER_CA_PEM'' (path_join certs ''ca.pem''),
         server_cert = env_or_missing e ''BUMPER_CERT'' (path_join certs ''bumper.crt''),
         server_key = env_or_missing e ''BUMPER_KEY'' (path_join certs ''bumper.key''),
         CA_CERT_API_ONLY_BUMPER_CERT = env_flag e ''CA_CERT_API_ONLY_BUMPER_CERT'',
         ca_valid_days = is ! 0,
         server_valid_days = is ! 1,
         cert_key_type = py_lower (env_or_empty e ''CERT_KEY_TYPE'' ''ec''),
         cert_rsa_key_size = is ! 2,
         db_file = env_or_empty e ''DB_FILE'' (path_join data ''bumper.db''),
         bumper_listen = listen,
         bumper_announce_ip = env_or_missing e ''BUMPER_ANNOUNCE_IP'' listen,
         debug_bumper_level = map upper_char (env_or_empty e ''DEBUG_BUMPER_LEVEL'' ''INFO''),
         debug_bumper_verbose = is ! 3,
         DEBUG_LOGGING_API_REQUEST = env_flag e ''DEBUG_LOGGING_API_REQUEST'',
         DEBUG_LOGGING_API_REQUEST_MISSING = env_flag e ''DEBUG_LOGGING_API_REQUEST_MISSING'',
         DEBUG_LOGGING_XMPP_REQUEST_ORIGINAL = env_flag e ''DEBUG_LOGGING_XMPP_REQUEST'',
         DEBUG_LOGGING_XMPP_REQUEST_REFACTORED = env_flag e ''DEBUG_LOGGING_XMPP_REQUEST_REFACTOR'',
         DEBUG_LOGGING_XMPP_RESPONSE = env_flag e ''DEBUG_LOGGING_XMPP_RESPONSE'',
         DEBUG_LOGGING_SA_RESULT = env_flag e ''DEBUG_LOGGING_SA_RESULT'',
         USE_AUTH = False,
         TOKEN_VALIDITY_SECONDS = 1800,
         TOKEN_JWT_ALG = env_or_empty e ''TOKEN_JWT_ALG'' ''ES256'',
         BUMPER_PROXY_MQTT = env_flag e ''BUMPER_PROXY_MQTT'',
         BUMPER_PROXY_WEB = env_flag e ''BUMPER_PROXY_WEB'',
         PROXY_MQTT_DOMAIN = ''mq-ww.ecouser.net'',
         DOMAIN_ALI = ''globalapp-eu.oss-eu-central-1.aliyuncs.com'',
         DOMAIN_MAIN = main,
         DOM_SUB_PORT = main,
         DOM_SUB_1 = [], DOM_SUB_2 = [], DOM_SUB_3 = [],
         DOMAIN_SEC = sec, DOMAIN_SEC1 = sec, DOMAIN_SEC2 = sec, DOMAIN_SEC3 = sec,
         DOMAIN_SEC4 = sec, DOMAIN_SEC5 = sec, DOMAIN_SEC6 = sec,
         WEB_SERVER_TLS_LISTEN_PORT = is ! 4,
         WEB_SERVER_LISTEN_PORT = is ! 5,
         MQTT_LISTEN_PORT = is ! 6,
         MQTT_LISTEN_PORT_TLS = is ! 7,
         XMPP_LISTEN_PORT = is ! 8,
         XMPP_LISTEN_PORT_TLS = is ! 9,
         HOME_ID = ''781a0733923f2240cf304757'',
         USER_USERNAME_DEFAULT = user,
         USER_NICKNAME_DEFAULT = ''bumper'',
         USER_MAIL_DEFAULT = user @ ''@home.local'',
         USER_REALMS = [''ecouser'', ''bumper'', ''USER''],
         APP_VERSION = ver,
         GITHUB_REPO = ''https://github.com/MVladislav/bumper'',
         GITHUB_RELEASE = ''https://github.com/MVladislav/bumper/pkgs/container/bumper''\<rparr>)"

definition load_config :: "environ \<Rightarrow> string \<Rightarrow> string \<Rightarrow> string \<Rightarrow> py_exc + config" where
  "load_config e cwd host ver =
     (case config_ints e of Inl x \<Rightarrow> Inl x | Inr is \<Rightarrow> Inr (config_of e cwd host ver is))"

text \<open>The configuration of an empty environment.\<close>

definition default_config :: config where
  "default_config = config_of (\<lambda>_. None) ''/bumper'' ''127.0.0.1'' ''0.2.3''
     [6669, 666, 2048, 1, 443, 8007, 1883, 8883, 1223, 5223]"

lemma config_ints_empty:
  "config_ints (\<lambda>_. None) = Inr [6669, 666, 2048, 1, 443, 8007, 1883, 8883, 1223, 5223]"
  by (simp add: config_ints_def env_int_def)

lemma load_config_empty: "load_config (\<lambda>_. None) ''/bumper'' ''127.0.0.1'' ''0.2.3'' = Inr default_config"
  by (simp add: load_config_def config_ints_empty default_config_def)

text \<open>Every number of the configuration is read: ten of them, or the start-up fails.\<close>

lemma config_ints_length: "config_ints e = Inr is \<Longrightarrow> length is = 10"
  by (auto simp: config_ints_def split: sum.splits)

lemma env_flag_missing [simp]: "e k = None \<Longrightarrow> \<not> env_flag e k"
  by (simp add: env_flag_def env_get_def str_to_bool_def py_lower_def lower_char_def Let_def)

lemma default_config_flags [simp]:
  "\<not> SYNC_TIMEZONE default_config" "\<not> BUMPER_PROXY_MQTT default_config" "\<not> BUMPER_PROXY_WEB default_config"
  "\<not> USE_AUTH default_config" "TOKEN_VALIDITY_SECONDS default_config = 1800"
  "\<not> DEBUG_LOGGING_SA_RESULT default_config"
  "HOME_ID default_config = ''781a0733923f2240cf304757''"
  "USER_USERNAME_DEFAULT default_config = ''bumper''"
  "USER_MAIL_DEFAULT default_config = ''bumper@home.local''"
  "USER_REALMS default_config = [''ecouser'', ''bumper'', ''USER'']"
  "DOMAIN_MAIN default_config = ''ecouser.net''"
  "ECOVACS_DEFAULT_COUNTRY default_config = ''us''"
  by (simp_all add: default_config_def config_of_def Let_def)

section \<open>Conversions (src/bumper/utils/utils.py)\<close>

text \<open>\<open>int(v)\<close> raises TypeError or ValueError only, and \<open>to_int\<close> catches both.\<close>

lemma py_int_errors: "py_int v = Inl e \<Longrightarrow> e = TypeError \<or> e = ValueError"
  by (cases v) (auto simp: int_of_str_def Let_def split: list.splits option.splits prod.splits if_splits)

definition to_int :: "json \<Rightarrow> json" where
  "to_int v = (if v = JNull then JNull
     else (case py_int v of Inl e \<Rightarrow> JNull | Inr i \<Rightarrow> JInt i))"

text \<open>\<open>get_dc_code\<close>: the map is the content of utils_area_code_mapping.json, empty when unreadable.\<close>

definition get_area_code_map :: "json option \<Rightarrow> doc" where
  "get_area_code_map content = (case content of Some (JObj d) \<Rightarrow> d | _ \<Rightarrow> [])"

definition get_dc_code :: "doc \<Rightarrow> string \<Rightarrow> json" where
  "get_dc_code area_map area_code = dget_or area_map area_code (JStr ''na'')"

lemma to_int_idem [simp]: "to_int (to_int v) = to_int v"
  by (cases "py_int v") (auto simp: to_int_def)

lemma to_int_JInt [simp]: "to_int (JInt i) = JInt i"
  by (simp add: to_int_def)

lemma to_int_JNull [simp]: "to_int JNull = JNull"
  by (simp add: to_int_def)

lemma to_int_cases: "to_int v = JNull \<or> (\<exists>i. to_int v = JInt i)"
  by (cases "py_int v") (auto simp: to_int_def)

end
