(* ===== verification/Models.thy ===== *)
theory Models
  imports Settings
begin

text \<open>
  The record classes of src/bumper/web/utils/models.py and their conversions to and from
  documents. Attributes are dynamically typed, as in the source: a value read from the
  database is stored unchecked. The lemmas are the round trips between an object and its
  document.
\<close>

section \<open>Bots\<close>

record vac_bot =
  bot_class_id :: json
  bot_company :: json
  bot_did :: json
  bot_name :: json
  bot_nick :: json
  bot_resource :: json
  bot_mqtt_connection :: json
  bot_xmpp_connection :: json

definition VacBotDevice :: "json \<Rightarrow> json \<Rightarrow> json \<Rightarrow> json \<Rightarrow> json \<Rightarrow> json \<Rightarrow> vac_bot" where
  "VacBotDevice did class_id resource name nick company =
     \<lparr>bot_class_id = class_id, bot_company = company, bot_did = did, bot_name = name,
      bot_nick = nick, bot_resource = resource,
      bot_mqtt_connection = JBool False, bot_xmpp_connection = JBool False\<rparr>"

definition bot_as_dict :: "vac_bot \<Rightarrow> doc" where
  "bot_as_dict b =
     [(''class'', bot_class_id b),
      (''company'', bot_company b),
      (''did'', bot_did b),
      (''name'', bot_name b),
      (''nick'', bot_nick b),
      (''resource'', bot_resource b),
      (''mqtt_connection'', bot_mqtt_connection b),
      (''xmpp_connection'', bot_xmpp_connection b)]"

definition bot_from_dict :: "doc \<Rightarrow> vac_bot" where
  "bot_from_dict data =
     (let e = JStr [];
          bot = VacBotDevice (dget_or data ''did'' e) e e e e e
      in bot\<lparr>bot_class_id := dget_or data ''class'' e,
             bot_company := dget_or data ''company'' e,
             bot_name := dget_or data ''name'' e,
             bot_nick := dget_or data ''nick'' e,
             bot_resource := dget_or data ''resource'' e,
             bot_mqtt_connection := dget_or data ''mqtt_connection'' (JBool False),
             bot_xmpp_connection := dget_or data ''xmpp_connection'' (JBool False)\<rparr>)"

lemma bot_round_trip: "bot_from_dict (bot_as_dict b) = b"
  by (simp add: bot_from_dict_def bot_as_dict_def VacBotDevice_def)

section \<open>Clients\<close>

record vac_client =
  cl_userid :: json
  cl_name :: json
  cl_realm :: json
  cl_resource :: json
  cl_mqtt_connection :: json
  cl_xmpp_connection :: json

definition VacBotClient :: "json \<Rightarrow> json \<Rightarrow> json \<Rightarrow> json \<Rightarrow> vac_client" where
  "VacBotClient name userid realm resource =
     \<lparr>cl_userid = userid, cl_name = name, cl_realm = realm, cl_resource = resource,
      cl_mqtt_connection = JBool False, cl_xmpp_connection = JBool False\<rparr>"

definition client_as_dict :: "vac_client \<Rightarrow> doc" where
  "client_as_dict c =
     [(''userid'', cl_userid c),
      (''name'', cl_name c),
      (''realm'', cl_realm c),
      (''resource'', cl_resource c),
      (''mqtt_connection'', cl_mqtt_connection c),
      (''xmpp_connection'', cl_xmpp_connection c)]"

definition client_from_dict :: "doc \<Rightarrow> vac_client" where
  "client_from_dict data =
     (let e = JStr [] in
      (VacBotClient (dget_or data ''name'' e) (dget_or data ''userid'' e)
         (dget_or data ''realm'' e) (dget_or data ''resource'' e))
      \<lparr>cl_mqtt_connection := dget_or data ''mqtt_connection'' (JBool False),
       cl_xmpp_connection := dget_or data ''xmpp_connection'' (JBool False)\<rparr>)"

lemma client_round_trip: "client_from_dict (client_as_dict c) = c"
  by (simp add: client_from_dict_def client_as_dict_def VacBotClient_def)

section \<open>Users\<close>

record bumper_user =
  usr_userid :: json
  usr_username :: json
  usr_homeids :: json
  usr_devices :: json
  usr_bots :: json

definition BumperUser :: "config \<Rightarrow> json \<Rightarrow> bumper_user" where
  "BumperUser cfg userid =
     \<lparr>usr_userid = userid, usr_username = JStr (USER_USERNAME_DEFAULT cfg),
      usr_homeids = JList [], usr_devices = JList [], usr_bots = JList []\<rparr>"

definition user_as_dict :: "bumper_user \<Rightarrow> doc" where
  "user_as_dict u =
     [(''userid'', usr_userid u),
      (''username'', usr_username u),
      (''homeids'', usr_homeids u),
      (''devices'', usr_devices u),
      (''bots'', usr_bots u)]"

definition user_from_dict :: "config \<Rightarrow> doc \<Rightarrow> bumper_user" where
  "user_from_dict cfg data =
     (BumperUser cfg (dget_or data ''userid'' (JStr [])))
      \<lparr>usr_username := dget_or data ''username'' (JStr (USER_USERNAME_DEFAULT cfg)),
       usr_homeids := dget_or data ''homeids'' (JList []),
       usr_devices := dget_or data ''devices'' (JList []),
       usr_bots := dget_or data ''bots'' (JList [])\<rparr>"

lemma user_round_trip: "user_from_dict cfg (user_as_dict u) = u"
  by (simp add: user_from_dict_def user_as_dict_def BumperUser_def)

section \<open>Tokens\<close>

record token =
  tok_userid :: json
  tok_token :: json
  tok_expiration :: datetime
  tok_auth_code :: json
  tok_it_token :: json

definition Token :: "json \<Rightarrow> json \<Rightarrow> datetime \<Rightarrow> token" where
  "Token userid tok expiration =
     \<lparr>tok_userid = userid, tok_token = tok, tok_expiration = expiration,
      tok_auth_code = JNull, tok_it_token = JNull\<rparr>"

definition token_to_db :: "token \<Rightarrow> doc" where
  "token_to_db t =
     [(''userid'', tok_userid t),
      (''token'', tok_token t),
      (''expiration'', JStr (isoformat (tok_expiration t))),
      (''auth_code'', tok_auth_code t),
      (''it_token'', tok_it_token t)]"

definition token_as_dict :: "token \<Rightarrow> doc" where
  "token_as_dict t =
     [(''userid'', tok_userid t),
      (''token'', tok_token t)]"

fun iso_value :: "json \<Rightarrow> py_exc + datetime" where
  "iso_value (JStr s) = fromisoformat s"
| "iso_value _ = Inl TypeError"

definition token_from_dict :: "doc \<Rightarrow> py_exc + token" where
  "token_from_dict data =
     (case iso_value (dget_or data ''expiration'' (JStr [])) of
        Inl e \<Rightarrow> Inl e
      | Inr expiration \<Rightarrow>
          Inr \<lparr>tok_userid = dget_or data ''userid'' (JStr []),
               tok_token = dget_or data ''token'' (JStr []),
               tok_expiration = expiration,
               tok_auth_code = dget data ''auth_code'',
               tok_it_token = dget data ''it_token''\<rparr>)"

lemma token_round_trip: "valid_dt (tok_expiration t) \<Longrightarrow> token_from_dict (token_to_db t) = Inr t"
  by (simp add: token_from_dict_def token_to_db_def fromisoformat_isoformat)

section \<open>Clean logs\<close>

record clean_log =
  log_id :: json
  log_did :: json
  log_cid :: json
  log_aiavoid :: json
  log_aitypes :: json
  log_area :: json
  log_image_url :: json
  log_stop_reason :: json
  log_last :: json
  log_ts :: json
  log_type :: json
  log_avoid_count :: json
  log_enable_power_mop :: json
  log_power_mop_type :: json
  log_ai_open :: json

text \<open>
  \<open>to_db\<close> returns the attributes set on the instance, in the order they were set; the two
  constructors the program uses, \<open>from_db\<close> and \<open>from_dict\<close>, set all of them in this order.
\<close>

definition log_to_db :: "clean_log \<Rightarrow> doc" where
  "log_to_db l =
     [(''clean_log_id'', log_id l),
      (''did'', log_did l),
      (''cid'', log_cid l),
      (''aiavoid'', log_aiavoid l),
      (''aitypes'', log_aitypes l),
      (''area'', log_area l),
      (''image_url'', log_image_url l),
      (''stop_reason'', log_stop_reason l),
      (''last'', log_last l),
      (''ts'', log_ts l),
      (''type'', log_type l),
      (''avoid_count'', log_avoid_count l),
      (''enable_power_mop'', log_enable_power_mop l),
      (''power_mop_type'', log_power_mop_type l),
      (''ai_open'', log_ai_open l)]"

definition py_or :: "json \<Rightarrow> json \<Rightarrow> json" where
  "py_or a b = (if truthy a then a else b)"

definition log_from_db :: "doc \<Rightarrow> py_exc + clean_log" where
  "log_from_db data =
     (case map_of data ''clean_log_id'' of
        None \<Rightarrow> Inl KeyError
      | Some i \<Rightarrow>
          Inr \<lparr>log_id = i,
               log_did = dget data ''did'',
               log_cid = dget data ''cid'',
               log_aiavoid = py_or (to_int (dget data ''aiavoid'')) (JInt 0),
               log_aitypes = dget_or data ''aitypes'' (JList []),
               log_area = to_int (dget data ''area''),
               log_image_url = dget data ''image_url'',
               log_stop_reason = to_int (dget data ''stop_reason''),
               log_last = to_int (dget data ''last''),
               log_ts = to_int (dget data ''ts''),
               log_type = dget data ''type'',
               log_avoid_count = to_int (dget data ''avoid_count''),
               log_enable_power_mop = to_int (dget data ''enable_power_mop''),
               log_power_mop_type = to_int (dget data ''power_mop_type''),
               log_ai_open = to_int (dget data ''ai_open'')\<rparr>)"

definition log_as_dict :: "clean_log \<Rightarrow> doc" where
  "log_as_dict l =
     [(''id'', log_id l),
      (''aiavoid'', log_aiavoid l),
      (''aitypes'', log_aitypes l),
      (''area'', log_area l),
      (''imageUrl'', if log_image_url l \<noteq> JNull then log_image_url l else JStr []),
      (''stopReason'', if log_stop_reason l \<noteq> JNull then log_stop_reason l else JInt (- 2)),
      (''last'', log_last l),
      (''ts'', log_ts l),
      (''type'', log_type l),
      (''avoidCount'', log_avoid_count l),
      (''enablePowerMop'', log_enable_power_mop l),
      (''powerMopType'', log_power_mop_type l),
      (''aiopen'', log_ai_open l)]"

definition log_from_dict :: "string \<Rightarrow> string \<Rightarrow> doc \<Rightarrow> clean_log" where
  "log_from_dict did rid data =
     (let start = dget data ''start'' in
      \<lparr>log_id = JStr (did @ ''@'' @ py_str start @ ''@'' @ rid),
       log_did = JStr did,
       log_cid = dget data ''cid'',
       log_aiavoid = dget_or data ''aiavoid'' (JInt 0),
       log_aitypes = dget_or data ''aitypes'' (JList []),
       log_area = dget data ''area'',
       log_image_url = dget data ''imageUrl'',
       log_stop_reason = dget data ''stopReason'',
       log_last = dget data ''time'',
       log_ts = start,
       log_type = dget data ''type'',
       log_avoid_count = dget data ''avoidCount'',
       log_enable_power_mop = dget data ''enablePowerMop'',
       log_power_mop_type = dget data ''powerMopType'',
       log_ai_open = dget data ''aiopen''\<rparr>)"

text \<open>What reading back from the database does to a log: numbers become \<open>int\<close> or \<open>None\<close>.\<close>

definition log_normal :: "clean_log \<Rightarrow> clean_log" where
  "log_normal l = l
     \<lparr>log_aiavoid := py_or (to_int (log_aiavoid l)) (JInt 0),
      log_area := to_int (log_area l),
      log_stop_reason := to_int (log_stop_reason l),
      log_last := to_int (log_last l),
      log_ts := to_int (log_ts l),
      log_avoid_count := to_int (log_avoid_count l),
      log_enable_power_mop := to_int (log_enable_power_mop l),
      log_power_mop_type := to_int (log_power_mop_type l),
      log_ai_open := to_int (log_ai_open l)\<rparr>"

lemma log_db_round_trip: "log_from_db (log_to_db l) = Inr (log_normal l)"
  by (simp add: log_from_db_def log_to_db_def log_normal_def)

lemma py_or_int_idem: "py_or (to_int (py_or (to_int v) (JInt 0))) (JInt 0) = py_or (to_int v) (JInt 0)"
  using to_int_cases [of v] by (auto simp: py_or_def)

lemma log_normal_idem [simp]: "log_normal (log_normal l) = log_normal l"
  by (simp add: log_normal_def py_or_int_idem)

lemma dget_log_to_db [simp]:
  "dget (log_to_db l) ''clean_log_id'' = log_id l" "dget (log_to_db l) ''did'' = log_did l"
  "dget (log_to_db l) ''type'' = log_type l"
  by (simp_all add: log_to_db_def)

end
