(* ===== verification/Base_Repo.thy ===== *)
theory Base_Repo
  imports Models
begin

text \<open>
  The operations every repository shares (src/bumper/db/base.py, db.py, helpers.py): insert
  or update, the first or all matching documents, removal of the first match, and the
  update of a list field. The contract of a repository of records under a key is the locale
  \<open>record_repo\<close>, the contract of a repository whose records carry a flag \<open>flag_repo\<close>; the
  repositories of bots, clients and users interpret them. The second half is the theory of
  a table whose documents have distinct string keys.
\<close>

section \<open>Operations\<close>

definition repo_upsert :: "store_ops \<Rightarrow> string \<Rightarrow> doc option \<Rightarrow> query \<Rightarrow> db \<Rightarrow> db \<times> nat list" where
  "repo_upsert D tn data q db =
     (case data of
        None \<Rightarrow> (db, [])
      | Some d \<Rightarrow> (case tdb_upsert D (db tn) d q of (t, ids) \<Rightarrow> (db(tn := t), ids)))"

definition repo_get :: "store_ops \<Rightarrow> string \<Rightarrow> query \<Rightarrow> db \<Rightarrow> row option" where
  "repo_get D tn q db = tdb_get D (db tn) q"

definition repo_get_multi :: "store_ops \<Rightarrow> string \<Rightarrow> query \<Rightarrow> db \<Rightarrow> row list" where
  "repo_get_multi D tn q db = tdb_search D (db tn) q"

definition repo_get_first :: "store_ops \<Rightarrow> string \<Rightarrow> query \<Rightarrow> db \<Rightarrow> row option" where
  "repo_get_first D tn q db = (case repo_get_multi D tn q db of [] \<Rightarrow> None | r # _ \<Rightarrow> Some r)"

definition repo_remove :: "store_ops \<Rightarrow> string \<Rightarrow> query \<Rightarrow> db \<Rightarrow> db" where
  "repo_remove D tn q db =
     (case tdb_get D (db tn) q of
        None \<Rightarrow> db
      | Some r \<Rightarrow> db(tn := tdb_remove_ids D (db tn) [fst r]))"

text \<open>\<open>list(rec.get(field, []))\<close> raises for a field that is not iterable.\<close>

definition update_list_field ::
    "store_ops \<Rightarrow> string \<Rightarrow> query \<Rightarrow> string \<Rightarrow> json \<Rightarrow> bool \<Rightarrow> (db, bool) py" where
  "update_list_field D tn q field value add db =
     (case repo_get D tn q db of
        None \<Rightarrow> (Inr False, db)
      | Some r \<Rightarrow>
          (case py_list (dget_or (snd r) field (JList [])) of
             Inl e \<Rightarrow> (Inl e, db)
           | Inr lst \<Rightarrow>
               (let lst' = (if add \<and> \<not> py_in value lst then lst @ [value]
                            else if \<not> add \<and> py_in value lst then py_remove value lst
                            else lst);
                    (db', ids) = repo_upsert D tn (Some [(field, JList lst')]) q db
                in (Inr (length ids > 0), db'))))"

text \<open>\<open>not self._get(q)\<close>: no document, or an empty one.\<close>

definition no_doc :: "row option \<Rightarrow> bool" where
  "no_doc r = (case r of None \<Rightarrow> True | Some (i, d) \<Rightarrow> d = [])"

section \<open>The database version (src/bumper/db/db.py)\<close>

abbreviation TABLE_META :: string where "TABLE_META \<equiv> ''_meta''"

definition get_db_version :: "store_ops \<Rightarrow> db \<Rightarrow> json" where
  "get_db_version D db =
     (case tdb_get D (db TABLE_META) (QEq ''key'' (JStr ''db_version'')) of
        None \<Rightarrow> JNull
      | Some r \<Rightarrow> if snd r = [] then JNull else dget (snd r) ''value'')"

definition set_db_version :: "store_ops \<Rightarrow> string \<Rightarrow> db \<Rightarrow> db" where
  "set_db_version D version db =
     (case tdb_upsert D (db TABLE_META) [(''key'', JStr ''db_version''), (''value'', JStr version)]
             (QEq ''key'' (JStr ''db_version'')) of (t, _) \<Rightarrow> db(TABLE_META := t))"

section \<open>The contract of a repository\<close>

locale record_repo =
  fixes get :: "'k \<Rightarrow> 's \<Rightarrow> 'r option"
    and add :: "'k \<Rightarrow> 'a \<Rightarrow> 's \<Rightarrow> 's"
    and remove :: "'k \<Rightarrow> 's \<Rightarrow> 's"
    and make :: "'k \<Rightarrow> 'a \<Rightarrow> 'r"
    and inv :: "'s \<Rightarrow> bool"
  assumes inv_add: "inv s \<Longrightarrow> inv (add k a s)"
    and inv_remove: "inv s \<Longrightarrow> inv (remove k s)"
    and get_add: "inv s \<Longrightarrow>
      get k' (add k a s) = (if k' = k \<and> get k s = None then Some (make k a) else get k' s)"
    and get_remove: "inv s \<Longrightarrow> get k' (remove k s) = (if k' = k then None else get k' s)"
begin

lemma get_after_add: "inv s \<Longrightarrow> get k (add k a s) \<noteq> None"
  by (simp add: get_add)

lemma add_keeps_existing: "inv s \<Longrightarrow> get k s = Some r \<Longrightarrow> get k' (add k a s) = get k' s"
  by (simp add: get_add)

lemma add_twice: "inv s \<Longrightarrow> get k' (add k b (add k a s)) = get k' (add k a s)"
  by (simp add: get_add inv_add)

lemma remove_add_new: "inv s \<Longrightarrow> get k (add k a (remove k s)) = Some (make k a)"
  by (simp add: get_add get_remove inv_remove)

lemma add_remove_view: "inv s \<Longrightarrow> get k s = None \<Longrightarrow> get k' (remove k (add k a s)) = get k' s"
  by (simp add: get_add get_remove inv_add)

end

text \<open>A repository whose records carry a value that one operation sets.\<close>

locale flag_repo = record_repo get add remove make inv
  for get :: "'k \<Rightarrow> 's \<Rightarrow> 'r option" and add :: "'k \<Rightarrow> 'a \<Rightarrow> 's \<Rightarrow> 's"
    and remove :: "'k \<Rightarrow> 's \<Rightarrow> 's" and make :: "'k \<Rightarrow> 'a \<Rightarrow> 'r" and inv :: "'s \<Rightarrow> bool" +
  fixes set_flag :: "'k \<Rightarrow> 'v \<Rightarrow> 's \<Rightarrow> 's"
    and put :: "'v \<Rightarrow> 'r \<Rightarrow> 'r"
    and flag :: "'r \<Rightarrow> 'v"
  assumes inv_set: "inv s \<Longrightarrow> inv (set_flag k v s)"
    and get_set: "inv s \<Longrightarrow>
      get k' (set_flag k v s) = (if k' = k then map_option (put v) (get k s) else get k' s)"
    and flag_put: "flag (put v r) = v"
begin

lemma flag_after_set: "inv s \<Longrightarrow> get k (set_flag k v s) = Some r \<Longrightarrow> flag r = v"
  by (auto simp: get_set flag_put)

lemma set_never_creates: "inv s \<Longrightarrow> get k s = None \<Longrightarrow> get k' (set_flag k v s) = get k' s"
  by (simp add: get_set)

lemma set_last_wins:
  "inv s \<Longrightarrow> get k (set_flag k w (set_flag k v s)) = Some r \<Longrightarrow> flag r = w"
  by (rule flag_after_set) (simp_all add: inv_set)

end

section \<open>Tables with distinct keys\<close>

definition key_of :: "string \<Rightarrow> doc \<Rightarrow> string option" where
  "key_of f d = (case map_of d f of Some (JStr s) \<Rightarrow> Some s | _ \<Rightarrow> None)"

fun str_keys :: "string \<Rightarrow> table \<Rightarrow> string list" where
  "str_keys f [] = []"
| "str_keys f (r # t) = (case key_of f (snd r) of None \<Rightarrow> str_keys f t | Some k \<Rightarrow> k # str_keys f t)"

definition unique_key :: "string \<Rightarrow> table \<Rightarrow> bool" where
  "unique_key f t \<longleftrightarrow> ids_ok t \<and> distinct (str_keys f t)"

definition lookup :: "string \<Rightarrow> string \<Rightarrow> table \<Rightarrow> row option" where
  "lookup f k t = List.find (\<lambda>r. key_of f (snd r) = Some k) t"

lemma qmatch_key [simp]: "qmatch (QEq f (JStr k)) d \<longleftrightarrow> key_of f d = Some k"
  by (auto simp: key_of_def split: option.splits json.splits)

declare qmatch.simps(1) [simp del]

lemma key_of_dupdate [simp]: "f \<notin> fst ` set e \<Longrightarrow> key_of f (dupdate d e) = key_of f d"
  by (simp add: key_of_def map_of_dupdate_notin)

lemma key_of_Nil [simp]: "key_of f [] = None"
  by (simp add: key_of_def)

lemma key_of_Cons [simp]:
  "key_of f ((k, v) # d) = (if k = f then (case v of JStr s \<Rightarrow> Some s | _ \<Rightarrow> None) else key_of f d)"
  by (simp add: key_of_def split: json.splits)

lemma key_of_dset [simp]:
  "key_of f (dset d k v) = (if f = k then (case v of JStr s \<Rightarrow> Some s | _ \<Rightarrow> None) else key_of f d)"
  by (simp add: key_of_def split: json.splits)

lemma set_str_keys: "k \<in> set (str_keys f t) \<longleftrightarrow> (\<exists>r \<in> set t. key_of f (snd r) = Some k)"
  by (induction t) (auto split: option.splits)

lemma str_keys_append [simp]: "str_keys f (s @ t) = str_keys f s @ str_keys f t"
  by (induction s) (auto split: option.splits)

lemma lookup_None: "lookup f k t = None \<longleftrightarrow> k \<notin> set (str_keys f t)"
  by (auto simp: lookup_def set_str_keys find_None_iff)

lemma lookup_Some: "lookup f k t = Some r \<Longrightarrow> r \<in> set t \<and> key_of f (snd r) = Some k"
  by (auto simp: lookup_def find_Some_iff)

lemma lookup_append: "lookup f k (s @ t) = (case lookup f k s of None \<Rightarrow> lookup f k t | Some r \<Rightarrow> Some r)"
  unfolding lookup_def by (rule find_append)

lemma lookup_Nil [simp]: "lookup f k [] = None"
  by (simp add: lookup_def)

lemma lookup_Cons [simp]: "lookup f k (r # t) = (if key_of f (snd r) = Some k then Some r else lookup f k t)"
  by (simp add: lookup_def)

lemma list_ex_key [simp]: "list_ex (\<lambda>r. key_of f (snd r) = Some k) t \<longleftrightarrow> lookup f k t \<noteq> None"
  by (simp add: list_ex_find lookup_def)

lemma lookup_unique:
  "unique_key f t \<Longrightarrow> r \<in> set t \<Longrightarrow> key_of f (snd r) = Some k \<Longrightarrow> lookup f k t = Some r"
proof (induction t)
  case Nil
  then show ?case by simp
next
  case (Cons x t)
  show ?case
  proof (cases "x = r")
    case True
    with Cons.prems show ?thesis by simp
  next
    case False
    with Cons.prems have "r \<in> set t" by simp
    with Cons.prems have k: "k \<in> set (str_keys f t)" by (auto simp: set_str_keys)
    have "unique_key f t"
      using Cons.prems(1) by (auto simp: unique_key_def ids_ok_def split: option.splits)
    with Cons.IH \<open>r \<in> set t\<close> Cons.prems(3) have "lookup f k t = Some r" by blast
    moreover have "key_of f (snd x) \<noteq> Some k"
      using Cons.prems(1) k by (auto simp: unique_key_def)
    ultimately show ?thesis by simp
  qed
qed

lemma distinct_keys_filter: "distinct (str_keys f t) \<Longrightarrow> distinct (str_keys f (filter P t))"
  by (induction t) (auto simp: set_str_keys split: option.splits)

lemma unique_filter [intro]: "unique_key f t \<Longrightarrow> unique_key f (filter P t)"
  by (auto simp: unique_key_def distinct_keys_filter)

lemma unique_snoc:
  "unique_key f t \<Longrightarrow> n \<notin> fst ` set t \<Longrightarrow> (\<And>k. key_of f d = Some k \<Longrightarrow> lookup f k t = None) \<Longrightarrow>
   unique_key f (t @ [(n, d)])"
  by (auto simp: unique_key_def ids_ok_snoc lookup_None split: option.splits)

lemma str_keys_update [simp]: "f \<notin> fst ` set e \<Longrightarrow> str_keys f (rows_update e q t) = str_keys f t"
  by (induction t) (auto split: option.splits)

lemma unique_update [simp]: "f \<notin> fst ` set e \<Longrightarrow> unique_key f (rows_update e q t) = unique_key f t"
  by (simp add: unique_key_def)

lemma lookup_update:
  assumes "f \<notin> fst ` set e"
  shows "lookup f k (rows_update e (QEq f (JStr k')) t) =
    (if k = k' then map_option (\<lambda>(i, d). (i, dupdate d e)) (lookup f k t) else lookup f k t)"
proof (induction t)
  case Nil
  then show ?case by (simp add: lookup_def)
next
  case (Cons r t)
  obtain i d where "r = (i, d)" by force
  with Cons assms show ?case by (cases "k = k'") simp_all
qed

text \<open>Removing the first match of a key leaves the other keys alone.\<close>

lemma lookup_remove_id:
  assumes "unique_key f t" "lookup f k t = Some r"
  shows "lookup f k' (filter (\<lambda>x. fst x \<noteq> fst r) t) = (if k' = k then None else lookup f k' t)"
proof -
  have r: "r \<in> set t" "key_of f (snd r) = Some k" using lookup_Some [OF assms(2)] by auto
  have same: "x = r" if "x \<in> set t" "fst x = fst r" for x
    using that r assms(1) by (auto simp: unique_key_def ids_ok_def distinct_map dest: inj_onD)
  have only: "x = r" if "x \<in> set t" "key_of f (snd x) = Some k" for x
    using lookup_unique [OF assms(1) that] assms(2) by simp
  show ?thesis
  proof (cases "k' = k")
    case True
    then show ?thesis using only by (auto simp: lookup_def find_None_iff)
  next
    case False
    have "(fst x \<noteq> fst r \<and> key_of f (snd x) = Some k') = (key_of f (snd x) = Some k')" if "x \<in> set t" for x
      using same [OF that] r False by auto
    then show ?thesis using False by (simp add: lookup_def find_filter cong: find_cong_pred)
  qed
qed

context tinydb
begin

lemma repo_get_key [simp]: "repo_get D tn (QEq f (JStr k)) db = lookup f k (db tn)"
  by (simp add: repo_get_def lookup_def)

lemma repo_get_multi_rows [simp]: "q_safe q (db tn) \<Longrightarrow> repo_get_multi D tn q db = filter (rmatch q) (db tn)"
  by (simp add: repo_get_multi_def)

lemma repo_get_first_rows [simp]:
  "q_safe q (db tn) \<Longrightarrow> repo_get_first D tn q db = List.find (rmatch q) (db tn)"
  by (simp add: repo_get_first_def find_hd_filter)

lemma repo_upsert_rows:
  "q_safe q (db tn) \<Longrightarrow> repo_upsert D tn (Some d) q db =
    (let (t, ids) = rows_upsert (tdb_fresh D (db tn)) d q (db tn) in (db(tn := t), ids))"
  by (simp add: repo_upsert_def split: prod.splits)

lemma upsert_key_present:
  "lookup f k (db tn) \<noteq> None \<Longrightarrow>
   fst (repo_upsert D tn (Some d) (QEq f (JStr k)) db) = db(tn := rows_update d (QEq f (JStr k)) (db tn))"
  by (simp add: repo_upsert_rows rows_upsert_def)

lemma upsert_key_absent:
  "lookup f k (db tn) = None \<Longrightarrow>
   fst (repo_upsert D tn (Some d) (QEq f (JStr k)) db) = db(tn := db tn @ [(tdb_fresh D (db tn), d)])"
  by (simp add: repo_upsert_rows rows_upsert_def)

lemma repo_remove_key:
  "repo_remove D tn (QEq f (JStr k)) db =
    (case lookup f k (db tn) of None \<Rightarrow> db
     | Some r \<Rightarrow> db(tn := filter (\<lambda>x. fst x \<noteq> fst r) (db tn)))"
proof (cases "lookup f k (db tn)")
  case None
  then show ?thesis by (simp add: repo_remove_def lookup_def)
next
  case (Some r)
  then have "r \<in> set (db tn)" using lookup_Some by blast
  with Some show ?thesis by (simp add: repo_remove_def lookup_def)
qed

lemma get_set_db_version: "get_db_version D (set_db_version D v db) = JStr v"
proof -
  let ?e = "[(''key'', JStr ''db_version''), (''value'', JStr v)]"
  let ?q = "QEq ''key'' (JStr ''db_version'')"
  have keep: "key_of ''key'' (dupdate d ?e) = Some ''db_version''" "dget (dupdate d ?e) ''value'' = JStr v"
    "dupdate d ?e \<noteq> []" for d
    by (simp_all add: key_of_def)
  have "lookup ''key'' ''db_version'' (rows_update ?e ?q t) =
      map_option (\<lambda>(i, d). (i, dupdate d ?e)) (lookup ''key'' ''db_version'' t)" for t
    by (induction t) (auto simp: keep(1) simp del: dupdate_Cons)
  then show ?thesis
    by (cases "lookup ''key'' ''db_version'' (db ''_meta'')")
      (auto simp: get_db_version_def set_db_version_def rows_upsert_def lookup_append keep
        simp flip: lookup_def simp del: dupdate_Cons)
qed

end

end
