(* ===== verification/Bot_Repo.thy ===== *)
theory Bot_Repo
  imports Base_Repo
begin

text \<open>
  The repository of bots (src/bumper/db/bots.py), on the table \<open>bots\<close>, keyed by the device
  id. The lemmas show that it is a \<open>record_repo\<close> and, for each of its two connection flags
  and the nickname, a \<open>flag_repo\<close>.
\<close>

abbreviation TABLE_BOTS :: string where "TABLE_BOTS \<equiv> ''bots''"

definition bot_add :: "store_ops \<Rightarrow> json \<Rightarrow> json \<Rightarrow> json \<Rightarrow> json \<Rightarrow> json \<Rightarrow> db \<Rightarrow> db" where
  "bot_add D name did class_id resource company db =
     (let q = QEq ''did'' did in
      if no_doc (repo_get D TABLE_BOTS q db) then
        let bot = (VacBotDevice did (JStr []) resource name (JStr []) company)\<lparr>bot_class_id := class_id\<rparr>
        in fst (repo_upsert D TABLE_BOTS (Some (bot_as_dict bot)) q db)
      else db)"

definition bot_get :: "store_ops \<Rightarrow> json \<Rightarrow> db \<Rightarrow> vac_bot option" where
  "bot_get D did db = map_option (\<lambda>r. bot_from_dict (snd r)) (repo_get D TABLE_BOTS (QEq ''did'' did) db)"

definition bot_list_all :: "store_ops \<Rightarrow> db \<Rightarrow> vac_bot list" where
  "bot_list_all D db = map (\<lambda>r. bot_from_dict (snd r)) (tdb_all D (db TABLE_BOTS))"

definition bot_remove :: "store_ops \<Rightarrow> json \<Rightarrow> db \<Rightarrow> db" where
  "bot_remove D did db = repo_remove D TABLE_BOTS (QEq ''did'' did) db"

definition bot_set_field :: "store_ops \<Rightarrow> json \<Rightarrow> string \<Rightarrow> json \<Rightarrow> db \<Rightarrow> db" where
  "bot_set_field D did field value db =
     (if did = JNull then db
      else fst (repo_upsert D TABLE_BOTS (Some [(field, value)]) (QEq ''did'' did) db))"

definition bot_set_nick :: "store_ops \<Rightarrow> json \<Rightarrow> json \<Rightarrow> db \<Rightarrow> db" where
  "bot_set_nick D did nick db = bot_set_field D did ''nick'' nick db"

definition bot_set_mqtt :: "store_ops \<Rightarrow> json \<Rightarrow> bool \<Rightarrow> db \<Rightarrow> db" where
  "bot_set_mqtt D did mqtt db = bot_set_field D did ''mqtt_connection'' (JBool mqtt) db"

definition bot_set_xmpp :: "store_ops \<Rightarrow> json \<Rightarrow> bool \<Rightarrow> db \<Rightarrow> db" where
  "bot_set_xmpp D did xmpp db = bot_set_field D did ''xmpp_connection'' (JBool xmpp) db"

definition bot_reset_all_connections :: "store_ops \<Rightarrow> db \<Rightarrow> db" where
  "bot_reset_all_connections D db =
     fold (\<lambda>r db. let bot_id = dget (snd r) ''did''
                  in bot_set_xmpp D bot_id False (bot_set_mqtt D bot_id False db))
       (tdb_all D (db TABLE_BOTS)) db"

lemmas bot_defs [repo_defs] = bot_add_def bot_get_def bot_list_all_def bot_remove_def bot_set_field_def
  bot_set_nick_def bot_set_mqtt_def bot_set_xmpp_def

section \<open>The contract\<close>

text \<open>A new bot: what \<open>add\<close> stores for a device id, from name, class, resource and company.\<close>

fun new_bot :: "string \<Rightarrow> json \<times> json \<times> json \<times> json \<Rightarrow> vac_bot" where
  "new_bot did (name, class_id, resource, company) =
     (VacBotDevice (JStr did) (JStr []) resource name (JStr []) company)\<lparr>bot_class_id := class_id\<rparr>"

definition bot_add_args :: "store_ops \<Rightarrow> string \<Rightarrow> json \<times> json \<times> json \<times> json \<Rightarrow> db \<Rightarrow> db" where
  "bot_add_args D did a db = (case a of (name, class_id, resource, company) \<Rightarrow>
     bot_add D name (JStr did) class_id resource company db)"

definition bots_ok :: "db \<Rightarrow> bool" where
  "bots_ok db = unique_key ''did'' (db TABLE_BOTS)"

lemma key_of_bot [simp]: "key_of ''did'' (bot_as_dict (new_bot k a)) = Some k"
  by (cases a) (simp add: bot_as_dict_def VacBotDevice_def)

lemma lookup_doc_ne: "lookup f k t = Some (i, d) \<Longrightarrow> d \<noteq> []"
  using lookup_Some by fastforce

lemma no_doc_lookup [simp]: "no_doc (lookup f k t) \<longleftrightarrow> lookup f k t = None"
  by (auto simp: no_doc_def dest: lookup_doc_ne split: option.splits)

context tinydb
begin

lemma bot_get_lookup: "bot_get D (JStr k) db = map_option (\<lambda>r. bot_from_dict (snd r)) (lookup ''did'' k (db ''bots''))"
  by (simp add: bot_get_def)

lemma bot_add_rows:
  "bot_add_args D k a db =
    (if lookup ''did'' k (db ''bots'') = None
     then db(''bots'' := db ''bots'' @ [(tdb_fresh D (db ''bots''), bot_as_dict (new_bot k a))])
     else db)"
  by (cases a) (simp add: bot_add_args_def bot_add_def Let_def upsert_key_absent)

lemma bot_set_rows:
  "bot_set_field D (JStr k) f v db =
    db(''bots'' := (if lookup ''did'' k (db ''bots'') = None
        then db ''bots'' @ [(tdb_fresh D (db ''bots''), [(f, v)])]
        else rows_update [(f, v)] (QEq ''did'' (JStr k)) (db ''bots'')))"
  by (simp add: bot_set_field_def upsert_key_absent upsert_key_present)

lemma bots_ok_set: "f \<noteq> ''did'' \<Longrightarrow> bots_ok db \<Longrightarrow> bots_ok (bot_set_field D (JStr k) f v db)"
  by (auto simp: bots_ok_def bot_set_rows intro!: unique_snoc fresh_id split: if_splits)

lemma bot_get_set:
  assumes "f \<noteq> ''did''" "\<And>d. bot_from_dict (dset d f v) = p (bot_from_dict d)"
  shows "bot_get D (JStr k') (bot_set_field D (JStr k) f v db) =
    (if k' = k then map_option p (bot_get D (JStr k) db) else bot_get D (JStr k') db)"
  using assms
  by (auto simp: bot_get_lookup bot_set_rows lookup_append lookup_update option.map_comp comp_def
      intro!: option.map_cong split: option.splits)

end

sublocale tinydb \<subseteq> bots: record_repo "\<lambda>k. bot_get D (JStr k)" "bot_add_args D" "\<lambda>k. bot_remove D (JStr k)"
  new_bot bots_ok
proof unfold_locales
  fix db :: db and k k' :: string and a
  show "bots_ok (bot_add_args D k a db)" if "bots_ok db"
    using that by (auto simp: bots_ok_def bot_add_rows intro!: unique_snoc fresh_id)
  show "bots_ok (bot_remove D (JStr k) db)" if "bots_ok db"
    using that by (auto simp: bots_ok_def bot_remove_def repo_remove_key split: option.splits)
  show "bot_get D (JStr k') (bot_add_args D k a db) =
      (if k' = k \<and> bot_get D (JStr k) db = None then Some (new_bot k a) else bot_get D (JStr k') db)"
    if "bots_ok db"
    by (auto simp: bot_get_lookup bot_add_rows lookup_append bot_round_trip split: option.splits)
  show "bot_get D (JStr k') (bot_remove D (JStr k) db) =
      (if k' = k then None else bot_get D (JStr k') db)" if "bots_ok db"
    using that lookup_remove_id [of "''did''" "db ''bots''" k]
    by (auto simp: bots_ok_def bot_get_lookup bot_remove_def repo_remove_key split: option.splits)
qed

text \<open>Writing one of the fields that are not the key.\<close>

definition put_mqtt :: "bool \<Rightarrow> vac_bot \<Rightarrow> vac_bot" where
  "put_mqtt b r = r\<lparr>bot_mqtt_connection := JBool b\<rparr>"

definition put_xmpp :: "bool \<Rightarrow> vac_bot \<Rightarrow> vac_bot" where
  "put_xmpp b r = r\<lparr>bot_xmpp_connection := JBool b\<rparr>"

definition put_nick :: "json \<Rightarrow> vac_bot \<Rightarrow> vac_bot" where
  "put_nick v r = r\<lparr>bot_nick := v\<rparr>"

lemma bot_from_dict_set:
  "bot_from_dict (dset d ''mqtt_connection'' (JBool b)) = put_mqtt b (bot_from_dict d)"
  "bot_from_dict (dset d ''xmpp_connection'' (JBool b)) = put_xmpp b (bot_from_dict d)"
  "bot_from_dict (dset d ''nick'' v) = put_nick v (bot_from_dict d)"
  by (simp_all add: bot_from_dict_def Let_def put_mqtt_def put_xmpp_def put_nick_def VacBotDevice_def)

sublocale tinydb \<subseteq> bots_mqtt: flag_repo "\<lambda>k. bot_get D (JStr k)" "bot_add_args D"
  "\<lambda>k. bot_remove D (JStr k)" new_bot bots_ok
  "\<lambda>k. bot_set_mqtt D (JStr k)" put_mqtt "\<lambda>r. bot_mqtt_connection r = JBool True"
  by unfold_locales
    (simp_all add: bot_set_mqtt_def bots_ok_set bot_get_set [OF _ bot_from_dict_set(1)] put_mqtt_def)

sublocale tinydb \<subseteq> bots_xmpp: flag_repo "\<lambda>k. bot_get D (JStr k)" "bot_add_args D"
  "\<lambda>k. bot_remove D (JStr k)" new_bot bots_ok
  "\<lambda>k. bot_set_xmpp D (JStr k)" put_xmpp "\<lambda>r. bot_xmpp_connection r = JBool True"
  by unfold_locales
    (simp_all add: bot_set_xmpp_def bots_ok_set bot_get_set [OF _ bot_from_dict_set(2)] put_xmpp_def)

sublocale tinydb \<subseteq> bots_nick: flag_repo "\<lambda>k. bot_get D (JStr k)" "bot_add_args D"
  "\<lambda>k. bot_remove D (JStr k)" new_bot bots_ok
  "\<lambda>k. bot_set_nick D (JStr k)" put_nick bot_nick
  by unfold_locales
    (simp_all add: bot_set_nick_def bots_ok_set bot_get_set [OF _ bot_from_dict_set(3)] put_nick_def)

section \<open>Start-up and unknown devices\<close>

text \<open>The device ids of the table are strings, or missing.\<close>

definition str_or_missing :: "string \<Rightarrow> table \<Rightarrow> bool" where
  "str_or_missing f t = list_all (\<lambda>r. case map_of (snd r) f of None \<Rightarrow> True
     | Some (JStr _) \<Rightarrow> True | _ \<Rightarrow> False) t"

lemma str_or_missing_Cons:
  "str_or_missing f (r # t) \<Longrightarrow> dget (snd r) f = (case key_of f (snd r) of None \<Rightarrow> JNull | Some k \<Rightarrow> JStr k)"
  by (auto simp: str_or_missing_def dget_def dget_or_def key_of_def split: option.splits json.splits)

context tinydb
begin

abbreviation reset_bot :: "json \<Rightarrow> db \<Rightarrow> db" where
  "reset_bot did db \<equiv> bot_set_xmpp D did False (bot_set_mqtt D did False db)"

lemma reset_bot_get:
  assumes "bots_ok db"
  shows "bot_get D (JStr k') (reset_bot (JStr k) db) =
    (if k' = k then map_option (put_xmpp False \<circ> put_mqtt False) (bot_get D (JStr k) db)
     else bot_get D (JStr k') db)"
  using assms by (simp add: bots_mqtt.get_set bots_xmpp.get_set bots_mqtt.inv_set option.map_comp)

lemma reset_bot_None: "reset_bot JNull db = db"
  by (simp add: bot_set_mqtt_def bot_set_xmpp_def bot_set_field_def)

lemma put_off_twice [simp]:
  "put_xmpp False (put_mqtt False (put_xmpp False (put_mqtt False b))) = put_xmpp False (put_mqtt False b)"
  by (simp add: put_xmpp_def put_mqtt_def)

lemma reset_rows_get:
  "bots_ok db \<Longrightarrow> str_or_missing ''did'' rs \<Longrightarrow>
   bots_ok (fold (\<lambda>r. reset_bot (dget (snd r) ''did'')) rs db) \<and>
   bot_get D (JStr k) (fold (\<lambda>r. reset_bot (dget (snd r) ''did'')) rs db) =
    (if k \<in> set (str_keys ''did'' rs) then map_option (put_xmpp False \<circ> put_mqtt False) (bot_get D (JStr k) db)
     else bot_get D (JStr k) db)"
proof (induction rs arbitrary: db)
  case Nil
  then show ?case by simp
next
  case (Cons r rs)
  then have rs: "str_or_missing ''did'' rs" by (simp add: str_or_missing_def)
  show ?case
  proof (cases "key_of ''did'' (snd r)")
    case None
    then show ?thesis
      using Cons.IH [OF Cons.prems(1) rs] str_or_missing_Cons [OF Cons.prems(2)] by (simp add: reset_bot_None)
  next
    case (Some k')
    then have d: "dget (snd r) ''did'' = JStr k'" using str_or_missing_Cons [OF Cons.prems(2)] by simp
    have ok: "bots_ok (reset_bot (JStr k') db)"
      using Cons.prems(1) by (simp add: bots_mqtt.inv_set bots_xmpp.inv_set)
    show ?thesis
      using Cons.IH [OF ok rs] reset_bot_get [OF Cons.prems(1), of k k'] Some
      by (auto simp: d option.map_comp comp_def)
  qed
qed

lemma bot_reset_get:
  assumes "bots_ok db" "str_or_missing ''did'' (db ''bots'')"
  shows "bot_get D (JStr k) (bot_reset_all_connections D db) =
    map_option (put_xmpp False \<circ> put_mqtt False) (bot_get D (JStr k) db)"
proof (cases "lookup ''did'' k (db ''bots'')")
  case None
  then have "k \<notin> set (str_keys ''did'' (db ''bots''))" "bot_get D (JStr k) db = None"
    by (simp_all add: lookup_None bot_get_lookup)
  then show ?thesis
    using reset_rows_get [OF assms, of k] by (simp add: bot_reset_all_connections_def Let_def)
next
  case (Some r)
  then have "k \<in> set (str_keys ''did'' (db ''bots''))" by (metis lookup_None option.distinct(1))
  then show ?thesis
    using reset_rows_get [OF assms, of k] by (simp add: bot_reset_all_connections_def Let_def)
qed

text \<open>A field set for a device that is not in the table becomes a row of its own, without a
  device id.\<close>

lemma set_field_unknown:
  assumes "lookup ''did'' k (db ''bots'') = None"
  shows "bot_list_all D (bot_set_field D (JStr k) f v db) = bot_list_all D db @ [bot_from_dict [(f, v)]]"
  using assms by (simp add: bot_list_all_def bot_set_rows)

end

end
