(* ===== verification/Client_Repo.thy ===== *)
theory Client_Repo
  imports Bot_Repo
begin

text \<open>
  The repository of clients (src/bumper/db/clients.py), on the table \<open>clients\<close>, keyed by
  the user id; the same two contracts as for bots.
\<close>

abbreviation TABLE_CLIENTS :: string where "TABLE_CLIENTS \<equiv> ''clients''"

definition client_add :: "store_ops \<Rightarrow> json \<Rightarrow> json \<Rightarrow> json \<Rightarrow> json \<Rightarrow> db \<Rightarrow> db" where
  "client_add D name user_id realm resource db =
     (let q = QEq ''userid'' user_id in
      if no_doc (repo_get D TABLE_CLIENTS q db) then
        let client = VacBotClient (py_or name (JStr [])) user_id realm resource
        in fst (repo_upsert D TABLE_CLIENTS (Some (client_as_dict client)) q db)
      else db)"

definition client_get :: "store_ops \<Rightarrow> json \<Rightarrow> db \<Rightarrow> vac_client option" where
  "client_get D user_id db =
     map_option (\<lambda>r. client_from_dict (snd r)) (repo_get D TABLE_CLIENTS (QEq ''userid'' user_id) db)"

definition client_list_all :: "store_ops \<Rightarrow> db \<Rightarrow> vac_client list" where
  "client_list_all D db = map (\<lambda>r. client_from_dict (snd r)) (tdb_all D (db TABLE_CLIENTS))"

definition client_remove :: "store_ops \<Rightarrow> json \<Rightarrow> db \<Rightarrow> db" where
  "client_remove D user_id db = repo_remove D TABLE_CLIENTS (QEq ''userid'' user_id) db"

definition client_set_mqtt :: "store_ops \<Rightarrow> json \<Rightarrow> bool \<Rightarrow> db \<Rightarrow> db" where
  "client_set_mqtt D user_id mqtt db =
     fst (repo_upsert D TABLE_CLIENTS (Some [(''mqtt_connection'', JBool mqtt)]) (QEq ''userid'' user_id) db)"

definition client_set_xmpp :: "store_ops \<Rightarrow> json \<Rightarrow> bool \<Rightarrow> db \<Rightarrow> db" where
  "client_set_xmpp D user_id xmpp db =
     fst (repo_upsert D TABLE_CLIENTS (Some [(''xmpp_connection'', JBool xmpp)]) (QEq ''userid'' user_id) db)"

definition client_reset_all_connections :: "store_ops \<Rightarrow> db \<Rightarrow> db" where
  "client_reset_all_connections D db =
     fold (\<lambda>r db. let user = dget (snd r) ''userid''
                  in client_set_xmpp D user False (client_set_mqtt D user False db))
       (tdb_all D (db TABLE_CLIENTS)) db"

section \<open>The contract\<close>

fun new_client :: "string \<Rightarrow> json \<times> json \<times> json \<Rightarrow> vac_client" where
  "new_client user_id (name, realm, resource) =
     VacBotClient (py_or name (JStr [])) (JStr user_id) realm resource"

definition client_add_args :: "store_ops \<Rightarrow> string \<Rightarrow> json \<times> json \<times> json \<Rightarrow> db \<Rightarrow> db" where
  "client_add_args D user_id a db =
     (case a of (name, realm, resource) \<Rightarrow> client_add D name (JStr user_id) realm resource db)"

definition clients_ok :: "db \<Rightarrow> bool" where
  "clients_ok db = unique_key ''userid'' (db TABLE_CLIENTS)"

lemma key_of_client [simp]: "key_of ''userid'' (client_as_dict (new_client k a)) = Some k"
  by (cases a) (simp add: client_as_dict_def VacBotClient_def)

definition put_client_mqtt :: "bool \<Rightarrow> vac_client \<Rightarrow> vac_client" where
  "put_client_mqtt b r = r\<lparr>cl_mqtt_connection := JBool b\<rparr>"

definition put_client_xmpp :: "bool \<Rightarrow> vac_client \<Rightarrow> vac_client" where
  "put_client_xmpp b r = r\<lparr>cl_xmpp_connection := JBool b\<rparr>"

lemma client_from_dict_set:
  "client_from_dict (dset d ''mqtt_connection'' (JBool b)) = put_client_mqtt b (client_from_dict d)"
  "client_from_dict (dset d ''xmpp_connection'' (JBool b)) = put_client_xmpp b (client_from_dict d)"
  by (simp_all add: client_from_dict_def Let_def put_client_mqtt_def put_client_xmpp_def VacBotClient_def)

context tinydb
begin

lemma client_get_lookup:
  "client_get D (JStr k) db = map_option (\<lambda>r. client_from_dict (snd r)) (lookup ''userid'' k (db ''clients''))"
  by (simp add: client_get_def)

lemma client_add_rows:
  "client_add_args D k a db =
    (if lookup ''userid'' k (db ''clients'') = None
     then db(''clients'' := db ''clients'' @ [(tdb_fresh D (db ''clients''), client_as_dict (new_client k a))])
     else db)"
  by (cases a) (simp add: client_add_args_def client_add_def Let_def upsert_key_absent)

text \<open>One update of a field that is not the key.\<close>

lemma client_upsert_rows:
  "fst (repo_upsert D ''clients'' (Some [(f, v)]) (QEq ''userid'' (JStr k)) db) =
    db(''clients'' := (if lookup ''userid'' k (db ''clients'') = None
        then db ''clients'' @ [(tdb_fresh D (db ''clients''), [(f, v)])]
        else rows_update [(f, v)] (QEq ''userid'' (JStr k)) (db ''clients'')))"
  by (simp add: upsert_key_absent upsert_key_present)

lemma clients_ok_set:
  "f \<noteq> ''userid'' \<Longrightarrow> clients_ok db \<Longrightarrow>
   clients_ok (fst (repo_upsert D ''clients'' (Some [(f, v)]) (QEq ''userid'' (JStr k)) db))"
  by (auto simp: clients_ok_def client_upsert_rows intro!: unique_snoc fresh_id split: if_splits)

lemma client_get_set:
  assumes "f \<noteq> ''userid''" "\<And>d. client_from_dict (dset d f v) = p (client_from_dict d)"
  shows "client_get D (JStr k') (fst (repo_upsert D ''clients'' (Some [(f, v)]) (QEq ''userid'' (JStr k)) db)) =
    (if k' = k then map_option p (client_get D (JStr k) db) else client_get D (JStr k') db)"
  using assms
  by (auto simp: client_get_lookup client_upsert_rows lookup_append lookup_update option.map_comp comp_def
      intro!: option.map_cong split: option.splits)

end

sublocale tinydb \<subseteq> clients: record_repo "\<lambda>k. client_get D (JStr k)" "client_add_args D"
  "\<lambda>k. client_remove D (JStr k)" new_client clients_ok
proof unfold_locales
  fix db :: db and k k' :: string and a
  show "clients_ok (client_add_args D k a db)" if "clients_ok db"
    using that by (auto simp: clients_ok_def client_add_rows intro!: unique_snoc fresh_id)
  show "clients_ok (client_remove D (JStr k) db)" if "clients_ok db"
    using that by (auto simp: clients_ok_def client_remove_def repo_remove_key split: option.splits)
  show "client_get D (JStr k') (client_add_args D k a db) =
      (if k' = k \<and> client_get D (JStr k) db = None then Some (new_client k a) else client_get D (JStr k') db)"
    if "clients_ok db"
    by (auto simp: client_get_lookup client_add_rows lookup_append client_round_trip split: option.splits)
  show "client_get D (JStr k') (client_remove D (JStr k) db) =
      (if k' = k then None else client_get D (JStr k') db)" if "clients_ok db"
    using that lookup_remove_id [of "''userid''" "db ''clients''" k]
    by (auto simp: clients_ok_def client_get_lookup client_remove_def repo_remove_key split: option.splits)
qed

sublocale tinydb \<subseteq> clients_mqtt: flag_repo "\<lambda>k. client_get D (JStr k)" "client_add_args D"
  "\<lambda>k. client_remove D (JStr k)" new_client clients_ok
  "\<lambda>k. client_set_mqtt D (JStr k)" put_client_mqtt "\<lambda>r. cl_mqtt_connection r = JBool True"
  by unfold_locales
    (simp_all add: client_set_mqtt_def clients_ok_set client_get_set [OF _ client_from_dict_set(1)] put_client_mqtt_def)

sublocale tinydb \<subseteq> clients_xmpp: flag_repo "\<lambda>k. client_get D (JStr k)" "client_add_args D"
  "\<lambda>k. client_remove D (JStr k)" new_client clients_ok
  "\<lambda>k. client_set_xmpp D (JStr k)" put_client_xmpp "\<lambda>r. cl_xmpp_connection r = JBool True"
  by unfold_locales
    (simp_all add: client_set_xmpp_def clients_ok_set client_get_set [OF _ client_from_dict_set(2)] put_client_xmpp_def)

end
