(* ===== verification/User_Repo.thy ===== *)
theory User_Repo
  imports Client_Repo
begin

text \<open>
  The repository of users (src/bumper/db/users.py), on the table \<open>users\<close>, keyed by the user
  id. A user owns three lists (homes, devices, bots), written through \<open>update_list_field\<close>,
  which raises where a stored list is not iterable: the operations are programs. On a
  well-formed table they never raise and act on the lists as on ordered sets.
\<close>

abbreviation TABLE_USERS :: string where "TABLE_USERS \<equiv> ''users''"

definition user_get_by_id :: "store_ops \<Rightarrow> config \<Rightarrow> json \<Rightarrow> db \<Rightarrow> bumper_user option" where
  "user_get_by_id D cfg user_id db =
     map_option (\<lambda>r. user_from_dict cfg (snd r)) (repo_get D TABLE_USERS (QEq ''userid'' user_id) db)"

definition user_get_by_device_id :: "store_ops \<Rightarrow> config \<Rightarrow> json \<Rightarrow> db \<Rightarrow> bumper_user option" where
  "user_get_by_device_id D cfg device_id db =
     map_option (\<lambda>r. user_from_dict cfg (snd r)) (repo_get D TABLE_USERS (QAny ''devices'' [device_id]) db)"

definition user_get_by_home_id :: "store_ops \<Rightarrow> config \<Rightarrow> json \<Rightarrow> db \<Rightarrow> bumper_user option" where
  "user_get_by_home_id D cfg home_id db =
     map_option (\<lambda>r. user_from_dict cfg (snd r)) (repo_get D TABLE_USERS (QAny ''homeids'' [home_id]) db)"

definition user_list_all :: "store_ops \<Rightarrow> config \<Rightarrow> db \<Rightarrow> bumper_user list" where
  "user_list_all D cfg db = map (\<lambda>r. user_from_dict cfg (snd r)) (tdb_all D (db TABLE_USERS))"

definition user_remove :: "store_ops \<Rightarrow> json \<Rightarrow> db \<Rightarrow> db" where
  "user_remove D user_id db = repo_remove D TABLE_USERS (QEq ''userid'' user_id) db"

definition user_list_op :: "store_ops \<Rightarrow> json \<Rightarrow> string \<Rightarrow> json \<Rightarrow> bool \<Rightarrow> (db, unit) py" where
  "user_list_op D user_id field value add =
     py_bind (update_list_field D TABLE_USERS (QEq ''userid'' user_id) field value add) (\<lambda>_. py_ret ())"

definition user_add_device :: "store_ops \<Rightarrow> json \<Rightarrow> json \<Rightarrow> (db, unit) py" where
  "user_add_device D user_id did = user_list_op D user_id ''devices'' did True"

definition user_remove_device :: "store_ops \<Rightarrow> json \<Rightarrow> json \<Rightarrow> (db, unit) py" where
  "user_remove_device D user_id did = user_list_op D user_id ''devices'' did False"

definition user_add_bot :: "store_ops \<Rightarrow> json \<Rightarrow> json \<Rightarrow> (db, unit) py" where
  "user_add_bot D user_id did = user_list_op D user_id ''bots'' did True"

definition user_remove_bot :: "store_ops \<Rightarrow> json \<Rightarrow> json \<Rightarrow> (db, unit) py" where
  "user_remove_bot D user_id did = user_list_op D user_id ''bots'' did False"

definition user_add_home_id :: "store_ops \<Rightarrow> json \<Rightarrow> json \<Rightarrow> (db, unit) py" where
  "user_add_home_id D user_id did = user_list_op D user_id ''homeids'' did True"

definition user_remove_home_id :: "store_ops \<Rightarrow> json \<Rightarrow> json \<Rightarrow> (db, unit) py" where
  "user_remove_home_id D user_id did = user_list_op D user_id ''homeids'' did False"

definition user_add :: "store_ops \<Rightarrow> config \<Rightarrow> json \<Rightarrow> (db, unit) py" where
  "user_add D cfg user_id db =
     (if user_get_by_id D cfg user_id db = None then
        let user = BumperUser cfg user_id;
            (db', ids) = repo_upsert D TABLE_USERS (Some (user_as_dict user)) (QEq ''userid'' user_id) db
        in if length ids > 0 then user_add_home_id D (usr_userid user) (JStr (HOME_ID cfg)) db'
           else (Inr (), db')
      else (Inr (), db))"

lemmas user_list_defs [repo_defs] = user_add_device_def user_remove_device_def user_add_bot_def
  user_remove_bot_def user_add_home_id_def user_remove_home_id_def

section \<open>Well-formed user tables\<close>

definition list_field :: "string \<Rightarrow> doc \<Rightarrow> json list option" where
  "list_field f d = (case map_of d f of Some (JList xs) \<Rightarrow> Some xs | _ \<Rightarrow> None)"

definition user_doc :: "doc \<Rightarrow> bool" where
  "user_doc d \<longleftrightarrow> key_of ''userid'' d \<noteq> None \<and>
     list_all (\<lambda>f. list_field f d \<noteq> None) [''homeids'', ''devices'', ''bots'']"

definition users_ok :: "db \<Rightarrow> bool" where
  "users_ok db \<longleftrightarrow> unique_key ''userid'' (db TABLE_USERS) \<and> list_all (\<lambda>r. user_doc (snd r)) (db TABLE_USERS)"

definition list_fields :: "string list" where
  "list_fields = [''homeids'', ''devices'', ''bots'']"

text \<open>What adding or removing does to a list.\<close>

definition list_upd :: "bool \<Rightarrow> json \<Rightarrow> json list \<Rightarrow> json list" where
  "list_upd add v xs =
     (if add \<and> \<not> py_in v xs then xs @ [v] else if \<not> add \<and> py_in v xs then py_remove v xs else xs)"

lemma list_upd_add_set: "set (list_upd True (JStr s) xs) = insert (JStr s) (set xs)"
  by (auto simp: list_upd_def)

lemma list_upd_add_distinct: "distinct xs \<Longrightarrow> distinct (list_upd True (JStr s) xs)"
  by (auto simp: list_upd_def)

lemma list_upd_add_idem: "list_upd True (JStr s) (list_upd True (JStr s) xs) = list_upd True (JStr s) xs"
  by (auto simp: list_upd_def)

lemma list_upd_remove: "list_upd False (JStr s) xs = remove1 (JStr s) xs"
  by (auto simp: list_upd_def py_remove_JStr remove1_idem)

text \<open>The three lists of a user object.\<close>

definition user_field :: "string \<Rightarrow> bumper_user \<Rightarrow> json" where
  "user_field f u = (if f = ''homeids'' then usr_homeids u else if f = ''devices'' then usr_devices u else usr_bots u)"

definition user_put :: "string \<Rightarrow> json \<Rightarrow> bumper_user \<Rightarrow> bumper_user" where
  "user_put f v u =
     (if f = ''homeids'' then u\<lparr>usr_homeids := v\<rparr>
      else if f = ''devices'' then u\<lparr>usr_devices := v\<rparr> else u\<lparr>usr_bots := v\<rparr>)"

lemma user_from_dict_set:
  "f \<in> set list_fields \<Longrightarrow> user_from_dict cfg (dset d f v) = user_put f v (user_from_dict cfg d)"
  by (auto simp: list_fields_def user_from_dict_def user_put_def BumperUser_def)

lemma user_field_doc:
  "f \<in> set list_fields \<Longrightarrow> list_field f d = Some xs \<Longrightarrow> user_field f (user_from_dict cfg d) = JList xs"
  by (auto simp: list_fields_def user_field_def user_from_dict_def list_field_def dget_or_def BumperUser_def
      split: option.splits json.splits)

lemma user_doc_field: "user_doc d \<Longrightarrow> f \<in> set list_fields \<Longrightarrow> \<exists>xs. list_field f d = Some xs"
  by (auto simp: user_doc_def list_fields_def)

lemma user_doc_set: "user_doc d \<Longrightarrow> f \<in> set list_fields \<Longrightarrow> user_doc (dset d f (JList xs))"
  by (auto simp: user_doc_def list_fields_def list_field_def key_of_def)

lemma py_list_field: "list_field f d = Some xs \<Longrightarrow> py_list (dget_or d f (JList [])) = Inr xs"
  by (auto simp: list_field_def dget_or_def split: option.splits json.splits)

lemma list_fields_not_key: "f \<in> set list_fields \<Longrightarrow> f \<noteq> ''userid''"
  by (auto simp: list_fields_def)

lemma qmatch_any_str:
  "list_field f d = Some xs \<Longrightarrow> qmatch (QAny f [JStr s]) d \<longleftrightarrow> JStr s \<in> set xs"
  by (auto simp: list_field_def py_in_def list_ex_iff split: option.splits json.splits)

lemma users_ok_row: "users_ok db \<Longrightarrow> r \<in> set (db ''users'') \<Longrightarrow> user_doc (snd r)"
  by (auto simp: users_ok_def list_all_iff)

lemma user_new_doc: "user_doc (user_as_dict (BumperUser cfg (JStr k)))"
  by (simp add: user_doc_def user_as_dict_def BumperUser_def list_field_def)

context tinydb
begin

lemma user_get_lookup:
  "user_get_by_id D cfg (JStr k) db = map_option (\<lambda>r. user_from_dict cfg (snd r)) (lookup ''userid'' k (db ''users''))"
  by (simp add: user_get_by_id_def)

lemma update_list_unknown:
  "lookup f k (db tn) = None \<Longrightarrow> update_list_field D tn (QEq f (JStr k)) field v add db = (Inr False, db)"
  by (simp add: update_list_field_def)

lemma update_list_known:
  assumes "lookup f k (db tn) = Some (i, d)" "list_field field d = Some xs"
  shows "update_list_field D tn (QEq f (JStr k)) field v add db =
    (Inr True, db(tn := rows_update [(field, JList (list_upd add v xs))] (QEq f (JStr k)) (db tn)))"
proof -
  have "filter (\<lambda>r. key_of f (snd r) = Some k) (db tn) \<noteq> []"
    using lookup_Some [OF assms(1)] by (force simp: filter_empty_conv)
  then show ?thesis
    using assms by (simp add: update_list_field_def py_list_field Let_def list_upd_def [symmetric]
      repo_upsert_rows rows_upsert_def)
qed

lemma user_list_op_ok:
  assumes ok: "users_ok db" and f: "field \<in> set list_fields"
  shows "\<exists>db'. user_list_op D (JStr k) field v add db = (Inr (), db') \<and> users_ok db' \<and>
    (\<forall>tn. tn \<noteq> ''users'' \<longrightarrow> db' tn = db tn) \<and>
    (\<forall>k'. user_get_by_id D cfg (JStr k') db' =
      (if k' = k then map_option (\<lambda>u. user_put field
           (case user_field field u of JList xs \<Rightarrow> JList (list_upd add v xs) | w \<Rightarrow> w) u)
           (user_get_by_id D cfg (JStr k) db)
       else user_get_by_id D cfg (JStr k') db))"
proof (cases "lookup ''userid'' k (db ''users'')")
  case None
  then show ?thesis
    using ok by (auto simp: user_list_op_def update_list_unknown py_run user_get_lookup)
next
  case (Some r)
  obtain i d where r: "r = (i, d)" by force
  have "user_doc d" using users_ok_row [OF ok] lookup_Some [OF Some] r by force
  then obtain xs where xs: "list_field field d = Some xs" using user_doc_field f by blast
  let ?e = "[(field, JList (list_upd add v xs))]"
  let ?db = "db(''users'' := rows_update ?e (QEq ''userid'' (JStr k)) (db ''users''))"
  have nf: "''userid'' \<notin> fst ` set ?e" using list_fields_not_key [OF f] by simp
  have run: "user_list_op D (JStr k) field v add db = (Inr (), ?db)"
    using update_list_known [where db = db and tn = "''users''", OF Some [unfolded r] xs] by (simp add: user_list_op_def py_run)
  have "users_ok ?db"
    using ok f nf by (auto simp: users_ok_def user_doc_set intro: rows_update_all)
  moreover have "user_get_by_id D cfg (JStr k') ?db =
      (if k' = k then map_option (\<lambda>u. user_put field
           (case user_field field u of JList xs \<Rightarrow> JList (list_upd add v xs) | w \<Rightarrow> w) u)
           (user_get_by_id D cfg (JStr k) db)
       else user_get_by_id D cfg (JStr k') db)" for k'
    using Some r f xs nf
    by (simp add: user_get_lookup lookup_update user_from_dict_set user_field_doc)
  ultimately show ?thesis using run by auto
qed

end

text \<open>A new user has the default home.\<close>

definition new_user :: "config \<Rightarrow> string \<Rightarrow> unit \<Rightarrow> bumper_user" where
  "new_user cfg k a = (BumperUser cfg (JStr k))\<lparr>usr_homeids := JList [JStr (HOME_ID cfg)]\<rparr>"

definition user_add_args :: "store_ops \<Rightarrow> config \<Rightarrow> string \<Rightarrow> unit \<Rightarrow> db \<Rightarrow> db" where
  "user_add_args D cfg k a db = snd (user_add D cfg (JStr k) db)"

context tinydb
begin

lemma user_add_existing:
  "user_get_by_id D cfg (JStr k) db \<noteq> None \<Longrightarrow> user_add D cfg (JStr k) db = (Inr (), db)"
  by (cases "user_get_by_id D cfg (JStr k) db") (simp_all add: user_add_def)

lemma user_add_new:
  assumes ok: "users_ok db" and new: "user_get_by_id D cfg (JStr k) db = None"
  shows "\<exists>db'. user_add D cfg (JStr k) db = (Inr (), db') \<and> users_ok db' \<and>
    (\<forall>tn. tn \<noteq> ''users'' \<longrightarrow> db' tn = db tn) \<and>
    (\<forall>k'. user_get_by_id D cfg (JStr k') db' =
      (if k' = k then Some (new_user cfg k ()) else user_get_by_id D cfg (JStr k') db))"
proof -
  let ?t = "db ''users''"
  let ?doc = "user_as_dict (BumperUser cfg (JStr k))"
  let ?db = "db(''users'' := ?t @ [(tdb_fresh D ?t, ?doc)])"
  have none: "lookup ''userid'' k ?t = None" using new by (simp add: user_get_lookup)
  have key: "key_of ''userid'' ?doc = Some k" by (simp add: user_as_dict_def BumperUser_def)
  have up: "repo_upsert D ''users'' (Some ?doc) (QEq ''userid'' (JStr k)) db = (?db, [tdb_fresh D ?t])"
    using none by (simp add: repo_upsert_rows rows_upsert_def)
  have ok': "users_ok ?db"
    using ok none key user_new_doc by (auto simp: users_ok_def intro!: unique_snoc fresh_id)
  have get: "user_get_by_id D cfg (JStr k') ?db =
      (if k' = k then Some (BumperUser cfg (JStr k)) else user_get_by_id D cfg (JStr k') db)" for k'
    using none key by (auto simp: user_get_lookup lookup_append user_round_trip split: option.splits)
  have uid: "usr_userid (BumperUser cfg (JStr k)) = JStr k" "usr_homeids (BumperUser cfg (JStr k)) = JList []"
    by (simp_all add: BumperUser_def)
  obtain db' where db': "user_list_op D (JStr k) ''homeids'' (JStr (HOME_ID cfg)) True ?db = (Inr (), db')"
    "users_ok db'" "\<forall>tn. tn \<noteq> ''users'' \<longrightarrow> db' tn = ?db tn"
    "\<And>k'. user_get_by_id D cfg (JStr k') db' =
      (if k' = k then map_option (\<lambda>u. user_put ''homeids''
         (case user_field ''homeids'' u of JList xs \<Rightarrow> JList (list_upd True (JStr (HOME_ID cfg)) xs) | w \<Rightarrow> w) u)
         (user_get_by_id D cfg (JStr k) ?db) else user_get_by_id D cfg (JStr k') ?db)"
    using user_list_op_ok [OF ok', of "''homeids''" k "JStr (HOME_ID cfg)" True cfg]
    by (auto simp: list_fields_def)
  have "user_add D cfg (JStr k) db = (Inr (), db')"
    using new up db'(1) uid by (simp add: user_add_def user_add_home_id_def)
  then show ?thesis
    using db' get by (auto simp: new_user_def user_put_def user_field_def uid list_upd_def py_in_def)
qed

end

sublocale tinydb \<subseteq> users: record_repo "\<lambda>k. user_get_by_id D cfg (JStr k)" "user_add_args D cfg"
  "\<lambda>k. user_remove D (JStr k)" "new_user cfg" users_ok
  for cfg
proof unfold_locales
  fix db :: db and k k' :: string and a :: unit
  assume ok: "users_ok db"
  show "users_ok (user_add_args D cfg k a db)"
    using ok user_add_new [OF ok, of cfg k] user_add_existing [of cfg k db]
    by (cases "user_get_by_id D cfg (JStr k) db") (auto simp: user_add_args_def)
  show "user_get_by_id D cfg (JStr k') (user_add_args D cfg k a db) =
      (if k' = k \<and> user_get_by_id D cfg (JStr k) db = None then Some (new_user cfg k a)
       else user_get_by_id D cfg (JStr k') db)"
    using user_add_new [OF ok, of cfg k] user_add_existing [of cfg k db]
    by (cases "user_get_by_id D cfg (JStr k) db") (auto simp: user_add_args_def)
  show "users_ok (user_remove D (JStr k) db)"
    using ok by (auto simp: users_ok_def user_remove_def repo_remove_key list_all_iff split: option.splits)
  show "user_get_by_id D cfg (JStr k') (user_remove D (JStr k) db) =
      (if k' = k then None else user_get_by_id D cfg (JStr k') db)"
    using ok lookup_remove_id [of "''userid''" "db ''users''" k]
    by (auto simp: users_ok_def user_get_lookup user_remove_def repo_remove_key split: option.splits)
qed

context tinydb
begin

text \<open>The search by a device or a home: the first user whose list holds it.\<close>

lemma find_user_any:
  assumes "users_ok db" "f \<in> set list_fields"
  shows "repo_get D ''users'' (QAny f [JStr s]) db =
    List.find (\<lambda>r. JStr s \<in> set (the (list_field f (snd r)))) (db ''users'')"
proof -
  have row: "rmatch (QAny f [JStr s]) r = (JStr s \<in> set (the (list_field f (snd r))))" if r: "r \<in> set (db ''users'')" for r
  proof -
    obtain xs where "list_field f (snd r) = Some xs"
      using user_doc_field [OF users_ok_row [of db r] assms(2)] assms(1) r by blast
    then show ?thesis by (simp add: qmatch_any_str del: qmatch.simps)
  qed
  have "repo_get D ''users'' (QAny f [JStr s]) db = List.find (rmatch (QAny f [JStr s])) (db ''users'')"
    by (simp add: repo_get_def del: qmatch.simps)
  also have "\<dots> = List.find (\<lambda>r. JStr s \<in> set (the (list_field f (snd r)))) (db ''users'')"
    by (rule find_cong_pred) (rule row)
  finally show ?thesis .
qed

lemma get_by_device_sound:
  assumes "users_ok db" "user_get_by_device_id D cfg (JStr s) db = Some u"
  shows "\<exists>xs. usr_devices u = JList xs \<and> JStr s \<in> set xs"
    and "\<exists>k. usr_userid u = JStr k \<and> user_get_by_id D cfg (JStr k) db = Some u"
proof -
  from assms obtain r where
    "List.find (\<lambda>r. JStr s \<in> set (the (list_field ''devices'' (snd r)))) (db ''users'') = Some r"
    and u: "u = user_from_dict cfg (snd r)"
    by (auto simp: user_get_by_device_id_def find_user_any list_fields_def)
  from find_SomeD [OF this(1)] u
  have r: "r \<in> set (db ''users'')" "JStr s \<in> set (the (list_field ''devices'' (snd r)))"
    "u = user_from_dict cfg (snd r)" by auto
  have doc: "user_doc (snd r)" using users_ok_row [OF assms(1) r(1)] .
  obtain xs where xs: "list_field ''devices'' (snd r) = Some xs"
    using user_doc_field [OF doc, of "''devices''"] by (auto simp: list_fields_def)
  have "usr_devices u = JList xs"
    using user_field_doc [OF _ xs] r(3) by (simp add: list_fields_def user_field_def)
  then show "\<exists>xs. usr_devices u = JList xs \<and> JStr s \<in> set xs" using r(2) xs by auto
  obtain k where k: "key_of ''userid'' (snd r) = Some k" using doc by (auto simp: user_doc_def)
  have "unique_key ''userid'' (db ''users'')" using assms(1) by (simp add: users_ok_def)
  from lookup_unique [OF this r(1) k] have "user_get_by_id D cfg (JStr k) db = Some u"
    by (simp add: user_get_lookup r(3))
  moreover have "usr_userid u = JStr k"
    using k by (simp add: r(3) user_from_dict_def BumperUser_def dget_or_def key_of_def
      split: option.splits json.splits)
  ultimately show "\<exists>k. usr_userid u = JStr k \<and> user_get_by_id D cfg (JStr k) db = Some u" by blast
qed

lemma get_by_device_complete:
  assumes "users_ok db" "user_get_by_id D cfg (JStr k) db = Some u" "usr_devices u = JList xs" "JStr s \<in> set xs"
  shows "user_get_by_device_id D cfg (JStr s) db \<noteq> None"
proof -
  from assms(2) obtain r where l: "lookup ''userid'' k (db ''users'') = Some r" "u = user_from_dict cfg (snd r)"
    by (auto simp: user_get_lookup)
  have r: "r \<in> set (db ''users'')" using lookup_Some [OF l(1)] by simp
  obtain ys where ys: "list_field ''devices'' (snd r) = Some ys"
    using user_doc_field [OF users_ok_row [OF assms(1) r], of "''devices''"] by (auto simp: list_fields_def)
  have "ys = xs"
    using user_field_doc [OF _ ys, of cfg] assms(3) l(2) by (simp add: list_fields_def user_field_def)
  with ys assms(4) have "JStr s \<in> set (the (list_field ''devices'' (snd r)))" by simp
  with r have "List.find (\<lambda>r. JStr s \<in> set (the (list_field ''devices'' (snd r)))) (db ''users'') \<noteq> None"
    unfolding find_None_iff by blast
  with assms(1) show ?thesis by (simp add: user_get_by_device_id_def find_user_any list_fields_def)
qed

lemma add_device_found:
  assumes "users_ok db" "user_get_by_id D cfg (JStr k) db \<noteq> None"
  shows "\<exists>db'. user_add_device D (JStr k) (JStr s) db = (Inr (), db') \<and> users_ok db' \<and>
    user_get_by_device_id D cfg (JStr s) db' \<noteq> None"
proof -
  obtain db' where db': "user_list_op D (JStr k) ''devices'' (JStr s) True db = (Inr (), db')" "users_ok db'"
    "user_get_by_id D cfg (JStr k) db' = map_option (\<lambda>u. user_put ''devices''
         (case user_field ''devices'' u of JList xs \<Rightarrow> JList (list_upd True (JStr s) xs) | w \<Rightarrow> w) u)
         (user_get_by_id D cfg (JStr k) db)"
    using user_list_op_ok [OF assms(1), of "''devices''" k "JStr s" True cfg] by (auto simp: list_fields_def)
  obtain r where l: "lookup ''userid'' k (db ''users'') = Some r" using assms(2) by (auto simp: user_get_lookup)
  have "r \<in> set (db ''users'')" using lookup_Some [OF l] by simp
  then obtain ys where ys: "list_field ''devices'' (snd r) = Some ys"
    using user_doc_field [OF users_ok_row [OF assms(1)], of r "''devices''"] by (auto simp: list_fields_def)
  have f: "user_field ''devices'' (user_from_dict cfg (snd r)) = JList ys"
    using user_field_doc [OF _ ys] by (simp add: list_fields_def)
  have "user_get_by_id D cfg (JStr k) db' =
      Some (user_put ''devices'' (JList (list_upd True (JStr s) ys)) (user_from_dict cfg (snd r)))"
    using db'(3) l f by (simp add: user_get_lookup)
  from get_by_device_complete [OF db'(2) this, of "list_upd True (JStr s) ys" s]
  have "user_get_by_device_id D cfg (JStr s) db' \<noteq> None"
    by (simp add: user_put_def list_upd_add_set)
  with db' show ?thesis by (auto simp: user_add_device_def)
qed

end

end
