(* ===== verification/Token_Repo.thy ===== *)
theory Token_Repo
  imports User_Repo
begin

text \<open>
  The repository of login tokens (src/bumper/db/tokens.py), on the table \<open>tokens\<close>, keyed by
  user and token string. The clock is an argument: \<open>now\<close> is the current time in the local
  time zone, \<open>tz\<close> gives the zone's offset at a wall-clock time. Expiry is decided in two
  ways: \<open>token_verify\<close> compares instants, the revocations compare the stored ISO text with
  the ISO text of the current time.
\<close>

abbreviation TABLE_TOKENS :: string where "TABLE_TOKENS \<equiv> ''tokens''"

section \<open>Operations\<close>

abbreviation q_token :: "json \<Rightarrow> json \<Rightarrow> query" where
  "q_token userid tok \<equiv> QAnd (QEq ''userid'' userid) (QEq ''token'' tok)"

definition token_add :: "store_ops \<Rightarrow> config \<Rightarrow> (datetime \<Rightarrow> int) \<Rightarrow> datetime \<Rightarrow> json \<Rightarrow> json \<Rightarrow> db \<Rightarrow> db" where
  "token_add D cfg tz now userid token_str db =
     (let expiration = dt_add tz (TOKEN_VALIDITY_SECONDS cfg) now;
          tok = Token userid token_str expiration
      in if \<not> tdb_contains D (db TABLE_TOKENS) (q_token userid token_str)
         then db(TABLE_TOKENS := fst (tdb_insert D (db TABLE_TOKENS) (token_to_db tok)))
         else db)"

text \<open>\<open>Token.from_dict(rec) if rec is a document else None\<close>.\<close>

definition token_of_row :: "row option \<Rightarrow> py_exc + token option" where
  "token_of_row r =
     (case r of None \<Rightarrow> Inr None
      | Some (i, d) \<Rightarrow> (case token_from_dict d of Inl e \<Rightarrow> Inl e | Inr t \<Rightarrow> Inr (Some t)))"

definition token_get :: "store_ops \<Rightarrow> json \<Rightarrow> json \<Rightarrow> db \<Rightarrow> py_exc + token option" where
  "token_get D user_id token_str db = token_of_row (repo_get D TABLE_TOKENS (q_token user_id token_str) db)"

definition token_get_first :: "store_ops \<Rightarrow> json \<Rightarrow> db \<Rightarrow> py_exc + token option" where
  "token_get_first D user_id db = token_of_row (repo_get_first D TABLE_TOKENS (QEq ''userid'' user_id) db)"

fun tokens_of_rows :: "row list \<Rightarrow> py_exc + token list" where
  "tokens_of_rows [] = Inr []"
| "tokens_of_rows (r # rs) =
     (case token_from_dict (snd r) of Inl e \<Rightarrow> Inl e
      | Inr t \<Rightarrow> (case tokens_of_rows rs of Inl e \<Rightarrow> Inl e | Inr ts \<Rightarrow> Inr (t # ts)))"

definition token_list_for_user :: "store_ops \<Rightarrow> json \<Rightarrow> db \<Rightarrow> py_exc + token list" where
  "token_list_for_user D user_id db = tokens_of_rows (repo_get_multi D TABLE_TOKENS (QEq ''userid'' user_id) db)"

definition token_verify :: "store_ops \<Rightarrow> datetime \<Rightarrow> json \<Rightarrow> json \<Rightarrow> db \<Rightarrow> py_exc + bool" where
  "token_verify D now user_id token_str db =
     (case token_get D user_id token_str db of
        Inl e \<Rightarrow> Inl e
      | Inr None \<Rightarrow> Inr False
      | Inr (Some t) \<Rightarrow> Inr (instant (tok_expiration t) > instant now))"

definition token_set_code :: "store_ops \<Rightarrow> string \<Rightarrow> json \<Rightarrow> json \<Rightarrow> db \<Rightarrow> bool \<times> db" where
  "token_set_code D field user_id code db =
     (if \<not> no_doc (repo_get_first D TABLE_TOKENS (QEq ''userid'' user_id) db) then
        (case repo_upsert D TABLE_TOKENS (Some [(field, code)]) (QEq ''userid'' user_id) db of
           (db', ids) \<Rightarrow> (length ids > 0, db'))
      else (False, db))"

definition token_add_auth_code :: "store_ops \<Rightarrow> json \<Rightarrow> json \<Rightarrow> db \<Rightarrow> bool \<times> db" where
  "token_add_auth_code D user_id auth_code db = token_set_code D ''auth_code'' user_id auth_code db"

definition token_add_it_token :: "store_ops \<Rightarrow> json \<Rightarrow> json \<Rightarrow> db \<Rightarrow> bool \<times> db" where
  "token_add_it_token D user_id it_token db = token_set_code D ''it_token'' user_id it_token db"

definition token_get_by_auth_code :: "store_ops \<Rightarrow> json \<Rightarrow> db \<Rightarrow> py_exc + token option" where
  "token_get_by_auth_code D auth_code db =
     token_of_row (repo_get_first D TABLE_TOKENS (QEq ''auth_code'' auth_code) db)"

definition token_verify_it :: "store_ops \<Rightarrow> json \<Rightarrow> json \<Rightarrow> db \<Rightarrow> bool" where
  "token_verify_it D user_id it_token db =
     tdb_contains D (db TABLE_TOKENS) (QAnd (QEq ''userid'' user_id) (QEq ''it_token'' it_token))"

definition token_verify_auth_code :: "store_ops \<Rightarrow> json \<Rightarrow> json \<Rightarrow> db \<Rightarrow> bool" where
  "token_verify_auth_code D user_id auth_code db =
     tdb_contains D (db TABLE_TOKENS) (QAnd (QEq ''userid'' user_id) (QEq ''auth_code'' auth_code))"

definition token_login_by_it_token :: "store_ops \<Rightarrow> json \<Rightarrow> db \<Rightarrow> py_exc + token option" where
  "token_login_by_it_token D it_token db =
     token_of_row (repo_get_first D TABLE_TOKENS (QEq ''it_token'' it_token) db)"

definition remove_each :: "store_ops \<Rightarrow> row list \<Rightarrow> db \<Rightarrow> db" where
  "remove_each D rs db = fold (\<lambda>r db. db(TABLE_TOKENS := tdb_remove_ids D (db TABLE_TOKENS) [fst r])) rs db"

definition token_revoke_user_expired :: "store_ops \<Rightarrow> datetime \<Rightarrow> json \<Rightarrow> db \<Rightarrow> db" where
  "token_revoke_user_expired D now user_id db =
     (let now_iso = isoformat now;
          expired = repo_get_multi D TABLE_TOKENS
            (QAnd (QEq ''userid'' user_id) (QLt ''expiration'' (JStr now_iso))) db
      in remove_each D expired db)"

definition token_revoke_token :: "store_ops \<Rightarrow> json \<Rightarrow> json \<Rightarrow> db \<Rightarrow> db" where
  "token_revoke_token D user_id token_str db =
     db(TABLE_TOKENS := tdb_remove D (db TABLE_TOKENS) (q_token user_id token_str))"

definition token_revoke_expired :: "store_ops \<Rightarrow> datetime \<Rightarrow> db \<Rightarrow> db" where
  "token_revoke_expired D now db =
     (let now_iso = isoformat now;
          expired = repo_get_multi D TABLE_TOKENS (QLt ''expiration'' (JStr now_iso)) db
      in remove_each D expired db)"

definition token_revoke_all_for_user :: "store_ops \<Rightarrow> json \<Rightarrow> db \<Rightarrow> db" where
  "token_revoke_all_for_user D user_id db =
     (let recs = repo_get_multi D TABLE_TOKENS (QEq ''userid'' user_id) db
      in db(TABLE_TOKENS := tdb_remove_ids D (db TABLE_TOKENS) (map fst recs)))"

section \<open>Well-formed token tables\<close>

definition token_doc :: "doc \<Rightarrow> bool" where
  "token_doc d \<longleftrightarrow> key_of ''userid'' d \<noteq> None \<and> key_of ''token'' d \<noteq> None \<and>
     (case key_of ''expiration'' d of None \<Rightarrow> False
      | Some s \<Rightarrow> (case fromisoformat s of Inl _ \<Rightarrow> False | Inr t \<Rightarrow> isoformat t = s))"

definition expiry :: "doc \<Rightarrow> datetime" where
  "expiry d = (case fromisoformat (the (key_of ''expiration'' d)) of Inr t \<Rightarrow> t)"

definition token_pair :: "row \<Rightarrow> string option \<times> string option" where
  "token_pair r = (key_of ''userid'' (snd r), key_of ''token'' (snd r))"

definition tokens_ok :: "db \<Rightarrow> bool" where
  "tokens_ok db \<longleftrightarrow> ids_ok (db TABLE_TOKENS) \<and> distinct (map token_pair (db TABLE_TOKENS)) \<and>
     list_all (\<lambda>r. token_doc (snd r)) (db TABLE_TOKENS)"

lemma fromisoformat_valid: "fromisoformat s = Inr t \<Longrightarrow> valid_dt t"
  by (auto simp: fromisoformat_def split: option.splits if_splits)

lemma key_of_Some: "key_of f d = Some s \<longleftrightarrow> map_of d f = Some (JStr s)"
  by (auto simp: key_of_def split: option.splits json.splits)

lemma token_doc_expiry:
  assumes "token_doc d"
  shows "map_of d ''expiration'' = Some (JStr (isoformat (expiry d)))" "valid_dt (expiry d)"
proof -
  from assms obtain s t where s: "key_of ''expiration'' d = Some s" "fromisoformat s = Inr t" "isoformat t = s"
    by (auto simp: token_doc_def split: option.splits sum.splits)
  then have "expiry d = t" by (simp add: expiry_def)
  with s show "map_of d ''expiration'' = Some (JStr (isoformat (expiry d)))" "valid_dt (expiry d)"
    by (auto simp: key_of_Some intro: fromisoformat_valid)
qed

lemma token_doc_from_dict: "token_doc d \<Longrightarrow> \<exists>t. token_from_dict d = Inr t \<and> tok_expiration t = expiry d"
  using token_doc_expiry [of d]
  by (auto simp: token_from_dict_def dget_or_def fromisoformat_isoformat)

lemma token_to_db_doc:
  assumes "valid_dt (tok_expiration t)" "tok_userid t = JStr u" "tok_token t = JStr s"
  shows "token_doc (token_to_db t)" "expiry (token_to_db t) = tok_expiration t"
  using assms by (simp_all add: token_doc_def token_to_db_def expiry_def fromisoformat_isoformat)

lemma token_doc_set:
  "f \<notin> {''userid'', ''token'', ''expiration''} \<Longrightarrow> token_doc (dset d f v) = token_doc d"
  by (auto simp: token_doc_def)

lemma expiry_set: "f \<noteq> ''expiration'' \<Longrightarrow> expiry (dset d f v) = expiry d"
  by (simp add: expiry_def)

lemma tokens_ok_row: "tokens_ok db \<Longrightarrow> r \<in> set (db ''tokens'') \<Longrightarrow> token_doc (snd r)"
  by (auto simp: tokens_ok_def list_all_iff)

lemma tokens_ok_filter: "tokens_ok db \<Longrightarrow> tokens_ok (db(''tokens'' := filter P (db ''tokens'')))"
  by (auto simp: tokens_ok_def list_all_iff distinct_map_filter)

lemma token_pair_only:
  assumes "tokens_ok db" "r \<in> set (db ''tokens'')" "r' \<in> set (db ''tokens'')"
    "token_pair r = p" "token_pair r' = p"
  shows "r' = r"
proof -
  have "inj_on token_pair (set (db ''tokens''))" using assms(1) by (simp add: tokens_ok_def distinct_map)
  then show ?thesis using assms by (simp add: inj_on_def)
qed

lemma token_pair_update:
  "f \<notin> {''userid'', ''token''} \<Longrightarrow> map token_pair (rows_update [(f, v)] q t) = map token_pair t"
  by (induction t) (auto simp: token_pair_def key_of_def)

text \<open>The stored texts that sort before the current time are those of the past instants, as
  long as both carry the same offset.\<close>

lemma expired_text:
  assumes "token_doc d" "valid_dt now" "utcoff (expiry d) = utcoff now"
  shows "qmatch (QLt ''expiration'' (JStr (isoformat now))) d \<longleftrightarrow> instant (expiry d) < instant now"
  using token_doc_expiry [OF assms(1)] assms by (simp add: isoformat_less_instant)

lemma safe_expiration: "tokens_ok db \<Longrightarrow> q_safe (QLt ''expiration'' (JStr s)) (db ''tokens'')"
  using token_doc_expiry(1) tokens_ok_row by (intro q_safe_Lt_strings) blast

definition has_user :: "string \<Rightarrow> table \<Rightarrow> bool" where
  "has_user u t = list_ex (\<lambda>r. key_of ''userid'' (snd r) = Some u) t"

context tinydb
begin

lemma q_token_rows:
  "rmatch (q_token (JStr u) (JStr s)) r \<longleftrightarrow> token_pair r = (Some u, Some s)"
  by (simp add: token_pair_def)

lemma token_get_rows:
  "token_get D (JStr u) (JStr s) db =
    token_of_row (List.find (\<lambda>r. token_pair r = (Some u, Some s)) (db ''tokens''))"
  by (simp add: token_get_def repo_get_def q_token_rows [symmetric])

lemma remove_each_rows:
  "ids_ok (db ''tokens'') \<Longrightarrow> set rs \<subseteq> set (db ''tokens'') \<Longrightarrow> distinct rs \<Longrightarrow>
   remove_each D rs db = db(''tokens'' := filter (\<lambda>r. r \<notin> set rs) (db ''tokens''))"
proof (induction rs arbitrary: db)
  case Nil
  then show ?case by (simp add: remove_each_def)
next
  case (Cons r rs)
  let ?t = "filter (\<lambda>x. x \<noteq> r) (db ''tokens'')"
  have "filter (\<lambda>x. fst x \<noteq> fst r) (db ''tokens'') = ?t"
    using filter_ids_rows [OF Cons.prems(1), of "[r]"] Cons.prems(2) by simp
  then have "tdb_remove_ids D (db ''tokens'') [fst r] = ?t" using Cons.prems(2) by auto
  then have "remove_each D (r # rs) db = remove_each D rs (db(''tokens'' := ?t))"
    by (simp add: remove_each_def)
  also have "\<dots> = db(''tokens'' := filter (\<lambda>x. x \<notin> set rs) ?t)"
    using Cons.prems by (subst Cons.IH) (auto simp: fun_upd_def [symmetric])
  finally show ?case by (simp add: conj_commute)
qed

lemma remove_matching_rows:
  assumes "ids_ok (db ''tokens'')"
  shows "remove_each D (filter P (db ''tokens'')) db = db(''tokens'' := filter (\<lambda>r. \<not> P r) (db ''tokens''))"
proof -
  have "distinct (filter P (db ''tokens''))"
    using assms by (auto simp: ids_ok_def distinct_map)
  then show ?thesis using assms by (simp add: remove_each_rows cong: filter_cong)
qed

lemma revoke_expired_rows:
  assumes "tokens_ok db"
  shows "token_revoke_expired D now db =
    db(''tokens'' := filter (\<lambda>r. \<not> rmatch (QLt ''expiration'' (JStr (isoformat now))) r) (db ''tokens''))"
  using assms remove_matching_rows [of db "rmatch (QLt ''expiration'' (JStr (isoformat now)))"]
  by (simp add: token_revoke_expired_def safe_expiration tokens_ok_def del: qmatch.simps)

lemma revoke_user_expired_rows:
  assumes "tokens_ok db"
  shows "token_revoke_user_expired D now (JStr u) db =
    db(''tokens'' := filter (\<lambda>r. \<not> (key_of ''userid'' (snd r) = Some u \<and>
       rmatch (QLt ''expiration'' (JStr (isoformat now))) r)) (db ''tokens''))"
  using assms remove_matching_rows [of db "rmatch (QAnd (QEq ''userid'' (JStr u)) (QLt ''expiration'' (JStr (isoformat now))))"]
  by (simp add: token_revoke_user_expired_def safe_expiration tokens_ok_def del: qmatch.simps(2))

lemma revoke_all_rows:
  assumes "tokens_ok db"
  shows "token_revoke_all_for_user D (JStr u) db =
    db(''tokens'' := filter (\<lambda>r. key_of ''userid'' (snd r) \<noteq> Some u) (db ''tokens''))"
proof -
  let ?P = "\<lambda>r. key_of ''userid'' (snd r) = Some u"
  have "tdb_remove_ids D (db ''tokens'') (map fst (filter ?P (db ''tokens''))) =
      filter (\<lambda>r. fst r \<notin> fst ` set (filter ?P (db ''tokens''))) (db ''tokens'')"
    by (subst remove_ids) auto
  also have "\<dots> = filter (\<lambda>r. \<not> ?P r) (db ''tokens'')"
    using assms by (intro filter_ids_matching) (simp add: tokens_ok_def)
  finally show ?thesis by (simp add: token_revoke_all_for_user_def)
qed

lemma token_add_rows:
  "token_add D cfg tz now (JStr u) (JStr s) db =
    (if (Some u, Some s) \<in> token_pair ` set (db ''tokens'') then db
     else db(''tokens'' := db ''tokens'' @
       [(tdb_fresh D (db ''tokens''), token_to_db (Token (JStr u) (JStr s) (dt_add tz (TOKEN_VALIDITY_SECONDS cfg) now)))]))"
proof -
  have "list_ex (\<lambda>r. token_pair r = (Some u, Some s)) (db ''tokens'') =
      ((Some u, Some s) \<in> token_pair ` set (db ''tokens''))"
    by (force simp: list_ex_iff)
  then show ?thesis by (simp add: token_add_def q_token_rows [symmetric] del: qmatch.simps qmatch_key)
qed

lemma token_pair_new: "token_pair (n, token_to_db (Token (JStr u) (JStr s) e)) = (Some u, Some s)"
  by (simp add: token_pair_def token_to_db_def Token_def)

lemma tokens_ok_add:
  assumes "tokens_ok db" "valid_dt (dt_add tz (TOKEN_VALIDITY_SECONDS cfg) now)"
  shows "tokens_ok (token_add D cfg tz now (JStr u) (JStr s) db)"
proof -
  let ?e = "dt_add tz (TOKEN_VALIDITY_SECONDS cfg) now"
  have "token_doc (token_to_db (Token (JStr u) (JStr s) ?e))"
    using assms(2) by (intro token_to_db_doc(1)) (simp_all add: Token_def)
  then show ?thesis
    using assms(1) by (simp add: tokens_ok_def token_add_rows ids_ok_snoc fresh_id token_pair_new)
qed

lemma token_get_row:
  assumes "tokens_ok db" "r \<in> set (db ''tokens'')" "token_pair r = (Some u, Some s)"
  shows "\<exists>t. token_get D (JStr u) (JStr s) db = Inr (Some t) \<and> token_from_dict (snd r) = Inr t \<and>
    tok_expiration t = expiry (snd r)"
proof -
  have "List.find (\<lambda>r. token_pair r = (Some u, Some s)) (db ''tokens'') \<noteq> None"
    using assms(2,3) unfolding find_None_iff by blast
  then obtain r' where r': "List.find (\<lambda>r. token_pair r = (Some u, Some s)) (db ''tokens'') = Some r'" by blast
  have "r' = r"
    using find_SomeD [OF r'] assms token_pair_only by blast
  moreover obtain t where "token_from_dict (snd r) = Inr t" "tok_expiration t = expiry (snd r)"
    using token_doc_from_dict [OF tokens_ok_row [OF assms(1,2)]] by blast
  ultimately show ?thesis
    using r' by (cases r) (simp add: token_get_rows token_of_row_def)
qed

lemma token_get_none:
  assumes "(Some u, Some s) \<notin> token_pair ` set (db ''tokens'')"
  shows "token_get D (JStr u) (JStr s) db = Inr None"
proof -
  have "List.find (\<lambda>r. token_pair r = (Some u, Some s)) (db ''tokens'') = None"
    using assms by (force simp: find_None_iff)
  then show ?thesis by (simp add: token_get_rows token_of_row_def)
qed

text \<open>A token verifies when a row with its user and string expires after the current time.\<close>

lemma token_verify_iff:
  assumes "tokens_ok db"
  shows "token_verify D now (JStr u) (JStr s) db =
    Inr (\<exists>r \<in> set (db ''tokens''). token_pair r = (Some u, Some s) \<and> instant now < instant (expiry (snd r)))"
proof (cases "(Some u, Some s) \<in> token_pair ` set (db ''tokens'')")
  case False
  then have "\<not> (\<exists>r \<in> set (db ''tokens''). token_pair r = (Some u, Some s))" by force
  with token_get_none [of u s db] False show ?thesis by (auto simp: token_verify_def)
next
  case True
  then obtain r where r: "r \<in> set (db ''tokens'')" "token_pair r = (Some u, Some s)" by force
  have only: "r' = r" if "r' \<in> set (db ''tokens'')" "token_pair r' = (Some u, Some s)" for r'
    using token_pair_only [OF assms] that r by blast
  obtain t where t: "token_get D (JStr u) (JStr s) db = Inr (Some t)" "tok_expiration t = expiry (snd r)"
    using token_get_row [OF assms r] by blast
  then have "token_verify D now (JStr u) (JStr s) db = Inr (instant now < instant (expiry (snd r)))"
    by (simp add: token_verify_def)
  moreover have "(\<exists>r \<in> set (db ''tokens''). token_pair r = (Some u, Some s) \<and> instant now < instant (expiry (snd r)))
      = (instant now < instant (expiry (snd r)))"
    using only r by blast
  ultimately show ?thesis by simp
qed

lemma verify_new_token:
  assumes ok: "tokens_ok db" and v: "valid_dt (dt_add tz (TOKEN_VALIDITY_SECONDS cfg) now)"
    and new: "(Some u, Some s) \<notin> token_pair ` set (db ''tokens'')"
  shows "token_verify D now' (JStr u) (JStr s) (token_add D cfg tz now (JStr u) (JStr s) db) =
    Inr (instant now' < instant (dt_add tz (TOKEN_VALIDITY_SECONDS cfg) now))"
proof -
  let ?e = "dt_add tz (TOKEN_VALIDITY_SECONDS cfg) now"
  let ?r = "(tdb_fresh D (db ''tokens''), token_to_db (Token (JStr u) (JStr s) ?e))"
  have rows: "token_add D cfg tz now (JStr u) (JStr s) db ''tokens'' = db ''tokens'' @ [?r]"
    using new by (simp add: token_add_rows)
  have e: "expiry (snd ?r) = ?e"
    using token_to_db_doc(2) [of "Token (JStr u) (JStr s) ?e" u s] v by (simp add: Token_def)
  have old: "token_pair r \<noteq> (Some u, Some s)" if "r \<in> set (db ''tokens'')" for r
    using new that by force
  have "(\<exists>r \<in> set (db ''tokens'' @ [?r]). token_pair r = (Some u, Some s) \<and> instant now' < instant (expiry (snd r)))
      = (instant now' < instant ?e)"
    using old e token_pair_new by auto
  then show ?thesis
    unfolding token_verify_iff [OF tokens_ok_add [OF ok v]] rows by simp
qed

lemma revoke_token_rows:
  "token_revoke_token D (JStr u) (JStr s) db =
    db(''tokens'' := filter (\<lambda>r. token_pair r \<noteq> (Some u, Some s)) (db ''tokens''))"
  by (auto simp: token_revoke_token_def token_pair_def cong: filter_cong)

section \<open>Codes\<close>

lemma set_code_rows:
  assumes "f \<noteq> ''userid''"
  shows "token_set_code D f (JStr u) c db =
    (if has_user u (db ''tokens'')
     then (True, db(''tokens'' := rows_update [(f, c)] (QEq ''userid'' (JStr u)) (db ''tokens'')))
     else (False, db))"
proof (cases "lookup ''userid'' u (db ''tokens'')")
  case None
  then show ?thesis
    by (simp add: token_set_code_def has_user_def no_doc_def flip: lookup_def)
next
  case (Some r)
  then have "filter (\<lambda>r. key_of ''userid'' (snd r) = Some u) (db ''tokens'') \<noteq> []"
    using lookup_Some [OF Some] by (force simp: filter_empty_conv)
  moreover have "\<not> no_doc (Some r)"
    using lookup_Some [OF Some] by (auto simp: no_doc_def key_of_def split: prod.splits)
  ultimately show ?thesis using Some
    by (simp add: token_set_code_def has_user_def repo_upsert_rows rows_upsert_def flip: lookup_def)
qed

lemma tokens_ok_set_code:
  assumes "tokens_ok db" "f \<notin> {''userid'', ''token'', ''expiration''}"
  shows "tokens_ok (snd (token_set_code D f (JStr u) c db))"
proof -
  have "list_all (\<lambda>r. token_doc (snd r)) (rows_update [(f, c)] q (db ''tokens''))" for q
    using assms by (intro rows_update_all) (auto simp: tokens_ok_def token_doc_set)
  then show ?thesis
    using assms by (auto simp: set_code_rows tokens_ok_def token_pair_update)
qed

text \<open>After a new code is set, the user's tokens accept this code and no other one.\<close>

lemma verify_code_after_set:
  assumes "f \<noteq> ''userid''" "has_user u (db ''tokens'')"
  shows "tdb_contains D (snd (token_set_code D f (JStr u) (JStr c) db) ''tokens'')
      (QAnd (QEq ''userid'' (JStr u)) (QEq f (JStr c'))) = (c' = c)"
proof -
  have "list_ex (\<lambda>r. key_of ''userid'' (snd r) = Some u \<and> key_of f (snd r) = Some c')
      (rows_update [(f, JStr c)] (QEq ''userid'' (JStr u)) t) = (c' = c \<and> has_user u t)" for t
    using assms(1) by (induction t) (auto simp: has_user_def)
  then show ?thesis using assms by (simp add: set_code_rows)
qed

lemma verify_code_other_user:
  assumes "f \<noteq> ''userid''" "u' \<noteq> u" "f' \<noteq> ''userid''"
  shows "tdb_contains D (snd (token_set_code D f (JStr u) (JStr c) db) ''tokens'')
      (QAnd (QEq ''userid'' (JStr u')) (QEq f' (JStr c'))) =
    tdb_contains D (db ''tokens'') (QAnd (QEq ''userid'' (JStr u')) (QEq f' (JStr c')))"
proof -
  have "list_ex (\<lambda>r. key_of ''userid'' (snd r) = Some u' \<and> key_of f' (snd r) = Some c')
      (rows_update [(f, JStr c)] (QEq ''userid'' (JStr u)) t) =
    list_ex (\<lambda>r. key_of ''userid'' (snd r) = Some u' \<and> key_of f' (snd r) = Some c') t" for t
    using assms by (induction t) (auto split: if_splits)
  then show ?thesis using assms by (simp add: set_code_rows)
qed

end

end
