(* ===== verification/Clean_Log_Repo.thy ===== *)
theory Clean_Log_Repo
  imports Token_Repo
begin

text \<open>
  The repository of cleaning logs (src/bumper/db/clean_logs.py), on the table
  \<open>clean_logs\<close>: one document per log id and log type. The abstract view of the table is the
  list of logs that \<open>list_all\<close> returns; every operation is described on this view.
\<close>

abbreviation TABLE_CLEAN_LOGS :: string where "TABLE_CLEAN_LOGS \<equiv> ''clean_logs''"

section \<open>Operations\<close>

definition log_query :: "clean_log \<Rightarrow> query" where
  "log_query l = QAnd (QEq ''clean_log_id'' (log_id l)) (QEq ''type'' (log_type l))"

definition clean_log_add_or_update :: "store_ops \<Rightarrow> clean_log \<Rightarrow> db \<Rightarrow> db" where
  "clean_log_add_or_update D l db = fst (repo_upsert D TABLE_CLEAN_LOGS (Some (log_to_db l)) (log_query l) db)"

fun logs_of_rows :: "row list \<Rightarrow> py_exc + clean_log list" where
  "logs_of_rows [] = Inr []"
| "logs_of_rows (r # rs) =
     (case log_from_db (snd r) of Inl e \<Rightarrow> Inl e
      | Inr l \<Rightarrow> (case logs_of_rows rs of Inl e \<Rightarrow> Inl e | Inr ls \<Rightarrow> Inr (l # ls)))"

definition clean_log_list_by_did :: "store_ops \<Rightarrow> json \<Rightarrow> db \<Rightarrow> py_exc + clean_log list" where
  "clean_log_list_by_did D did db = logs_of_rows (repo_get_multi D TABLE_CLEAN_LOGS (QEq ''did'' did) db)"

definition clean_log_list_by_id :: "store_ops \<Rightarrow> json \<Rightarrow> db \<Rightarrow> py_exc + clean_log option" where
  "clean_log_list_by_id D clean_log_id db =
     (case repo_get D TABLE_CLEAN_LOGS (QEq ''clean_log_id'' clean_log_id) db of
        None \<Rightarrow> Inr None
      | Some r \<Rightarrow> (case log_from_db (snd r) of Inl e \<Rightarrow> Inl e | Inr l \<Rightarrow> Inr (Some l)))"

definition clean_log_list_all :: "store_ops \<Rightarrow> db \<Rightarrow> py_exc + clean_log list" where
  "clean_log_list_all D db = logs_of_rows (tdb_all D (db TABLE_CLEAN_LOGS))"

definition clean_log_clear :: "store_ops \<Rightarrow> db \<Rightarrow> db" where
  "clean_log_clear D db = db(TABLE_CLEAN_LOGS := tdb_truncate D (db TABLE_CLEAN_LOGS))"

definition clean_log_remove_by_id :: "store_ops \<Rightarrow> json \<Rightarrow> db \<Rightarrow> db" where
  "clean_log_remove_by_id D clean_log_id db =
     repo_remove D TABLE_CLEAN_LOGS (QEq ''clean_log_id'' clean_log_id) db"

section \<open>Well-formed log tables\<close>

definition log_fields :: "string list" where
  "log_fields = [''clean_log_id'', ''did'', ''cid'', ''aiavoid'', ''aitypes'', ''area'', ''image_url'',
     ''stop_reason'', ''last'', ''ts'', ''type'', ''avoid_count'', ''enable_power_mop'',
     ''power_mop_type'', ''ai_open'']"

definition log_doc :: "doc \<Rightarrow> bool" where
  "log_doc d \<longleftrightarrow> map fst d = log_fields \<and> key_of ''clean_log_id'' d \<noteq> None \<and> key_of ''type'' d \<noteq> None \<and>
     key_of ''did'' d \<noteq> None"

definition log_pair :: "row \<Rightarrow> string option \<times> string option" where
  "log_pair r = (key_of ''clean_log_id'' (snd r), key_of ''type'' (snd r))"

definition logs_ok :: "db \<Rightarrow> bool" where
  "logs_ok db \<longleftrightarrow> ids_ok (db TABLE_CLEAN_LOGS) \<and> distinct (map log_pair (db TABLE_CLEAN_LOGS)) \<and>
     list_all (\<lambda>r. log_doc (snd r)) (db TABLE_CLEAN_LOGS)"

definition str_log :: "clean_log \<Rightarrow> bool" where
  "str_log l \<longleftrightarrow> (\<exists>i t d. log_id l = JStr i \<and> log_type l = JStr t \<and> log_did l = JStr d)"

definition same_log :: "clean_log \<Rightarrow> clean_log \<Rightarrow> bool" where
  "same_log l m \<longleftrightarrow> log_id l = log_id m \<and> log_type l = log_type m"

lemma log_to_db_fields: "map fst (log_to_db l) = log_fields"
  by (simp add: log_to_db_def log_fields_def)

lemma dupdate_same_fields: "map fst d = map fst e \<Longrightarrow> distinct (map fst e) \<Longrightarrow> dupdate d e = e"
proof (induction e arbitrary: d)
  case Nil
  then show ?case by simp
next
  case (Cons p e)
  obtain k v where p: "p = (k, v)" by force
  with Cons.prems obtain w d' where d: "d = (k, w) # d'" "map fst d' = map fst e" by (cases d) auto
  have head: "fold (\<lambda>(k, v) d. dset d k v) e ((k, v) # c) = (k, v) # fold (\<lambda>(k, v) d. dset d k v) e c"
    if "k \<notin> fst ` set e" for c using that by (induction e arbitrary: c) auto
  have "dupdate d' e = e" using Cons d by simp
  with d p Cons.prems show ?case by (simp add: head dupdate_def)
qed

lemma dupdate_log: "log_doc d \<Longrightarrow> dupdate d (log_to_db l) = log_to_db l"
  by (rule dupdate_same_fields) (simp_all add: log_doc_def log_to_db_fields, simp add: log_fields_def)

lemma log_to_db_doc: "str_log l \<Longrightarrow> log_doc (log_to_db l)"
  unfolding log_doc_def log_to_db_fields by (auto simp: str_log_def log_to_db_def)

lemma log_doc_from_db: "log_doc d \<Longrightarrow> \<exists>l. log_from_db d = Inr l \<and> str_log l"
  by (auto simp: log_doc_def log_from_db_def str_log_def dget_def dget_or_def key_of_Some)

lemma key_of_log_to_db:
  "str_log l \<Longrightarrow> key_of f (log_to_db l) = Some s \<longleftrightarrow> map_of (log_to_db l) f = Some (JStr s)"
  by (rule key_of_Some)

lemma logs_of_rows_Inr:
  "list_all (\<lambda>r. log_doc (snd r)) t \<Longrightarrow> \<exists>ls. logs_of_rows t = Inr ls"
  by (induction t) (auto dest!: log_doc_from_db)

definition row_log :: "row \<Rightarrow> clean_log" where
  "row_log r = (case log_from_db (snd r) of Inr l \<Rightarrow> l)"

lemma logs_of_rows_map:
  "list_all (\<lambda>r. log_doc (snd r)) t \<Longrightarrow> logs_of_rows t = Inr (map row_log t)"
  by (induction t) (auto simp: row_log_def dest!: log_doc_from_db)

lemma row_log_to_db [simp]: "row_log (n, log_to_db l) = log_normal l"
  by (simp add: row_log_def log_db_round_trip)

lemma row_log_keys:
  assumes "log_doc (snd r)"
  shows "key_of ''clean_log_id'' (snd r) = Some i \<longleftrightarrow> log_id (row_log r) = JStr i"
    "key_of ''type'' (snd r) = Some i \<longleftrightarrow> log_type (row_log r) = JStr i"
    "key_of ''did'' (snd r) = Some i \<longleftrightarrow> log_did (row_log r) = JStr i"
  using assms
  by (auto simp: log_doc_def row_log_def log_from_db_def dget_def dget_or_def key_of_Some)

lemma log_query_row:
  assumes "log_doc (snd r)" "str_log l"
  shows "rmatch (log_query l) r \<longleftrightarrow> same_log (row_log r) l"
  using assms(2) row_log_keys [OF assms(1)] by (auto simp: log_query_def same_log_def str_log_def)

lemma q_safe_log [simp]: "q_safe (log_query l) t"
  by (simp add: log_query_def)

lemma log_rows_update:
  assumes "list_all (\<lambda>r. log_doc (snd r)) t" "str_log l"
  shows "map row_log (rows_update (log_to_db l) (log_query l) t) =
    map (\<lambda>m. if same_log m l then log_normal l else m) (map row_log t)"
  using assms(1)
proof (induction t)
  case Nil
  then show ?case by simp
next
  case (Cons r t)
  obtain i d where r: "r = (i, d)" by force
  with Cons log_query_row [OF _ assms(2), of r] show ?case by (simp add: dupdate_log)
qed

lemma log_pairs_update:
  assumes "list_all (\<lambda>r. log_doc (snd r)) t" "str_log l"
  shows "map log_pair (rows_update (log_to_db l) (log_query l) t) = map log_pair t"
  using assms(1)
proof (induction t)
  case Nil
  then show ?case by simp
next
  case (Cons r t)
  obtain i d where r: "r = (i, d)" by force
  have "log_pair (i, log_to_db l) = log_pair r" if "rmatch (log_query l) r"
    using that assms(2) r by (auto simp: log_query_def log_pair_def str_log_def log_to_db_def)
  with Cons r show ?case by (simp add: dupdate_log)
qed

lemma logs_ok_row: "logs_ok db \<Longrightarrow> r \<in> set (db ''clean_logs'') \<Longrightarrow> log_doc (snd r)"
  by (auto simp: logs_ok_def list_all_iff)

context tinydb
begin

lemma clean_log_list_all_rows:
  "logs_ok db \<Longrightarrow> clean_log_list_all D db = Inr (map row_log (db ''clean_logs''))"
  by (simp add: clean_log_list_all_def logs_ok_def logs_of_rows_map)

lemma clean_log_list_by_did_rows:
  assumes "logs_ok db"
  shows "clean_log_list_by_did D (JStr did) db =
    Inr (filter (\<lambda>l. log_did l = JStr did) (map row_log (db ''clean_logs'')))"
proof -
  have "filter (rmatch (QEq ''did'' (JStr did))) (db ''clean_logs'') =
      filter (\<lambda>r. log_did (row_log r) = JStr did) (db ''clean_logs'')"
    using row_log_keys(3) [OF logs_ok_row [OF assms]] by (intro filter_cong) auto
  moreover have "list_all (\<lambda>r. log_doc (snd r)) (filter P (db ''clean_logs''))" for P
    using assms by (auto simp: logs_ok_def list_all_iff)
  ultimately show ?thesis
    by (simp add: clean_log_list_by_did_def logs_of_rows_map filter_map comp_def)
qed

lemma log_present:
  assumes "logs_ok db" "str_log l"
  shows "list_ex (rmatch (log_query l)) (db ''clean_logs'') \<longleftrightarrow>
    list_ex (\<lambda>m. same_log m l) (map row_log (db ''clean_logs''))"
  using log_query_row [OF logs_ok_row [OF assms(1)] assms(2)] by (auto simp: list_ex_iff)

lemma add_or_update_rows:
  assumes "logs_ok db" "str_log l"
  shows "clean_log_add_or_update D l db = db(''clean_logs'' :=
    (if list_ex (\<lambda>m. same_log m l) (map row_log (db ''clean_logs''))
     then rows_update (log_to_db l) (log_query l) (db ''clean_logs'')
     else db ''clean_logs'' @ [(tdb_fresh D (db ''clean_logs''), log_to_db l)]))"
  unfolding log_present [OF assms, symmetric]
  by (simp add: clean_log_add_or_update_def repo_upsert_rows rows_upsert_def)

lemma logs_ok_add:
  assumes ok: "logs_ok db" and l: "str_log l"
  shows "logs_ok (clean_log_add_or_update D l db)"
proof (cases "list_ex (rmatch (log_query l)) (db ''clean_logs'')")
  case True
  have docs: "list_all (\<lambda>r. log_doc (snd r)) (db ''clean_logs'')" using ok by (simp add: logs_ok_def)
  then have "list_all (\<lambda>r. log_doc (snd r)) (rows_update (log_to_db l) (log_query l) (db ''clean_logs''))"
    by (rule rows_update_all) (simp add: dupdate_log log_to_db_doc l)
  with True ok docs show ?thesis
    by (simp add: add_or_update_rows [OF ok l] log_present [OF ok l, symmetric] logs_ok_def log_pairs_update l)
next
  case False
  have "log_pair (n, log_to_db l) \<notin> log_pair ` set (db ''clean_logs'')" for n
  proof
    assume "log_pair (n, log_to_db l) \<in> log_pair ` set (db ''clean_logs'')"
    then obtain r where "r \<in> set (db ''clean_logs'')" "log_pair r = log_pair (n, log_to_db l)" by force
    with l have "r \<in> set (db ''clean_logs'') \<and> rmatch (log_query l) r"
      by (auto simp: log_pair_def log_query_def str_log_def log_to_db_def)
    with False show False by (auto simp: list_ex_iff)
  qed
  with False ok l show ?thesis
    by (simp add: add_or_update_rows [OF ok l] log_present [OF ok l, symmetric] logs_ok_def ids_ok_snoc
        fresh_id log_to_db_doc)
qed

text \<open>On the view: the log replaces the log of its key, or is appended.\<close>

lemma list_all_after_add:
  assumes ok: "logs_ok db" and l: "str_log l" and all: "clean_log_list_all D db = Inr ls"
  shows "clean_log_list_all D (clean_log_add_or_update D l db) =
    Inr (if list_ex (\<lambda>m. same_log m l) ls then map (\<lambda>m. if same_log m l then log_normal l else m) ls
         else ls @ [log_normal l])"
proof -
  have ls: "ls = map row_log (db ''clean_logs'')" using all clean_log_list_all_rows [OF ok] by simp
  show ?thesis
    unfolding clean_log_list_all_rows [OF logs_ok_add [OF ok l]]
    unfolding add_or_update_rows [OF ok l] ls
    using ok l by (simp add: log_rows_update logs_ok_def del: map_map)
qed

lemma list_by_did_is_view:
  "logs_ok db \<Longrightarrow> clean_log_list_all D db = Inr ls \<Longrightarrow>
   clean_log_list_by_did D (JStr did) db = Inr (filter (\<lambda>l. log_did l = JStr did) ls)"
  by (simp add: clean_log_list_all_rows clean_log_list_by_did_rows)

lemma logs_ok_remove: "logs_ok db \<Longrightarrow> logs_ok (clean_log_remove_by_id D (JStr i) db)"
  by (auto simp: clean_log_remove_by_id_def repo_remove_key logs_ok_def distinct_map_filter list_all_iff
      split: option.splits)

lemma clear_logs: "clean_log_list_all D (clean_log_clear D db) = Inr []"
  by (simp add: clean_log_list_all_def clean_log_clear_def)

end

end
