(* ===== verification/Migration.thy ===== *)
theory Migration
  imports Clean_Log_Repo
begin

text \<open>
  The migrations of the database (src/bumper/db/migration.py): the chain of versions, the
  backup taken before each step, and the step that flattens the nested cleaning logs. The
  state is the database and the backups written so far; a copy of the database file is the
  database itself. The timestamp in the name of a backup is an argument.
\<close>

record mig_state =
  mig_db :: db
  mig_backups :: "(string \<times> db) list"

section \<open>Flattening the cleaning logs\<close>

fun flatten_logs :: "json \<Rightarrow> json list \<Rightarrow> doc list \<Rightarrow> py_exc + doc list" where
  "flatten_logs did [] acc = Inr acc"
| "flatten_logs did (JObj log # logs) acc = flatten_logs did logs (acc @ [dset log ''did'' did])"
| "flatten_logs did (_ # logs) acc = Inl (MigrationError ''Invalid clean_logs entry'')"

fun flatten_rows :: "row list \<Rightarrow> doc list \<Rightarrow> py_exc + doc list" where
  "flatten_rows [] acc = Inr acc"
| "flatten_rows (r # rs) acc =
     (case dget (snd r) ''logs'' of
        JNull \<Rightarrow> flatten_rows rs acc
      | JList logs \<Rightarrow>
          (case flatten_logs (dget (snd r) ''did'') logs acc of
             Inl e \<Rightarrow> Inl e
           | Inr acc' \<Rightarrow> flatten_rows rs acc')
      | _ \<Rightarrow> Inl (MigrationError ''Invalid clean_logs schema: logs is not a list''))"

definition migrate_clean_logs_0_2_2_to_0_2_3 :: "store_ops \<Rightarrow> db \<Rightarrow> (py_exc + unit) \<times> db" where
  "migrate_clean_logs_0_2_2_to_0_2_3 D db =
     (case flatten_rows (tdb_all D (db TABLE_CLEAN_LOGS)) [] of
        Inl e \<Rightarrow> (Inl e, db)
      | Inr new_entries \<Rightarrow>
          (let db1 = db(TABLE_CLEAN_LOGS := tdb_truncate D (db TABLE_CLEAN_LOGS))
           in (Inr (), db1(TABLE_CLEAN_LOGS :=
                 fst (tdb_insert_multiple D (db1 TABLE_CLEAN_LOGS) new_entries)))))"

section \<open>The chain of versions\<close>

datatype migration = Migrate_clean_logs

definition run_migration :: "store_ops \<Rightarrow> migration \<Rightarrow> db \<Rightarrow> (py_exc + unit) \<times> db" where
  "run_migration D m db = (case m of Migrate_clean_logs \<Rightarrow> migrate_clean_logs_0_2_2_to_0_2_3 D db)"

definition MIGRATIONS :: "(string \<times> (string \<times> migration)) list" where
  "MIGRATIONS =
     [(''0.0.0'', (''0.2.3'', Migrate_clean_logs)),
      (''0.2.2'', (''0.2.3'', Migrate_clean_logs))]"

definition backup_db :: "string \<Rightarrow> string \<Rightarrow> mig_state \<Rightarrow> mig_state" where
  "backup_db file ts s = s\<lparr>mig_backups := mig_backups s @ [(file @ ''.bak.'' @ ts, mig_db s)]\<rparr>"

text \<open>The loop visits a version of the table each time round, and no migration leads back.\<close>

definition versions_left :: "string \<Rightarrow> nat" where
  "versions_left v = (if v \<in> fst ` set MIGRATIONS then 1 else 0)"

function migrate_loop ::
    "store_ops \<Rightarrow> string \<Rightarrow> (nat \<Rightarrow> string) \<Rightarrow> string \<Rightarrow> mig_state \<Rightarrow> (py_exc + string) \<times> mig_state" where
  "migrate_loop D file ts version s =
     (case map_of MIGRATIONS version of
        None \<Rightarrow> (Inr version, s)
      | Some (next_version, m) \<Rightarrow>
          (let s1 = backup_db file (ts (length (mig_backups s))) s in
           (case run_migration D m (mig_db s1) of
              (Inl e, db') \<Rightarrow> (Inl e, s1\<lparr>mig_db := db'\<rparr>)
            | (Inr _, db') \<Rightarrow>
                migrate_loop D file ts next_version (s1\<lparr>mig_db := set_db_version D next_version db'\<rparr>))))"
  by pat_completeness auto
termination
  by (relation "measure (\<lambda>(D, f, ts, v, s). versions_left v)")
    (auto simp: versions_left_def MIGRATIONS_def split: if_splits)

declare migrate_loop.simps [simp del]

text \<open>
  A stored version that is not a string is not in \<open>MIGRATIONS\<close>; the lookup of a list or a
  dictionary raises.
\<close>

definition align_version :: "store_ops \<Rightarrow> string \<Rightarrow> json \<Rightarrow> mig_state \<Rightarrow> mig_state" where
  "align_version D app_version v s =
     (if v \<noteq> JStr app_version then s\<lparr>mig_db := set_db_version D app_version (mig_db s)\<rparr> else s)"

definition migrate_db ::
    "store_ops \<Rightarrow> string \<Rightarrow> string \<Rightarrow> (nat \<Rightarrow> string) \<Rightarrow> mig_state \<Rightarrow> (py_exc + unit) \<times> mig_state" where
  "migrate_db D app_version file ts s =
     (let version = py_or (get_db_version D (mig_db s)) (JStr ''0.0.0'') in
      (case version of
         JStr v \<Rightarrow>
           (case migrate_loop D file ts v s of
              (Inl e, s') \<Rightarrow> (Inl e, s')
            | (Inr v', s') \<Rightarrow> (Inr (), align_version D app_version (JStr v') s'))
       | JList _ \<Rightarrow> (Inl TypeError, s)
       | JObj _ \<Rightarrow> (Inl TypeError, s)
       | _ \<Rightarrow> (Inr (), align_version D app_version version s)))"

section \<open>What the flattening computes\<close>

fun log_docs :: "json \<Rightarrow> json list \<Rightarrow> doc list" where
  "log_docs did [] = []"
| "log_docs did (v # vs) = (case v of JObj d \<Rightarrow> [dset d ''did'' did] | _ \<Rightarrow> []) @ log_docs did vs"

fun is_obj :: "json \<Rightarrow> bool" where
  "is_obj (JObj _) = True"
| "is_obj _ = False"

fun nested_logs :: "row \<Rightarrow> json list" where
  "nested_logs (i, d) = (case dget d ''logs'' of JList vs \<Rightarrow> vs | _ \<Rightarrow> [])"

definition old_schema :: "row \<Rightarrow> bool" where
  "old_schema r \<longleftrightarrow> (case dget (snd r) ''logs'' of JNull \<Rightarrow> True | JList vs \<Rightarrow> list_all is_obj vs | _ \<Rightarrow> False)"

definition flat_docs :: "row list \<Rightarrow> doc list" where
  "flat_docs rs = concat (map (\<lambda>r. log_docs (dget (snd r) ''did'') (nested_logs r)) rs)"

lemma flatten_logs_spec:
  "flatten_logs did vs acc =
    (if list_all is_obj vs then Inr (acc @ log_docs did vs)
     else Inl (MigrationError ''Invalid clean_logs entry''))"
  by (induction did vs acc rule: flatten_logs.induct) simp_all

lemma flatten_rows_ok: "list_all old_schema rs \<Longrightarrow> flatten_rows rs acc = Inr (acc @ flat_docs rs)"
proof (induction rs arbitrary: acc)
  case Nil
  then show ?case by (simp add: flat_docs_def)
next
  case (Cons r rs)
  obtain i d where "r = (i, d)" by force
  with Cons show ?case
    by (auto simp: flat_docs_def old_schema_def flatten_logs_spec split: json.splits)
qed

lemma flatten_rows_bad: "\<not> list_all old_schema rs \<Longrightarrow> \<exists>m. flatten_rows rs acc = Inl (MigrationError m)"
proof (induction rs arbitrary: acc)
  case Nil
  then show ?case by simp
next
  case (Cons r rs)
  then show ?case
    by (auto simp: old_schema_def flatten_logs_spec split: json.splits)
qed

lemma insert_all_docs: "map snd (fst (insert_all f t ds)) = map snd t @ ds"
  by (induction f t ds rule: insert_all.induct) (auto split: prod.splits)

context tinydb
begin

lemma migrate_clean_logs_ok:
  assumes "list_all old_schema (db ''clean_logs'')"
  shows "\<exists>t. migrate_clean_logs_0_2_2_to_0_2_3 D db = (Inr (), db(''clean_logs'' := t)) \<and>
    map snd t = flat_docs (db ''clean_logs'')"
  using flatten_rows_ok [OF assms, of "[]"]
  by (intro exI [of _ "fst (insert_all (tdb_fresh D) [] (flat_docs (db ''clean_logs'')))"])
    (simp add: migrate_clean_logs_0_2_2_to_0_2_3_def insert_all_docs)

lemma migrate_clean_logs_bad:
  assumes "\<not> list_all old_schema (db ''clean_logs'')"
  shows "\<exists>m. migrate_clean_logs_0_2_2_to_0_2_3 D db = (Inl (MigrationError m), db)"
  using flatten_rows_bad [OF assms, of "[]"]
  by (auto simp: migrate_clean_logs_0_2_2_to_0_2_3_def)

lemma migrate_loop_end:
  "map_of MIGRATIONS v = None \<Longrightarrow> migrate_loop D file ts v s = (Inr v, s)"
  by (simp add: migrate_loop.simps)

lemma migrate_loop_step:
  assumes "map_of MIGRATIONS v = Some (v', Migrate_clean_logs)"
  shows "migrate_loop D file ts v s =
     (let b = mig_backups s @ [(file @ ''.bak.'' @ ts (length (mig_backups s)), mig_db s)] in
      case migrate_clean_logs_0_2_2_to_0_2_3 D (mig_db s) of
        (Inl e, db') \<Rightarrow> (Inl e, s\<lparr>mig_backups := b, mig_db := db'\<rparr>)
      | (Inr _, db') \<Rightarrow>
          migrate_loop D file ts v' (s\<lparr>mig_backups := b, mig_db := set_db_version D v' db'\<rparr>))"
  using assms by (subst migrate_loop.simps) (simp add: backup_db_def run_migration_def Let_def)

lemma migration_targets:
  "map_of MIGRATIONS ''0.0.0'' = Some (''0.2.3'', Migrate_clean_logs)"
  "map_of MIGRATIONS ''0.2.2'' = Some (''0.2.3'', Migrate_clean_logs)"
  "map_of MIGRATIONS ''0.2.3'' = None"
  by (simp_all add: MIGRATIONS_def)

lemma migrate_from_old:
  assumes v: "get_db_version D (mig_db s) \<in> {JNull, JStr [], JStr ''0.0.0'', JStr ''0.2.2''}"
    and loop: "\<And>v. v = ''0.0.0'' \<or> v = ''0.2.2'' \<Longrightarrow> migrate_loop D file ts v s = (r, s')"
  shows "migrate_db D app file ts s =
    (case r of Inl e \<Rightarrow> (Inl e, s') | Inr v' \<Rightarrow> (Inr (), align_version D app (JStr v') s'))"
proof -
  from v have "\<exists>v. py_or (get_db_version D (mig_db s)) (JStr ''0.0.0'') = JStr v \<and> (v = ''0.0.0'' \<or> v = ''0.2.2'')"
    by (elim insertE) (simp_all add: py_or_def)
  then obtain v where "py_or (get_db_version D (mig_db s)) (JStr ''0.0.0'') = JStr v" "v = ''0.0.0'' \<or> v = ''0.2.2''"
    by blast
  then show ?thesis by (simp add: migrate_db_def loop)
qed

lemma migrate_old_version:
  assumes v: "get_db_version D (mig_db s) \<in> {JNull, JStr [], JStr ''0.0.0'', JStr ''0.2.2''}"
    and rows: "list_all old_schema (mig_db s ''clean_logs'')"
  shows "\<exists>t. map snd t = flat_docs (mig_db s ''clean_logs'') \<and>
    migrate_db D app file ts s =
      (Inr (), align_version D app (JStr ''0.2.3'')
        (s\<lparr>mig_backups := mig_backups s @ [(file @ ''.bak.'' @ ts (length (mig_backups s)), mig_db s)],
           mig_db := set_db_version D ''0.2.3'' ((mig_db s)(''clean_logs'' := t))\<rparr>))"
proof -
  obtain t where t: "migrate_clean_logs_0_2_2_to_0_2_3 D (mig_db s) = (Inr (), (mig_db s)(''clean_logs'' := t))"
    "map snd t = flat_docs (mig_db s ''clean_logs'')"
    using migrate_clean_logs_ok [of "mig_db s"] rows by blast
  have "migrate_loop D file ts v s = (Inr ''0.2.3'',
      s\<lparr>mig_backups := mig_backups s @ [(file @ ''.bak.'' @ ts (length (mig_backups s)), mig_db s)],
        mig_db := set_db_version D ''0.2.3'' ((mig_db s)(''clean_logs'' := t))\<rparr>)"
    if "v = ''0.0.0'' \<or> v = ''0.2.2''" for v
    using that by (elim disjE) (simp_all add: migrate_loop_step migration_targets t(1) migrate_loop_end)
  from migrate_from_old [OF v this] t(2) show ?thesis by (intro exI [of _ t]) simp
qed

lemma migrate_old_version_bad:
  assumes v: "get_db_version D (mig_db s) \<in> {JNull, JStr [], JStr ''0.0.0'', JStr ''0.2.2''}"
    and rows: "\<not> list_all old_schema (mig_db s ''clean_logs'')"
  shows "\<exists>m. migrate_db D app file ts s = (Inl (MigrationError m),
    s\<lparr>mig_backups := mig_backups s @ [(file @ ''.bak.'' @ ts (length (mig_backups s)), mig_db s)]\<rparr>)"
proof -
  obtain m where m: "migrate_clean_logs_0_2_2_to_0_2_3 D (mig_db s) = (Inl (MigrationError m), mig_db s)"
    using migrate_clean_logs_bad [of "mig_db s"] rows by blast
  have "migrate_loop D file ts v s = (Inl (MigrationError m),
      s\<lparr>mig_backups := mig_backups s @ [(file @ ''.bak.'' @ ts (length (mig_backups s)), mig_db s)]\<rparr>)"
    if "v = ''0.0.0'' \<or> v = ''0.2.2''" for v
    using that by (elim disjE) (simp_all add: migrate_loop_step migration_targets m)
  from migrate_from_old [OF v this] show ?thesis by simp
qed

lemma version_after_align: "get_db_version D (mig_db (align_version D app (JStr v) s)) = JStr app
    \<longleftrightarrow> v \<noteq> app \<or> get_db_version D (mig_db s) = JStr app"
  by (simp add: align_version_def get_set_db_version)

text \<open>A database at the version of the application is left as it is.\<close>

lemma migrate_current:
  assumes "get_db_version D (mig_db s) = JStr app" "app \<noteq> []" "map_of MIGRATIONS app = None"
  shows "migrate_db D app file ts s = (Inr (), s)"
  using assms by (simp add: migrate_db_def py_or_def migrate_loop_end align_version_def)

end

end
