(* ===== verification/Response_Helper.thy ===== *)
theory Response_Helper
  imports Migration
begin

text \<open>
  The bodies of the web answers (src/bumper/web/utils/response_helper.py). An answer is a
  JSON body, a text body, or a bare status. \<open>now_ms\<close> is the current time in milliseconds;
  \<open>response_success_v1\<close> takes the default of its \<open>time\<close> parameter instead, which Python
  evaluates once, when the module is loaded: that value is \<open>load_ms\<close>.
\<close>

datatype response =
    JsonResponse json
  | TextResponse string
  | StatusResponse nat string

section \<open>Codes\<close>

abbreviation RETURN_API_SUCCESS :: string where "RETURN_API_SUCCESS \<equiv> ''0000''"
abbreviation ERR_COMMON :: string where "ERR_COMMON \<equiv> ''0001''"
abbreviation ERR_TOKEN_INVALID :: string where "ERR_TOKEN_INVALID \<equiv> ''0004''"
abbreviation ERR_USER_DISABLE :: string where "ERR_USER_DISABLE \<equiv> ''1004''"
abbreviation ERR_UNKNOWN_TODO :: string where "ERR_UNKNOWN_TODO \<equiv> ''1202''"

definition API_ERRORS :: "(string \<times> string) list" where
  "API_ERRORS =
     [(RETURN_API_SUCCESS, ''0000''), (''1006'', ''1006''), (ERR_COMMON, ''0001''), (''9000'', ''9000''),
      (''1002'', ''1002''), (''1011'', ''1011''), (''1001'', ''1001''), (''0002'', ''0002''),
      (''0003'', ''0003''), (''1005'', ''1005''), (''1007'', ''1007''), (''0005'', ''0005''),
      (ERR_TOKEN_INVALID, ''0004''), (ERR_USER_DISABLE, ''1004''), (''1003'', ''1003''),
      (''10010'', ''10010''), (''1008'', ''1008''), (''1009'', ''1009''), (ERR_UNKNOWN_TODO, ''1202'')]"

section \<open>Success\<close>

definition response_success_v1 :: "int \<Rightarrow> json \<Rightarrow> response" where
  "response_success_v1 time data = JsonResponse (JObj
     [(''code'', JStr RETURN_API_SUCCESS), (''data'', data), (''msg'', JStr ''The operation was successful''),
      (''success'', JBool True), (''time'', JInt time)])"

definition response_success_v2 :: "json \<Rightarrow> int option \<Rightarrow> string \<Rightarrow> string \<Rightarrow> response" where
  "response_success_v2 data code data_key result_key =
     (let payload = dset (dset [(''todo'', JStr ''result'')] result_key (JStr ''ok'')) data_key data;
          payload = (if data \<noteq> JNull then dset payload data_key data else payload);
          payload = (case code of None \<Rightarrow> payload | Some c \<Rightarrow> dset payload ''code'' (JInt c))
      in JsonResponse (JObj payload))"

definition response_success_v3 ::
    "int \<Rightarrow> json \<Rightarrow> string \<Rightarrow> string \<Rightarrow> string \<Rightarrow> json \<Rightarrow> string option \<Rightarrow> bool \<Rightarrow> response" where
  "response_success_v3 code data data_key msg msg_key result result_key include_success =
     (let payload = dset [(''code'', JInt code)] msg_key (JStr msg);
          payload = (case result_key of None \<Rightarrow> payload | Some k \<Rightarrow> dset payload k result);
          payload = (if data \<noteq> JNull then dset payload data_key data else payload);
          payload = (if include_success then dset payload ''success'' (JBool True) else payload)
      in JsonResponse (JObj payload))"

definition response_success_v4 :: "json \<Rightarrow> int \<Rightarrow> string \<Rightarrow> response" where
  "response_success_v4 data code data_key = JsonResponse (JObj (dset [(''code'', JInt code)] data_key data))"

text \<open>The same with the default values of their parameters.\<close>

abbreviation success_v2 :: "json \<Rightarrow> response" where
  "success_v2 data \<equiv> response_success_v2 data (Some 0) ''data'' ''ret''"

abbreviation success_v3 :: "json \<Rightarrow> response" where
  "success_v3 data \<equiv> response_success_v3 0 data ''data'' ''success'' ''message'' (JStr ''ok'') (Some ''ret'') False"

abbreviation success_v4 :: "json \<Rightarrow> response" where
  "success_v4 data \<equiv> response_success_v4 data 0 ''data''"

section \<open>Errors\<close>

definition param_error :: string where
  "param_error = ''Parameter error. Please try again later''"

definition response_error_v1 :: "int \<Rightarrow> string \<Rightarrow> string \<Rightarrow> response" where
  "response_error_v1 now_ms msg code =
     JsonResponse (JObj [(''code'', JStr code), (''msg'', JStr msg), (''time'', JInt now_ms)])"

definition response_error_v2 :: "string \<Rightarrow> string \<Rightarrow> response" where
  "response_error_v2 msg code =
     JsonResponse (JObj [(''errno'', JStr code), (''error'', JStr msg), (''result'', JStr ''fail''), (''todo'', JStr ''result'')])"

definition response_error_v3 :: "string \<Rightarrow> string \<Rightarrow> response" where
  "response_error_v3 msg code =
     JsonResponse (JObj [(''errno'', JStr code), (''error'', JStr msg), (''result'', JStr ''fail''), (''todo'', JStr ''result'')])"

definition response_error_v4 :: "string \<Rightarrow> response" where
  "response_error_v4 msg = JsonResponse (JObj [(''todo'', JStr ''result''), (''ret'', JStr ''fail''), (''errno'', JStr msg)])"

definition response_error_v5 :: response where
  "response_error_v5 = JsonResponse (JObj [(''todo'', JStr ''result''), (''ret'', JStr ''fail''),
     (''err'', JInt 2004), (''errno'', JInt 2004), (''code'', JInt 2004)])"

definition response_error_v6 :: "string \<Rightarrow> string \<Rightarrow> response" where
  "response_error_v6 debug error = JsonResponse (JObj [(''todo'', JStr ''result''), (''result'', JStr ''fail''),
     (''errno'', JInt 1), (''error'', JStr error), (''debug'', JStr debug)])"

definition response_error_v7 :: "int \<Rightarrow> string \<Rightarrow> response" where
  "response_error_v7 errno error = JsonResponse (JObj [(''ret'', JStr ''fail''), (''errno'', JInt errno), (''error'', JStr error)])"

definition response_error_v8 :: "json \<Rightarrow> json \<Rightarrow> response" where
  "response_error_v8 request_id error = JsonResponse (JObj [(''id'', request_id), (''errno'', JInt 500),
     (''ret'', JStr ''fail''), (''debug'', error)])"

definition response_error_v9 :: "int \<Rightarrow> string \<Rightarrow> string \<Rightarrow> response" where
  "response_error_v9 now_ms msg code = JsonResponse (JObj [(''code'', JStr code), (''msg'', JStr msg),
     (''time'', JInt now_ms), (''data'', JNull), (''success'', JBool False)])"

section \<open>Reading an answer\<close>

definition body_field :: "string \<Rightarrow> response \<Rightarrow> json option" where
  "body_field k r = (case r of JsonResponse (JObj d) \<Rightarrow> map_of d k | _ \<Rightarrow> None)"

text \<open>A client tells the answers apart by their code: the success code, the result key, or neither.\<close>

definition is_success_v1 :: "response \<Rightarrow> bool" where
  "is_success_v1 r \<longleftrightarrow> body_field ''code'' r = Some (JStr RETURN_API_SUCCESS)"

lemmas response_defs = response_success_v1_def response_success_v2_def response_success_v3_def
  response_success_v4_def response_error_v1_def response_error_v2_def response_error_v3_def
  response_error_v4_def response_error_v5_def response_error_v6_def response_error_v7_def
  response_error_v8_def response_error_v9_def

declare response_defs [resp_defs]

lemma body_field_Json [simp]: "body_field k (JsonResponse (JObj d)) = map_of d k"
  by (simp add: body_field_def)

lemma success_v1_fields [simp]:
  "is_success_v1 (response_success_v1 t data)" "body_field ''data'' (response_success_v1 t data) = Some data"
  "body_field ''time'' (response_success_v1 t data) = Some (JInt t)"
  by (simp_all add: is_success_v1_def response_success_v1_def)

lemma error_v1_fails: "code \<noteq> RETURN_API_SUCCESS \<Longrightarrow> \<not> is_success_v1 (response_error_v1 t msg code)"
  by (simp add: is_success_v1_def response_error_v1_def)

lemma error_v9_fails: "code \<noteq> RETURN_API_SUCCESS \<Longrightarrow> \<not> is_success_v1 (response_error_v9 t msg code)"
  by (simp add: is_success_v1_def response_error_v9_def)

lemma success_v2_fields:
  "data_key \<notin> {result_key, ''todo''} \<Longrightarrow> result_key \<noteq> ''todo'' \<Longrightarrow>
   body_field data_key (response_success_v2 data None data_key result_key) = Some data \<and>
   body_field result_key (response_success_v2 data None data_key result_key) = Some (JStr ''ok'')"
  by (auto simp: response_success_v2_def Let_def)

end
