(* ===== verification/Py_Bytes.thy ===== *)
theory Py_Bytes
  imports Py_Format
begin

text \<open>
  Bytes and their codings. A byte string is a \<open>string\<close> whose characters are the bytes.
  \<open>b64decode\<close> is \<open>base64.b64decode\<close> in its lenient default mode: characters outside the
  alphabet are skipped, padding ends the data, an incomplete group raises. UTF-8 is modelled
  for the characters below 256, one or two bytes each.
\<close>

section \<open>Base64\<close>

definition b64_char :: "nat \<Rightarrow> char" where
  "b64_char n = char_of (if n < 26 then 65 + n else if n < 52 then 71 + n else if n < 62 then n - 4
     else if n = 62 then 43 else 47 :: nat)"

definition b64_val :: "char \<Rightarrow> nat option" where
  "b64_val c = (let n = of_char c :: nat in
     if 65 \<le> n \<and> n \<le> 90 then Some (n - 65)
     else if 97 \<le> n \<and> n \<le> 122 then Some (n - 71)
     else if 48 \<le> n \<and> n \<le> 57 then Some (n + 4)
     else if n = 43 then Some 62 else if n = 47 then Some 63 else None)"

definition emit :: "nat \<Rightarrow> py_exc + string \<Rightarrow> py_exc + string" where
  "emit b r = (case r of Inl e \<Rightarrow> Inl e | Inr s \<Rightarrow> Inr (char_of b # s))"

text \<open>The decoder's state: characters of the group seen, bits left over, padding seen.\<close>

fun b64_loop :: "nat \<Rightarrow> nat \<Rightarrow> nat \<Rightarrow> string \<Rightarrow> py_exc + string" where
  "b64_loop quad left pads [] = (if quad = 0 then Inr [] else Inl ValueError)"
| "b64_loop quad left pads (c # cs) =
     (if c = CHR ''='' then
        (if quad \<ge> 2 \<and> quad + Suc pads \<ge> 4 then Inr []
         else b64_loop quad left (if quad \<ge> 2 then Suc pads else pads) cs)
      else
        (case b64_val c of
           None \<Rightarrow> b64_loop quad left pads cs
         | Some v \<Rightarrow>
             if quad = 0 then b64_loop 1 v 0 cs
             else if quad = 1 then emit (left * 4 + v div 16) (b64_loop 2 (v mod 16) 0 cs)
             else if quad = 2 then emit (left * 16 + v div 4) (b64_loop 3 (v mod 4) 0 cs)
             else emit (left * 64 + v) (b64_loop 0 0 0 cs)))"

definition b64decode :: "string \<Rightarrow> py_exc + string" where
  "b64decode s = (if list_all (\<lambda>c. of_char c < (128 :: nat)) s then b64_loop 0 0 0 s else Inl ValueError)"

fun b64encode :: "string \<Rightarrow> string" where
  "b64encode [] = []"
| "b64encode [a] =
     (let x = of_char a :: nat in [b64_char (x div 4), b64_char (x mod 4 * 16), CHR ''='', CHR ''=''])"
| "b64encode [a, b] =
     (let x = of_char a :: nat; y = of_char b :: nat in
      [b64_char (x div 4), b64_char (x mod 4 * 16 + y div 16), b64_char (y mod 16 * 4), CHR ''=''])"
| "b64encode (a # b # c # s) =
     (let x = of_char a :: nat; y = of_char b :: nat; z = of_char c :: nat in
      b64_char (x div 4) # b64_char (x mod 4 * 16 + y div 16) # b64_char (y mod 16 * 4 + z div 64)
        # b64_char (z mod 64) # b64encode s)"

lemma of_char_b64:
  "n < 64 \<Longrightarrow> (of_char (b64_char n) :: nat) =
    (if n < 26 then 65 + n else if n < 52 then 71 + n else if n < 62 then n - 4 else if n = 62 then 43 else 47)"
  by (simp add: b64_char_def of_char_of)

lemma b64_char_facts [simp]:
  assumes "n < 64"
  shows "b64_val (b64_char n) = Some n" "b64_char n \<noteq> CHR ''=''" "of_char (b64_char n) < (128 :: nat)"
proof -
  show "b64_val (b64_char n) = Some n" "of_char (b64_char n) < (128 :: nat)"
    using assms by (auto simp: b64_val_def of_char_b64 Let_def)
  have "(of_char (b64_char n) :: nat) \<noteq> 61" using assms by (auto simp: of_char_b64)
  then show "b64_char n \<noteq> CHR ''=''" by auto
qed

lemma of_char_bound [simp]: "(of_char c :: nat) < 256"
  by (metis of_char_mod_256 mod_less_divisor zero_less_numeral)

lemma div_bounds:
  fixes x :: nat assumes "x < 256"
  shows "x div 4 < 64" "x mod 4 * 16 + y mod 16 < 64" "x mod 16 * 4 + z mod 4 < 64" "x div 16 < 16" "x div 64 < 4"
    "x mod 4 * 16 < 64" "x mod 16 * 4 < 64"
proof -
  have "x mod 4 < 4" "y mod 16 < 16" "x mod 16 < 16" "z mod 4 < 4" by simp_all
  then show "x mod 4 * 16 + y mod 16 < 64" "x mod 16 * 4 + z mod 4 < 64" "x mod 4 * 16 < 64" "x mod 16 * 4 < 64"
    by linarith+
  show "x div 4 < 64" "x div 16 < 16" "x div 64 < 4" using assms by linarith+
qed

lemma group_values:
  fixes x y z :: nat assumes "x < 256" "y < 256" "z < 256"
  shows "x div 4 * 4 + (x mod 4 * 16 + y div 16) div 16 = x"
    "(x mod 4 * 16 + y div 16) mod 16 * 16 + (y mod 16 * 4 + z div 64) div 4 = y"
    "(y mod 16 * 4 + z div 64) mod 4 * 64 + z mod 64 = z"
    "x mod 4 * 16 + y div 16 < 64" "y mod 16 * 4 + z div 64 < 64"
proof -
  have b: "y div 16 < 16" "z div 64 < 4" using assms by linarith+
  then show "x div 4 * 4 + (x mod 4 * 16 + y div 16) div 16 = x"
    "(x mod 4 * 16 + y div 16) mod 16 * 16 + (y mod 16 * 4 + z div 64) div 4 = y"
    "(y mod 16 * 4 + z div 64) mod 4 * 64 + z mod 64 = z" by simp_all
  have "x mod 4 < 4" "y mod 16 < 16" by simp_all
  with b show "x mod 4 * 16 + y div 16 < 64" "y mod 16 * 4 + z div 64 < 64" by linarith+
qed

lemma emit_Inr [simp]: "emit b (Inr s) = Inr (char_of b # s)"
  by (simp add: emit_def)

lemma b64_loop_encode: "b64_loop 0 l p (b64encode s) = Inr s"
proof (induction s arbitrary: l p rule: b64encode.induct)
  case 1
  then show ?case by simp
next
  case (2 a)
  have "of_char a div 4 * 4 + of_char a mod 4 * 16 div 16 = (of_char a :: nat)" by simp
  then show ?case by (simp add: Let_def div_bounds)
next
  case (3 a b)
  note g = group_values [of "of_char a" "of_char b" 0, OF of_char_bound of_char_bound, simplified]
  show ?case by (simp add: Let_def div_bounds g)
next
  case (4 a b c s)
  note g = group_values [of "of_char a" "of_char b" "of_char c", OF of_char_bound of_char_bound of_char_bound]
  show ?case by (simp add: Let_def div_bounds g 4)
qed

lemma b64_ascii: "list_all (\<lambda>c. of_char c < (128 :: nat)) (b64encode s)"
proof (induction s rule: b64encode.induct)
  case (3 a b)
  note g = group_values [of "of_char a" "of_char b" 0, OF of_char_bound of_char_bound, simplified]
  show ?case by (simp add: Let_def div_bounds g)
next
  case (4 a b c s)
  note g = group_values [of "of_char a" "of_char b" "of_char c", OF of_char_bound of_char_bound of_char_bound]
  show ?case using 4 by (simp add: Let_def div_bounds g)
qed (simp_all add: Let_def div_bounds)

lemma b64_round_trip: "b64decode (b64encode s) = Inr s"
  by (simp add: b64decode_def b64_ascii b64_loop_encode)

section \<open>UTF-8\<close>

fun utf8_encode :: "string \<Rightarrow> string" where
  "utf8_encode [] = []"
| "utf8_encode (c # cs) = (let n = of_char c :: nat in
     if n < 128 then c # utf8_encode cs
     else char_of (192 + n div 64) # char_of (128 + n mod 64) # utf8_encode cs)"

fun utf8_decode :: "string \<Rightarrow> py_exc + string" where
  "utf8_decode [] = Inr []"
| "utf8_decode (c # cs) = (let n = of_char c :: nat in
     if n < 128 then emit n (utf8_decode cs)
     else if n = 194 \<or> n = 195 then
       (case cs of
          [] \<Rightarrow> Inl UnicodeError
        | d # ds \<Rightarrow> let m = of_char d :: nat in
            if 128 \<le> m \<and> m < 192 then emit ((n - 192) * 64 + (m - 128)) (utf8_decode ds) else Inl UnicodeError)
     else Inl UnicodeError)"

text \<open>\<open>decode("utf-8", errors="replace")\<close>: what is not decodable becomes a replacement mark,
  written \<open>?\<close> here since the mark itself is not below 256.\<close>

fun utf8_decode_replace :: "string \<Rightarrow> string" where
  "utf8_decode_replace [] = []"
| "utf8_decode_replace (c # cs) = (let n = of_char c :: nat in
     if n < 128 then c # utf8_decode_replace cs
     else if n = 194 \<or> n = 195 then
       (case cs of
          [] \<Rightarrow> ''?''
        | d # ds \<Rightarrow> let m = of_char d :: nat in
            if 128 \<le> m \<and> m < 192 then char_of ((n - 192) * 64 + (m - 128)) # utf8_decode_replace ds
            else CHR ''?'' # utf8_decode_replace cs)
     else CHR ''?'' # utf8_decode_replace cs)"

lemma utf8_two_bytes:
  assumes "128 \<le> n" "n < (256 :: nat)"
  shows "192 + n div 64 = 194 \<or> 192 + n div 64 = 195" "(192 + n div 64 - 192) * 64 + (128 + n mod 64 - 128) = n"
    "192 + n div 64 < 256" "128 + n mod 64 < 192"
proof -
  have d: "2 \<le> n div 64" "n div 64 < 4" using assms by linarith+
  then show "192 + n div 64 = 194 \<or> 192 + n div 64 = 195" "192 + n div 64 < 256" by linarith+
  show "(192 + n div 64 - 192) * 64 + (128 + n mod 64 - 128) = n" by simp
  have "n mod 64 < 64" by simp
  then show "128 + n mod 64 < 192" by linarith
qed

lemma utf8_round_trip: "utf8_decode (utf8_encode s) = Inr s"
proof (induction s)
  case Nil
  then show ?case by simp
next
  case (Cons c s)
  let ?n = "of_char c :: nat"
  show ?case
  proof (cases "?n < 128")
    case True
    with Cons show ?thesis by simp
  next
    case False
    have two: "192 + ?n div 64 = 194 \<or> 192 + ?n div 64 = 195" "(192 + ?n div 64 - 192) * 64 + (128 + ?n mod 64 - 128) = ?n"
      "192 + ?n div 64 < 256" "128 + ?n mod 64 < 192"
      using utf8_two_bytes [of ?n] False by simp_all
    have bytes: "(of_char (char_of (192 + ?n div 64) :: char) :: nat) = 192 + ?n div 64"
      "(of_char (char_of (128 + ?n mod 64) :: char) :: nat) = 128 + ?n mod 64"
      using two by (simp_all add: of_char_of)
    have "utf8_decode (char_of (192 + ?n div 64) # char_of (128 + ?n mod 64) # utf8_encode s) =
        emit ((192 + ?n div 64 - 192) * 64 + (128 + ?n mod 64 - 128)) (utf8_decode (utf8_encode s))"
      using two by (simp add: bytes Let_def)
    also have "\<dots> = Inr (c # s)" unfolding two(2) by (simp add: Cons)
    finally show ?thesis using False by (simp add: Let_def)
  qed
qed

lemma utf8_ascii: "list_all (\<lambda>c. of_char c < (128 :: nat)) s \<Longrightarrow> utf8_encode s = s \<and> utf8_decode s = Inr s"
  by (induction s) simp_all

end
