(* ===== verification/Web_Core.thy ===== *)
theory Web_Core
  imports Response_Helper Py_Bytes
begin

text \<open>
  What a web handler sees: the environment (the database engine, the configuration, the
  clock, the sources of identifiers, the token library), the request, and the state a
  handler changes. The handlers are programs over \<open>web\<close>. Everything in \<open>env\<close> that is not
  the configuration stands for code outside the repository: TinyDB, the operating system's
  clock and time zone, \<open>uuid4\<close>, \<open>hashlib\<close>, PyJWT and \<open>json.loads\<close>.
\<close>

record env =
  e_store :: store_ops
  e_cfg :: config
  e_tz :: "datetime \<Rightarrow> int"
  e_now :: datetime
  e_now_ms :: int
  e_load_ms :: int
  e_uuid :: "nat \<Rightarrow> string"
  e_sha256 :: "string \<Rightarrow> string"
  e_jwt_encode :: "json \<Rightarrow> string \<Rightarrow> string \<Rightarrow> json \<Rightarrow> string"
  e_jwt_decode :: "string \<Rightarrow> doc option"
  e_key_file :: "py_exc + string"
  e_loads :: "string \<Rightarrow> py_exc + json"

text \<open>
  \<open>rq_json\<close> is \<open>json.loads\<close> of the body: a value, or the exception it raises; \<open>rq_form\<close> holds
  the fields when the content type is that of a form.
\<close>

record request =
  rq_path :: string
  rq_query :: "(string \<times> string) list"
  rq_match :: "(string \<times> string) list"
  rq_headers :: "(string \<times> string) list"
  rq_json :: "py_exc + json"
  rq_form :: "(string \<times> string) list option"

record web =
  w_db :: db
  w_drawn :: nat

definition opt_str :: "string option \<Rightarrow> json" where
  "opt_str s = (case s of None \<Rightarrow> JNull | Some t \<Rightarrow> JStr t)"

definition rq_get :: "request \<Rightarrow> string \<Rightarrow> json" where
  "rq_get rq k = opt_str (map_of (rq_query rq) k)"

definition rq_info :: "request \<Rightarrow> string \<Rightarrow> json" where
  "rq_info rq k = opt_str (map_of (rq_match rq) k)"

text \<open>\<open>dict(q)\<close> of a multi-dictionary keeps the first value of each key.\<close>

definition fields_doc :: "(string \<times> string) list \<Rightarrow> doc" where
  "fields_doc q = fold (\<lambda>(k, v) d. if map_of d k = None then d @ [(k, JStr v)] else d) q []"

text \<open>The body as the handlers read it: the fields of a form, otherwise JSON.\<close>

definition rq_body :: "request \<Rightarrow> py_exc + json" where
  "rq_body rq = (case rq_form rq of Some f \<Rightarrow> Inr (JObj (fields_doc f)) | None \<Rightarrow> rq_json rq)"

definition rq_get_or :: "request \<Rightarrow> string \<Rightarrow> string \<Rightarrow> string" where
  "rq_get_or rq k d = (case map_of (rq_query rq) k of None \<Rightarrow> d | Some v \<Rightarrow> v)"

definition rq_info_or :: "request \<Rightarrow> string \<Rightarrow> string \<Rightarrow> string" where
  "rq_info_or rq k d = (case map_of (rq_match rq) k of None \<Rightarrow> d | Some v \<Rightarrow> v)"

section \<open>Steps on the database\<close>

definition db_gets :: "(db \<Rightarrow> 'a) \<Rightarrow> (web, 'a) py" where
  "db_gets f = py_gets (\<lambda>s. f (w_db s))"

definition db_try :: "(db \<Rightarrow> py_exc + 'a) \<Rightarrow> (web, 'a) py" where
  "db_try f s = (f (w_db s), s)"

definition db_do :: "(db \<Rightarrow> db) \<Rightarrow> (web, unit) py" where
  "db_do f = py_modify (\<lambda>s. s\<lparr>w_db := f (w_db s)\<rparr>)"

definition db_step :: "(db \<Rightarrow> 'a \<times> db) \<Rightarrow> (web, 'a) py" where
  "db_step f s = (case f (w_db s) of (x, d) \<Rightarrow> (Inr x, s\<lparr>w_db := d\<rparr>))"

definition db_run :: "(db, 'a) py \<Rightarrow> (web, 'a) py" where
  "db_run p = py_zoom w_db (\<lambda>d s. s\<lparr>w_db := d\<rparr>) p"

definition draw_uuid :: "env \<Rightarrow> (web, string) py" where
  "draw_uuid E s = (Inr (e_uuid E (w_drawn s)), s\<lparr>w_drawn := Suc (w_drawn s)\<rparr>)"

lemmas db_prims = db_gets_def db_try_def db_do_def db_step_def db_run_def py_zoom_def draw_uuid_def

declare db_prims [py_run]

text \<open>The frame of the handlers: any exception is logged and answered with status 500.\<close>

definition guarded :: "(web, 'a) py \<Rightarrow> (web, 'a) py" where
  "guarded m = py_try m (\<lambda>_. py_raise (HTTPException 500))"

lemma guarded_Inr: "m s = (Inr x, s') \<Longrightarrow> guarded m s = (Inr x, s')"
  by (simp add: guarded_def py_try_def)

lemma guarded_Inl: "m s = (Inl e, s') \<Longrightarrow> guarded m s = (Inl (HTTPException 500), s')"
  by (simp add: guarded_def py_try_def py_raise_def)

text \<open>A handler answers or raises status 500, whatever happens inside.\<close>

lemma guarded_result: "fst (guarded m s) = Inl e \<Longrightarrow> e = HTTPException 500"
  by (auto simp: guarded_def py_try_def py_raise_def split: prod.splits sum.splits)

lemma keeps_guarded [intro]: "keeps P m \<Longrightarrow> keeps P (guarded m)"
  unfolding guarded_def by (intro keeps_try keeps_raise)

section \<open>Invariants of the database\<close>

definition db_ok :: "db \<Rightarrow> bool" where
  "db_ok db \<longleftrightarrow> bots_ok db \<and> clients_ok db \<and> users_ok db \<and> tokens_ok db \<and> logs_ok db"

definition empty_db :: db where
  "empty_db = (\<lambda>_. [])"

lemma db_ok_empty: "db_ok empty_db"
  by (simp add: db_ok_def empty_db_def bots_ok_def clients_ok_def users_ok_def tokens_ok_def logs_ok_def
      unique_key_def ids_ok_def)

text \<open>An operation that changes one table keeps what is known of the others.\<close>

lemma tables_elsewhere:
  assumes "\<forall>tn. tn \<noteq> t \<longrightarrow> db' tn = db tn"
  shows "t \<noteq> ''bots'' \<Longrightarrow> bots_ok db' = bots_ok db" "t \<noteq> ''clients'' \<Longrightarrow> clients_ok db' = clients_ok db"
    "t \<noteq> ''users'' \<Longrightarrow> users_ok db' = users_ok db" "t \<noteq> ''tokens'' \<Longrightarrow> tokens_ok db' = tokens_ok db"
    "t \<noteq> ''clean_logs'' \<Longrightarrow> logs_ok db' = logs_ok db"
  using assms by (auto simp: bots_ok_def clients_ok_def users_ok_def tokens_ok_def logs_ok_def)

end
