(* ===== verification/Auth_Service.thy ===== *)
theory Auth_Service
  imports Web_Core
begin

text \<open>
  Login, session check, the exchange of tokens for codes and the OAuth call-back
  (src/bumper/web/auth_service.py). One definition per function of the module; the clock
  does not advance during a request.
\<close>

section \<open>Tokens and details\<close>

definition generate_uid :: "env \<Rightarrow> json \<Rightarrow> json" where
  "generate_uid E account =
     (let account = (case account of JStr s \<Rightarrow> s | _ \<Rightarrow> USER_USERNAME_DEFAULT (e_cfg E))
      in JStr (take 20 (e_sha256 E account)))"

definition generate_token :: "env \<Rightarrow> json \<Rightarrow> (web, json) py" where
  "generate_token E user_id =
     py_bind (draw_uuid E) (\<lambda>tok.
     py_seq (db_do (token_add (e_store E) (e_cfg E) (e_tz E) (e_now E) user_id (JStr tok)))
       (py_ret (JStr tok)))"

definition generate_it_token :: "env \<Rightarrow> json \<Rightarrow> (web, json) py" where
  "generate_it_token E user_id =
     py_bind (draw_uuid E) (\<lambda>u. let new_it_token = JStr (''GLOBAL_APP_ECOVACS_IOT_'' @ u) in
     py_bind (db_step (token_add_it_token (e_store E) user_id new_it_token)) (\<lambda>ok.
       py_ret (if ok then new_it_token else JNull)))"

definition generate_auth_code :: "env \<Rightarrow> json \<Rightarrow> (web, json) py" where
  "generate_auth_code E user_id =
     py_bind (draw_uuid E) (\<lambda>u.
     py_bind (db_step (token_add_auth_code (e_store E) user_id (JStr u))) (\<lambda>ok.
       py_ret (if ok then JStr u else JNull)))"

definition get_login_details :: "env \<Rightarrow> string \<Rightarrow> string \<Rightarrow> bumper_user \<Rightarrow> json \<Rightarrow> json" where
  "get_login_details E apptype country_code user tok =
     (let details =
        [(''accessToken'', tok),
         (''email'', JStr (USER_MAIL_DEFAULT (e_cfg E))),
         (''isNew'', JNull),
         (''loginName'', usr_userid user),
         (''mobile'', JNull),
         (''ucUid'', usr_userid user),
         (''uid'', usr_userid user),
         (''username'', usr_username user),
         (''country'', JStr country_code),
         (''verifyDevice'', JStr ''N'')]
      in JObj (if contains ''global_'' apptype then
          dupdate details [(''ucUid'', dget details ''uid''), (''loginName'', dget details ''username''),
            (''mobile'', JNull)]
        else details))"

definition token_failure :: "env \<Rightarrow> response" where
  "token_failure E = response_error_v1 (e_now_ms E) ''Parameter error. Please try again later.'' ERR_TOKEN_INVALID"

definition check_token :: "env \<Rightarrow> string \<Rightarrow> string \<Rightarrow> bumper_user \<Rightarrow> json \<Rightarrow> (web, bool \<times> response) py" where
  "check_token E apptype country_code user token_str =
     py_bind (db_try (token_verify (e_store E) (e_now E) (usr_userid user) token_str)) (\<lambda>ok.
       py_ret (if ok then (True, response_success_v1 (e_load_ms E)
                             (get_login_details E apptype country_code user token_str))
               else (False, token_failure E)))"

section \<open>Login and session check\<close>

definition auth_any_user_extends :: "env \<Rightarrow> bumper_user \<Rightarrow> json \<Rightarrow> (web, unit) py" where
  "auth_any_user_extends E user device_id =
     py_seq (db_run (user_add_device (e_store E) (usr_userid user) device_id))
     (py_bind (db_gets (bot_list_all (e_store E))) (\<lambda>bots.
      py_seq
        (py_for bots (\<lambda>bot.
           if bot_did bot \<noteq> JNull \<and> bot_did bot \<noteq> JStr []
           then db_run (user_add_bot (e_store E) (usr_userid user) (bot_did bot))
           else py_ret ()))
        (db_do (token_revoke_user_expired (e_store E) (e_now E) (usr_userid user)))))"

text \<open>The user of a login, created when it is not known.\<close>

definition ensure_user :: "env \<Rightarrow> json \<Rightarrow> (web, bumper_user option) py" where
  "ensure_user E uid =
     py_bind (db_gets (user_get_by_id (e_store E) (e_cfg E) uid)) (\<lambda>user.
     case user of
       Some u \<Rightarrow> py_ret (Some u)
     | None \<Rightarrow>
         py_seq (db_run (user_add (e_store E) (e_cfg E) uid))
           (db_gets (user_get_by_id (e_store E) (e_cfg E) uid)))"

text \<open>The token of the answer: kept when a check found it, generated otherwise.\<close>

definition session_token :: "env \<Rightarrow> bumper_user \<Rightarrow> bool \<Rightarrow> json \<Rightarrow> (web, json) py" where
  "session_token E user is_check_login token_str =
     (if \<not> is_check_login then generate_token E (usr_userid user)
      else if truthy token_str then
        py_bind (db_try (token_get (e_store E) (usr_userid user) token_str)) (\<lambda>t.
          if t = None then generate_token E (usr_userid user) else py_ret token_str)
      else py_ret token_str)"

definition auth_any :: "env \<Rightarrow> json \<Rightarrow> json \<Rightarrow> json \<Rightarrow> string \<Rightarrow> string \<Rightarrow> bool \<Rightarrow> (web, response) py" where
  "auth_any E uid token_str device_id app_type country_code check =
     (let uid = (if truthy uid then uid else generate_uid E (JStr (USER_USERNAME_DEFAULT (e_cfg E)))) in
      py_bind (ensure_user E uid) (\<lambda>user.
      case user of
        None \<Rightarrow> py_ret (token_failure E)
      | Some user \<Rightarrow>
          py_seq (auth_any_user_extends E user device_id)
          (let is_check_login = (check \<and> token_str \<noteq> JNull) in
           py_bind (session_token E user is_check_login token_str) (\<lambda>token_str.
           py_bind (if token_str = JNull then generate_token E (usr_userid user) else py_ret token_str) (\<lambda>token_str.
           let body = response_success_v1 (e_load_ms E) (get_login_details E app_type country_code user token_str) in
           if is_check_login then
             py_bind (check_token E app_type country_code user token_str) (\<lambda>(success, result).
               py_ret (if success then result else body))
           else py_ret body)))))"

definition login_uid :: "env \<Rightarrow> request \<Rightarrow> json" where
  "login_uid E rq =
     (let uid = generate_uid E (rq_get rq ''account'');
          uid = (if uid = JNull \<or> uid = JStr [] then generate_uid E (rq_get rq ''encryptAccount'') else uid);
          uid = (if uid = JNull \<or> uid = JStr [] then generate_uid E (rq_get rq ''authAppkey'') else uid)
      in uid)"

definition login :: "env \<Rightarrow> request \<Rightarrow> (web, response) py" where
  "login E rq = guarded
     (let check = contains ''checkLogin'' (rq_path rq);
          uid = (if check then rq_get rq ''uid'' else login_uid E rq);
          access_token = (if check then rq_get rq ''accessToken'' else JNull);
          device_id = rq_info rq ''devid'';
          country_code = (case map_of (rq_match rq) ''country'' of
             None \<Rightarrow> ECOVACS_DEFAULT_COUNTRY (e_cfg E) | Some c \<Rightarrow> c) in
      if USE_AUTH (e_cfg E) then
        (case (map_of (rq_match rq) ''devid'', map_of (rq_match rq) ''apptype'') of
           (Some _, Some app_type) \<Rightarrow>
             py_bind (db_gets (user_get_by_device_id (e_store E) (e_cfg E) device_id)) (\<lambda>user.
             case user of
               None \<Rightarrow> py_ret (token_failure E)
             | Some user \<Rightarrow>
                 if check then
                   py_bind (check_token E app_type country_code user
                       (if access_token = JNull then JStr [] else access_token)) (\<lambda>r. py_ret (snd r))
                 else
                   py_seq (db_do (token_revoke_user_expired (e_store E) (e_now E) (usr_userid user)))
                   (py_bind (generate_token E (usr_userid user)) (\<lambda>tok.
                     py_ret (response_success_v1 (e_load_ms E)
                       (get_login_details E app_type country_code user tok)))))
         | _ \<Rightarrow> py_ret (token_failure E))
      else
        (case (map_of (rq_match rq) ''devid'', map_of (rq_match rq) ''apptype'') of
           (Some _, Some app_type) \<Rightarrow> auth_any E uid access_token device_id app_type country_code check
         | _ \<Rightarrow> py_raise (HTTPException 500)))"

section \<open>Codes\<close>

definition fallback_user_by_device_id :: "env \<Rightarrow> request \<Rightarrow> (web, bumper_user option) py" where
  "fallback_user_by_device_id E rq =
     (let device_id = rq_info rq ''devid'';
          device_id = (if device_id = JNull then rq_get rq ''deviceId'' else device_id)
      in if device_id \<noteq> JNull then db_gets (user_get_by_device_id (e_store E) (e_cfg E) device_id)
         else py_ret None)"

definition get_auth_code :: "env \<Rightarrow> request \<Rightarrow> (web, response) py" where
  "get_auth_code E rq = guarded
     (let user_id = rq_get rq ''uid'' in
      py_bind (if user_id \<noteq> JNull then db_gets (user_get_by_id (e_store E) (e_cfg E) user_id) else py_ret None)
       (\<lambda>user.
      py_bind (if user = None then fallback_user_by_device_id E rq else py_ret user) (\<lambda>user.
      case user of
        None \<Rightarrow> py_ret (response_error_v9 (e_now_ms E) (''No user found for '' @ py_str user_id) ERR_TOKEN_INVALID)
      | Some user \<Rightarrow>
          py_bind (generate_it_token E (usr_userid user)) (\<lambda>auth_code.
            py_ret (if auth_code \<noteq> JNull
              then response_success_v1 (e_load_ms E)
                     (JObj [(''authCode'', auth_code), (''ecovacsUid'', usr_userid user)])
              else response_error_v9 (e_now_ms E) ''Expired user login'' ERR_TOKEN_INVALID)))))"

definition get_new_auth :: "env \<Rightarrow> request \<Rightarrow> (web, response) py" where
  "get_new_auth E rq = guarded
     (py_bind (py_of (rq_json rq)) (\<lambda>body.
      py_bind (py_of (as_dict_value body)) (\<lambda>post_body.
      let it_token = dget post_body ''itToken'' in
      if it_token = JNull then
        py_ret (response_error_v2 (''New auth failed, '' @ [CHR 0x27] @ ''itToken'' @ [CHR 0x27] @ '' not provided'') ERR_TOKEN_INVALID)
      else
        py_bind (db_try (token_login_by_it_token (e_store E) it_token)) (\<lambda>t.
        case t of
          None \<Rightarrow> py_ret (response_error_v2 ''New auth failed, no token found for it-token'' ERR_TOKEN_INVALID)
        | Some t \<Rightarrow>
            py_seq (db_do (token_revoke_user_expired (e_store E) (e_now E) (tok_userid t)))
            (if truthy (tok_auth_code t)
             then py_ret (response_success_v2 (tok_auth_code t) None ''authCode'' ''result'')
             else
               py_bind (generate_auth_code E (tok_userid t)) (\<lambda>auth_code.
                 py_ret (if auth_code \<noteq> JNull
                   then response_success_v2 auth_code None ''authCode'' ''result''
                   else response_error_v2 ''Expired client login'' ERR_TOKEN_INVALID)))))))"

definition get_auth_code_v2 :: "env \<Rightarrow> request \<Rightarrow> (web, response) py" where
  "get_auth_code_v2 E rq = guarded
     (py_bind (py_of (rq_json rq)) (\<lambda>body.
      py_bind (py_of (as_dict_value body)) (\<lambda>post_body.
      py_bind (py_of (as_dict_value (dget_or post_body ''auth'' (JObj [])))) (\<lambda>auth.
      let user_id = dget auth ''userid'' in
      py_bind (if user_id \<noteq> JNull then db_gets (user_get_by_id (e_store E) (e_cfg E) user_id) else py_ret None)
       (\<lambda>user.
      case user of
        None \<Rightarrow> py_ret (response_error_v2 (''No user found for '' @ py_str user_id) ERR_USER_DISABLE)
      | Some user \<Rightarrow>
          py_seq (db_do (token_revoke_user_expired (e_store E) (e_now E) user_id))
          (py_bind (db_try (token_get_first (e_store E) user_id)) (\<lambda>t.
           let auth_code = (case t of None \<Rightarrow> JNull | Some t \<Rightarrow> tok_auth_code t) in
           if auth_code \<noteq> JNull
           then py_ret (response_success_v2 auth_code None ''code'' ''result'')
           else
             py_bind (generate_auth_code E (usr_userid user)) (\<lambda>auth_code.
               py_ret (if auth_code \<noteq> JNull
                 then response_success_v2 auth_code None ''code'' ''result''
                 else response_error_v2 ''Auth error'' ERR_USER_DISABLE)))))))))"

section \<open>OAuth\<close>

text \<open>Seconds since the epoch; the epoch is the start of 1970 in UTC.\<close>

definition timestamp :: "datetime \<Rightarrow> int" where
  "timestamp t = instant t div 1000000 - int (ordinal 1970 1 1) * 86400"

definition jwt_payload :: "env \<Rightarrow> doc \<Rightarrow> string \<Rightarrow> doc" where
  "jwt_payload E data t =
     (let now = e_now E; exp_dt = dt_add (e_tz E) (TOKEN_VALIDITY_SECONDS (e_cfg E)) now
      in dupdate [(''t'', JStr t), (''iat'', JInt (timestamp now)),
            (''exp'', JInt (if t \<noteq> ''a'' then timestamp exp_dt else timestamp now))] data)"

definition generate_jwt_helper :: "env \<Rightarrow> doc \<Rightarrow> string \<Rightarrow> py_exc + (string \<times> int)" where
  "generate_jwt_helper E data t =
     (case e_key_file E of
        Inl e \<Rightarrow> Inl e
      | Inr private_key \<Rightarrow>
          Inr (e_jwt_encode E (JObj (jwt_payload E data t)) private_key (TOKEN_JWT_ALG (e_cfg E))
                 (JObj [(''alg'', JStr (TOKEN_JWT_ALG (e_cfg E))), (''typ'', JStr ''JWT'')]),
               timestamp (dt_add (e_tz E) (TOKEN_VALIDITY_SECONDS (e_cfg E)) (e_now E))))"

definition extract_jwt_details :: "env \<Rightarrow> json \<Rightarrow> doc option" where
  "extract_jwt_details E tok =
     (case tok of
        JStr s \<Rightarrow>
          (case e_jwt_decode E s of
             None \<Rightarrow> None
           | Some payload \<Rightarrow> Some
              [(''issued_at'', dget payload ''iat''), (''expires_at'', dget payload ''exp''),
               (''client_id'', dget payload ''c''), (''user_id'', dget payload ''u''),
               (''client_resource'', dget payload ''r''), (''auth_code'', dget payload ''ac'')])
      | _ \<Rightarrow> None)"

definition get_jwt_details :: "env \<Rightarrow> json \<Rightarrow> doc option" where
  "get_jwt_details E auth_header =
     (case auth_header of
        JStr h \<Rightarrow>
          if h = [] \<or> \<not> py_startswith (py_lower h) ''bearer '' then None
          else extract_jwt_details E (JStr (py_split (CHR '' '') h ! 1))
      | _ \<Rightarrow> None)"

definition oauth_code :: "env \<Rightarrow> request \<Rightarrow> json" where
  "oauth_code E rq =
     (if rq_get rq ''code'' \<noteq> JNull then rq_get rq ''code''
      else if rq_get rq ''refresh_token'' = JNull then JNull
      else (case extract_jwt_details E (rq_get rq ''refresh_token'') of
              None \<Rightarrow> JNull | Some d \<Rightarrow> dget d ''auth_code''))"

definition oauth_data :: "json \<Rightarrow> json \<Rightarrow> json \<Rightarrow> json \<Rightarrow> doc" where
  "oauth_data client_id userid client_resource auth_code =
     [(''c'', client_id), (''u'', userid), (''r'', client_resource), (''ac'', auth_code)]"

definition oauth_callback :: "env \<Rightarrow> request \<Rightarrow> (web, response) py" where
  "oauth_callback E rq = guarded
     (let auth_code = oauth_code E rq in
      if auth_code = JNull then py_ret (response_error_v4 ''You not provide a auth_code'')
      else
        py_bind (db_try (token_get_by_auth_code (e_store E) auth_code)) (\<lambda>t.
        case t of
          None \<Rightarrow> py_ret (response_error_v4 ''Auth code not known'')
        | Some t \<Rightarrow>
            py_bind (db_gets (client_get (e_store E) (tok_userid t))) (\<lambda>client.
            let client_id = (case client of None \<Rightarrow> JNull | Some c \<Rightarrow> cl_userid c);
                client_resource = (case client of None \<Rightarrow> JNull | Some c \<Rightarrow> cl_resource c);
                data = oauth_data client_id (tok_userid t) client_resource auth_code in
            py_bind (py_of (generate_jwt_helper E data ''a'')) (\<lambda>(access_token, _).
            py_bind (py_of (generate_jwt_helper E data ''r'')) (\<lambda>(refresh_token, expire_at).
              py_ret (success_v3 (JObj
                [(''userId'', tok_userid t), (''access_token'', JStr access_token),
                 (''refresh_token'', JStr refresh_token), (''expire_at'', JInt expire_at)])))))))"

end
