(* ===== verification/Auth_Laws.thy ===== *)
theory Auth_Laws
  imports Auth_Service
begin

text \<open>
  What the authentication service does on a well-formed database: who is created, what the
  user owns afterwards, and that the token an answer carries is a token the service accepts.
\<close>

section \<open>Users\<close>

definition add_all :: "json list \<Rightarrow> json list \<Rightarrow> json list" where
  "add_all vs xs = fold (list_upd True) vs xs"

lemma set_add_all: "list_all (\<lambda>v. \<exists>s. v = JStr s) vs \<Longrightarrow> set (add_all vs xs) = set vs \<union> set xs"
  unfolding add_all_def by (induction vs arbitrary: xs) (auto simp: list_upd_add_set)

definition named_dids :: "vac_bot list \<Rightarrow> json list" where
  "named_dids bots = filter (\<lambda>d. d \<noteq> JNull \<and> d \<noteq> JStr []) (map bot_did bots)"

lemma named_dids_Cons:
  "named_dids (b # bs) = (if bot_did b \<noteq> JNull \<and> bot_did b \<noteq> JStr [] then bot_did b # named_dids bs else named_dids bs)"
  by (simp add: named_dids_def)

lemma bot_did_str: "str_or_missing ''did'' [r] \<Longrightarrow> \<exists>s. bot_did (bot_from_dict (snd r)) = JStr s"
  by (auto simp: str_or_missing_def bot_from_dict_def dget_or_def VacBotDevice_def Let_def
      split: option.splits json.splits)

text \<open>The user context of a login: the device and every named bot are the user's afterwards.\<close>

definition extended :: "json \<Rightarrow> vac_bot list \<Rightarrow> bumper_user \<Rightarrow> bumper_user" where
  "extended device_id bots u =
     u\<lparr>usr_devices := (case usr_devices u of JList xs \<Rightarrow> JList (list_upd True device_id xs) | v \<Rightarrow> v),
       usr_bots := (case usr_bots u of JList xs \<Rightarrow> JList (add_all (named_dids bots) xs) | v \<Rightarrow> v)\<rparr>"

text \<open>The user exists after \<open>ensure_user\<close>, with the data it had or as a new user.\<close>

definition known_or_new :: "config \<Rightarrow> string \<Rightarrow> bumper_user option \<Rightarrow> bumper_user" where
  "known_or_new cfg k u = (case u of Some u \<Rightarrow> u | None \<Rightarrow> new_user cfg k ())"

definition new_expiry :: "env \<Rightarrow> datetime" where
  "new_expiry E = dt_add (e_tz E) (TOKEN_VALIDITY_SECONDS (e_cfg E)) (e_now E)"

text \<open>The identifiers drawn from now on have not been used as tokens.\<close>

definition fresh_uuid :: "env \<Rightarrow> web \<Rightarrow> bool" where
  "fresh_uuid E s \<longleftrightarrow> Some (e_uuid E (w_drawn s)) \<notin> (\<lambda>r. key_of ''token'' (snd r)) ` set (w_db s ''tokens'')"

context tinydb
begin

lemma named_dids_str:
  assumes "str_or_missing ''did'' (db ''bots'')"
  shows "list_all (\<lambda>v. \<exists>s. v = JStr s) (named_dids (bot_list_all D db))"
proof -
  have "\<exists>s. bot_did (bot_from_dict (snd r)) = JStr s" if "r \<in> set (db ''bots'')" for r
    using that assms by (intro bot_did_str) (auto simp: str_or_missing_def list_all_iff)
  then show ?thesis by (auto simp: named_dids_def bot_list_all_def list_all_iff)
qed

lemma user_shape:
  assumes "users_ok db" "user_get_by_id D cfg (JStr k) db = Some u"
  shows "usr_userid u = JStr k" "\<exists>xs. usr_devices u = JList xs" "\<exists>xs. usr_bots u = JList xs"
proof -
  from assms(2) obtain r where l: "lookup ''userid'' k (db ''users'') = Some r" "u = user_from_dict cfg (snd r)"
    by (auto simp: user_get_lookup)
  have r: "r \<in> set (db ''users'')" "key_of ''userid'' (snd r) = Some k" using lookup_Some [OF l(1)] by auto
  show "usr_userid u = JStr k"
    using r(2) by (simp add: l(2) user_from_dict_def BumperUser_def dget_or_def key_of_Some)
  have fld: "\<exists>xs. user_field f u = JList xs" if "f \<in> set list_fields" for f
    using user_doc_field [OF users_ok_row [OF assms(1) r(1)] that] user_field_doc [OF that, of "snd r" _ cfg] l(2)
    by blast
  show "\<exists>xs. usr_devices u = JList xs" "\<exists>xs. usr_bots u = JList xs"
    using fld [of "''devices''"] fld [of "''bots''"] by (auto simp: list_fields_def user_field_def)
qed

lemma user_add_bot_ok:
  assumes "users_ok db" "user_get_by_id D cfg (JStr k) db = Some u" "usr_bots u = JList xs"
  shows "\<exists>db'. user_add_bot D (JStr k) v db = (Inr (), db') \<and> users_ok db' \<and>
    (\<forall>tn. tn \<noteq> ''users'' \<longrightarrow> db' tn = db tn) \<and>
    user_get_by_id D cfg (JStr k) db' = Some (u\<lparr>usr_bots := JList (list_upd True v xs)\<rparr>)"
  using user_list_op_ok [OF assms(1), of "''bots''" k v True cfg] assms(2,3)
  by (auto simp: list_fields_def user_add_bot_def user_put_def user_field_def)

lemma user_add_device_ok:
  assumes "users_ok db" "user_get_by_id D cfg (JStr k) db = Some u" "usr_devices u = JList xs"
  shows "\<exists>db'. user_add_device D (JStr k) v db = (Inr (), db') \<and> users_ok db' \<and>
    (\<forall>tn. tn \<noteq> ''users'' \<longrightarrow> db' tn = db tn) \<and>
    user_get_by_id D cfg (JStr k) db' = Some (u\<lparr>usr_devices := JList (list_upd True v xs)\<rparr>)"
  using user_list_op_ok [OF assms(1), of "''devices''" k v True cfg] assms(2,3)
  by (auto simp: list_fields_def user_add_device_def user_put_def user_field_def)

lemma add_bots_ok:
  assumes "users_ok (w_db s)" "user_get_by_id D cfg (JStr k) (w_db s) = Some u" "usr_bots u = JList xs"
  shows "\<exists>db'. py_for bots (\<lambda>bot. if bot_did bot \<noteq> JNull \<and> bot_did bot \<noteq> JStr []
        then db_run (user_add_bot D (JStr k) (bot_did bot)) else py_ret ()) s = (Inr (), s\<lparr>w_db := db'\<rparr>) \<and>
    users_ok db' \<and> (\<forall>tn. tn \<noteq> ''users'' \<longrightarrow> db' tn = w_db s tn) \<and>
    user_get_by_id D cfg (JStr k) db' = Some (u\<lparr>usr_bots := JList (add_all (named_dids bots) xs)\<rparr>)"
  using assms
proof (induction bots arbitrary: s u xs)
  case Nil
  then show ?case by (intro exI [of _ "w_db s"]) (simp add: py_run add_all_def named_dids_def)
next
  case (Cons b bots)
  show ?case
  proof (cases "bot_did b \<noteq> JNull \<and> bot_did b \<noteq> JStr []")
    case False
    with Cons.IH [OF Cons.prems] show ?thesis by (auto simp: named_dids_Cons py_run)
  next
    case True
    obtain db1 where 1: "user_add_bot D (JStr k) (bot_did b) (w_db s) = (Inr (), db1)" "users_ok db1"
      "\<forall>tn. tn \<noteq> ''users'' \<longrightarrow> db1 tn = w_db s tn"
      "user_get_by_id D cfg (JStr k) db1 = Some (u\<lparr>usr_bots := JList (list_upd True (bot_did b) xs)\<rparr>)"
      using user_add_bot_ok [OF Cons.prems] by blast
    let ?ys = "list_upd True (bot_did b) xs"
    from Cons.IH [of "s\<lparr>w_db := db1\<rparr>" "u\<lparr>usr_bots := JList ?ys\<rparr>" ?ys] 1 True
    show ?thesis by (simp add: named_dids_Cons py_run add_all_def)
  qed
qed

lemma extends_ok:
  assumes E: "e_store E = D" "e_cfg E = cfg"
    and ok: "users_ok (w_db s)" "tokens_ok (w_db s)"
    and u: "user_get_by_id D cfg (JStr k) (w_db s) = Some u"
  shows "\<exists>db'. auth_any_user_extends E u dev s = (Inr (), s\<lparr>w_db := db'\<rparr>) \<and> users_ok db' \<and> tokens_ok db' \<and>
    (\<forall>tn. tn \<noteq> ''users'' \<and> tn \<noteq> ''tokens'' \<longrightarrow> db' tn = w_db s tn) \<and>
    db' ''tokens'' = token_revoke_user_expired D (e_now E) (JStr k) (w_db s) ''tokens'' \<and>
    user_get_by_id D cfg (JStr k) db' = Some (extended dev (bot_list_all D (w_db s)) u)"
proof -
  note id = user_shape(1) [OF ok(1) u]
  obtain ds where ds: "usr_devices u = JList ds" using user_shape(2) [OF ok(1) u] by blast
  obtain bs where bs: "usr_bots u = JList bs" using user_shape(3) [OF ok(1) u] by blast
  let ?u1 = "u\<lparr>usr_devices := JList (list_upd True dev ds)\<rparr>"
  obtain db1 where 1: "user_add_device D (JStr k) dev (w_db s) = (Inr (), db1)" "users_ok db1"
    "\<forall>tn. tn \<noteq> ''users'' \<longrightarrow> db1 tn = w_db s tn" "user_get_by_id D cfg (JStr k) db1 = Some ?u1"
    using user_add_device_ok [OF ok(1) u ds] by blast
  have bots: "bot_list_all D db1 = bot_list_all D (w_db s)" using 1(3) by (simp add: bot_list_all_def)
  obtain db2 where 2: "py_for (bot_list_all D (w_db s)) (\<lambda>bot. if bot_did bot \<noteq> JNull \<and> bot_did bot \<noteq> JStr []
        then db_run (user_add_bot D (JStr k) (bot_did bot)) else py_ret ()) (s\<lparr>w_db := db1\<rparr>) = (Inr (), s\<lparr>w_db := db2\<rparr>)"
    "users_ok db2" "\<forall>tn. tn \<noteq> ''users'' \<longrightarrow> db2 tn = db1 tn"
    "user_get_by_id D cfg (JStr k) db2 = Some (?u1\<lparr>usr_bots := JList (add_all (named_dids (bot_list_all D (w_db s))) bs)\<rparr>)"
    using add_bots_ok [of "s\<lparr>w_db := db1\<rparr>" cfg k ?u1 bs "bot_list_all D (w_db s)"] 1(2,4) bs by auto
  have same: "db2 ''tokens'' = w_db s ''tokens''" using 1(3) 2(3) by simp
  have tok: "tokens_ok db2" using ok(2) same by (simp add: tokens_ok_def)
  let ?db3 = "token_revoke_user_expired D (e_now E) (JStr k) db2"
  note rows = revoke_user_expired_rows [OF tok, of "e_now E" k] revoke_user_expired_rows [OF ok(2), of "e_now E" k]
  have "auth_any_user_extends E u dev s = (Inr (), s\<lparr>w_db := ?db3\<rparr>)"
    unfolding auth_any_user_extends_def E id using 1(1) 2(1) by (simp add: bots py_run)
  moreover have "users_ok ?db3" using 2(2) by (simp add: rows users_ok_def)
  moreover have "tokens_ok ?db3" unfolding rows(1) by (rule tokens_ok_filter [OF tok])
  moreover have "user_get_by_id D cfg (JStr k) ?db3 = user_get_by_id D cfg (JStr k) db2"
    by (simp add: rows user_get_lookup)
  ultimately show ?thesis using 1(3) 2(3,4) same by (auto simp: rows extended_def ds bs)
qed

lemma ensure_user_ok:
  assumes E: "e_store E = D" "e_cfg E = cfg" and ok: "users_ok (w_db s)"
  shows "\<exists>db'. ensure_user E (JStr k) s =
      (Inr (Some (known_or_new cfg k (user_get_by_id D cfg (JStr k) (w_db s)))), s\<lparr>w_db := db'\<rparr>) \<and>
    users_ok db' \<and> (\<forall>tn. tn \<noteq> ''users'' \<longrightarrow> db' tn = w_db s tn) \<and>
    user_get_by_id D cfg (JStr k) db' = Some (known_or_new cfg k (user_get_by_id D cfg (JStr k) (w_db s)))"
proof (cases "user_get_by_id D cfg (JStr k) (w_db s)")
  case (Some u)
  then show ?thesis using ok by (intro exI [of _ "w_db s"]) (simp add: ensure_user_def E known_or_new_def py_run)
next
  case None
  obtain db' where "user_add D cfg (JStr k) (w_db s) = (Inr (), db')" "users_ok db'"
    "\<forall>tn. tn \<noteq> ''users'' \<longrightarrow> db' tn = w_db s tn" "user_get_by_id D cfg (JStr k) db' = Some (new_user cfg k ())"
    using user_add_new [OF ok None] by auto
  with None show ?thesis
    by (intro exI [of _ db']) (simp add: ensure_user_def E known_or_new_def py_run)
qed

section \<open>Login\<close>

lemma generate_token_ok:
  assumes E: "e_store E = D" and ok: "tokens_ok (w_db s)" and v: "valid_dt (new_expiry E)"
    and fresh: "fresh_uuid E s"
  shows "\<exists>db'. generate_token E (JStr k) s =
      (Inr (JStr (e_uuid E (w_drawn s))), s\<lparr>w_db := db', w_drawn := Suc (w_drawn s)\<rparr>) \<and>
    tokens_ok db' \<and> (\<forall>tn. tn \<noteq> ''tokens'' \<longrightarrow> db' tn = w_db s tn) \<and>
    (\<forall>now. token_verify D now (JStr k) (JStr (e_uuid E (w_drawn s))) db' = Inr (instant now < instant (new_expiry E)))"
proof -
  let ?t = "e_uuid E (w_drawn s)"
  let ?db = "token_add D (e_cfg E) (e_tz E) (e_now E) (JStr k) (JStr ?t) (w_db s)"
  have new: "(Some k, Some ?t) \<notin> token_pair ` set (w_db s ''tokens'')"
    using fresh by (force simp: fresh_uuid_def token_pair_def)
  have "generate_token E (JStr k) s = (Inr (JStr ?t), s\<lparr>w_db := ?db, w_drawn := Suc (w_drawn s)\<rparr>)"
    by (simp add: generate_token_def E py_run)
  moreover have "tokens_ok ?db" using tokens_ok_add [OF ok] v by (simp add: new_expiry_def)
  moreover have "\<forall>tn. tn \<noteq> ''tokens'' \<longrightarrow> ?db tn = w_db s tn" by (simp add: token_add_rows)
  moreover have "token_verify D now (JStr k) (JStr ?t) ?db = Inr (instant now < instant (new_expiry E))" for now
    using verify_new_token [OF ok _ new] v by (simp add: new_expiry_def)
  ultimately show ?thesis by blast
qed

lemma fresh_after_revoke:
  "fresh_uuid E s \<Longrightarrow> w_drawn s' = w_drawn s \<Longrightarrow> set (w_db s' ''tokens'') \<subseteq> set (w_db s ''tokens'') \<Longrightarrow> fresh_uuid E s'"
  by (auto simp: fresh_uuid_def)

text \<open>
  A login answers success with a new token of the user, which the service then accepts until
  it expires; the user exists and owns the device and every named bot.
\<close>

lemma login_ok:
  assumes E: "e_store E = D" "e_cfg E = cfg" and ok: "users_ok (w_db s)" "tokens_ok (w_db s)"
    and v: "valid_dt (new_expiry E)" and fresh: "fresh_uuid E s" and k: "k \<noteq> []"
  shows "\<exists>s' u. auth_any E (JStr k) JNull (JStr dev) app country False s =
      (Inr (response_success_v1 (e_load_ms E) (get_login_details E app country u (JStr (e_uuid E (w_drawn s))))), s') \<and>
    users_ok (w_db s') \<and> tokens_ok (w_db s') \<and> (\<forall>tn. tn \<noteq> ''users'' \<and> tn \<noteq> ''tokens'' \<longrightarrow> w_db s' tn = w_db s tn) \<and>
    u = known_or_new cfg k (user_get_by_id D cfg (JStr k) (w_db s)) \<and>
    user_get_by_id D cfg (JStr k) (w_db s') = Some (extended (JStr dev) (bot_list_all D (w_db s)) u) \<and>
    (\<forall>now. token_verify D now (JStr k) (JStr (e_uuid E (w_drawn s))) (w_db s') = Inr (instant now < instant (new_expiry E)))"
proof -
  let ?u = "known_or_new cfg k (user_get_by_id D cfg (JStr k) (w_db s))"
  obtain db1 where 1: "ensure_user E (JStr k) s = (Inr (Some ?u), s\<lparr>w_db := db1\<rparr>)" "users_ok db1"
    "\<forall>tn. tn \<noteq> ''users'' \<longrightarrow> db1 tn = w_db s tn" "user_get_by_id D cfg (JStr k) db1 = Some ?u"
    using ensure_user_ok [OF E ok(1)] by blast
  have tok1: "tokens_ok db1" using ok(2) 1(3) by (simp add: tokens_ok_def)
  obtain db2 where 2: "auth_any_user_extends E ?u (JStr dev) (s\<lparr>w_db := db1\<rparr>) = (Inr (), s\<lparr>w_db := db2\<rparr>)"
    "users_ok db2" "tokens_ok db2" "\<forall>tn. tn \<noteq> ''users'' \<and> tn \<noteq> ''tokens'' \<longrightarrow> db2 tn = db1 tn"
    "db2 ''tokens'' = token_revoke_user_expired D (e_now E) (JStr k) db1 ''tokens''"
    "user_get_by_id D cfg (JStr k) db2 = Some (extended (JStr dev) (bot_list_all D db1) ?u)"
    using extends_ok [OF E, of "s\<lparr>w_db := db1\<rparr>" k ?u "JStr dev"] 1(2,4) tok1 by auto
  have bots: "bot_list_all D db1 = bot_list_all D (w_db s)" using 1(3) by (simp add: bot_list_all_def)
  have id: "usr_userid ?u = JStr k" using user_shape(1) [OF 1(2,4)] .
  have "set (db2 ''tokens'') \<subseteq> set (w_db s ''tokens'')"
    using 1(3) by (auto simp: 2(5) revoke_user_expired_rows [OF tok1])
  then have fresh2: "fresh_uuid E (s\<lparr>w_db := db2\<rparr>)" using fresh by (intro fresh_after_revoke [OF fresh]) auto
  let ?t = "JStr (e_uuid E (w_drawn s))"
  obtain db3 where 3: "generate_token E (JStr k) (s\<lparr>w_db := db2\<rparr>) = (Inr ?t, s\<lparr>w_db := db3, w_drawn := Suc (w_drawn s)\<rparr>)"
    "tokens_ok db3" "\<forall>tn. tn \<noteq> ''tokens'' \<longrightarrow> db3 tn = db2 tn"
    and ver: "\<And>now. token_verify D now (JStr k) ?t db3 = Inr (instant now < instant (new_expiry E))"
    using generate_token_ok [OF E(1) _ v fresh2, of k] 2(3) by auto
  have run: "auth_any E (JStr k) JNull (JStr dev) app country False s =
      (Inr (response_success_v1 (e_load_ms E) (get_login_details E app country ?u ?t)),
       s\<lparr>w_db := db3, w_drawn := Suc (w_drawn s)\<rparr>)"
    using k 1(1) 2(1) 3(1) by (simp add: auth_any_def session_token_def id py_run Let_def)
  have "users_ok db3" using 2(2) 3(3) by (simp add: users_ok_def)
  moreover have "user_get_by_id D cfg (JStr k) db3 = user_get_by_id D cfg (JStr k) db2"
    using 3(3) by (simp add: user_get_lookup)
  ultimately show ?thesis
    using run ver 1(3) 2(4,6) 3(2,3) bots
    by (intro exI [of _ "s\<lparr>w_db := db3, w_drawn := Suc (w_drawn s)\<rparr>"] exI [of _ ?u]) simp
qed

section \<open>Codes\<close>

text \<open>A code that is new in the table identifies the user it was set for.\<close>

lemma set_code_lookup:
  assumes ok: "tokens_ok db" and f: "f \<in> {''auth_code'', ''it_token''}" and u: "has_user u (db ''tokens'')"
    and new: "Some c \<notin> (\<lambda>r. key_of f (snd r)) ` set (db ''tokens'')"
  shows "\<exists>t. token_of_row (repo_get_first D ''tokens'' (QEq f (JStr c)) (snd (token_set_code D f (JStr u) (JStr c) db))) =
      Inr (Some t) \<and> tok_userid t = JStr u"
proof -
  let ?db = "snd (token_set_code D f (JStr u) (JStr c) db)"
  let ?P = "\<lambda>r. key_of f (snd r) = Some c"
  have fn: "f \<noteq> ''userid''" "f \<notin> {''userid'', ''token'', ''expiration''}" using f by auto
  have rows: "?db ''tokens'' = rows_update [(f, JStr c)] (QEq ''userid'' (JStr u)) (db ''tokens'')"
    using u by (simp add: set_code_rows [OF fn(1)])
  have ok': "tokens_ok ?db" by (rule tokens_ok_set_code [OF ok fn(2)])
  have upd: "r' \<in> set (rows_update [(f, JStr c)] (QEq ''userid'' (JStr u)) t) \<Longrightarrow> ?P r' \<Longrightarrow>
      Some c \<notin> (\<lambda>r. key_of f (snd r)) ` set t \<Longrightarrow> key_of ''userid'' (snd r') = Some u" for r' t
    using fn(1) by (induction t) (auto split: if_splits)
  have ex: "has_user u t \<Longrightarrow> List.find ?P (rows_update [(f, JStr c)] (QEq ''userid'' (JStr u)) t) \<noteq> None" for t
    by (induction t) (auto simp: has_user_def split: if_splits)
  obtain r where r: "List.find ?P (?db ''tokens'') = Some r" using ex [OF u] rows by auto
  have r': "r \<in> set (?db ''tokens'')" "?P r" using find_SomeD [OF r] by auto
  have uid: "key_of ''userid'' (snd r) = Some u" using upd [OF r'(1) [unfolded rows] r'(2) new] .
  obtain t where t: "token_from_dict (snd r) = Inr t" using token_doc_from_dict [OF tokens_ok_row [OF ok' r'(1)]] by blast
  have "tok_userid t = JStr u"
    using t uid by (auto simp: token_from_dict_def dget_or_def key_of_Some split: sum.splits)
  with r t show ?thesis by (cases r) (simp add: token_of_row_def)
qed

text \<open>\<open>get_auth_code\<close>: a user with a session gets a code, and the code leads back to the user.\<close>

lemma get_auth_code_ok:
  assumes E: "e_store E = D" "e_cfg E = cfg" and ok: "users_ok (w_db s)" "tokens_ok (w_db s)"
    and q: "map_of (rq_query rq) ''uid'' = Some k"
    and u: "user_get_by_id D cfg (JStr k) (w_db s) \<noteq> None" "has_user k (w_db s ''tokens'')"
    and new: "Some (''GLOBAL_APP_ECOVACS_IOT_'' @ e_uuid E (w_drawn s)) \<notin> (\<lambda>r. key_of ''it_token'' (snd r)) ` set (w_db s ''tokens'')"
  shows "\<exists>s' t. get_auth_code E rq s = (Inr (response_success_v1 (e_load_ms E)
        (JObj [(''authCode'', JStr (''GLOBAL_APP_ECOVACS_IOT_'' @ e_uuid E (w_drawn s))), (''ecovacsUid'', JStr k)])), s') \<and>
    tokens_ok (w_db s') \<and>
    token_login_by_it_token D (JStr (''GLOBAL_APP_ECOVACS_IOT_'' @ e_uuid E (w_drawn s))) (w_db s') = Inr (Some t) \<and>
    tok_userid t = JStr k"
proof -
  let ?c = "''GLOBAL_APP_ECOVACS_IOT_'' @ e_uuid E (w_drawn s)"
  obtain v where v: "user_get_by_id D cfg (JStr k) (w_db s) = Some v" using u(1) by blast
  have id: "usr_userid v = JStr k" using user_shape(1) [OF ok(1) v] .
  let ?db = "snd (token_set_code D ''it_token'' (JStr k) (JStr ?c) (w_db s))"
  have step: "token_add_it_token D (JStr k) (JStr ?c) (w_db s) = (True, ?db)"
    using u(2) set_code_rows [of "''it_token''" k "JStr ?c" "w_db s"] by (simp add: token_add_it_token_def)
  have run: "get_auth_code E rq s = (Inr (response_success_v1 (e_load_ms E)
        (JObj [(''authCode'', JStr ?c), (''ecovacsUid'', JStr k)])), s\<lparr>w_db := ?db, w_drawn := Suc (w_drawn s)\<rparr>)"
    using step v id E q
    by (simp add: get_auth_code_def guarded_def generate_it_token_def rq_get_def opt_str_def py_run Let_def)
  obtain t where t: "token_of_row (repo_get_first D ''tokens'' (QEq ''it_token'' (JStr ?c)) ?db) = Inr (Some t)"
      "tok_userid t = JStr k"
    using set_code_lookup [OF ok(2) _ u(2) new] by blast
  have "tokens_ok ?db" by (rule tokens_ok_set_code [OF ok(2)]) simp
  then show ?thesis
    using run t by (intro exI [of _ "s\<lparr>w_db := ?db, w_drawn := Suc (w_drawn s)\<rparr>"] exI [of _ t])
      (simp add: token_login_by_it_token_def)
qed

text \<open>An unknown IT token is refused and changes nothing.\<close>

lemma get_new_auth_unknown:
  assumes "e_store E = D" "rq_json rq = Inr (JObj b)" "map_of b ''itToken'' = Some (JStr c)"
    "token_login_by_it_token D (JStr c) (w_db s) = Inr None"
  shows "get_new_auth E rq s =
    (Inr (response_error_v2 ''New auth failed, no token found for it-token'' ERR_TOKEN_INVALID), s)"
  using assms by (simp add: get_new_auth_def guarded_def dget_def dget_or_def py_run)

text \<open>\<open>oauth_callback\<close> with a code: the answer names the user the code was set for.\<close>

lemma oauth_user:
  assumes "e_store E = D" "map_of (rq_query rq) ''code'' = Some c" "e_key_file E = Inr key"
    "token_get_by_auth_code D (JStr c) (w_db s) = Inr (Some t)"
  shows "\<exists>a r x. oauth_callback E rq s = (Inr (success_v3 (JObj
    [(''userId'', tok_userid t), (''access_token'', JStr a), (''refresh_token'', JStr r), (''expire_at'', JInt x)])), s)"
  using assms
  by (auto simp: oauth_callback_def guarded_def oauth_code_def rq_get_def opt_str_def generate_jwt_helper_def
      py_run Let_def)

lemma oauth_unknown:
  assumes "e_store E = D" "map_of (rq_query rq) ''code'' = Some c"
    "token_get_by_auth_code D (JStr c) (w_db s) = Inr None"
  shows "oauth_callback E rq s = (Inr (response_error_v4 ''Auth code not known''), s)"
  using assms by (simp add: oauth_callback_def guarded_def oauth_code_def rq_get_def opt_str_def py_run Let_def)

end

text \<open>
  A refresh token leads to the code it was made with, when the token library decodes what it
  encoded (for the payload this module builds).
\<close>

lemma refresh_token_code:
  assumes round: "\<And>key alg h. e_jwt_decode E (e_jwt_encode E (JObj (jwt_payload E (oauth_data c u r (JStr ac)) ''r'')) key alg h) =
      Some (jwt_payload E (oauth_data c u r (JStr ac)) ''r'')"
    and gen: "generate_jwt_helper E (oauth_data c u r (JStr ac)) ''r'' = Inr (tok, x)"
    and q: "map_of (rq_query rq) ''code'' = None" "map_of (rq_query rq) ''refresh_token'' = Some tok"
  shows "oauth_code E rq = JStr ac"
proof -
  have "dget (jwt_payload E (oauth_data c u r (JStr ac)) ''r'') ''ac'' = JStr ac"
    by (simp add: jwt_payload_def oauth_data_def Let_def dupdate_def dget_def dget_or_def)
  then show ?thesis
    using gen q
    by (auto simp: oauth_code_def rq_get_def opt_str_def generate_jwt_helper_def extract_jwt_details_def
      round split: sum.splits)
qed

text \<open>The identifier of a login never depends on the fields the code falls back to.\<close>

lemma login_uid_account:
  assumes "\<And>s. e_sha256 E s \<noteq> []"
  shows "login_uid E rq = generate_uid E (rq_get rq ''account'')"
  using assms by (auto simp: login_uid_def generate_uid_def Let_def)

end
