(* ===== verification/Helper_Bot.thy ===== *)
theory Helper_Bot
  imports Auth_Laws
begin

text \<open>
  The helper bot, which turns commands of the REST interface into MQTT messages and waits
  for the answers (src/bumper/mqtt/helper_bot.py), and the cleaning log it records
  (src/bumper/mqtt/handle_atr.py). The request id is drawn at random, an argument here. The
  table of pending commands is a cache that may drop an entry at any time (its size and life
  time are bounded); dropping is an event of its own.
\<close>

definition HELPER_BOT_CLIENT_ID :: string where
  "HELPER_BOT_CLIENT_ID = ''helperbot@bumper/helperbot''"

definition HELPER_BOT_CLIENT_ID_MQTT :: string where
  "HELPER_BOT_CLIENT_ID_MQTT = py_replace ''@'' ''/'' HELPER_BOT_CLIENT_ID"

section \<open>Commands\<close>

record mqtt_command =
  cmd_request_id :: string
  cmd_version :: string
  cmd_payload_type :: json
  cmd_payload :: string
  cmd_name :: json
  cmd_name_orig :: json
  cmd_did :: json
  cmd_to_type :: json
  cmd_to_res :: json
  cmd_td :: json

abbreviation VERSION_OLD :: string where "VERSION_OLD \<equiv> ''1''"
abbreviation VERSION_NEW :: string where "VERSION_NEW \<equiv> ''2''"
abbreviation VERSION_P2P :: string where "VERSION_P2P \<equiv> ''p2p''"

definition payload_text :: "json \<Rightarrow> json \<Rightarrow> string" where
  "payload_text payload_type payload_j = (if payload_type = JStr ''j'' then json_dumps payload_j else py_str payload_j)"

definition from_version_1 :: "string \<Rightarrow> doc \<Rightarrow> mqtt_command" where
  "from_version_1 rid cmdjson =
     (let payload_type = dget_or cmdjson ''payloadType'' (JStr ''j'');
          name = dget cmdjson ''cmdName''
      in \<lparr>cmd_request_id = rid, cmd_version = VERSION_OLD, cmd_payload_type = payload_type,
          cmd_payload = payload_text payload_type (dget cmdjson ''payload''),
          cmd_name = (if name = JStr ''clean_V2'' then JStr ''clean'' else name), cmd_name_orig = JNull,
          cmd_did = dget cmdjson ''toId'', cmd_to_type = dget cmdjson ''toType'',
          cmd_to_res = dget cmdjson ''toRes'', cmd_td = dget cmdjson ''td''\<rparr>)"

definition from_version_2 :: "string \<Rightarrow> doc \<Rightarrow> mqtt_command" where
  "from_version_2 rid cmdjson =
     (let payload_type = dget_or cmdjson ''fmt'' (JStr ''j'')
      in \<lparr>cmd_request_id = rid, cmd_version = VERSION_NEW, cmd_payload_type = payload_type,
          cmd_payload = payload_text payload_type (dget cmdjson ''payload''),
          cmd_name = dget cmdjson ''apn'', cmd_name_orig = JNull,
          cmd_did = dget cmdjson ''eid'', cmd_to_type = dget cmdjson ''et'',
          cmd_to_res = dget cmdjson ''er'', cmd_td = dget cmdjson ''ct''\<rparr>)"

text \<open>A name that starts with \<open>get\<close>, whatever its case, gets a small first letter.\<close>

definition p2p_name :: "json \<Rightarrow> py_exc + json" where
  "p2p_name name =
     (if \<not> truthy name then Inr name
      else (case name of
        JStr s \<Rightarrow>
          (let s = (if py_startswith (py_lower s) ''get'' then lower_char (hd s) # tl s else s)
           in Inr (JStr (if s = ''getBatteryInfo'' then ''getBattery'' else s)))
      | _ \<Rightarrow> Inl AttributeError))"

definition act_translation :: doc where
  "act_translation = [(''s'', JStr ''start''), (''p'', JStr ''pause''), (''r'', JStr ''resume''), (''t'', JStr ''stop'')]"

text \<open>\<open>act_translation.get(act, act)\<close>: a list or a dictionary cannot be looked up.\<close>

definition translate_act :: "json \<Rightarrow> py_exc + json" where
  "translate_act act =
     (case act of
        JStr a \<Rightarrow> Inr (dget_or act_translation a act)
      | JList _ \<Rightarrow> Inl TypeError
      | JObj _ \<Rightarrow> Inl TypeError
      | _ \<Rightarrow> Inr act)"

definition p2p_payload :: "json \<Rightarrow> json \<Rightarrow> py_exc + json" where
  "p2p_payload name payload_j =
     (if truthy payload_j \<and> name = JStr ''clean'' then
        (case as_dict_value payload_j of
           Inl e \<Rightarrow> Inl e
         | Inr d \<Rightarrow>
             if truthy (dget d ''act'') then
               (case translate_act (dget d ''act'') of
                  Inl e \<Rightarrow> Inl e
                | Inr a \<Rightarrow> Inr (JObj (dset d ''act'' a)))
             else Inr payload_j)
      else Inr payload_j)"

definition from_version_p2p :: "string \<Rightarrow> doc \<Rightarrow> py_exc + mqtt_command" where
  "from_version_p2p rid cmdjson =
     (case p2p_name (dget cmdjson ''cmd'') of
        Inl e \<Rightarrow> Inl e
      | Inr name \<Rightarrow>
          (case p2p_payload name (dget cmdjson ''data'') of
             Inl e \<Rightarrow> Inl e
           | Inr payload_j \<Rightarrow>
               Inr \<lparr>cmd_request_id = rid, cmd_version = VERSION_P2P, cmd_payload_type = JStr ''j'',
                    cmd_payload = payload_text (JStr ''j'') (JObj [(''body'', JObj [(''data'', payload_j)])]),
                    cmd_name = name, cmd_name_orig = dget cmdjson ''cmd'',
                    cmd_did = dget cmdjson ''did'', cmd_to_type = dget cmdjson ''mid'',
                    cmd_to_res = dget cmdjson ''res'', cmd_td = JNull\<rparr>))"

definition MQTTCommandModel :: "string \<Rightarrow> doc \<Rightarrow> string \<Rightarrow> py_exc + mqtt_command" where
  "MQTTCommandModel rid cmdjson version =
     (if version = VERSION_OLD then Inr (from_version_1 rid cmdjson)
      else if version = VERSION_NEW then Inr (from_version_2 rid cmdjson)
      else if version = VERSION_P2P then from_version_p2p rid cmdjson
      else Inl ValueError)"

definition create_topic :: "mqtt_command \<Rightarrow> string" where
  "create_topic c =
     ''iot/p2p/'' @ py_str (cmd_name c) @ ''/'' @ HELPER_BOT_CLIENT_ID_MQTT @ ''/'' @ py_str (cmd_did c) @ ''/''
       @ py_str (cmd_to_type c) @ ''/'' @ py_str (cmd_to_res c) @ ''/q/'' @ cmd_request_id c @ ''/''
       @ py_str (cmd_payload_type c)"

section \<open>Pending commands\<close>

record command_dto =
  dto_payload_type :: json
  dto_response :: "string option"

definition add_response :: "string \<Rightarrow> command_dto \<Rightarrow> command_dto" where
  "add_response response dto = dto\<lparr>dto_response := Some response\<rparr>"

text \<open>The value a wait returns once the answer is there; a body that is not JSON raises.\<close>

definition response_value :: "(string \<Rightarrow> py_exc + json) \<Rightarrow> command_dto \<Rightarrow> py_exc + json" where
  "response_value loads dto =
     (case dto_response dto of
        None \<Rightarrow> Inr JNull
      | Some r \<Rightarrow>
          if dto_payload_type dto = JStr ''j'' then
            (case loads r of
               Inl e \<Rightarrow> Inl e
             | Inr (JObj d) \<Rightarrow> Inr (JObj d)
             | Inr _ \<Rightarrow> Inr (JStr r))
          else Inr (JStr r))"

text \<open>\<open>wait_for_resp\<close>: no answer in time, or any exception, counts as no response.\<close>

definition wait_for_resp :: "(string \<Rightarrow> py_exc + json) \<Rightarrow> command_dto \<Rightarrow> json" where
  "wait_for_resp loads dto =
     (case dto_response dto of
        None \<Rightarrow> JNull
      | Some _ \<Rightarrow> (case response_value loads dto of Inl _ \<Rightarrow> JNull | Inr v \<Rightarrow> v))"

record helper =
  hb_connected :: bool
  hb_client :: bool
  hb_task :: bool
  hb_commands :: "string \<rightharpoonup> command_dto"
  hb_published :: "(string \<times> string) list"
  hb_db :: db

definition hb_init :: "db \<Rightarrow> helper" where
  "hb_init db = \<lparr>hb_connected = False, hb_client = False, hb_task = False, hb_commands = Map.empty,
     hb_published = [], hb_db = db\<rparr>"

definition hb_start :: "helper \<Rightarrow> helper" where
  "hb_start h = h\<lparr>hb_task := True\<rparr>"

definition hb_disconnect :: "helper \<Rightarrow> helper" where
  "hb_disconnect h = h\<lparr>hb_task := False, hb_client := False, hb_connected := False\<rparr>"

text \<open>One turn of the connection loop: a session opens, or ends with an error. The client
  object stays where an error ends the session.\<close>

definition hb_session_open :: "helper \<Rightarrow> helper" where
  "hb_session_open h = h\<lparr>hb_client := True, hb_connected := True\<rparr>"

definition hb_session_error :: "helper \<Rightarrow> helper" where
  "hb_session_error h = h\<lparr>hb_connected := False\<rparr>"

definition hb_publish :: "string \<Rightarrow> string \<Rightarrow> (helper, unit) py" where
  "hb_publish topic payload h =
     (if \<not> hb_client h then (Inl (MqttError ''MQTT client is not connected.''), h)
      else (Inr (), h\<lparr>hb_published := hb_published h @ [(topic, payload)]\<rparr>))"

definition pop_command :: "string \<Rightarrow> helper \<Rightarrow> helper" where
  "pop_command rid h = h\<lparr>hb_commands := (hb_commands h)(rid := None)\<rparr>"

text \<open>A command is sent in two parts, with the messages of the meantime between them.\<close>

definition send_begin :: "mqtt_command \<Rightarrow> (helper, unit) py" where
  "send_begin c =
     py_seq (py_modify (\<lambda>h. if hb_connected h then h else hb_start h))
     (py_seq (py_modify (\<lambda>h. h\<lparr>hb_commands :=
          (hb_commands h)(cmd_request_id c \<mapsto> \<lparr>dto_payload_type = cmd_payload_type c, dto_response = None\<rparr>)\<rparr>))
       (py_try (hb_publish (create_topic c) (cmd_payload c))
         (\<lambda>e. py_seq (py_modify (pop_command (cmd_request_id c))) (py_raise e))))"

definition send_end :: "(string \<Rightarrow> py_exc + json) \<Rightarrow> mqtt_command \<Rightarrow> command_dto \<Rightarrow> helper \<Rightarrow> json \<times> helper" where
  "send_end loads c dto h = (wait_for_resp loads dto, pop_command (cmd_request_id c) h)"

section \<open>Answers to the REST interface\<close>

definition no_response :: "mqtt_command \<Rightarrow> response" where
  "no_response c = response_error_v8 (JStr (cmd_request_id c)) (JStr ''mqtt wait for response failed, see logs form more information'')"

definition answer_old :: "mqtt_command \<Rightarrow> json \<Rightarrow> response" where
  "answer_old c resp =
     (if \<not> truthy resp then no_response c
      else JsonResponse (JObj [(''id'', JStr (cmd_request_id c)), (''ret'', JStr ''ok''), (''resp'', resp),
             (''payloadType'', cmd_payload_type c)]))"

definition answer_new :: "mqtt_command \<Rightarrow> json \<Rightarrow> response" where
  "answer_new c resp = (if \<not> truthy resp then no_response c else TextResponse (json_dumps_compact resp))"

text \<open>\<open>resp.get("body", {}).get("data", {}).get(k)\<close>, on a dictionary.\<close>

definition body_data :: "doc \<Rightarrow> string \<Rightarrow> py_exc + json" where
  "body_data resp k =
     (case as_dict_value (dget_or resp ''body'' (JObj [])) of
        Inl e \<Rightarrow> Inl e
      | Inr b \<Rightarrow> (case as_dict_value (dget_or b ''data'' (JObj [])) of
                    Inl e \<Rightarrow> Inl e | Inr d \<Rightarrow> Inr (dget d k)))"

text \<open>The name as a key of the answer: \<open>json\<close> writes a missing name as \<open>null\<close>; a list or
  a dictionary cannot be a key.\<close>

definition name_key :: "json \<Rightarrow> py_exc + string" where
  "name_key v = (case v of JStr s \<Rightarrow> Inr s | JList _ \<Rightarrow> Inl TypeError | JObj _ \<Rightarrow> Inl TypeError
     | v \<Rightarrow> Inr (json_dumps v))"

definition p2p_answer :: "mqtt_command \<Rightarrow> doc \<Rightarrow> py_exc + response" where
  "p2p_answer c vs =
     (case name_key (cmd_name_orig c) of
        Inl e \<Rightarrow> Inl e
      | Inr k \<Rightarrow> Inr (success_v2 (JObj [(k, JObj vs)])))"

definition p2p_ok :: "mqtt_command \<Rightarrow> doc \<Rightarrow> py_exc + response" where
  "p2p_ok c extra = p2p_answer c ([(''ret'', JStr ''ok''), (''did'', cmd_did c)] @ extra)"

definition answer_p2p :: "mqtt_command \<Rightarrow> json \<Rightarrow> py_exc + response" where
  "answer_p2p c resp =
     (if \<not> truthy resp then Inr (no_response c)
      else (case resp of
        JObj d \<Rightarrow>
          (if cmd_name c = JStr ''getBattery'' then
             (case body_data d ''value'' of Inl e \<Rightarrow> Inl e | Inr v \<Rightarrow> p2p_ok c [(''power'', v)])
           else if cmd_name c = JStr ''getChargeState'' then
             (case body_data d ''isCharging'' of
                Inl e \<Rightarrow> Inl e
              | Inr v \<Rightarrow> p2p_ok c [(''type'', JStr (if py_eq v (JInt 1) then ''SlotCharging'' else ''SlotIdle''))])
           else if cmd_name c = JStr ''charge'' \<or> cmd_name c = JStr ''clean'' then
             (case as_dict_value (dget_or d ''body'' (JObj [])) of
                Inl e \<Rightarrow> Inl e
              | Inr b \<Rightarrow> p2p_answer c [(''did'', cmd_did c), (''ret'', dget_or b ''msg'' (JStr ''error''))])
           else p2p_ok c [])
      | _ \<Rightarrow> Inr (response_error_v8 (JStr (cmd_request_id c)) (JStr ''Unknown result return from bot''))))"

definition send_command :: "mqtt_command \<Rightarrow> json \<Rightarrow> py_exc + response" where
  "send_command c resp =
     (if cmd_version c = VERSION_OLD then Inr (answer_old c resp)
      else if cmd_version c = VERSION_NEW then Inr (answer_new c resp)
      else if cmd_version c = VERSION_P2P then answer_p2p c resp
      else Inr (response_error_v8 (JStr (cmd_request_id c))
        (JStr (''Unsupported version :: '' @ [CHR 0x27] @ cmd_version c @ [CHR 0x27]))))"

section \<open>Messages\<close>

definition record_clean_log :: "env \<Rightarrow> string \<Rightarrow> string \<Rightarrow> string \<Rightarrow> db \<Rightarrow> (py_exc + unit) \<times> db" where
  "record_clean_log E did rid payload db =
     (case e_loads E payload of
        Inl e \<Rightarrow> (Inl e, db)
      | Inr (JObj res) \<Rightarrow>
          (case as_dict_value (dget_or res ''body'' (JObj [])) of
             Inl e \<Rightarrow> (Inl e, db)
           | Inr body \<Rightarrow>
               (case dget body ''data'' of
                  JObj data \<Rightarrow>
                    (if dget data ''cid'' = JNull then (Inr (), db)
                     else if dget data ''cid'' = JStr ''111'' then (Inr (), db)
                     else if dget data ''start'' = JNull then (Inr (), db)
                     else (Inr (), clean_log_add_or_update (e_store E) (log_from_dict did rid data) db))
                | _ \<Rightarrow> (Inr (), db)))
      | Inr _ \<Rightarrow> (Inr (), db))"

text \<open>\<open>xs[i]\<close> raises beyond the end.\<close>

definition py_nth :: "'a list \<Rightarrow> nat \<Rightarrow> py_exc + 'a" where
  "py_nth xs i = (if i < length xs then Inr (xs ! i) else Inl IndexError)"

definition on_message :: "env \<Rightarrow> string \<Rightarrow> string \<Rightarrow> (helper, unit) py" where
  "on_message E topic bytes =
     (let payload = utf8_decode_replace bytes; ts = py_split (CHR ''/'') topic in
      py_bind (py_of (py_nth ts 1)) (\<lambda>kind.
      py_bind (if kind = ''p2p'' then py_of (py_nth ts 10) else py_ret []) (\<lambda>rid h.
      if kind = ''p2p'' \<and> rid \<in> dom (hb_commands h) then
        (Inr (), h\<lparr>hb_commands := (hb_commands h)(rid := map_option (add_response payload) (hb_commands h rid))\<rparr>)
      else if kind = ''atr'' then
        py_bind (py_of (py_nth ts 2)) (\<lambda>fn.
          if fn = ''onStats'' \<or> fn = ''reportStats'' then
            py_bind (py_of (py_nth ts 3)) (\<lambda>did. py_bind (py_of (py_nth ts 5)) (\<lambda>rid.
              py_zoom hb_db (\<lambda>d h. h\<lparr>hb_db := d\<rparr>) (record_clean_log E did rid payload)))
          else py_bind (py_of (py_nth ts 6)) (\<lambda>_. py_ret ())) h
      else if kind = ''p2p'' then (py_bind (py_of (py_nth ts 6)) (\<lambda>_. py_ret ())) h
      else (Inr (), h))))"

text \<open>A message whose handling raises ends the session; the loop opens the next one.\<close>

definition deliver :: "env \<Rightarrow> string \<times> string \<Rightarrow> helper \<Rightarrow> helper" where
  "deliver E m h =
     (case on_message E (fst m) (snd m) h of
        (Inr _, h') \<Rightarrow> h'
      | (Inl _, h') \<Rightarrow> hb_session_open (hb_session_error h'))"

text \<open>Sending a command while the messages \<open>ms\<close> come in.\<close>

definition send_command_plain :: "env \<Rightarrow> mqtt_command \<Rightarrow> (string \<times> string) list \<Rightarrow> helper \<Rightarrow> json \<times> helper" where
  "send_command_plain E c ms h =
     (case send_begin c h of
        (Inl _, h') \<Rightarrow> (JNull, h')
      | (Inr _, h') \<Rightarrow>
          (let h'' = fold (deliver E) ms h'
           in send_end (e_loads E) c
                (case hb_commands h'' (cmd_request_id c) of
                   Some dto \<Rightarrow> dto
                 | None \<Rightarrow> \<lparr>dto_payload_type = cmd_payload_type c, dto_response = None\<rparr>) h''))"

section \<open>Correlation of answers\<close>

definition reply_id :: "string \<Rightarrow> string option" where
  "reply_id topic = (let ts = py_split (CHR ''/'') topic in
     if length ts > 10 \<and> ts ! 1 = ''p2p'' then Some (ts ! 10) else None)"

text \<open>What a message does to the pending commands: only the command it names gets the answer.\<close>

lemma deliver_commands:
  "hb_commands (deliver E m h) rid =
    (if reply_id (fst m) = Some rid then map_option (add_response (utf8_decode_replace (snd m))) (hb_commands h rid)
     else hb_commands h rid)"
proof -
  let ?ts = "py_split (CHR ''/'') (fst m)"
  have zoom: "hb_commands (snd (py_zoom hb_db (\<lambda>d h. h\<lparr>hb_db := d\<rparr>) f h)) = hb_commands h"
    for f :: "(db, unit) py" by (simp add: py_zoom_def split: prod.splits)
  show ?thesis
  proof (cases "length ?ts > 1")
    case False
    then show ?thesis
      by (simp add: deliver_def on_message_def py_nth_def reply_id_def py_run hb_session_open_def
        hb_session_error_def Let_def)
  next
    case True
    show ?thesis
    proof (cases "?ts ! 1 = ''p2p''")
      case True
      then show ?thesis using \<open>length ?ts > 1\<close>
        by (auto simp: deliver_def on_message_def py_nth_def reply_id_def py_run hb_session_open_def
          hb_session_error_def Let_def)
    next
      case False
      then show ?thesis using \<open>length ?ts > 1\<close>
        by (auto simp: deliver_def on_message_def py_nth_def reply_id_def py_run hb_session_open_def
          hb_session_error_def Let_def py_zoom_def split: prod.splits sum.splits)
    qed
  qed
qed

text \<open>The last answer among the messages.\<close>

definition answers :: "string \<Rightarrow> (string \<times> string) list \<Rightarrow> string list" where
  "answers rid ms = map (\<lambda>m. utf8_decode_replace (snd m)) (filter (\<lambda>m. reply_id (fst m) = Some rid) ms)"

lemma deliver_all_commands:
  "hb_commands (fold (deliver E) ms h) rid =
    map_option (\<lambda>dto. if answers rid ms = [] then dto else add_response (last (answers rid ms)) dto) (hb_commands h rid)"
proof (induction ms arbitrary: h)
  case Nil
  then show ?case by (simp add: answers_def option.map_ident)
next
  case (Cons m ms)
  show ?case
    by (cases "hb_commands h rid") (auto simp: Cons.IH deliver_commands answers_def add_response_def)
qed

lemma send_begin_ok:
  "hb_client h \<Longrightarrow> \<exists>h'. send_begin c h = (Inr (), h') \<and>
    hb_commands h' = (hb_commands h)(cmd_request_id c \<mapsto> \<lparr>dto_payload_type = cmd_payload_type c, dto_response = None\<rparr>) \<and>
    hb_published h' = hb_published h @ [(create_topic c, cmd_payload c)]"
  by (simp add: send_begin_def hb_publish_def hb_start_def py_run)

lemma send_begin_no_client:
  "\<not> hb_client h \<Longrightarrow> \<exists>e h'. send_begin c h = (Inl e, h') \<and> hb_commands h' = (hb_commands h)(cmd_request_id c := None) \<and>
    hb_published h' = hb_published h"
  by (simp add: send_begin_def hb_publish_def hb_start_def pop_command_def py_run)

text \<open>The value of a command is decided by the last answer that names its request.\<close>

definition command_value :: "env \<Rightarrow> mqtt_command \<Rightarrow> string list \<Rightarrow> json" where
  "command_value E c as = wait_for_resp (e_loads E)
     \<lparr>dto_payload_type = cmd_payload_type c, dto_response = (if as = [] then None else Some (last as))\<rparr>"

lemma send_plain_value:
  assumes "hb_client h"
  shows "fst (send_command_plain E c ms h) = command_value E c (answers (cmd_request_id c) ms)"
proof -
  obtain h' where h': "send_begin c h = (Inr (), h')"
    "hb_commands h' (cmd_request_id c) = Some \<lparr>dto_payload_type = cmd_payload_type c, dto_response = None\<rparr>"
    using send_begin_ok [OF assms, of c] by auto
  then show ?thesis
    by (simp add: send_command_plain_def send_end_def deliver_all_commands command_value_def add_response_def Let_def)
qed

lemma send_plain_no_client:
  "\<not> hb_client h \<Longrightarrow> fst (send_command_plain E c ms h) = JNull"
  using send_begin_no_client [of h c] by (auto simp: send_command_plain_def)

text \<open>Afterwards the request is not pending, and every other request got exactly its own answers.\<close>

lemma send_plain_pending:
  "hb_client h \<Longrightarrow> hb_commands (snd (send_command_plain E c ms h)) rid =
    (if rid = cmd_request_id c then None
     else map_option (\<lambda>dto. if answers rid ms = [] then dto else add_response (last (answers rid ms)) dto)
       (hb_commands h rid))"
  using send_begin_ok [of h c]
  by (auto simp: send_command_plain_def send_end_def pop_command_def deliver_all_commands Let_def)

lemma command_value_none [simp]: "command_value E c [] = JNull"
  by (simp add: command_value_def wait_for_resp_def)

section \<open>Topics\<close>

definition no_slash :: "string \<Rightarrow> bool" where
  "no_slash s = (CHR ''/'' \<notin> set s)"

lemma helper_id_mqtt: "HELPER_BOT_CLIENT_ID_MQTT = ''helperbot/bumper/helperbot''"
  by code_simp

definition topic_parts :: "mqtt_command \<Rightarrow> string list" where
  "topic_parts c = [''iot'', ''p2p'', py_str (cmd_name c), ''helperbot'', ''bumper'', ''helperbot'', py_str (cmd_did c),
     py_str (cmd_to_type c), py_str (cmd_to_res c), ''q'', cmd_request_id c, py_str (cmd_payload_type c)]"

lemma create_topic_join: "create_topic c = py_join ''/'' (topic_parts c)"
  by (simp add: create_topic_def topic_parts_def helper_id_mqtt)

text \<open>The topic a bot answers on: sender and receiver swapped, \<open>p\<close> for \<open>q\<close>.\<close>

definition reply_topic :: "mqtt_command \<Rightarrow> string" where
  "reply_topic c = py_join ''/'' [''iot'', ''p2p'', py_str (cmd_name c), py_str (cmd_did c), py_str (cmd_to_type c),
     py_str (cmd_to_res c), ''helperbot'', ''bumper'', ''helperbot'', ''p'', cmd_request_id c, py_str (cmd_payload_type c)]"

definition plain_topic :: "mqtt_command \<Rightarrow> bool" where
  "plain_topic c \<longleftrightarrow> list_all no_slash (topic_parts c)"

lemma reply_topic_id:
  assumes "plain_topic c"
  shows "reply_id (reply_topic c) = Some (cmd_request_id c)"
proof -
  have "py_split (CHR ''/'') (reply_topic c) = [''iot'', ''p2p'', py_str (cmd_name c), py_str (cmd_did c), py_str (cmd_to_type c),
     py_str (cmd_to_res c), ''helperbot'', ''bumper'', ''helperbot'', ''p'', cmd_request_id c, py_str (cmd_payload_type c)]"
    unfolding reply_topic_def
    using assms by (intro py_split_join) (auto simp: plain_topic_def topic_parts_def no_slash_def)
  then show ?thesis by (simp add: reply_id_def)
qed

lemma create_topic_parts: "plain_topic c \<Longrightarrow> py_split (CHR ''/'') (create_topic c) = topic_parts c"
  unfolding create_topic_join by (rule py_split_join) (auto simp: plain_topic_def no_slash_def list_all_iff topic_parts_def)

text \<open>The answer a bot sends on the reply topic is the value of the command.\<close>

lemma command_answered:
  assumes "hb_client h" "plain_topic c" "cmd_payload_type c = JStr ''j''"
    "e_loads E (utf8_decode_replace b) = Inr (JObj d)"
  shows "fst (send_command_plain E c [(reply_topic c, b)] h) = JObj d"
  using assms reply_topic_id [OF assms(2)]
  by (simp add: send_plain_value answers_def command_value_def wait_for_resp_def response_value_def)

end
