(* ===== verification/MQTT_Proxy.thy ===== *)
theory MQTT_Proxy
  imports Helper_Bot
begin

text \<open>
  The MQTT proxy (src/bumper/mqtt/proxy.py): requests of the vendor's server are passed to
  the robot with the sender replaced by \<open>proxyhelper\<close>, and the mapper remembers whom a
  request came from. The MQTT client underneath is a list of the calls made on it; the mapper
  is a cache that may drop entries.
\<close>

record proxy =
  px_mapper :: "string \<rightharpoonup> string"
  px_sent :: "(string \<times> string) list"
  px_topics :: "string list"
  px_open :: bool

definition ProxyClient :: proxy where
  "ProxyClient = \<lparr>px_mapper = Map.empty, px_sent = [], px_topics = [], px_open = True\<rparr>"

definition proxy_subscribe :: "string \<Rightarrow> proxy \<Rightarrow> proxy" where
  "proxy_subscribe topic p = p\<lparr>px_topics := px_topics p @ [topic]\<rparr>"

definition proxy_publish :: "string \<Rightarrow> string \<Rightarrow> proxy \<Rightarrow> proxy" where
  "proxy_publish topic bytes p = p\<lparr>px_sent := px_sent p @ [(topic, bytes)]\<rparr>"

definition proxy_disconnect :: "proxy \<Rightarrow> proxy" where
  "proxy_disconnect p = p\<lparr>px_open := False\<rparr>"

section \<open>Messages of the vendor's server\<close>

record proxy_side =
  ps_proxy :: proxy
  ps_helper :: helper

definition remember_sender :: "string list \<Rightarrow> (proxy_side, unit) py" where
  "remember_sender ts =
     py_bind (py_of (py_nth ts 3)) (\<lambda>sender.
     py_bind (py_of (py_nth ts 10)) (\<lambda>rid.
       py_modify (\<lambda>s. s\<lparr>ps_proxy := (ps_proxy s)\<lparr>px_mapper := (px_mapper (ps_proxy s))(rid \<mapsto> sender)\<rparr>\<rparr>)))"

definition helper_publish :: "string \<Rightarrow> string \<Rightarrow> (proxy_side, unit) py" where
  "helper_publish topic data = py_zoom ps_helper (\<lambda>h s. s\<lparr>ps_helper := h\<rparr>) (hb_publish topic data)"

definition proxy_message :: "string \<Rightarrow> string option \<Rightarrow> (proxy_side, unit) py" where
  "proxy_message topic bytes =
     py_bind (case bytes of None \<Rightarrow> py_ret [] | Some b \<Rightarrow> py_of (utf8_decode b)) (\<lambda>data.
     let ts = py_split (CHR ''/'') topic in
     py_bind (py_of (py_nth ts 1)) (\<lambda>kind.
     if kind = ''p2p'' then
       py_bind (py_of (py_nth ts 3)) (\<lambda>sender.
         if sender = ''proxyhelper'' then py_ret ()
         else py_seq (remember_sender ts)
           (helper_publish (py_join ''/'' (ts[3 := ''proxyhelper''])) data))
     else helper_publish topic data))"

text \<open>The loop logs what a message raises and goes on with the next one; \<open>None\<close> ends it.\<close>

definition handle_one :: "string \<times> string option \<Rightarrow> proxy_side \<Rightarrow> proxy_side" where
  "handle_one m s = snd (proxy_message (fst m) (snd m) s)"

fun handle_messages :: "(string \<times> string option) option list \<Rightarrow> proxy_side \<Rightarrow> proxy_side" where
  "handle_messages [] s = s"
| "handle_messages (None # ms) s = s"
| "handle_messages (Some m # ms) s = handle_messages ms (handle_one m s)"

section \<open>Answers of the robot\<close>

text \<open>What \<open>on_broker_message_received\<close> sends back for a message of a client with a proxy.\<close>

definition proxy_reply :: "string \<Rightarrow> string \<Rightarrow> (proxy, unit) py" where
  "proxy_reply topic data =
     (let ts = py_split (CHR ''/'') topic in
      py_bind (py_of (py_nth ts 3)) (\<lambda>sender.
      if sender = ''proxyhelper'' then py_ret ()
      else
        py_bind (py_of (py_nth ts 6)) (\<lambda>receiver.
        if receiver = ''proxyhelper'' then
          py_bind (py_of (py_nth ts 10)) (\<lambda>rid p.
            (case px_mapper p rid of
               None \<Rightarrow> (Inr (), p)
             | Some sender \<Rightarrow>
                 (let p1 = p\<lparr>px_mapper := (px_mapper p)(rid := None)\<rparr> in
                  if sender = [] then (Inr (), p1)
                  else (Inr (), proxy_publish (py_join ''/'' (ts[6 := sender])) (utf8_encode data) p1))))
        else py_modify (proxy_publish topic (utf8_encode data)))))"

section \<open>Requests and answers\<close>

text \<open>A point-to-point topic: command, sender, receiver, direction, request id, type.\<close>

definition p2p_topic :: "string \<Rightarrow> string list \<Rightarrow> string list \<Rightarrow> string \<Rightarrow> string \<Rightarrow> string \<Rightarrow> string" where
  "p2p_topic cmd sender receiver dir rid ty =
     py_join ''/'' ([''iot'', ''p2p'', cmd] @ sender @ receiver @ [dir, rid, ty])"

definition party :: "string list \<Rightarrow> bool" where
  "party p \<longleftrightarrow> length p = 3 \<and> list_all no_slash p"

lemma p2p_topic_split:
  assumes "party s" "party r" "no_slash cmd" "no_slash dir" "no_slash rid" "no_slash ty"
  shows "py_split (CHR ''/'') (p2p_topic cmd s r dir rid ty) = [''iot'', ''p2p'', cmd] @ s @ r @ [dir, rid, ty]"
  unfolding p2p_topic_def
  using assms by (intro py_split_join) (auto simp: party_def no_slash_def list_all_iff)

lemma party_cases:
  assumes "party p" obtains a b c where "p = [a, b, c]" "no_slash a" "no_slash b" "no_slash c"
proof -
  from assms have "length p = Suc (Suc (Suc 0))" "list_all no_slash p" by (simp_all add: party_def numeral_3_eq_3)
  then show thesis using that by (auto simp: length_Suc_conv)
qed

lemma request_forwarded:
  assumes r: "party [a, b, c]" "party rc" and n: "no_slash cmd" "no_slash dir" "no_slash rid" "no_slash ty"
    and a: "a \<noteq> ''proxyhelper''" and h: "hb_client (ps_helper s)" and d: "utf8_decode bytes = Inr data"
  shows "proxy_message (p2p_topic cmd [a, b, c] rc dir rid ty) (Some bytes) s =
    (Inr (), s\<lparr>ps_proxy := (ps_proxy s)\<lparr>px_mapper := (px_mapper (ps_proxy s))(rid \<mapsto> a)\<rparr>,
               ps_helper := (ps_helper s)\<lparr>hb_published := hb_published (ps_helper s) @
                 [(p2p_topic cmd [''proxyhelper'', b, c] rc dir rid ty, data)]\<rparr>\<rparr>)"
proof -
  obtain x y z where rc: "rc = [x, y, z]" using party_cases [OF r(2)] by metis
  have "py_split (CHR ''/'') (p2p_topic cmd [a, b, c] [x, y, z] dir rid ty) =
      [''iot'', ''p2p'', cmd, a, b, c, x, y, z, dir, rid, ty]"
    using p2p_topic_split [OF r n] by (simp add: rc)
  then show ?thesis
    using a h d by (simp add: proxy_message_def remember_sender_def helper_publish_def hb_publish_def py_nth_def py_run
      py_zoom_def rc p2p_topic_def Let_def)
qed

lemma reply_restored:
  assumes r: "party [a, b, c]" "party rc" and n: "no_slash cmd" "no_slash dir" "no_slash rid" "no_slash ty"
    and x: "hd rc \<noteq> ''proxyhelper''" and m: "px_mapper p rid = Some a" "a \<noteq> []"
  shows "proxy_reply (p2p_topic cmd rc [''proxyhelper'', b, c] dir rid ty) data p =
    (Inr (), p\<lparr>px_mapper := (px_mapper p)(rid := None),
               px_sent := px_sent p @ [(p2p_topic cmd rc [a, b, c] dir rid ty, utf8_encode data)]\<rparr>)"
proof -
  obtain x y z where rc: "rc = [x, y, z]" using party_cases [OF r(2)] by metis
  have r': "party [''proxyhelper'', b, c]" using r(1) by (simp add: party_def no_slash_def)
  have "py_split (CHR ''/'') (p2p_topic cmd [x, y, z] [''proxyhelper'', b, c] dir rid ty) =
      [''iot'', ''p2p'', cmd, x, y, z, ''proxyhelper'', b, c, dir, rid, ty]"
    using p2p_topic_split [OF r(2) r' n] by (simp add: rc)
  then show ?thesis
    using x m by (simp add: proxy_reply_def py_nth_def py_run rc p2p_topic_def proxy_publish_def Let_def)
qed

text \<open>An answer to a request nobody made is not passed on.\<close>

lemma reply_unknown:
  assumes r: "party [''proxyhelper'', b, c]" "party rc" and n: "no_slash cmd" "no_slash dir" "no_slash rid" "no_slash ty"
    and x: "hd rc \<noteq> ''proxyhelper''" and m: "px_mapper p rid = None"
  shows "proxy_reply (p2p_topic cmd rc [''proxyhelper'', b, c] dir rid ty) data p = (Inr (), p)"
proof -
  obtain x y z where rc: "rc = [x, y, z]" using party_cases [OF r(2)] by metis
  have "py_split (CHR ''/'') (p2p_topic cmd [x, y, z] [''proxyhelper'', b, c] dir rid ty) =
      [''iot'', ''p2p'', cmd, x, y, z, ''proxyhelper'', b, c, dir, rid, ty]"
    using p2p_topic_split [OF r(2,1) n] by (simp add: rc)
  then show ?thesis
    using x m by (simp add: proxy_reply_def py_nth_def py_run rc Let_def)
qed

end
