(* ===== verification/MQTT_Server.thy ===== *)
theory MQTT_Server
  imports MQTT_Proxy
begin

text \<open>
  The MQTT broker's plugin and its server object (src/bumper/mqtt/server.py): who may connect
  and what the connection does to the repositories, the password file, the messages the
  broker passes on to the proxies, the synchronisation of a robot's time zone. The broker,
  the password hash and the name resolution are third-party code, given by \<open>menv\<close>.
\<close>

record menv =
  me_verify :: "string \<Rightarrow> string \<Rightarrow> py_exc + bool"
  me_resolve :: "string \<Rightarrow> py_exc + string"
  me_connect :: "string \<Rightarrow> string \<Rightarrow> string \<Rightarrow> py_exc + unit"
  me_allow_anonymous :: bool

record session =
  ses_username :: "string option"
  ses_password :: "string option"
  ses_client_id :: "string option"

record mserver =
  ms_db :: db
  ms_users :: "string \<rightharpoonup> string"
  ms_proxies :: "string \<rightharpoonup> proxy"
  ms_session_name :: "string option"
  ms_sync_tasks :: "string list"

definition ms_do :: "(db \<Rightarrow> db) \<Rightarrow> (mserver, unit) py" where
  "ms_do f = py_modify (\<lambda>s. s\<lparr>ms_db := f (ms_db s)\<rparr>)"

section \<open>Client identifiers\<close>

datatype client_type = Bot_Client | User_Client

definition client_id_split_helper :: "config \<Rightarrow> string \<Rightarrow> (string \<times> string \<times> string \<times> client_type) option" where
  "client_id_split_helper cfg client_id =
     (case py_split1 (CHR ''@'') client_id of
        (did, Some rest) \<Rightarrow>
          (case py_split1 (CHR ''/'') rest of
             (class_id, Some resource) \<Rightarrow>
               Some (did, class_id, resource, if class_id \<in> set (USER_REALMS cfg) then User_Client else Bot_Client)
           | _ \<Rightarrow> None)
      | _ \<Rightarrow> None)"

section \<open>Authentication\<close>

definition error_msg :: string where
  "error_msg = ''File Authentication Failed :: Default access not grant - last try anonymous auth if allowed!''"

abbreviation deny :: "(mserver, 'a) py" where
  "deny \<equiv> py_raise (PlainException error_msg)"

definition set_session_name :: "string option \<Rightarrow> (mserver, unit) py" where
  "set_session_name n = py_modify (\<lambda>s. s\<lparr>ms_session_name := n\<rparr>)"

definition name_before_at :: "string option \<Rightarrow> string option" where
  "name_before_at username = (case username of None \<Rightarrow> None
     | Some u \<Rightarrow> Some (if u \<noteq> [] \<and> contains ''@'' u then fst (py_split1 (CHR ''@'') u) else u))"

definition file_auth :: "menv \<Rightarrow> string \<Rightarrow> string \<Rightarrow> (mserver, bool) py" where
  "file_auth M username password =
     py_bind (py_gets (\<lambda>s. ms_users s username)) (\<lambda>password_hash.
     case password_hash of
       None \<Rightarrow> deny
     | Some h \<Rightarrow> py_bind (py_of (me_verify M password h)) (\<lambda>ok. if ok then py_ret True else deny))"

text \<open>A user name may carry more: \<open>name`header`body\<close>, both in base64.\<close>

definition strip_user_info :: "string option \<Rightarrow> (mserver, string option) py" where
  "strip_user_info username =
     (case username of
        None \<Rightarrow> py_ret None
      | Some u \<Rightarrow>
          (let info = py_split (CHR ''`'') u in
           if contains ''`'' u \<and> length info \<ge> 3 then
             py_bind (py_of (b64decode (py_replace [CHR 0x0A] [] (info ! 1)))) (\<lambda>h.
             py_bind (py_of (utf8_decode h)) (\<lambda>_.
             py_bind (py_of (b64decode (py_replace [CHR 0x0A] [] (info ! 2)))) (\<lambda>b.
             py_bind (py_of (utf8_decode b)) (\<lambda>_.
             py_seq (set_session_name (Some (info ! 0))) (py_ret (Some (info ! 0)))))))
           else py_ret username))"

definition check_auth_code :: "env \<Rightarrow> string \<Rightarrow> string option \<Rightarrow> (mserver, unit) py" where
  "check_auth_code E did password =
     (if USE_AUTH (e_cfg E) then
        (case password of
           None \<Rightarrow> deny
         | Some p \<Rightarrow>
             py_bind (py_gets (\<lambda>s. token_verify_auth_code (e_store E) (JStr did) (JStr p) (ms_db s))) (\<lambda>ok.
               if ok then py_ret () else deny))
      else py_ret ())"

definition connect_proxy :: "menv \<Rightarrow> env \<Rightarrow> string \<Rightarrow> string \<Rightarrow> string option \<Rightarrow> (mserver, unit) py" where
  "connect_proxy M E client_id username password =
     (case password of
        Some p \<Rightarrow>
          if BUMPER_PROXY_MQTT (e_cfg E) then
            py_bind (py_of (me_resolve M (PROXY_MQTT_DOMAIN (e_cfg E)))) (\<lambda>mqtt_server.
            py_seq (py_modify (\<lambda>s. s\<lparr>ms_proxies := (ms_proxies s)(client_id \<mapsto> ProxyClient)\<rparr>))
              (py_of (me_connect M mqtt_server username p)))
          else py_ret ()
      | None \<Rightarrow> py_ret ())"

definition register_client :: "menv \<Rightarrow> env \<Rightarrow> string \<Rightarrow> string \<times> string \<times> string \<times> client_type \<Rightarrow>
    string option \<Rightarrow> string option \<Rightarrow> (mserver, bool) py" where
  "register_client M E client_id parts username password =
     (case parts of (did, class_id, resource, client_type) \<Rightarrow>
        (case username of
           Some (c # u) \<Rightarrow>
             if client_type = Bot_Client then
               py_seq (ms_do (bot_add (e_store E) (JStr (c # u)) (JStr did) (JStr class_id) (JStr resource) (JStr ''eco-ng'')))
               (py_seq (connect_proxy M E client_id (c # u) password) (py_ret True))
             else
               py_seq (ms_do (client_add (e_store E) (opt_str username) (JStr did) (JStr class_id) (JStr resource)))
                 (py_ret True)
         | _ \<Rightarrow>
             py_seq (ms_do (client_add (e_store E) (opt_str username) (JStr did) (JStr class_id) (JStr resource)))
               (py_ret True)))"

text \<open>A client id \<open>did@class/resource\<close> is registered as a robot or as an app.\<close>

definition id_auth :: "menv \<Rightarrow> env \<Rightarrow> string \<Rightarrow> string option \<Rightarrow> string option \<Rightarrow> (mserver, bool) py" where
  "id_auth M E client_id username password =
     (case client_id_split_helper (e_cfg E) client_id of
        None \<Rightarrow> deny
      | Some parts \<Rightarrow>
          py_bind (strip_user_info username) (\<lambda>username.
          py_seq (check_auth_code E (fst parts) password)
            (register_client M E client_id parts username password)))"

definition auth_checks :: "menv \<Rightarrow> env \<Rightarrow> session \<Rightarrow> (mserver, bool) py" where
  "auth_checks M E ses =
     (case ses_client_id ses of
        None \<Rightarrow> deny
      | Some client_id \<Rightarrow>
          if client_id = HELPER_BOT_CLIENT_ID then py_ret True
          else
            (let username = name_before_at (ses_username ses) in
             py_seq (set_session_name username)
             (if \<not> contains ''@'' client_id \<and> username \<noteq> None \<and> ses_password ses \<noteq> None
              then file_auth M (the username) (the (ses_password ses))
              else id_auth M E client_id username (ses_password ses))))"

definition authenticate :: "menv \<Rightarrow> env \<Rightarrow> session \<Rightarrow> mserver \<Rightarrow> bool \<times> mserver" where
  "authenticate M E ses s =
     (case py_try (auth_checks M E ses) (\<lambda>_. py_ret (me_allow_anonymous M)) s of
        (Inr b, s') \<Rightarrow> (b, s')
      | (Inl _, s') \<Rightarrow> (False, s'))"

section \<open>The password file\<close>

text \<open>A line \<open>user:hash\<close>; a line with another number of parts ends the reading.\<close>

fun read_lines :: "string list \<Rightarrow> (string \<rightharpoonup> string) \<Rightarrow> (string \<rightharpoonup> string)" where
  "read_lines [] users = users"
| "read_lines (line # lines) users =
     (let t = py_strip line in
      if t = [] \<or> py_startswith t ''#'' then read_lines lines users
      else
        (case py_split (CHR '':'') t of
           [username, pwd_hash] \<Rightarrow>
             read_lines lines (if username \<noteq> [] then users(username \<mapsto> pwd_hash) else users)
         | _ \<Rightarrow> users))"

definition read_password_file :: "string option \<Rightarrow> (string \<Rightarrow> py_exc + string list) \<Rightarrow> (string \<rightharpoonup> string) \<Rightarrow> (string \<rightharpoonup> string)" where
  "read_password_file password_file read users =
     (case password_file of
        None \<Rightarrow> users
      | Some f \<Rightarrow> if f = [] then users
                  else (case read f of Inl _ \<Rightarrow> users | Inr lines \<Rightarrow> read_lines lines users))"

section \<open>Connections\<close>

definition set_client_connected :: "env \<Rightarrow> string \<Rightarrow> bool \<Rightarrow> mserver \<Rightarrow> mserver" where
  "set_client_connected E client_id connected s =
     (if client_id = HELPER_BOT_CLIENT_ID then s
      else
        (case client_id_split_helper (e_cfg E) client_id of
           None \<Rightarrow> s
         | Some (did, _, _, Bot_Client) \<Rightarrow>
             (case bot_get (e_store E) (JStr did) (ms_db s) of
                None \<Rightarrow> s
              | Some b \<Rightarrow>
                  (let s1 = s\<lparr>ms_db := bot_set_mqtt (e_store E) (bot_did b) connected (ms_db s)\<rparr>
                   in if connected then s1\<lparr>ms_sync_tasks := ms_sync_tasks s1 @ [did]\<rparr> else s1))
         | Some (did, _, _, User_Client) \<Rightarrow>
             (case client_get (e_store E) (JStr did) (ms_db s) of
                None \<Rightarrow> s
              | Some client \<Rightarrow>
                  s\<lparr>ms_db := client_set_mqtt (e_store E) (cl_userid client) connected (ms_db s)\<rparr>)))"

definition on_broker_client_connected :: "env \<Rightarrow> string \<Rightarrow> mserver \<Rightarrow> mserver" where
  "on_broker_client_connected E client_id s = set_client_connected E client_id True s"

definition on_broker_client_disconnected :: "env \<Rightarrow> string \<Rightarrow> mserver \<Rightarrow> mserver" where
  "on_broker_client_disconnected E client_id s =
     set_client_connected E client_id False
       (if BUMPER_PROXY_MQTT (e_cfg E) \<and> client_id \<in> dom (ms_proxies s)
        then s\<lparr>ms_proxies := (ms_proxies s)(client_id := None)\<rparr> else s)"

definition on_broker_client_subscribed :: "env \<Rightarrow> string \<Rightarrow> string \<Rightarrow> mserver \<Rightarrow> mserver" where
  "on_broker_client_subscribed E client_id topic s =
     (if BUMPER_PROXY_MQTT (e_cfg E)
      then s\<lparr>ms_proxies := (ms_proxies s)(client_id := map_option (proxy_subscribe topic) (ms_proxies s client_id))\<rparr>
      else s)"

text \<open>Messages too short for a command topic are dropped; an exception is logged.\<close>

definition on_broker_message_received :: "env \<Rightarrow> string \<Rightarrow> string \<Rightarrow> string \<Rightarrow> mserver \<Rightarrow> mserver" where
  "on_broker_message_received E topic bytes client_id s =
     (if length (py_split (CHR ''/'') topic) < 7 then s
      else if BUMPER_PROXY_MQTT (e_cfg E) then
        (case ms_proxies s client_id of
           None \<Rightarrow> s
         | Some p \<Rightarrow> s\<lparr>ms_proxies := (ms_proxies s)(client_id \<mapsto> snd (proxy_reply topic (utf8_decode_replace bytes) p))\<rparr>)
      else s)"

section \<open>The time zone of a robot\<close>

text \<open>\<open>get_tzm_and_ts\<close> (src/bumper/utils/utils.py) takes an offset of zero for a missing one.\<close>

definition get_tzm_and_ts :: "env \<Rightarrow> py_exc + (int \<times> int)" where
  "get_tzm_and_ts E =
     (if utcoff (e_now E) = 0 then Inl ValueError else Inr (utcoff (e_now E), timestamp (e_now E)))"

definition timezone_body :: "int \<Rightarrow> int \<Rightarrow> vac_bot \<Rightarrow> doc" where
  "timezone_body offset_minutes timestamp_s b =
     [(''cmdName'', JStr ''setTimeZone''),
      (''toId'', bot_did b),
      (''toType'', bot_class_id b),
      (''toRes'', bot_resource b),
      (''payload'', JObj
        [(''header'', JObj
           [(''pri'', JInt 2), (''ts'', JStr (int_str (timestamp_s * 1000))), (''tzm'', JInt offset_minutes),
            (''ver'', JStr ''0.0.22'')]),
         (''body'', JObj
           [(''data'', JObj
              [(''tzm'', JInt offset_minutes), (''bdTaskID'', JStr (int_str (timestamp_s * 1000000)))])])])]"

text \<open>The command that is sent to the robot, if any.\<close>

definition set_bot_timezone :: "env \<Rightarrow> bool \<Rightarrow> string \<Rightarrow> string \<Rightarrow> db \<Rightarrow> mqtt_command option" where
  "set_bot_timezone E helperbot_present rid did db =
     (if \<not> SYNC_TIMEZONE (e_cfg E) then None
      else if \<not> helperbot_present then None
      else
        (case bot_get (e_store E) (JStr did) db of
           None \<Rightarrow> None
         | Some b \<Rightarrow>
             (case get_tzm_and_ts E of
                Inl _ \<Rightarrow> None
              | Inr (offset_minutes, timestamp_s) \<Rightarrow>
                  (case MQTTCommandModel rid (timezone_body offset_minutes timestamp_s b) VERSION_OLD of
                     Inl _ \<Rightarrow> None
                   | Inr c \<Rightarrow> Some c))))"

section \<open>The server object\<close>

record mqtt_binding =
  mb_host :: string
  mb_port :: int
  mb_ssl :: bool

record listener =
  li_bind :: "string option"
  li_ssl :: bool

definition listener_name :: "nat \<Rightarrow> mqtt_binding \<Rightarrow> string" where
  "listener_name index b = (if mb_port b \<noteq> 1883 then ''mqtt'' @ nat_str index else ''default'')"

definition mqtt_listeners :: "mqtt_binding list \<Rightarrow> (string \<times> listener) list" where
  "mqtt_listeners bs =
     fold (\<lambda>(i, b) ls. AList.update (listener_name i b)
             \<lparr>li_bind = Some (mb_host b @ '':'' @ int_str (mb_port b)), li_ssl = mb_ssl b\<rparr> ls)
       (zip [0..<length bs] bs) [(''default'', \<lparr>li_bind = None, li_ssl = False\<rparr>)]"

text \<open>
  Start and shutdown ask the broker for its state; \<open>later\<close> is the state after a bounded wait.
  The result is the call made on the broker.
\<close>

datatype broker_call = Broker_start | Broker_shutdown

definition server_start :: "string \<Rightarrow> string \<Rightarrow> broker_call option" where
  "server_start state later =
     (if state \<notin> {''stopping'', ''starting'', ''started''} then Some Broker_start
      else if state = ''stopping'' then (if later = ''stopped'' then Some Broker_start else None)
      else None)"

definition server_shutdown :: "string \<Rightarrow> string \<Rightarrow> broker_call option" where
  "server_shutdown state later =
     (if state = ''started'' then Some Broker_shutdown
      else if state = ''starting'' then (if later = ''started'' then Some Broker_shutdown else None)
      else None)"

text \<open>The states \<open>wait_for_state_change\<close> sees: it returns with the first one that satisfies
  the condition, or with the last one when the time is over.\<close>

fun wait_for_state :: "string \<Rightarrow> bool \<Rightarrow> string \<Rightarrow> string list \<Rightarrow> string" where
  "wait_for_state desired rvs state [] = state"
| "wait_for_state desired rvs state (s # ss) =
     (if (rvs \<and> state \<noteq> desired) \<or> (\<not> rvs \<and> state = desired) then state
      else wait_for_state desired rvs s ss)"

end
