(* ===== verification/MQTT_Laws.thy ===== *)
theory MQTT_Laws
  imports MQTT_Server
begin

text \<open>
  What the broker's plugin guarantees: identifiers are parsed as they are built, a
  connection changes only the record of its own identifier, no handler breaks the tables,
  and a client without the password is not registered when passwords are on.
\<close>

section \<open>Identifiers\<close>

lemma client_id_split:
  assumes "CHR ''@'' \<notin> set did" "CHR ''/'' \<notin> set cl"
  shows "client_id_split_helper cfg (did @ ''@'' @ cl @ ''/'' @ res) =
    Some (did, cl, res, if cl \<in> set (USER_REALMS cfg) then User_Client else Bot_Client)"
  using assms by (simp add: client_id_split_helper_def py_split1_append)

lemma client_id_split_Some:
  "client_id_split_helper cfg client_id = Some (did, cl, res, ct) \<Longrightarrow>
   client_id = did @ ''@'' @ cl @ ''/'' @ res \<and> (ct = User_Client \<longleftrightarrow> cl \<in> set (USER_REALMS cfg))"
  by (auto simp: client_id_split_helper_def split: prod.splits option.splits if_splits dest!: py_split1_Some)

section \<open>The tables stay well formed\<close>

definition ms_ok :: "mserver \<Rightarrow> bool" where
  "ms_ok s \<longleftrightarrow> bots_ok (ms_db s) \<and> clients_ok (ms_db s)"

lemma ms_ok_keep: "keeps ms_ok (set_session_name n)"
  by (intro keepsI) (simp add: set_session_name_def py_modify_def ms_ok_def)

definition plain_name :: "string \<Rightarrow> bool" where
  "plain_name u \<longleftrightarrow> u \<noteq> [] \<and> CHR ''@'' \<notin> set u \<and> CHR ''`'' \<notin> set u"

context tinydb
begin

lemma keeps_bot_add:
  "e_store E = D \<Longrightarrow> keeps ms_ok (ms_do (bot_add (e_store E) n (JStr did) c r co))"
proof (intro keepsI)
  fix s assume E: "e_store E = D" and ok: "ms_ok s"
  have "bots_ok (bot_add_args D did (n, c, r, co) (ms_db s))" using ok by (intro bots.inv_add) (simp add: ms_ok_def)
  moreover have "clients_ok (bot_add_args D did (n, c, r, co) (ms_db s)) = clients_ok (ms_db s)"
    by (simp add: clients_ok_def bot_add_rows)
  ultimately show "ms_ok (snd (ms_do (bot_add (e_store E) n (JStr did) c r co) s))"
    using ok by (simp add: ms_do_def py_modify_def ms_ok_def bot_add_args_def E)
qed

lemma keeps_client_add:
  "e_store E = D \<Longrightarrow> keeps ms_ok (ms_do (client_add (e_store E) n (JStr did) c r))"
proof (intro keepsI)
  fix s assume E: "e_store E = D" and ok: "ms_ok s"
  have "clients_ok (client_add_args D did (n, c, r) (ms_db s))" using ok by (intro clients.inv_add) (simp add: ms_ok_def)
  moreover have "bots_ok (client_add_args D did (n, c, r) (ms_db s)) = bots_ok (ms_db s)"
    by (simp add: bots_ok_def client_add_rows)
  ultimately show "ms_ok (snd (ms_do (client_add (e_store E) n (JStr did) c r) s))"
    using ok by (simp add: ms_do_def py_modify_def ms_ok_def client_add_args_def E)
qed

lemma keeps_connect_proxy: "keeps ms_ok (connect_proxy M E cid u p)"
proof -
  have "keeps ms_ok (py_modify (\<lambda>s. s\<lparr>ms_proxies := f s\<rparr>))" for f
    by (intro keepsI) (simp add: py_modify_def ms_ok_def)
  then show ?thesis unfolding connect_proxy_def by (auto intro!: keeps_rules split: option.splits)
qed

lemma keeps_register:
  "e_store E = D \<Longrightarrow> keeps ms_ok (register_client M E cid parts u p)"
  unfolding register_client_def
  by (auto intro!: keeps_rules keeps_bot_add keeps_client_add keeps_connect_proxy split: option.splits list.splits prod.splits)

lemma keeps_id_auth: "e_store E = D \<Longrightarrow> keeps ms_ok (id_auth M E cid u p)"
proof -
  assume E: "e_store E = D"
  have "keeps ms_ok (strip_user_info u)"
    unfolding strip_user_info_def Let_def by (auto intro!: keeps_rules ms_ok_keep split: option.splits)
  moreover have "keeps ms_ok (check_auth_code E did q)" for did q
    unfolding check_auth_code_def by (auto intro!: keeps_rules split: option.splits)
  ultimately show ?thesis
    unfolding id_auth_def by (auto intro!: keeps_rules keeps_register E split: option.splits)
qed

text \<open>Whatever a client sends, the tables of bots and clients stay well formed.\<close>

lemma authenticate_keeps:
  assumes E: "e_store E = D" and ok: "ms_ok s"
  shows "ms_ok (snd (authenticate M E ses s))"
proof -
  have "keeps ms_ok (file_auth M u p)" for u p
    unfolding file_auth_def by (intro keeps_rules)
  then have "keeps ms_ok (auth_checks M E ses)"
    unfolding auth_checks_def Let_def by (auto intro!: keeps_rules ms_ok_keep keeps_id_auth E split: option.splits)
  then have "keeps ms_ok (py_try (auth_checks M E ses) (\<lambda>_. py_ret (me_allow_anonymous M)))" by auto
  from keepsD [OF this ok] show ?thesis by (auto simp: authenticate_def split: prod.splits sum.splits)
qed

section \<open>Registration\<close>

text \<open>A robot that connects is registered under its identifier, as it was or as a new one.\<close>

lemma authenticate_bot:
  assumes E: "e_store E = D" "\<not> USE_AUTH (e_cfg E)" "\<not> BUMPER_PROXY_MQTT (e_cfg E)"
    and ok: "ms_ok s" and id: "CHR ''@'' \<notin> set did" "CHR ''/'' \<notin> set cl" "cl \<notin> set (USER_REALMS (e_cfg E))"
    and name: "u \<noteq> []" "CHR ''@'' \<notin> set u" "CHR ''`'' \<notin> set u"
    and nh: "did @ ''@'' @ cl @ ''/'' @ res \<noteq> HELPER_BOT_CLIENT_ID"
  shows "\<exists>s'. authenticate M E \<lparr>ses_username = Some u, ses_password = p,
       ses_client_id = Some (did @ ''@'' @ cl @ ''/'' @ res)\<rparr> s = (True, s') \<and>
    (\<forall>k. bot_get D (JStr k) (ms_db s') =
      (if k = did \<and> bot_get D (JStr did) (ms_db s) = None
       then Some (new_bot did (JStr u, JStr cl, JStr res, JStr ''eco-ng'')) else bot_get D (JStr k) (ms_db s)))"
proof -
  let ?id = "did @ ''@'' @ cl @ ''/'' @ res"
  have at: "contains ''@'' ?id" "\<not> contains ''@'' u" "\<not> contains ''`'' u"
    using name by (auto simp: contains_char)
  have split: "client_id_split_helper (e_cfg E) ?id = Some (did, cl, res, Bot_Client)"
    using client_id_split [OF id(1,2)] id(3) by simp
  obtain c v where u: "u = c # v" using name(1) by (cases u) auto
  let ?s' = "s\<lparr>ms_session_name := Some u, ms_db := bot_add D (JStr u) (JStr did) (JStr cl) (JStr res) (JStr ''eco-ng'') (ms_db s)\<rparr>"
  have "auth_checks M E \<lparr>ses_username = Some u, ses_password = p, ses_client_id = Some ?id\<rparr> s = (Inr True, ?s')"
    using E at split nh u
    by (cases p) (simp_all add: auth_checks_def id_auth_def name_before_at_def strip_user_info_def check_auth_code_def
      register_client_def connect_proxy_def set_session_name_def ms_do_def py_run Let_def)
  then have "authenticate M E \<lparr>ses_username = Some u, ses_password = p, ses_client_id = Some ?id\<rparr> s = (True, ?s')"
    by (simp add: authenticate_def py_try_def)
  moreover have "bot_get D (JStr k) (ms_db ?s') =
      (if k = did \<and> bot_get D (JStr did) (ms_db s) = None
       then Some (new_bot did (JStr u, JStr cl, JStr res, JStr ''eco-ng'')) else bot_get D (JStr k) (ms_db s))" for k
    using bots.get_add [of "ms_db s" k did "(JStr u, JStr cl, JStr res, JStr ''eco-ng'')"] ok
    by (simp add: ms_ok_def bot_add_args_def)
  ultimately show ?thesis by blast
qed

text \<open>With passwords on, a client whose code is not known changes no table.\<close>

lemma authenticate_denied:
  assumes E: "e_store E = D" "USE_AUTH (e_cfg E)" "\<not> me_allow_anonymous M"
    and id: "CHR ''@'' \<notin> set did" "CHR ''/'' \<notin> set cl" "did @ ''@'' @ cl @ ''/'' @ res \<noteq> HELPER_BOT_CLIENT_ID"
    and p: "case p of None \<Rightarrow> True | Some q \<Rightarrow> \<not> token_verify_auth_code D (JStr did) (JStr q) (ms_db s)"
  shows "\<exists>s'. authenticate M E \<lparr>ses_username = u, ses_password = p,
       ses_client_id = Some (did @ ''@'' @ cl @ ''/'' @ res)\<rparr> s = (False, s') \<and> ms_db s' = ms_db s"
proof -
  let ?id = "did @ ''@'' @ cl @ ''/'' @ res"
  let ?n = "name_before_at u"
  have at: "contains ''@'' ?id" by (auto simp: contains_char)
  have split: "\<exists>ct. client_id_split_helper (e_cfg E) ?id = Some (did, cl, res, ct)"
    using client_id_split [OF id(1,2)] by blast
  then obtain ct where ct: "client_id_split_helper (e_cfg E) ?id = Some (did, cl, res, ct)" by blast
  have strip: "\<exists>r n'. strip_user_info v s1 = (r, s1\<lparr>ms_session_name := n'\<rparr>)" for v s1
    by (auto simp: strip_user_info_def set_session_name_def py_run Let_def split: option.splits sum.splits
      intro: exI [of _ "ms_session_name s1"])
  obtain r n' where r: "strip_user_info ?n (s\<lparr>ms_session_name := ?n\<rparr>) = (r, s\<lparr>ms_session_name := n'\<rparr>)"
    using strip [of ?n "s\<lparr>ms_session_name := ?n\<rparr>"] by auto
  have deny: "check_auth_code E did p (s\<lparr>ms_session_name := n'\<rparr>) = (Inl (PlainException error_msg), s\<lparr>ms_session_name := n'\<rparr>)"
    using E p by (cases p) (auto simp: check_auth_code_def py_run)
  have "\<exists>e. auth_checks M E \<lparr>ses_username = u, ses_password = p, ses_client_id = Some ?id\<rparr> s = (Inl e, s\<lparr>ms_session_name := n'\<rparr>)"
    using id(3) at ct r deny
    by (cases r) (simp_all add: auth_checks_def id_auth_def set_session_name_def py_run Let_def)
  then show ?thesis using E(3) by (auto simp: authenticate_def py_try_def py_ret_def)
qed

section \<open>Connections\<close>

text \<open>A connection sets the flag of its own robot, if it is known, and nothing else.\<close>

lemma connected_flag:
  assumes E: "e_store E = D" and ok: "ms_ok s"
    and id: "client_id_split_helper (e_cfg E) client_id = Some (did, cl, res, Bot_Client)"
    and nh: "client_id \<noteq> HELPER_BOT_CLIENT_ID"
  shows "bot_get D (JStr k) (ms_db (set_client_connected E client_id b s)) =
    (if k = did then map_option (put_mqtt b) (bot_get D (JStr did) (ms_db s)) else bot_get D (JStr k) (ms_db s))"
proof (cases "bot_get D (JStr did) (ms_db s)")
  case None
  then show ?thesis using E id nh by (simp add: set_client_connected_def)
next
  case (Some r)
  obtain i d where l: "lookup ''did'' did (ms_db s ''bots'') = Some (i, d)" and r: "r = bot_from_dict d"
    using Some by (auto simp: bot_get_lookup)
  have "bot_did r = JStr did"
    using lookup_Some [OF l] by (simp add: r bot_from_dict_def VacBotDevice_def Let_def dget_or_def key_of_Some)
  then have "ms_db (set_client_connected E client_id b s) = bot_set_mqtt D (JStr did) b (ms_db s)"
    using E id nh Some by (simp add: set_client_connected_def Let_def)
  moreover have "bots_ok (ms_db s)" using ok by (simp add: ms_ok_def)
  ultimately show ?thesis by (simp add: bots_mqtt.get_set)
qed

end

section \<open>The time zone\<close>

text \<open>Where the local time is UTC, no command is ever sent.\<close>

lemma no_timezone_in_utc: "utcoff (e_now E) = 0 \<Longrightarrow> set_bot_timezone E hb rid did db = None"
  by (auto simp: set_bot_timezone_def get_tzm_and_ts_def split: option.splits)

lemma timezone_sent:
  assumes "utcoff (e_now E) \<noteq> 0" "SYNC_TIMEZONE (e_cfg E)" "bot_get (e_store E) (JStr did) db = Some b"
  shows "\<exists>c. set_bot_timezone E True rid did db = Some c \<and> cmd_request_id c = rid \<and> cmd_name c = JStr ''setTimeZone'' \<and>
    cmd_did c = bot_did b"
  using assms
  by (simp add: set_bot_timezone_def get_tzm_and_ts_def MQTTCommandModel_def from_version_1_def timezone_body_def Let_def)

section \<open>The password file\<close>

lemma read_lines_bad:
  assumes "py_strip l \<noteq> []" "\<not> py_startswith (py_strip l) ''#''" "length (py_split (CHR '':'') (py_strip l)) \<noteq> 2"
  shows "read_lines (l # ls) users = users"
  using assms by (auto simp: Let_def split: list.splits)

end
