(* ===== verification/XMPP.thy ===== *)
theory XMPP
  imports MQTT_Laws
begin

text \<open>
  The XMPP server for old robots and apps (src/bumper/xmpp/xmpp.py). A connection is an
  object with a number, its state machine, and the commands handed to its transport; the
  server is the objects, the numbers of the live connections in order, the database and the
  start-TLS tasks that wait to run. Every handler catches its exceptions. Parsing and
  printing of XML are third-party or library code, given by \<open>xenv\<close>: \<open>xe_parse\<close> is
  \<open>fromstring\<close> (\<open>None\<close> where it raises), \<open>xe_render\<close> prints a stanza with the name space of
  its content put back (\<open>_xml_replacer\<close>).
\<close>

datatype xml = Element (x_tag: string) (x_attrib: "(string \<times> string) list") (x_text: "string option") (x_children: "xml list")

definition x_get :: "xml \<Rightarrow> string \<Rightarrow> string option" where
  "x_get x k = map_of (x_attrib x) k"

definition x_set :: "string \<Rightarrow> string \<Rightarrow> xml \<Rightarrow> xml" where
  "x_set k v x = Element (x_tag x) (AList.update k v (x_attrib x)) (x_text x) (x_children x)"

record xenv =
  xe_parse :: "string \<Rightarrow> xml option"
  xe_render :: "xml \<Rightarrow> string \<Rightarrow> string \<Rightarrow> string"
  xe_uuid4 :: "nat \<Rightarrow> string"

section \<open>State\<close>

abbreviation ST_IDLE :: nat where "ST_IDLE \<equiv> 0"
abbreviation ST_CONNECT :: nat where "ST_CONNECT \<equiv> 1"
abbreviation ST_INIT :: nat where "ST_INIT \<equiv> 2"
abbreviation ST_BIND :: nat where "ST_BIND \<equiv> 3"
abbreviation ST_READY :: nat where "ST_READY \<equiv> 4"
abbreviation ST_DISCONNECT :: nat where "ST_DISCONNECT \<equiv> 5"
abbreviation TY_UNKNOWN :: nat where "TY_UNKNOWN \<equiv> 0"
abbreviation TY_BOT :: nat where "TY_BOT \<equiv> 1"
abbreviation TY_CONTROLLER :: nat where "TY_CONTROLLER \<equiv> 2"

record xclient =
  xc_type :: nat
  xc_state :: nat
  xc_address :: string
  xc_writable :: bool
  xc_open :: bool
  xc_resource :: "string option"
  xc_devclass :: string
  xc_jid :: string
  xc_uid :: string
  xc_name :: "string option"
  xc_tls :: bool
  xc_ping :: bool
  xc_out :: "string list"

record xmpp =
  xs_obj :: "nat \<Rightarrow> xclient"
  xs_clients :: "nat list"
  xs_db :: db
  xs_drawn :: nat
  xs_starttls :: "nat list"
  xs_exit :: bool

definition new_xclient :: "string \<Rightarrow> bool \<Rightarrow> xclient" where
  "new_xclient address writable =
     \<lparr>xc_type = TY_UNKNOWN, xc_state = ST_IDLE, xc_address = address, xc_writable = writable, xc_open = True,
      xc_resource = Some [], xc_devclass = [], xc_jid = [], xc_uid = [], xc_name = None, xc_tls = False,
      xc_ping = False, xc_out = []\<rparr>"

definition self :: "nat \<Rightarrow> (xclient \<Rightarrow> 'a) \<Rightarrow> (xmpp, 'a) py" where
  "self n f = py_gets (\<lambda>s. f (xs_obj s n))"

definition update_self :: "nat \<Rightarrow> (xclient \<Rightarrow> xclient) \<Rightarrow> (xmpp, unit) py" where
  "update_self n f = py_modify (\<lambda>s. s\<lparr>xs_obj := (xs_obj s)(n := f (xs_obj s n))\<rparr>)"

definition xs_do :: "(db \<Rightarrow> db) \<Rightarrow> (xmpp, unit) py" where
  "xs_do f = py_modify (\<lambda>s. s\<lparr>xs_db := f (xs_db s)\<rparr>)"

definition swallow :: "(xmpp, unit) py \<Rightarrow> (xmpp, unit) py" where
  "swallow m = py_try m (\<lambda>_. py_ret ())"

lemmas x_prims = self_def update_self_def xs_do_def swallow_def

declare x_prims [py_run]

definition opt_text :: "string option \<Rightarrow> string" where
  "opt_text r = (case r of None \<Rightarrow> ''None'' | Some s \<Rightarrow> s)"

definition draw_uuid4 :: "xenv \<Rightarrow> (xmpp, string) py" where
  "draw_uuid4 X s = (Inr (xe_uuid4 X (xs_drawn s)), s\<lparr>xs_drawn := Suc (xs_drawn s)\<rparr>)"

section \<open>Sending, states, disconnecting\<close>

definition send :: "nat \<Rightarrow> string \<Rightarrow> (xmpp, unit) py" where
  \<open>send n command = update_self n (\<lambda>c. if \<not> xc_writable c then c
     else c\<lparr>xc_out := xc_out c @ [utf8_encode (py_replace ''"'' [CHR 0x27] command)]\<rparr>)\<close>

definition set_xmpp_flag :: "env \<Rightarrow> nat \<Rightarrow> bool \<Rightarrow> (xmpp, unit) py" where
  "set_xmpp_flag E n on =
     py_bind (self n id) (\<lambda>c.
     if xc_devclass c \<noteq> [] then
       py_bind (py_gets (\<lambda>s. bot_get (e_store E) (JStr (xc_uid c)) (xs_db s))) (\<lambda>b.
         case b of None \<Rightarrow> py_ret () | Some b \<Rightarrow> xs_do (bot_set_xmpp (e_store E) (bot_did b) on))
     else
       py_bind (py_gets (\<lambda>s. client_get (e_store E) (JStr (xc_uid c)) (xs_db s))) (\<lambda>cl.
         case cl of None \<Rightarrow> py_ret () | Some cl \<Rightarrow> xs_do (client_set_xmpp (e_store E) (cl_userid cl) on)))"

definition disconnect :: "env \<Rightarrow> nat \<Rightarrow> (xmpp, unit) py" where
  "disconnect E n = swallow
     (py_seq (update_self n (\<lambda>c. c\<lparr>xc_ping := False\<rparr>))
     (py_seq (set_xmpp_flag E n False)
       (update_self n (\<lambda>c. c\<lparr>xc_open := False\<rparr>))))"

definition set_state :: "env \<Rightarrow> nat \<Rightarrow> nat \<Rightarrow> (xmpp, unit) py" where
  "set_state E n new_state = swallow
     (py_bind (self n xc_state) (\<lambda>st.
      if st > new_state then py_raise (PlainException ''illegal state change'')
      else py_seq (update_self n (\<lambda>c. c\<lparr>xc_state := new_state\<rparr>))
        (if new_state = ST_DISCONNECT then disconnect E n else py_ret ())))"

definition tag_strip_uri :: "string \<Rightarrow> string" where
  "tag_strip_uri tag =
     (case tag of
        c # r \<Rightarrow> if c = CHR ''{'' then (case py_split1 (CHR ''}'') r of (_, Some b) \<Rightarrow> b | (_, None) \<Rightarrow> []) else tag
      | [] \<Rightarrow> [])"

section \<open>Control messages and pings\<close>

definition not_implemented :: "string option \<Rightarrow> string" where
  \<open>not_implemented i = ''<iq type="error" id="'' @ opt_text i @ ''"><error type="cancel" code="501">''
     @ ''<feature-not-implemented xmlns="urn:ietf:params:xml:ns:xmpp-stanzas"/></error></iq>''\<close>

definition with_from :: "string \<Rightarrow> xml \<Rightarrow> xml" where
  "with_from jid x = (if x_get x ''from'' = None then x_set ''from'' jid x else x)"

definition uid_in :: "xclient \<Rightarrow> string option \<Rightarrow> bool" where
  "uid_in c to = (case to of None \<Rightarrow> False | Some t \<Rightarrow> contains (py_lower (xc_uid c)) (py_lower t))"

definition other_ready :: "xclient \<Rightarrow> xclient \<Rightarrow> bool" where
  "other_ready me c \<longleftrightarrow> xc_jid c \<noteq> xc_jid me \<and> xc_state c = ST_READY"

text \<open>Send to the live connections that satisfy a condition, in order.\<close>

definition forward :: "(xclient \<Rightarrow> bool) \<Rightarrow> string \<Rightarrow> (xmpp, unit) py" where
  "forward P msg =
     py_bind (py_gets xs_clients) (\<lambda>ns. py_for ns (\<lambda>m. py_bind (self m P) (\<lambda>ok. if ok then send m msg else py_ret ())))"

definition handle_ctl :: "env \<Rightarrow> xenv \<Rightarrow> nat \<Rightarrow> xml \<Rightarrow> string \<Rightarrow> (xmpp, unit) py" where
  \<open>handle_ctl E X n x data = swallow
     (if contains ''roster'' data \<or> contains ''disco#items'' data \<or> contains ''disco#info'' data
      then send n (not_implemented (x_get x ''id''))
      else
        py_bind (self n id) (\<lambda>me.
        py_seq
          (if x_get x ''type'' = Some ''set'' \<and> contains ''com:sf'' data \<and> x_get x ''to'' = Some ''rl.ecorobot.net''
           then send n (''<iq id="'' @ opt_text (x_get x ''id'') @ ''" to="'' @ xc_uid me @ ''@'' @ DOMAIN_MAIN (e_cfg E)
                  @ ''/'' @ opt_text (xc_resource me) @ ''" from="rl.ecorobot.net" type="result"/>'')
           else py_ret ())
        (case x_children x of
           [] \<Rightarrow> py_raise IndexError
         | q # _ \<Rightarrow>
             (case x_children q of
                ctl # _ \<Rightarrow>
                  if opt_text (x_get ctl ''admin'') \<noteq> [] \<and> x_get ctl ''admin'' \<noteq> None \<and> xc_type me = TY_BOT then py_ret ()
                  else forward (\<lambda>c. other_ready me c \<and> xc_type c = TY_BOT \<and> uid_in c (x_get x ''to''))
                         (xe_render X (with_from (xc_jid me) x) ''query'' ''com:ctl'')
              | [] \<Rightarrow> forward (\<lambda>c. other_ready me c \<and> xc_type c = TY_BOT \<and> uid_in c (x_get x ''to''))
                        (xe_render X (with_from (xc_jid me) x) ''query'' ''com:ctl'')))))\<close>

definition handle_ping :: "xenv \<Rightarrow> nat \<Rightarrow> xml \<Rightarrow> (xmpp, unit) py" where
  \<open>handle_ping X n x = swallow
     (case x_get x ''to'' of
        Some to \<Rightarrow>
          if py_find ''@'' to = - 1 then
            send n (''<iq type="result" id="'' @ opt_text (x_get x ''id'') @ ''" from="'' @ to @ ''" />'')
          else
            py_bind (self n id) (\<lambda>me.
              forward (\<lambda>c. other_ready me c \<and> uid_in c (Some to))
                (xe_render X (with_from (xc_jid me) x) ''ping'' ''urn:xmpp:ping''))
      | None \<Rightarrow> py_ret ())\<close>

definition ping_text :: "env \<Rightarrow> string \<Rightarrow> string" where
  \<open>ping_text E jid = ''<iq from="'' @ DOMAIN_MAIN (e_cfg E) @ ''" to="'' @ jid
     @ ''" id="s2c1" type="get"> <ping xmlns="urn:xmpp:ping"/></iq>''\<close>

text \<open>One round of the ping task: it runs until the connection is disconnected or cancels it.\<close>

definition ping_tick :: "env \<Rightarrow> nat \<Rightarrow> (xmpp, unit) py" where
  "ping_tick E n =
     py_bind (self n id) (\<lambda>c.
       if xc_ping c \<and> xc_state c \<noteq> ST_DISCONNECT then send n (ping_text E (xc_jid c)) else py_ret ())"

section \<open>Results\<close>

text \<open>The user who is to become an owner of a robot that refuses commands.\<close>

definition admin_of :: "xml \<Rightarrow> py_exc + string option" where
  "admin_of x =
     (case x_children x of
        [] \<Rightarrow> Inl StopIteration
      | q # _ \<Rightarrow>
          (case x_children q of
             [] \<Rightarrow> Inl IndexError
           | ctl # _ \<Rightarrow>
               (case x_get ctl ''error'' of
                  Some e \<Rightarrow> Inr (Some (py_replace '' '' [] (py_replace ''permission denied, please contact '' [] e)))
                | None \<Rightarrow> Inr (x_get ctl ''admin''))))"

definition add_user_stanza :: "string \<Rightarrow> string \<Rightarrow> string \<Rightarrow> string \<Rightarrow> string" where
  \<open>add_user_stanza uuid admin jid user =
     ''<iq type="set" id="'' @ uuid @ ''" from="'' @ admin @ ''" to="'' @ jid
       @ ''"><query xmlns="com:ctl"><ctl td="AddUser" id="0000" jid="'' @ user @ ''" /></query></iq>''\<close>

definition set_ac_stanza :: "string \<Rightarrow> string \<Rightarrow> string \<Rightarrow> string \<Rightarrow> string" where
  \<open>set_ac_stanza uuid admin jid user =
     ''<iq type="set" id="'' @ uuid @ ''" from="'' @ admin @ ''" to="'' @ jid
       @ ''"><query xmlns="com:ctl"><ctl td="SetAC" id="1111" jid="'' @ user @ ''"><acs>''
       @ ''<ac name="userman" allow="1"/><ac name="setting" allow="1"/><ac name="clean" allow="1"/></acs></ctl></query></iq>''\<close>

definition get_user_info_stanza :: "string \<Rightarrow> string \<Rightarrow> string \<Rightarrow> string" where
  \<open>get_user_info_stanza uuid admin jid =
     ''<iq type="set" id="'' @ uuid @ ''" from="'' @ admin @ ''" to="'' @ jid
       @ ''"><query xmlns="com:ctl"><ctl td="GetUserInfo" id="4444" /><UserInfos/></query></iq>''\<close>

definition grant_access :: "xenv \<Rightarrow> nat \<Rightarrow> string \<Rightarrow> string \<Rightarrow> (xmpp, unit) py" where
  "grant_access X n admin to =
     (let user = fst (py_split1 (CHR ''/'') to) in
      py_bind (self n xc_jid) (\<lambda>jid.
      py_bind (draw_uuid4 X) (\<lambda>u1. py_seq (send n (add_user_stanza u1 admin jid user))
      (py_bind (draw_uuid4 X) (\<lambda>u2. py_seq (send n (set_ac_stanza u2 admin jid user))
      (py_bind (draw_uuid4 X) (\<lambda>u3. send n (get_user_info_stanza u3 admin jid))))))))"

definition handle_result :: "env \<Rightarrow> xenv \<Rightarrow> nat \<Rightarrow> xml \<Rightarrow> string \<Rightarrow> (xmpp, unit) py" where
  "handle_result E X n x data = swallow
     (py_bind (self n id) (\<lambda>me.
      let to = x_get x ''to''; x = with_from (xc_jid me) x in
      if contains (''errno='' @ [CHR 0x27] @ ''103'' @ [CHR 0x27]) data then
        (if xc_type me = TY_BOT then
           py_bind (py_of (admin_of x)) (\<lambda>admin.
           case (to, admin) of
             (Some to, Some admin) \<Rightarrow>
               if \<not> (py_startswith admin ''fuid_'' \<or> py_startswith admin ''fusername_'' \<or> USE_AUTH (e_cfg E))
               then grant_access X n admin to else py_ret ()
           | _ \<Rightarrow> py_ret ())
         else py_ret ())
      else
        (let msg = xe_render X x ''query'' ''com:ctl'';
             to' = (case to of None \<Rightarrow> None | Some t \<Rightarrow>
               Some (if contains ''@'' t then fst (py_split1 (CHR ''@'') t) @ ''@ecouser.net'' else t)) in
         py_seq
           (if xc_type me = TY_BOT \<and> to = Some ''de.ecorobot.net'' then forward (\<lambda>_. True) msg else py_ret ())
           (forward (\<lambda>c. other_ready me c \<and>
               (case to' of None \<Rightarrow> True | Some t \<Rightarrow> \<not> contains ''@'' t \<or> uid_in c (Some t))) msg))))"

end
