(* ===== verification/XMPP_Server.thy ===== *)
theory XMPP_Server
  imports XMPP
begin

text \<open>
  Connecting, authenticating, binding, presence, the dispatch of the received stanzas, and
  the protocol object of a connection (src/bumper/xmpp/xmpp.py, second part).
\<close>

section \<open>Streams\<close>

definition stream_open :: "env \<Rightarrow> string" where
  \<open>stream_open E = ''<stream:stream xmlns:stream="http://etherx.jabber.org/streams"''
     @ '' xmlns="jabber:client" version="1.0" id="1" from="'' @ DOMAIN_MAIN (e_cfg E) @ ''">''\<close>

definition features_starttls :: string where
  \<open>features_starttls = ''<stream:features><starttls xmlns="urn:ietf:params:xml:ns:xmpp-tls"><required/></starttls>''
     @ ''<mechanisms xmlns="urn:ietf:params:xml:ns:xmpp-sasl"><mechanism>PLAIN</mechanism></mechanisms></stream:features>''\<close>

definition features_sasl :: string where
  \<open>features_sasl = ''<stream:features><mechanisms xmlns="urn:ietf:params:xml:ns:xmpp-sasl">''
     @ ''<mechanism>PLAIN</mechanism></mechanisms></stream:features>''\<close>

definition features_bind :: string where
  \<open>features_bind = ''<stream:features><bind xmlns="urn:ietf:params:xml:ns:xmpp-bind"/>''
     @ ''<session xmlns="urn:ietf:params:xml:ns:xmpp-session"/></stream:features>''\<close>

definition handle_connect :: "env \<Rightarrow> nat \<Rightarrow> string \<Rightarrow> (xmpp, unit) py" where
  "handle_connect E n xml_str = swallow
     (py_bind (self n id) (\<lambda>c.
      if xc_state c = ST_CONNECT then
        (if py_find ''jabber:client'' xml_str > - 1 then
           (let sc = py_find ''to='' xml_str; ec = py_find ''.ecorobot.net'' xml_str in
            py_seq (if ec > - 1 then update_self n (\<lambda>c. c\<lparr>xc_devclass := py_slice (sc + 4) ec xml_str\<rparr>) else py_ret ())
            (py_seq (send n (stream_open E))
              (send n (if xc_tls c then features_sasl else features_starttls))))
         else send n ''</stream>'')
      else if xc_state c = ST_INIT then
        (if py_find ''jabber:client'' xml_str > - 1
         then py_seq (send n (stream_open E)) (send n features_bind)
         else py_ret ())
      else py_ret ()))"

text \<open>The task started by a \<open>starttls\<close> stanza; a completed handshake replaces the transport.\<close>

definition handle_starttls :: "nat \<Rightarrow> bool \<Rightarrow> (xmpp, unit) py" where
  \<open>handle_starttls n ok = swallow
     (py_bind (self n xc_tls) (\<lambda>tls.
      if tls then py_ret ()
      else py_seq (update_self n (\<lambda>c. c\<lparr>xc_tls := True\<rparr>))
        (py_seq (send n ''<proceed xmlns="urn:ietf:params:xml:ns:xmpp-tls"/>'')
          (if ok then update_self n (\<lambda>c. c\<lparr>xc_open := True\<rparr>) else py_ret ()))))\<close>

section \<open>Authentication\<close>

definition sasl_success :: string where
  \<open>sasl_success = ''<success xmlns="urn:ietf:params:xml:ns:xmpp-sasl"/>''\<close>

definition sasl_failure :: string where
  \<open>sasl_failure = ''<response xmlns="urn:ietf:params:xml:ns:xmpp-sasl"/>''\<close>

text \<open>The decoded text: user, resource, code. The first part holds NUL-separated fields.\<close>

definition sasl_user :: "string \<Rightarrow> py_exc + string" where
  "sasl_user auth = py_nth (py_split (CHR 0x00) (hd (py_split (CHR ''/'') auth))) 1"

definition sasl_resource :: "string \<Rightarrow> string option" where
  "sasl_resource auth =
     (let parts = py_split (CHR ''/'') auth; fields = py_split (CHR 0x00) (hd parts) in
      if length parts > 1 then Some (parts ! 1) else if length fields > 2 then Some (fields ! 2) else None)"

definition sasl_code :: "string \<Rightarrow> string" where
  "sasl_code auth = (let parts = py_split (CHR ''/'') auth in if length parts > 2 then parts ! 2 else [])"

definition handle_sasl_auth :: "env \<Rightarrow> nat \<Rightarrow> xml \<Rightarrow> (xmpp, unit) py" where
  "handle_sasl_auth E n x = swallow
     (case x_text x of
        None \<Rightarrow> py_ret ()
      | Some t \<Rightarrow>
          py_bind (py_of (b64decode t)) (\<lambda>bytes.
          py_bind (py_of (utf8_decode bytes)) (\<lambda>auth.
          py_bind (py_of (sasl_user auth)) (\<lambda>username.
          py_seq (update_self n (\<lambda>c. c\<lparr>xc_uid := username\<rparr>))
          (py_seq (update_self n (\<lambda>c. case sasl_resource auth of None \<Rightarrow> c | Some r \<Rightarrow> c\<lparr>xc_resource := Some r\<rparr>))
          (py_bind (self n id) (\<lambda>c.
           if xc_devclass c \<noteq> [] then
             py_seq (xs_do (bot_add (e_store E) (JStr username) (JStr username) (JStr (xc_devclass c))
                (JStr ''atom'') (JStr ''eco-legacy'')))
             (py_seq (update_self n (\<lambda>c. c\<lparr>xc_type := TY_BOT\<rparr>))
             (py_seq (send n sasl_success) (set_state E n ST_INIT)))
           else
             py_bind (py_gets (\<lambda>s. token_verify_auth_code (e_store E) (JStr username) (JStr (sasl_code auth)) (xs_db s)))
              (\<lambda>known.
              if (known \<or> \<not> USE_AUTH (e_cfg E)) \<and> xc_resource c \<noteq> None then
                py_seq (update_self n (\<lambda>c. c\<lparr>xc_type := TY_CONTROLLER\<rparr>))
                (py_seq (xs_do (client_add (e_store E) (JStr username) (JStr username) (JStr ''USER'')
                    (opt_str (xc_resource c))))
                (py_seq (set_state E n ST_INIT) (send n sasl_success)))
              else send n sasl_failure))))))))"

section \<open>Binding, session, presence\<close>

definition bind_result :: "string option \<Rightarrow> string \<Rightarrow> string" where
  \<open>bind_result i jid = ''<iq type="result" id="'' @ opt_text i @ ''"><bind xmlns="urn:ietf:params:xml:ns:xmpp-bind"><jid>''
     @ jid @ ''</jid></bind></iq>''\<close>

definition bind_identity :: "env \<Rightarrow> xml list \<Rightarrow> xclient \<Rightarrow> xclient" where
  "bind_identity E resources c =
     (if xc_devclass c \<noteq> [] then
        c\<lparr>xc_name := Some (''XMPP_Client_'' @ xc_uid c @ ''_'' @ xc_devclass c),
          xc_jid := xc_uid c @ ''@'' @ xc_devclass c @ ''.ecorobot.net/atom''\<rparr>
      else (case resources of
        r # _ \<Rightarrow>
          c\<lparr>xc_resource := x_text r, xc_name := Some (''XMPP_Client_'' @ opt_text (x_text r)),
            xc_jid := xc_uid c @ ''@'' @ DOMAIN_MAIN (e_cfg E) @ ''/'' @ opt_text (x_text r)\<rparr>
      | [] \<Rightarrow>
          c\<lparr>xc_name := Some (''XMPP_Client_'' @ xc_uid c @ ''_'' @ xc_address c),
            xc_jid := xc_uid c @ ''@'' @ DOMAIN_MAIN (e_cfg E)\<rparr>))"

definition handle_bind :: "env \<Rightarrow> nat \<Rightarrow> xml \<Rightarrow> (xmpp, unit) py" where
  "handle_bind E n x = swallow
     (py_seq (set_xmpp_flag E n True)
     (case x_children x of
        [] \<Rightarrow> py_raise StopIteration
      | q # _ \<Rightarrow>
          py_seq (update_self n (bind_identity E (x_children q)))
          (py_bind (self n xc_jid) (\<lambda>jid.
           py_seq (set_state E n ST_BIND) (send n (bind_result (x_get x ''id'') jid))))))"

definition handle_session :: "env \<Rightarrow> nat \<Rightarrow> xml \<Rightarrow> (xmpp, unit) py" where
  \<open>handle_session E n x =
     py_seq (set_state E n ST_READY)
     (py_seq (send n (''<iq type="result" id="'' @ opt_text (x_get x ''id'') @ ''" />''))
       (update_self n (\<lambda>c. c\<lparr>xc_ping := True\<rparr>)))\<close>

definition dummy_presence :: "string \<Rightarrow> string" where
  \<open>dummy_presence jid = ''<presence to="'' @ jid @ ''"> dummy </presence>''\<close>

definition get_device_info :: "env \<Rightarrow> string \<Rightarrow> string" where
  \<open>get_device_info E jid = ''<iq type="set" id="14" to="'' @ jid @ ''" from="'' @ DOMAIN_MAIN (e_cfg E)
     @ ''"><query xmlns="com:ctl"><ctl td="GetDeviceInfo"/></query></iq>''\<close>

definition handle_presence :: "env \<Rightarrow> nat \<Rightarrow> xml \<Rightarrow> (xmpp, unit) py" where
  "handle_presence E n x =
     py_bind (self n id) (\<lambda>c.
     if (case x_children x of q # _ \<Rightarrow> x_tag q = ''status'' | [] \<Rightarrow> False) then
       py_seq (send n (dummy_presence (xc_jid c)))
         (if xc_type c = TY_BOT then send n (get_device_info E (xc_jid c)) else py_ret ())
     else if x_get x ''type'' = Some ''unavailable'' then set_state E n ST_DISCONNECT
     else send n (dummy_presence (xc_jid c)))"

section \<open>Dispatch\<close>

definition handle_iq :: "env \<Rightarrow> xenv \<Rightarrow> nat \<Rightarrow> xml \<Rightarrow> string \<Rightarrow> (xmpp, unit) py" where
  "handle_iq E X n x data =
     (let child = (case x_children x of q # _ \<Rightarrow> Some (tag_strip_uri (x_tag q)) | [] \<Rightarrow> None) in
      if x_tag x = ''iq'' then
        (if child = Some ''bind'' then handle_bind E n x
         else if child = Some ''session'' then handle_session E n x
         else if child = Some ''ping'' then handle_ping X n x
         else if child = Some ''query'' then
           py_bind (self n xc_type) (\<lambda>ty.
             if ty = TY_BOT then handle_result E X n x data else handle_ctl E X n x data)
         else if x_get x ''type'' = Some ''result'' \<or> x_get x ''type'' = Some ''set'' then handle_result E X n x data
         else py_ret ())
      else py_ret ())"

definition local_tag :: "string \<Rightarrow> string" where
  "local_tag tag = last (py_split (CHR ''}'') tag)"

definition namespace_tag :: "string \<Rightarrow> string" where
  "namespace_tag tag = tl (hd (py_split (CHR ''}'') tag))"

definition handle_item :: "env \<Rightarrow> xenv \<Rightarrow> nat \<Rightarrow> string \<Rightarrow> xml \<Rightarrow> (xmpp, unit) py" where
  "handle_item E X n data item =
     (let tag = local_tag (x_tag item); ns = namespace_tag (x_tag item) in
      py_bind (self n id) (\<lambda>c.
      if tag = ''iq'' then handle_iq E X n item data
      else if tag = ''auth'' \<and> ns = ''urn:ietf:params:xml:ns:xmpp-sasl'' then handle_sasl_auth E n item
      else if tag = ''starttls'' \<and> \<not> xc_tls c then py_modify (\<lambda>s. s\<lparr>xs_starttls := xs_starttls s @ [n]\<rparr>)
      else if tag = ''presence'' then handle_presence E n item
      else if tag = ''stream'' \<and> xc_state c \<in> {ST_CONNECT, ST_INIT} then handle_connect E n data
      else py_ret ()))"

text \<open>
  The elements the loop reaches: an element is emptied once it has been handled, so only the
  content of elements called \<open>root\<close> is descended into.
\<close>

fun items :: "xml \<Rightarrow> xml list" where
  "items (Element tag at tx ch) =
     (if local_tag tag = ''root'' then concat (map items ch) else [Element tag at tx ch])"

section \<open>Repairing the input\<close>

text \<open>\<open>re.sub(r"(<\?xml[^>]+\?>)", "", s)\<close>.\<close>

function strip_decl :: "string \<Rightarrow> string" where
  "strip_decl [] = []"
| "strip_decl (c # s) =
     (let rest = drop 5 (c # s); body = takeWhile (\<lambda>d. d \<noteq> CHR ''>'') rest; after = dropWhile (\<lambda>d. d \<noteq> CHR ''>'') rest in
      if prefix ''<?xml'' (c # s) \<and> after \<noteq> [] \<and> length body \<ge> 2 \<and> last body = CHR ''?''
      then strip_decl (tl after) else c # strip_decl s)"
  by pat_completeness auto
termination
proof (relation "measure length")
  fix c :: char and s x xa xb
  assume "x = drop 5 (c # s)" "xb = dropWhile (\<lambda>d. d \<noteq> CHR ''>'') x"
  then have "length xb \<le> length s" using length_dropWhile_le [of "\<lambda>d. d \<noteq> CHR ''>''" x] by simp
  then show "(tl xb, c # s) \<in> measure length" by simp
qed auto

text \<open>\<open>re.findall(r"<stream:stream(?![^>]*\/>)[^>]*>", s)\<close>: the stream tags that are not closed.\<close>

function open_streams :: "string \<Rightarrow> string list" where
  "open_streams [] = []"
| "open_streams (c # s) =
     (let rest = drop 14 (c # s); body = takeWhile (\<lambda>d. d \<noteq> CHR ''>'') rest; after = dropWhile (\<lambda>d. d \<noteq> CHR ''>'') rest in
      if prefix ''<stream:stream'' (c # s) \<and> after \<noteq> [] \<and> \<not> (body \<noteq> [] \<and> last body = CHR ''/'')
      then (''<stream:stream'' @ body @ ''>'') # open_streams (tl after) else open_streams s)"
  by pat_completeness auto
termination
proof (relation "measure length")
  fix c :: char and s x xa xb
  assume "x = drop 14 (c # s)" "xb = dropWhile (\<lambda>d. d \<noteq> CHR ''>'') x"
  then have "length xb \<le> length s" using length_dropWhile_le [of "\<lambda>d. d \<noteq> CHR ''>''" x] by simp
  then show "(tl xb, c # s) \<in> measure length" by simp
qed auto

definition close_streams :: "string \<Rightarrow> string" where
  "close_streams s = fold (\<lambda>m s. py_replace m (butlast m @ ''/>'') s) (open_streams s) s"

datatype repaired = Close_stream | Stanzas string

definition repair :: "string \<Rightarrow> repaired" where
  "repair xml_str =
     (let body = (if py_startswith xml_str ''<?xml'' then strip_decl xml_str else xml_str);
          newdata = ''<root>'' @ body @ ''</root>'' in
      if contains ''stream:stream'' newdata \<and> \<not> contains ''</stream:stream>'' newdata then Stanzas (close_streams newdata)
      else if \<not> contains ''<stream:stream>'' newdata \<and> contains ''</stream:stream>'' newdata then Close_stream
      else Stanzas newdata)"

definition parse_data :: "env \<Rightarrow> xenv \<Rightarrow> nat \<Rightarrow> string \<Rightarrow> (xmpp, unit) py" where
  "parse_data E X n bytes =
     py_bind (py_of (utf8_decode bytes)) (\<lambda>xml_str.
     case repair xml_str of
       Close_stream \<Rightarrow> py_seq (send n ''</stream:stream>'') (set_state E n ST_DISCONNECT)
     | Stanzas newdata \<Rightarrow>
         swallow (case xe_parse X newdata of
             None \<Rightarrow> py_raise ValueError
           | Some root \<Rightarrow> py_for (items root) (handle_item E X n newdata)))"

section \<open>The protocol object and the server\<close>

definition connection_made :: "nat \<Rightarrow> string \<Rightarrow> bool \<Rightarrow> xmpp \<Rightarrow> xmpp" where
  "connection_made n address writable s =
     (if n \<in> set (xs_clients s) then s\<lparr>xs_obj := (xs_obj s)(n := (xs_obj s n)\<lparr>xc_open := True, xc_writable := writable\<rparr>)\<rparr>
      else s\<lparr>xs_obj := (xs_obj s)(n := (new_xclient address writable)\<lparr>xc_state := ST_CONNECT\<rparr>),
             xs_clients := xs_clients s @ [n]\<rparr>)"

definition connection_lost :: "env \<Rightarrow> nat \<Rightarrow> (xmpp, unit) py" where
  "connection_lost E n =
     py_bind (py_gets xs_clients) (\<lambda>ns.
     if n \<in> set ns then
       py_seq (py_modify (\<lambda>s. s\<lparr>xs_clients := remove1 n (xs_clients s)\<rparr>)) (set_state E n ST_DISCONNECT)
     else py_raise ValueError)"

definition server_disconnect :: "env \<Rightarrow> (xmpp, unit) py" where
  "server_disconnect E =
     py_bind (py_gets xs_clients) (\<lambda>ns.
     py_seq (py_for ns (disconnect E)) (py_modify (\<lambda>s. s\<lparr>xs_exit := True\<rparr>)))"

definition xclient_to_dict :: "xclient \<Rightarrow> doc" where
  "xclient_to_dict c =
     [(''uid'', JStr (xc_uid c)), (''bumper_jid'', JStr (xc_jid c)), (''state'', JInt (int (xc_state c))),
      (''address'', JStr (xc_address c)),
      (''type'', JStr (if xc_type c = TY_BOT then ''BOT'' else if xc_type c = TY_CONTROLLER then ''CONTROLLER'' else ''UNKNOWN''))]"

end
