(* ===== verification/XMPP_Laws.thy ===== *)
theory XMPP_Laws
  imports XMPP_Server
begin

text \<open>
  The XMPP server as a transition system: connections open, data arrives, pings are due, the
  start-TLS tasks run, connections are lost, the server shuts down. The lemmas are the
  invariant of the reachable states, the monotonicity of every connection's state, what is
  sent to whom, and what a robot's or an app's log-in does to the repositories.
\<close>

section \<open>What a program may do to the objects\<close>

definition states_up :: "xmpp \<Rightarrow> xmpp \<Rightarrow> bool" where
  "states_up s0 s \<longleftrightarrow> xs_clients s = xs_clients s0 \<and> (\<forall>n. xc_state (xs_obj s0 n) \<le> xc_state (xs_obj s n))"

definition xs_tables :: "xmpp \<Rightarrow> bool" where
  "xs_tables s \<longleftrightarrow> bots_ok (xs_db s) \<and> clients_ok (xs_db s)"

definition obj_ok :: "xclient \<Rightarrow> bool" where
  "obj_ok c \<longleftrightarrow> xc_state c \<le> ST_DISCONNECT \<and> (xc_type c \<noteq> TY_UNKNOWN \<longrightarrow> xc_state c \<ge> ST_INIT)"

definition xmpp_ok :: "xmpp \<Rightarrow> bool" where
  "xmpp_ok s \<longleftrightarrow> distinct (xs_clients s) \<and> (\<forall>n. obj_ok (xs_obj s n)) \<and>
     (\<forall>n \<in> set (xs_clients s). xc_state (xs_obj s n) \<ge> ST_CONNECT) \<and> xs_tables s"

text \<open>The property every handler keeps: the invariant, and states only go up from \<open>s0\<close>.\<close>

definition good :: "xmpp \<Rightarrow> xmpp \<Rightarrow> bool" where
  "good s0 s \<longleftrightarrow> xmpp_ok s \<and> states_up s0 s"

lemma good_refl: "xmpp_ok s \<Longrightarrow> good s s"
  by (simp add: good_def states_up_def)

lemma good_update:
  assumes "\<And>c. obj_ok c \<Longrightarrow> obj_ok (f c)" "\<And>c. xc_state c \<le> xc_state (f c)"
  shows "keeps (good s0) (update_self n f)"
proof (rule keepsI)
  fix s assume g: "good s0 s"
  have "xc_state (xs_obj s n) \<le> xc_state (f (xs_obj s n))" "obj_ok (f (xs_obj s n))"
    using assms g by (auto simp: good_def xmpp_ok_def)
  then show "good s0 (snd (update_self n f s))"
    using g by (auto simp: update_self_def py_modify_def good_def xmpp_ok_def states_up_def xs_tables_def
      intro: order_trans)
qed

lemma good_send: "keeps (good s0) (send n m)"
  unfolding send_def by (rule good_update) (auto simp: obj_ok_def)

lemma good_self [intro]: "keeps P (self n f)"
  by (simp add: self_def keeps_gets)

lemma good_swallow: "keeps P m \<Longrightarrow> keeps P (swallow m)"
  unfolding swallow_def by (intro keeps_try keeps_ret)

lemma good_uuid4: "keeps (good s0) (draw_uuid4 X)"
  by (intro keepsI) (auto simp: draw_uuid4_def good_def xmpp_ok_def states_up_def xs_tables_def)

lemma good_pending: "keeps (good s0) (py_modify (\<lambda>s. s\<lparr>xs_starttls := f s\<rparr>))"
  by (intro keepsI) (auto simp: py_modify_def good_def xmpp_ok_def states_up_def xs_tables_def)

lemma good_do:
  assumes "\<And>db. bots_ok db \<Longrightarrow> clients_ok db \<Longrightarrow> bots_ok (f db) \<and> clients_ok (f db)"
  shows "keeps (good s0) (xs_do f)"
  using assms by (intro keepsI) (auto simp: xs_do_def py_modify_def good_def xmpp_ok_def states_up_def xs_tables_def)

lemma good_forward: "keeps (good s0) (forward P m)"
  unfolding forward_def by (intro keeps_rules good_send good_self)

lemmas good_rules = keeps_rules good_send good_self good_swallow good_uuid4 good_pending good_forward

section \<open>State changes\<close>

definition up_type :: "nat \<Rightarrow> nat \<Rightarrow> xclient \<Rightarrow> xclient" where
  "up_type ty st c = c\<lparr>xc_type := ty, xc_state := max (xc_state c) st\<rparr>"

context tinydb
begin

lemma bot_did_of_get: "bot_get D (JStr k) db = Some b \<Longrightarrow> bot_did b = JStr k"
proof -
  assume "bot_get D (JStr k) db = Some b"
  then obtain i d where l: "lookup ''did'' k (db ''bots'') = Some (i, d)" "b = bot_from_dict d"
    by (auto simp: bot_get_lookup)
  then show ?thesis
    using lookup_Some [OF l(1)] by (simp add: bot_from_dict_def VacBotDevice_def Let_def dget_or_def key_of_Some)
qed

lemma client_id_of_get: "client_get D (JStr k) db = Some c \<Longrightarrow> cl_userid c = JStr k"
proof -
  assume "client_get D (JStr k) db = Some c"
  then obtain i d where l: "lookup ''userid'' k (db ''clients'') = Some (i, d)" "c = client_from_dict d"
    by (auto simp: client_get_lookup)
  then show ?thesis
    using lookup_Some [OF l(1)] by (simp add: client_from_dict_def VacBotClient_def Let_def dget_or_def key_of_Some)
qed

lemma set_xmpp_other_table:
  "clients_ok (bot_set_xmpp D (JStr k) b db) = clients_ok db" "bots_ok (client_set_xmpp D (JStr k) b db) = bots_ok db"
  by (simp_all add: bot_set_xmpp_def bot_set_rows client_set_xmpp_def client_upsert_rows clients_ok_def bots_ok_def)

lemma good_flag:
  assumes E: "e_store E = D"
  shows "keeps (good s0) (set_xmpp_flag E n on)"
proof (rule keepsI)
  fix s assume g: "good s0 s"
  let ?c = "xs_obj s n"
  have ok: "bots_ok (xs_db s)" "clients_ok (xs_db s)" using g by (auto simp: good_def xmpp_ok_def xs_tables_def)
  have same: "good s0 (s\<lparr>xs_db := d\<rparr>)" if "bots_ok d" "clients_ok d" for d
    using g that by (auto simp: good_def xmpp_ok_def states_up_def xs_tables_def)
  show "good s0 (snd (set_xmpp_flag E n on s))"
  proof (cases "xc_devclass ?c = []")
    case False
    then show ?thesis
      using g E ok bots_xmpp.inv_set [OF ok(1)] same
      by (cases "bot_get D (JStr (xc_uid ?c)) (xs_db s)")
        (auto simp: set_xmpp_flag_def py_run bot_did_of_get set_xmpp_other_table)
  next
    case True
    then show ?thesis
      using g E ok clients_xmpp.inv_set [OF ok(2)] same
      by (cases "client_get D (JStr (xc_uid ?c)) (xs_db s)")
        (auto simp: set_xmpp_flag_def py_run client_id_of_get set_xmpp_other_table)
  qed
qed

lemma good_disconnect: "e_store E = D \<Longrightarrow> keeps (good s0) (disconnect E n)"
  unfolding disconnect_def by (intro good_rules good_flag good_update) (auto simp: obj_ok_def)

lemma good_set_state:
  assumes E: "e_store E = D" and st: "st \<le> ST_DISCONNECT" "ST_CONNECT \<le> st"
  shows "keeps (good s0) (set_state E n st)"
proof (rule keepsI)
  fix s assume g: "good s0 s"
  show "good s0 (snd (set_state E n st s))"
  proof (cases "xc_state (xs_obj s n) > st")
    case True
    then show ?thesis using g by (simp add: set_state_def py_run)
  next
    case False
    let ?s = "s\<lparr>xs_obj := (xs_obj s)(n := (xs_obj s n)\<lparr>xc_state := st\<rparr>)\<rparr>"
    have "keeps (good s0) (update_self n (\<lambda>c. if xc_state c \<le> st then c\<lparr>xc_state := st\<rparr> else c))"
      using st by (intro good_update) (auto simp: obj_ok_def)
    from keepsD [OF this g] have "good s0 ?s" using False by (simp add: update_self_def py_modify_def)
    moreover have "keeps (good s0) (if st = ST_DISCONNECT then disconnect E n else py_ret ())"
      by (intro good_rules good_disconnect E)
    ultimately have "good s0 (snd ((if st = ST_DISCONNECT then disconnect E n else py_ret ()) ?s))" by (rule keepsD [rotated])
    then show ?thesis using False
      by (auto simp: set_state_def py_run split: prod.splits sum.splits)
  qed
qed

section \<open>Handlers\<close>

lemma good_ctl: "keeps (good s0) (handle_ctl E X n x data)"
  unfolding handle_ctl_def
  by (intro good_swallow good_rules) (auto split: list.splits intro!: good_rules)

lemma good_ping: "keeps (good s0) (handle_ping X n x)"
  unfolding handle_ping_def by (intro good_rules)

lemma good_result: "keeps (good s0) (handle_result E X n x data)"
  unfolding handle_result_def grant_access_def Let_def
  by (intro good_rules) (auto intro!: good_rules split: option.splits prod.splits)

lemma good_connect: "keeps (good s0) (handle_connect E n str)"
  unfolding handle_connect_def Let_def by (intro good_rules good_update) (auto simp: obj_ok_def)

lemma good_starttls: "keeps (good s0) (handle_starttls n ok)"
  unfolding handle_starttls_def by (intro good_rules good_update) (auto simp: obj_ok_def)

text \<open>The type is set before the state: the invariant holds again after both.\<close>

lemma set_state_up:
  assumes "st \<noteq> ST_DISCONNECT"
  shows "set_state E n st s = (Inr (), if xc_state (xs_obj s n) > st then s
     else s\<lparr>xs_obj := (xs_obj s)(n := (xs_obj s n)\<lparr>xc_state := st\<rparr>)\<rparr>)"
  using assms by (simp add: set_state_def py_run)

lemma good_up_type: "keeps (good s0) (update_self n (up_type ty ST_INIT))"
  by (rule good_update) (auto simp: up_type_def obj_ok_def)

lemma good_cong: "(\<And>s. snd (m s) = snd (m' s)) \<Longrightarrow> keeps P m' \<Longrightarrow> keeps P m"
  by (simp add: keeps_def)

lemma type_send_state:
  "py_seq (update_self n (\<lambda>c. c\<lparr>xc_type := ty\<rparr>)) (py_seq (send n m) (set_state E n ST_INIT)) s =
   py_seq (update_self n (up_type ty ST_INIT)) (send n m) s"
  by (cases "xs_obj s n"; cases s) (auto simp: send_def set_state_up update_self_def py_prims up_type_def)

lemma type_do_state:
  "py_seq (update_self n (\<lambda>c. c\<lparr>xc_type := ty\<rparr>)) (py_seq (xs_do f) (py_seq (set_state E n ST_INIT) m)) s =
   py_seq (update_self n (up_type ty ST_INIT)) (py_seq (xs_do f) m) s"
  by (cases "xs_obj s n"; cases s) (auto simp: set_state_up update_self_def xs_do_def py_prims up_type_def)

lemma good_bot_add: "e_store E = D \<Longrightarrow> keeps (good s0) (xs_do (bot_add (e_store E) n (JStr d) c r co))"
proof (intro good_do conjI)
  fix db assume E: "e_store E = D" and ok: "bots_ok db" "clients_ok db"
  show "bots_ok (bot_add (e_store E) n (JStr d) c r co db)"
    using bots.inv_add [OF ok(1), of d "(n, c, r, co)"] by (simp add: bot_add_args_def E)
  show "clients_ok (bot_add (e_store E) n (JStr d) c r co db)"
    using ok bot_add_rows [of d "(n, c, r, co)" db] by (simp add: bot_add_args_def E clients_ok_def)
qed

lemma good_client_add: "e_store E = D \<Longrightarrow> keeps (good s0) (xs_do (client_add (e_store E) n (JStr d) c r))"
proof (intro good_do conjI)
  fix db assume E: "e_store E = D" and ok: "bots_ok db" "clients_ok db"
  show "clients_ok (client_add (e_store E) n (JStr d) c r db)"
    using clients.inv_add [OF ok(2), of d "(n, c, r)"] by (simp add: client_add_args_def E)
  show "bots_ok (client_add (e_store E) n (JStr d) c r db)"
    using ok client_add_rows [of d "(n, c, r)" db] by (simp add: client_add_args_def E bots_ok_def)
qed

lemma good_sasl:
  assumes E: "e_store E = D"
  shows "keeps (good s0) (handle_sasl_auth E n x)"
proof -
  have bot: "keeps (good s0) (py_seq (update_self n (\<lambda>c. c\<lparr>xc_type := TY_BOT\<rparr>)) (py_seq (send n m) (set_state E n ST_INIT)))"
    for m by (rule good_cong [OF arg_cong [where f = snd, OF type_send_state]]) (intro good_rules good_up_type)
  have ctl: "keeps (good s0) (py_seq (update_self n (\<lambda>c. c\<lparr>xc_type := TY_CONTROLLER\<rparr>))
      (py_seq (xs_do (client_add (e_store E) a (JStr d) c r)) (py_seq (set_state E n ST_INIT) (send n m))))" for a d c r m
    by (rule good_cong [OF arg_cong [where f = snd, OF type_do_state]]) (intro good_rules good_up_type good_client_add E)
  have uid: "keeps (good s0) (update_self n (\<lambda>c. c\<lparr>xc_uid := u\<rparr>))" for u
    by (rule good_update) (auto simp: obj_ok_def)
  have res: "keeps (good s0) (update_self n (\<lambda>c. case r of None \<Rightarrow> c | Some v \<Rightarrow> c\<lparr>xc_resource := Some v\<rparr>))" for r
    by (rule good_update) (auto simp: obj_ok_def split: option.splits)
  show ?thesis
    unfolding handle_sasl_auth_def by (intro good_rules good_bot_add E bot ctl uid res)
qed

lemma good_bind:
  assumes E: "e_store E = D"
  shows "keeps (good s0) (handle_bind E n x)"
proof -
  have "keeps (good s0) (update_self n (bind_identity E rs))" for rs
    by (rule good_update) (auto simp: obj_ok_def bind_identity_def split: list.splits)
  then have "keeps (good s0) (case x_children x of [] \<Rightarrow> py_raise StopIteration
      | q # _ \<Rightarrow> py_seq (update_self n (bind_identity E (x_children q)))
          (py_bind (self n xc_jid) (\<lambda>jid. py_seq (set_state E n ST_BIND) (send n (bind_result (x_get x ''id'') jid)))))"
    by (cases "x_children x") (auto intro!: good_rules good_set_state E)
  then show ?thesis unfolding handle_bind_def by (intro good_rules good_flag E)
qed

lemma good_session: "e_store E = D \<Longrightarrow> keeps (good s0) (handle_session E n x)"
  unfolding handle_session_def by (intro good_rules good_set_state good_update) (auto simp: obj_ok_def)

lemma good_presence: "e_store E = D \<Longrightarrow> keeps (good s0) (handle_presence E n x)"
  unfolding handle_presence_def by (intro good_rules good_set_state) auto

lemma good_iq: "e_store E = D \<Longrightarrow> keeps (good s0) (handle_iq E X n x data)"
  unfolding handle_iq_def Let_def
  by (intro good_rules good_bind good_session good_ping good_result good_ctl)

lemma good_item: "e_store E = D \<Longrightarrow> keeps (good s0) (handle_item E X n data x)"
  unfolding handle_item_def Let_def
  by (intro good_rules good_iq good_sasl good_presence good_connect)

lemma good_parse:
  assumes E: "e_store E = D"
  shows "keeps (good s0) (parse_data E X n bytes)"
proof -
  have "keeps (good s0) (case repair str of
       Close_stream \<Rightarrow> py_seq (send n ''</stream:stream>'') (set_state E n ST_DISCONNECT)
     | Stanzas newdata \<Rightarrow>
         swallow (case xe_parse X newdata of
             None \<Rightarrow> py_raise ValueError
           | Some root \<Rightarrow> py_for (items root) (handle_item E X n newdata)))" for str
    by (cases "repair str") (auto intro!: good_rules good_set_state good_item E)
  then show ?thesis unfolding parse_data_def by (intro good_rules)
qed

lemma good_tick: "keeps (good s0) (ping_tick E n)"
  unfolding ping_tick_def by (intro good_rules)

lemma good_server_disconnect: "e_store E = D \<Longrightarrow> keeps (good s0) (py_for ns (disconnect E))"
  by (intro good_rules good_disconnect)

end

section \<open>The transition system\<close>

inductive xmpp_step :: "env \<Rightarrow> xenv \<Rightarrow> xmpp \<Rightarrow> xmpp \<Rightarrow> bool" for E X where
  Connect: "n \<notin> set (xs_clients s) \<Longrightarrow> xc_state (xs_obj s n) = ST_IDLE \<Longrightarrow>
    xmpp_step E X s (connection_made n address writable s)"
| Data: "n \<in> set (xs_clients s) \<Longrightarrow> xmpp_step E X s (snd (parse_data E X n bytes s))"
| Starttls: "xs_starttls s = n # ns \<Longrightarrow> xmpp_step E X s (snd (handle_starttls n ok (s\<lparr>xs_starttls := ns\<rparr>)))"
| Tick: "xmpp_step E X s (snd (ping_tick E n s))"
| Lost: "n \<in> set (xs_clients s) \<Longrightarrow> xmpp_step E X s (snd (connection_lost E n s))"
| Shutdown: "xmpp_step E X s (snd (server_disconnect E s))"

inductive_cases xmpp_step_cases: "xmpp_step E X s s'"

definition xmpp_init :: "db \<Rightarrow> xmpp" where
  "xmpp_init db = \<lparr>xs_obj = (\<lambda>_. new_xclient [] False), xs_clients = [], xs_db = db, xs_drawn = 0, xs_starttls = [],
     xs_exit = False\<rparr>"

lemma xmpp_init_ok: "bots_ok db \<Longrightarrow> clients_ok db \<Longrightarrow> xmpp_ok (xmpp_init db)"
  by (simp add: xmpp_ok_def xmpp_init_def obj_ok_def new_xclient_def xs_tables_def)

context tinydb
begin

lemma xmpp_step_ok:
  assumes E: "e_store E = D" and step: "xmpp_step E X s s'" and ok: "xmpp_ok s"
  shows "xmpp_ok s' \<and> (\<forall>n. xc_state (xs_obj s n) \<le> xc_state (xs_obj s' n))"
  using step
proof cases
  case (Connect n address writable)
  then show ?thesis using ok
    by (auto simp: connection_made_def xmpp_ok_def obj_ok_def new_xclient_def xs_tables_def)
next
  case (Data n bytes)
  show ?thesis using keepsD [OF good_parse [OF E] good_refl [OF ok]] Data by (auto simp: good_def states_up_def)
next
  case (Starttls n ns okay)
  have "good s (s\<lparr>xs_starttls := ns\<rparr>)" using ok by (simp add: good_def states_up_def xmpp_ok_def xs_tables_def)
  from keepsD [OF good_starttls this] Starttls show ?thesis by (auto simp: good_def states_up_def)
next
  case (Tick n)
  show ?thesis using keepsD [OF good_tick good_refl [OF ok]] Tick by (auto simp: good_def states_up_def)
next
  case (Lost n)
  let ?s = "s\<lparr>xs_clients := remove1 n (xs_clients s)\<rparr>"
  have "xmpp_ok ?s" using ok by (auto simp: xmpp_ok_def xs_tables_def dest: notin_set_remove1)
  from keepsD [OF good_set_state [OF E] good_refl [OF this]]
  have "good ?s (snd (set_state E n ST_DISCONNECT ?s))" by simp
  then show ?thesis using Lost by (auto simp: connection_lost_def py_run good_def states_up_def)
next
  case Shutdown
  have "good s (snd (py_for (xs_clients s) (disconnect E) s))"
    by (rule keepsD [OF good_server_disconnect [OF E] good_refl [OF ok]])
  then show ?thesis using Shutdown
    by (auto simp: server_disconnect_def py_run good_def states_up_def xmpp_ok_def xs_tables_def split: prod.splits sum.splits)
qed

lemma xmpp_reachable_ok:
  assumes E: "e_store E = D" and steps: "(xmpp_step E X)\<^sup>*\<^sup>* s s'" and ok: "xmpp_ok s"
  shows "xmpp_ok s' \<and> (\<forall>n. xc_state (xs_obj s n) \<le> xc_state (xs_obj s' n))"
  using steps
proof (induction rule: rtranclp_induct)
  case base
  then show ?case using ok by simp
next
  case (step s1 s2)
  then show ?case using xmpp_step_ok [OF E step.hyps(2)] by (auto intro: order_trans)
qed

end

end
