(* ===== verification/XMPP_Delivery.thy ===== *)
theory XMPP_Delivery
  imports XMPP_Laws
begin

text \<open>
  Who receives what: the effect of forwarding on the connections, the delivery of a robot's
  results to the apps, and what a connection can do before it has authenticated.
\<close>

section \<open>Forwarding\<close>

definition received :: "string \<Rightarrow> xclient \<Rightarrow> xclient" where
  \<open>received msg c = (if \<not> xc_writable c then c
     else c\<lparr>xc_out := xc_out c @ [utf8_encode (py_replace ''"'' [CHR 0x27] msg)]\<rparr>)\<close>

lemma send_run: "send n msg s = (Inr (), s\<lparr>xs_obj := (xs_obj s)(n := received msg (xs_obj s n))\<rparr>)"
  by (simp add: send_def update_self_def received_def py_modify_def)

definition deliver_to :: "(xclient \<Rightarrow> bool) \<Rightarrow> string \<Rightarrow> nat list \<Rightarrow> xmpp \<Rightarrow> xmpp" where
  "deliver_to P msg ns s =
     s\<lparr>xs_obj := (\<lambda>k. if k \<in> set ns \<and> P (xs_obj s k) then received msg (xs_obj s k) else xs_obj s k)\<rparr>"

lemma for_send:
  "distinct ns \<Longrightarrow>
   py_for ns (\<lambda>m. py_bind (self m P) (\<lambda>ok. if ok then send m msg else py_ret ())) s = (Inr (), deliver_to P msg ns s)"
proof (induction ns arbitrary: s)
  case Nil
  then show ?case by (cases s) (simp add: py_ret_def deliver_to_def)
next
  case (Cons n ns)
  let ?s = "if P (xs_obj s n) then s\<lparr>xs_obj := (xs_obj s)(n := received msg (xs_obj s n))\<rparr> else s"
  have "deliver_to P msg ns ?s = deliver_to P msg (n # ns) s"
    using Cons.prems by (cases s) (auto simp: deliver_to_def fun_eq_iff)
  moreover have "py_bind (self n P) (\<lambda>ok. if ok then send n msg else py_ret ()) s = (Inr (), ?s)"
    by (simp add: send_run py_run)
  ultimately show ?case using Cons by (simp add: py_seq_def py_bind_def)
qed

lemma forward_run:
  "distinct (xs_clients s) \<Longrightarrow> forward P msg s = (Inr (), deliver_to P msg (xs_clients s) s)"
  by (simp add: forward_def py_bind_def py_gets_def for_send)

lemma received_fields [simp]:
  "xc_jid (received m c) = xc_jid c" "xc_state (received m c) = xc_state c" "xc_type (received m c) = xc_type c"
  "xc_uid (received m c) = xc_uid c" "xc_writable (received m c) = xc_writable c"
  by (simp_all add: received_def)

section \<open>Results of a robot\<close>

definition result_target :: "string option \<Rightarrow> xclient \<Rightarrow> xclient \<Rightarrow> bool" where
  "result_target to me c \<longleftrightarrow> other_ready me c \<and>
     (case to of None \<Rightarrow> True
      | Some t \<Rightarrow> contains ''@'' t \<longrightarrow> uid_in c (Some (fst (py_split1 (CHR ''@'') t) @ ''@ecouser.net'')))"

lemma at_ecouser: "contains ''@'' (u @ ''@ecouser.net'')"
  by (simp add: contains_char)

lemma result_run:
  assumes d: "distinct (xs_clients s)" and e: "\<not> contains (''errno='' @ [CHR 0x27] @ ''103'' @ [CHR 0x27]) data"
  shows "snd (handle_result E X n x data s) =
    (let me = xs_obj s n; msg = xe_render X (with_from (xc_jid me) x) ''query'' ''com:ctl'';
         s1 = (if xc_type me = TY_BOT \<and> x_get x ''to'' = Some ''de.ecorobot.net''
               then deliver_to (\<lambda>_. True) msg (xs_clients s) s else s)
     in deliver_to (result_target (x_get x ''to'') me) msg (xs_clients s) s1)"
proof -
  have tgt: "(\<lambda>c. other_ready me c \<and> (case (case to of None \<Rightarrow> None | Some t \<Rightarrow>
        Some (if contains ''@'' t then fst (py_split1 (CHR ''@'') t) @ ''@ecouser.net'' else t)) of
      None \<Rightarrow> True | Some t \<Rightarrow> \<not> contains ''@'' t \<or> uid_in c (Some t))) = result_target to me" for me to
    by (auto simp: fun_eq_iff result_target_def at_ecouser split: option.splits)
  have "xs_clients (deliver_to P m ns s) = xs_clients s" for P m ns by (simp add: deliver_to_def)
  then show ?thesis
    using d e unfolding handle_result_def Let_def
    by (simp add: tgt forward_run swallow_def py_try_def py_bind_def self_def py_gets_def py_seq_def py_ret_def)
qed

text \<open>A result for everybody (\<open>de.ecorobot.net\<close>) reaches each ready app twice.\<close>

lemma broadcast_twice:
  assumes d: "distinct (xs_clients s)" and e: "\<not> contains (''errno='' @ [CHR 0x27] @ ''103'' @ [CHR 0x27]) data"
    and n: "xc_type (xs_obj s n) = TY_BOT" and to: "x_get x ''to'' = Some ''de.ecorobot.net''"
    and m: "m \<in> set (xs_clients s)" "other_ready (xs_obj s n) (xs_obj s m)"
  shows "xs_obj (snd (handle_result E X n x data s)) m =
    (let msg = xe_render X (with_from (xc_jid (xs_obj s n)) x) ''query'' ''com:ctl''
     in received msg (received msg (xs_obj s m)))"
proof -
  have "\<not> contains ''@'' ''de.ecorobot.net''" by (simp add: contains_char)
  then show ?thesis
    unfolding result_run [OF d e] Let_def
    using n to m by (simp add: deliver_to_def result_target_def other_ready_def)
qed

section \<open>Sessions\<close>

definition session_request :: "string \<Rightarrow> xml" where
  "session_request i = Element ''iq'' [(''id'', i)] None [Element ''{urn:ietf:params:xml:ns:xmpp-session}session'' [] None []]"

text \<open>
  A connection that has done nothing but open can ask for a session: it becomes ready
  although it never authenticated.
\<close>

lemma session_without_auth:
  assumes "xc_state (xs_obj s n) = ST_CONNECT"
  shows "\<exists>s'. handle_item E X n data (session_request i) s = (Inr (), s') \<and>
    xc_state (xs_obj s' n) = ST_READY \<and> xc_type (xs_obj s' n) = xc_type (xs_obj s n) \<and>
    xc_uid (xs_obj s' n) = xc_uid (xs_obj s n) \<and> xs_db s' = xs_db s \<and> xs_clients s' = xs_clients s"
proof -
  have tags: "local_tag ''iq'' = ''iq''" "tag_strip_uri ''{urn:ietf:params:xml:ns:xmpp-session}session'' = ''session''"
    by code_simp+
  have "handle_item E X n data (session_request i) s = handle_session E n (session_request i) s"
    by (simp add: handle_item_def handle_iq_def session_request_def tags py_bind_def self_def py_gets_def Let_def)
  then show ?thesis
    using assms by (simp add: handle_session_def set_state_def send_run py_run)
qed

text \<open>Such a connection has the empty user name, which every address contains.\<close>

lemma empty_uid_matches: "xc_uid c = [] \<Longrightarrow> uid_in c (Some t)"
  by (cases t) (simp_all add: uid_in_def py_lower_def contains_def)

lemma eavesdrop:
  assumes d: "distinct (xs_clients s)" and e: "\<not> contains (''errno='' @ [CHR 0x27] @ ''103'' @ [CHR 0x27]) data"
    and m: "m \<in> set (xs_clients s)" "xc_state (xs_obj s m) = ST_READY" "xc_uid (xs_obj s m) = []"
      "xc_jid (xs_obj s m) \<noteq> xc_jid (xs_obj s n)" "xc_writable (xs_obj s m)"
  shows "\<exists>ms. ms \<noteq> [] \<and> xc_out (xs_obj (snd (handle_result E X n x data s)) m) = xc_out (xs_obj s m) @ ms"
proof -
  have t: "result_target (x_get x ''to'') (xs_obj s n) (xs_obj s m)" "result_target (x_get x ''to'') (xs_obj s n) (received msg (xs_obj s m))" for msg
    using m by (auto simp: result_target_def other_ready_def empty_uid_matches split: option.splits)
  show ?thesis
    unfolding result_run [OF d e] Let_def
    using m(1,5) t by (auto simp: deliver_to_def received_def)
qed

section \<open>Logging in\<close>

text \<open>The text of a PLAIN log-in: an empty field, the user, the resource, separated by NUL.\<close>

definition plain_text :: "string \<Rightarrow> string \<Rightarrow> string" where
  "plain_text user res = CHR 0x00 # user @ CHR 0x00 # res"

definition plain_field :: "string \<Rightarrow> bool" where
  "plain_field s \<longleftrightarrow> CHR 0x00 \<notin> set s \<and> CHR ''/'' \<notin> set s"

lemma plain_text_fields:
  assumes "plain_field user" "plain_field res"
  shows "sasl_user (plain_text user res) = Inr user" "sasl_resource (plain_text user res) = Some res"
    "sasl_code (plain_text user res) = []"
proof -
  have "py_split (CHR ''/'') (plain_text user res) = [plain_text user res]"
    using assms by (intro py_split_no_sep) (auto simp: plain_text_def plain_field_def)
  moreover have "py_split (CHR 0x00) (plain_text user res) = [[], user, res]"
    using assms by (simp add: plain_text_def plain_field_def py_split_append py_split_no_sep)
  ultimately show "sasl_user (plain_text user res) = Inr user" "sasl_resource (plain_text user res) = Some res"
    "sasl_code (plain_text user res) = []"
    by (simp_all add: sasl_user_def sasl_resource_def sasl_code_def py_nth_def Let_def)
qed

definition auth_stanza :: "string \<Rightarrow> string \<Rightarrow> xml" where
  "auth_stanza user res = Element ''{urn:ietf:params:xml:ns:xmpp-sasl}auth'' [(''mechanism'', ''PLAIN'')]
     (Some (b64encode (utf8_encode (plain_text user res)))) []"

context tinydb
begin

text \<open>An app that logs in while passwords are off is registered and told of its success.\<close>

lemma sasl_app:
  assumes E: "e_store E = D" "\<not> USE_AUTH (e_cfg E)" and f: "plain_field user" "plain_field res"
    and c: "xc_devclass (xs_obj s n) = []" "xc_state (xs_obj s n) = ST_CONNECT" and ok: "clients_ok (xs_db s)"
  shows "\<exists>s'. handle_sasl_auth E n (auth_stanza user res) s = (Inr (), s') \<and>
    xc_state (xs_obj s' n) = ST_INIT \<and> xc_type (xs_obj s' n) = TY_CONTROLLER \<and> xc_uid (xs_obj s' n) = user \<and>
    client_get D (JStr user) (xs_db s') \<noteq> None \<and>
    (xc_writable (xs_obj s n) \<longrightarrow> last (xc_out (xs_obj s' n)) = utf8_encode (py_replace [CHR 0x22] [CHR 0x27] sasl_success))"
proof -
  have "client_get D (JStr user) (client_add D (JStr user) (JStr user) (JStr ''USER'') (JStr res) (xs_db s)) \<noteq> None"
    using clients.get_after_add [OF ok, of user "(JStr user, JStr ''USER'', JStr res)"] by (simp add: client_add_args_def)
  then show ?thesis
    using E c plain_text_fields [OF f]
    by (simp add: handle_sasl_auth_def auth_stanza_def b64_round_trip utf8_round_trip set_state_up send_run py_run
      opt_str_def received_def)
qed

text \<open>A robot is registered under its class, whatever it sends as a password.\<close>

lemma sasl_bot:
  assumes E: "e_store E = D" and f: "plain_field user" "plain_field res"
    and c: "xc_devclass (xs_obj s n) = cl" "cl \<noteq> []" "xc_state (xs_obj s n) = ST_CONNECT" and ok: "bots_ok (xs_db s)"
  shows "\<exists>s'. handle_sasl_auth E n (auth_stanza user res) s = (Inr (), s') \<and>
    xc_state (xs_obj s' n) = ST_INIT \<and> xc_type (xs_obj s' n) = TY_BOT \<and>
    (\<forall>k. bot_get D (JStr k) (xs_db s') =
      (if k = user \<and> bot_get D (JStr user) (xs_db s) = None
       then Some (new_bot user (JStr user, JStr cl, JStr ''atom'', JStr ''eco-legacy'')) else bot_get D (JStr k) (xs_db s)))"
proof -
  have "bot_get D (JStr k) (bot_add D (JStr user) (JStr user) (JStr cl) (JStr ''atom'') (JStr ''eco-legacy'') (xs_db s)) =
      (if k = user \<and> bot_get D (JStr user) (xs_db s) = None
       then Some (new_bot user (JStr user, JStr cl, JStr ''atom'', JStr ''eco-legacy'')) else bot_get D (JStr k) (xs_db s))" for k
    using bots.get_add [OF ok, of k user "(JStr user, JStr cl, JStr ''atom'', JStr ''eco-legacy'')"]
    by (simp add: bot_add_args_def)
  then show ?thesis
    using E c plain_text_fields [OF f]
    by (simp add: handle_sasl_auth_def auth_stanza_def b64_round_trip utf8_round_trip set_state_up send_run py_run
      received_def)
qed

text \<open>A robot that goes away is marked as not connected; it keeps its other data.\<close>

lemma lost_bot:
  assumes E: "e_store E = D" and ok: "xmpp_ok s" and n: "n \<in> set (xs_clients s)" "xc_devclass (xs_obj s n) \<noteq> []"
  shows "\<exists>s'. connection_lost E n s = (Inr (), s') \<and> n \<notin> set (xs_clients s') \<and>
    xc_state (xs_obj s' n) = ST_DISCONNECT \<and>
    (\<forall>k. bot_get D (JStr k) (xs_db s') =
      (if k = xc_uid (xs_obj s n) then map_option (put_xmpp False) (bot_get D (JStr k) (xs_db s))
       else bot_get D (JStr k) (xs_db s)))"
proof -
  have bots: "bots_ok (xs_db s)" and st: "xc_state (xs_obj s n) \<le> ST_DISCONNECT" and d: "distinct (xs_clients s)"
    using ok by (auto simp: xmpp_ok_def xs_tables_def obj_ok_def)
  have nn: "n \<notin> set (remove1 n (xs_clients s))" using d by simp
  show ?thesis
  proof (cases "bot_get D (JStr (xc_uid (xs_obj s n))) (xs_db s)")
    case None
    with E n st nn show ?thesis
      by (simp add: connection_lost_def set_state_def disconnect_def set_xmpp_flag_def py_run)
  next
    case (Some b)
    with E n st nn bot_did_of_get [OF Some] bots_xmpp.get_set [OF bots] show ?thesis
      by (simp add: connection_lost_def set_state_def disconnect_def set_xmpp_flag_def py_run)
  qed
qed

end

end
