(* ===== verification/App_State.thy ===== *)
theory App_State
  imports XMPP_Delivery "HOL-Library.Multiset"
begin

text \<open>
  What the plugins of the web server share: the helper bot they send commands through, the
  static JSON files (src/bumper/web/static_api, src/bumper/utils/utils.py) and the cached
  list of the configuration groups, which one handler changes in place. A handler is a
  program over \<open>app\<close>. The request ids of commands (\<open>random.sample\<close>), the texts of \<open>secrets\<close> (the number of the draw and the number of bytes), the messages that
  arrive while a command waits, the text of the files, the public key of the server certificate (read by the cryptography package, in base64) and the conversion of a time stamp to
  the local wall clock are arguments.
\<close>

record api =
  ap_env :: env
  ap_rid :: "nat \<Rightarrow> string"
  ap_inbox :: "mqtt_command \<Rightarrow> (string \<times> string) list"
  ap_text :: "string \<Rightarrow> py_exc + string"
  ap_local :: "int \<Rightarrow> datetime"
  ap_token_hex :: "nat \<Rightarrow> nat \<Rightarrow> string"
  ap_token_urlsafe :: "nat \<Rightarrow> nat \<Rightarrow> string"
  ap_public_key :: "py_exc + string"

record app =
  st_web :: web
  st_helper :: "helper option"
  st_groups :: "json list option"

abbreviation ap_cfg :: "api \<Rightarrow> config" where "ap_cfg A \<equiv> e_cfg (ap_env A)"
abbreviation ap_store :: "api \<Rightarrow> store_ops" where "ap_store A \<equiv> e_store (ap_env A)"
abbreviation ap_ms :: "api \<Rightarrow> int" where "ap_ms A \<equiv> e_now_ms (ap_env A)"
abbreviation ap_load_ms :: "api \<Rightarrow> int" where "ap_load_ms A \<equiv> e_load_ms (ap_env A)"

section \<open>Values of a request\<close>

text \<open>\<open>v[k]\<close> on a value, \<open>v.get(k, d)\<close> on a value, \<open>d.pop(k)\<close>.\<close>

fun subscript :: "json \<Rightarrow> string \<Rightarrow> py_exc + json" where
  "subscript (JObj d) k = (case map_of d k of None \<Rightarrow> Inl KeyError | Some v \<Rightarrow> Inr v)"
| "subscript v k = Inl TypeError"

definition get_attr :: "json \<Rightarrow> string \<Rightarrow> json \<Rightarrow> py_exc + json" where
  "get_attr v k d = res_bind (as_dict_value v) (\<lambda>x. Inr (dget_or x k d))"

definition pop_key :: "string \<Rightarrow> doc \<Rightarrow> py_exc + json \<times> doc" where
  "pop_key k d = (case map_of d k of None \<Rightarrow> Inl KeyError | Some v \<Rightarrow> Inr (v, dpop d k))"

fun starts_with :: "json \<Rightarrow> string \<Rightarrow> py_exc + bool" where
  "starts_with (JStr s) p = Inr (py_startswith s p)"
| "starts_with v p = Inl AttributeError"

section \<open>Ordered lists\<close>

text \<open>
  \<open>a < b\<close> on values, \<open>None\<close> when it raises TypeError, and on pairs, where the first
  unequal component decides. Lists as sort keys do not occur.
\<close>

fun val_less :: "json \<Rightarrow> json \<Rightarrow> bool option" where
  "val_less (JInt i) (JInt j) = Some (i < j)"
| "val_less (JInt i) (JBool b) = Some (i < of_bool b)"
| "val_less (JBool b) (JInt j) = Some (of_bool b < j)"
| "val_less (JBool a) (JBool b) = Some (\<not> a \<and> b)"
| "val_less (JStr s) (JStr t) = Some (s < t)"
| "val_less _ _ = None"

definition pair_less :: "json \<times> json \<Rightarrow> json \<times> json \<Rightarrow> bool option" where
  "pair_less a b =
     (if py_eq (fst a) (fst b)
      then (if py_eq (snd a) (snd b) then Some False else val_less (snd a) (snd b))
      else val_less (fst a) (fst b))"

text \<open>
  \<open>sorted(xs, key=k, reverse=True)\<close>: the sort is stable and keeps the order of equal
  elements; it compares every two neighbours of the result, so a pair that cannot be compared raises.
\<close>

fun insert_desc :: "('a \<Rightarrow> 'a \<Rightarrow> bool option) \<Rightarrow> 'a \<Rightarrow> 'a list \<Rightarrow> 'a list" where
  "insert_desc lt x [] = [x]"
| "insert_desc lt x (y # ys) = (if lt x y = Some True then y # insert_desc lt x ys else x # y # ys)"

fun all_pairs :: "('a \<Rightarrow> 'a \<Rightarrow> bool) \<Rightarrow> 'a list \<Rightarrow> bool" where
  "all_pairs P [] = True"
| "all_pairs P (x # xs) = (list_all (P x) xs \<and> all_pairs P xs)"

definition sort_desc :: "('a \<Rightarrow> 'a \<Rightarrow> bool option) \<Rightarrow> 'a list \<Rightarrow> py_exc + 'a list" where
  "sort_desc lt xs =
     (if all_pairs (\<lambda>x y. lt x y \<noteq> None) xs then Inr (foldr (insert_desc lt) xs []) else Inl TypeError)"

lemma mset_insert_desc [simp]: "mset (insert_desc lt x xs) = add_mset x (mset xs)"
  by (induction xs) auto

lemma mset_foldr_insert [simp]: "mset (foldr (insert_desc lt) xs []) = mset xs"
  by (induction xs) auto

lemma set_insert_desc: "set (insert_desc lt x xs) = insert x (set xs)"
  by (induction xs) auto

lemma set_foldr_insert [simp]: "set (foldr (insert_desc lt) xs []) = set xs"
  by (induction xs) (auto simp: set_insert_desc)

text \<open>With an integer key the result is ordered.\<close>

definition by_int :: "('a \<Rightarrow> int) \<Rightarrow> 'a \<Rightarrow> 'a \<Rightarrow> bool option" where
  "by_int k x y = Some (k x < k y)"

lemma sorted_insert_desc:
  "sorted_wrt (\<lambda>a b. k b \<le> k a) xs \<Longrightarrow> sorted_wrt (\<lambda>a b. k b \<le> k a) (insert_desc (by_int k) x xs)"
  by (induction xs) (auto simp: by_int_def set_insert_desc)

lemma sorted_foldr_insert: "sorted_wrt (\<lambda>a b. k b \<le> k a) (foldr (insert_desc (by_int k)) xs [])"
  by (induction xs) (auto intro: sorted_insert_desc)

lemma foldr_insert_cong:
  "(\<And>x y. x \<in> set xs \<Longrightarrow> y \<in> set xs \<Longrightarrow> lt x y = lt' x y) \<Longrightarrow>
   foldr (insert_desc lt) xs [] = foldr (insert_desc lt') xs []"
proof (induction xs)
  case (Cons x xs)
  have eq: "foldr (insert_desc lt) xs [] = foldr (insert_desc lt') xs []"
    using Cons by simp
  have "set ys \<subseteq> set xs \<Longrightarrow> insert_desc lt x ys = insert_desc lt' x ys" for ys
    using Cons.prems by (induction ys) auto
  then show ?case using eq by simp
qed simp

lemma all_pairs_set: "(\<And>x y. x \<in> set xs \<Longrightarrow> y \<in> set xs \<Longrightarrow> P x y) \<Longrightarrow> all_pairs P xs"
  by (induction xs) (auto simp: list_all_iff)

section \<open>Static files\<close>

definition read_json :: "api \<Rightarrow> string \<Rightarrow> py_exc + json" where
  "read_json A fn = res_bind (ap_text A fn) (e_loads (ap_env A))"

fun load_json_array_files :: "api \<Rightarrow> string list \<Rightarrow> py_exc + json list" where
  "load_json_array_files A [] = Inr []"
| "load_json_array_files A (fn # fns) = res_bind (read_json A fn) (\<lambda>data.
     case data of
       JList xs \<Rightarrow> res_bind (load_json_array_files A fns) (\<lambda>ys. Inr (xs @ ys))
     | _ \<Rightarrow> Inl TypeError)"

definition load_json_object_files :: "api \<Rightarrow> string \<Rightarrow> py_exc + doc" where
  "load_json_object_files A fn = res_bind (read_json A fn) (\<lambda>data.
     case data of JObj d \<Rightarrow> Inr d | _ \<Rightarrow> Inl TypeError)"

definition load_text_files :: "api \<Rightarrow> string \<Rightarrow> py_exc + string" where
  "load_text_files A fn = ap_text A fn"

text \<open>
  The loaders are cached: a file is read once. The files do not change and no handler
  changes these values, so reading again is the same.
\<close>

definition get_code_push_config :: "api \<Rightarrow> py_exc + json list" where
  "get_code_push_config A = load_json_array_files A [''codePushConfig.json'']"

definition get_config_net_all_response :: "api \<Rightarrow> py_exc + json list" where
  "get_config_net_all_response A =
     load_json_array_files A [''configNetAllResponse.json'', ''configNetAllResponseUnofficial.json'']"

definition get_product_config_batch :: "api \<Rightarrow> py_exc + json list" where
  "get_product_config_batch A = load_json_array_files A [''productConfigBatch.json'']"

definition get_product_iot_map :: "api \<Rightarrow> py_exc + json list" where
  "get_product_iot_map A = load_json_array_files A [''productIotMap.json'', ''productIotMapUnofficial.json'']"

definition get_product_entry_group :: "api \<Rightarrow> py_exc + doc" where
  "get_product_entry_group A = load_json_object_files A ''productEntryGroup.json''"

definition get_err_detail :: "api \<Rightarrow> py_exc + json list" where
  "get_err_detail A = load_json_array_files A [''errDetail.json'']"

definition get_common_area :: "api \<Rightarrow> py_exc + doc" where
  "get_common_area A = load_json_object_files A ''commonArea.json''"

definition get_codepush_update_check :: "api \<Rightarrow> py_exc + doc" where
  "get_codepush_update_check A = load_json_object_files A ''updateCheck.json''"

definition get_codepush_update_check_mapping :: "api \<Rightarrow> py_exc + doc" where
  "get_codepush_update_check_mapping A = load_json_object_files A ''updateCheck_mapping.json''"

definition get_base_station_guide_newton_curi :: "api \<Rightarrow> py_exc + string" where
  "get_base_station_guide_newton_curi A = load_text_files A ''BaseStationGuideNewtonCuri.html''"

definition get_offline :: "api \<Rightarrow> py_exc + string" where
  "get_offline A = load_text_files A ''Offline.html''"

definition get_faq_problem :: "api \<Rightarrow> py_exc + string" where
  "get_faq_problem A = load_text_files A ''FaqProblem.html''"

definition get_event_detail :: "api \<Rightarrow> py_exc + string" where
  "get_event_detail A = load_text_files A ''EventDetail.html''"

text \<open>The configuration groups are changed in place, so their cache is part of the state.\<close>

definition load_config_groups :: "api \<Rightarrow> py_exc + json list" where
  "load_config_groups A =
     load_json_array_files A [''configGroupsResponse.json'', ''configGroupsResponseUnofficial.json'']"

definition get_config_groups_response :: "api \<Rightarrow> (app, json list) py" where
  "get_config_groups_response A =
     py_bind (py_gets st_groups) (\<lambda>cached.
     case cached of
       Some xs \<Rightarrow> py_ret xs
     | None \<Rightarrow>
         py_bind (py_of (load_config_groups A)) (\<lambda>xs.
         py_seq (py_modify (\<lambda>s. s\<lparr>st_groups := Some xs\<rparr>)) (py_ret xs)))"

text \<open>\<open>get_area_code_map\<close> reads its file each time and is empty when that fails.\<close>

definition area_code_map :: "api \<Rightarrow> doc" where
  "area_code_map A =
     get_area_code_map (case read_json A ''utils_area_code_mapping.json'' of Inl e \<Rightarrow> None | Inr v \<Rightarrow> Some v)"

section \<open>Steps of a handler\<close>

definition web_run :: "(web, 'a) py \<Rightarrow> (app, 'a) py" where
  "web_run p = py_zoom st_web (\<lambda>w s. s\<lparr>st_web := w\<rparr>) p"

definition app_guarded :: "(app, 'a) py \<Rightarrow> (app, 'a) py" where
  "app_guarded m = py_try m (\<lambda>_. py_raise (HTTPException 500))"

definition draw_with :: "(nat \<Rightarrow> string) \<Rightarrow> (app, string) py" where
  "draw_with f s = (Inr (f (w_drawn (st_web s))),
     s\<lparr>st_web := (st_web s)\<lparr>w_drawn := Suc (w_drawn (st_web s))\<rparr>\<rparr>)"

definition draw_rid :: "api \<Rightarrow> (app, string) py" where
  "draw_rid A = draw_with (ap_rid A)"

definition token_hex :: "api \<Rightarrow> nat \<Rightarrow> (app, string) py" where
  "token_hex A n = draw_with (\<lambda>i. ap_token_hex A i n)"

text \<open>
  \<open>send_command_plain\<close> of the helper bot, on the shared database: the cleaning logs that
  arrive meanwhile are recorded there.
\<close>

definition bot_send_plain :: "api \<Rightarrow> helper \<Rightarrow> mqtt_command \<Rightarrow> (app, json) py" where
  "bot_send_plain A h c s =
     (case send_command_plain (ap_env A) c (ap_inbox A c) (h\<lparr>hb_db := w_db (st_web s)\<rparr>) of
        (r, h') \<Rightarrow> (Inr r, s\<lparr>st_helper := Some h', st_web := (st_web s)\<lparr>w_db := hb_db h'\<rparr>\<rparr>))"

definition bot_send_command :: "api \<Rightarrow> helper \<Rightarrow> mqtt_command \<Rightarrow> (app, response) py" where
  "bot_send_command A h c =
     (if cmd_version c \<in> {VERSION_OLD, VERSION_NEW, VERSION_P2P}
      then py_bind (bot_send_plain A h c) (\<lambda>r. py_of (send_command c r))
      else py_of (send_command c JNull))"

text \<open>\<open>MQTTCommandModel(v, version)\<close> on a value from a request.\<close>

definition new_command :: "api \<Rightarrow> json \<Rightarrow> string \<Rightarrow> (app, mqtt_command) py" where
  "new_command A v version =
     py_bind (draw_rid A) (\<lambda>rid.
     py_bind (py_of (as_dict_value v)) (\<lambda>d. py_of (MQTTCommandModel rid d version)))"

lemmas app_prims = web_run_def draw_with_def draw_rid_def app_guarded_def

declare app_prims [py_run]

lemma app_guarded_Inr: "m s = (Inr x, s') \<Longrightarrow> app_guarded m s = (Inr x, s')"
  by (simp add: app_guarded_def py_try_def)

lemma app_guarded_Inl: "m s = (Inl e, s') \<Longrightarrow> app_guarded m s = (Inl (HTTPException 500), s')"
  by (simp add: app_guarded_def py_try_def py_raise_def)

lemma keeps_web_run [intro]: "keeps P m \<Longrightarrow> keeps (\<lambda>s. P (st_web s)) (web_run m)"
  by (auto simp: keeps_def web_run_def py_zoom_def split: prod.splits)

lemma keeps_app_guarded [intro]: "keeps P m \<Longrightarrow> keeps P (app_guarded m)"
  unfolding app_guarded_def by (intro keeps_try keeps_raise)

end
