(* ===== verification/Py_Url.thy ===== *)
theory Py_Url
  imports App_State
begin

text \<open>
  URLs as the program reads them (urllib.parse): the query of a URL and its parameters,
  percent decoding. The order of the steps is the library's: unsafe characters are dropped,
  the scheme and the host are cut off (a host with one square bracket raises), the fragment
  starts at the first \<open>#\<close>, the query at the first \<open>?\<close> before it.
\<close>

definition is_alpha :: "char \<Rightarrow> bool" where
  "is_alpha c = (let n = of_char (lower_char c) :: nat in 97 \<le> n \<and> n \<le> 122)"

definition scheme_char :: "char \<Rightarrow> bool" where
  "scheme_char c \<longleftrightarrow> is_alpha c \<or> is_digit c \<or> c \<in> {CHR ''+'', CHR ''-'', CHR ''.''}"

definition split_scheme :: "string \<Rightarrow> string \<times> string" where
  "split_scheme s = (case py_split1 (CHR '':'') s of
     (a, Some r) \<Rightarrow> if a \<noteq> [] \<and> is_alpha (hd a) \<and> list_all scheme_char a then (py_lower a, r) else ([], s)
   | (a, None) \<Rightarrow> ([], s))"

text \<open>The part after \<open>//\<close> up to the first of \<open>/\<close>, \<open>?\<close>, \<open>#\<close>.\<close>

definition split_host :: "string \<Rightarrow> py_exc + string \<times> string" where
  "split_host s =
     (if \<not> prefix ''//'' s then Inr ([], s)
      else (let r = drop 2 s; stop = (\<lambda>c. c \<in> {CHR ''/'', CHR ''?'', CHR ''#''});
                host = takeWhile (\<lambda>c. \<not> stop c) r
            in if (CHR ''['' \<in> set host) \<noteq> (CHR '']'' \<in> set host) then Inl ValueError
               else Inr (host, dropWhile (\<lambda>c. \<not> stop c) r)))"

definition clean_url :: "string \<Rightarrow> string" where
  "clean_url s = filter (\<lambda>c. (of_char c :: nat) \<notin> {9, 10, 13}) (dropWhile (\<lambda>c. (of_char c :: nat) \<le> 32) s)"

definition url_query :: "string \<Rightarrow> py_exc + string" where
  "url_query s = res_bind (split_host (snd (split_scheme (clean_url s)))) (\<lambda>(_, r).
     Inr (case snd (py_split1 (CHR ''?'') (fst (py_split1 (CHR ''#'') r))) of None \<Rightarrow> [] | Some q \<Rightarrow> q))"

section \<open>Parameters\<close>

definition hex_val :: "char \<Rightarrow> nat option" where
  "hex_val c = (let n = of_char (lower_char c) :: nat in
     if is_digit c then Some (n - 48) else if 97 \<le> n \<and> n \<le> 102 then Some (n - 87) else None)"

fun unquote_to_bytes :: "string \<Rightarrow> string" where
  "unquote_to_bytes (CHR ''%'' # a # b # s) =
     (case (hex_val a, hex_val b) of
        (Some x, Some y) \<Rightarrow> char_of (16 * x + y) # unquote_to_bytes s
      | _ \<Rightarrow> CHR ''%'' # unquote_to_bytes (a # b # s))"
| "unquote_to_bytes (c # s) = c # unquote_to_bytes s"
| "unquote_to_bytes [] = []"

text \<open>Each run of ASCII characters is decoded on its own, the other characters stay.\<close>

definition is_ascii :: "char \<Rightarrow> bool" where
  "is_ascii c \<longleftrightarrow> (of_char c :: nat) < 128"

function unquote :: "string \<Rightarrow> string" where
  "unquote [] = []"
| "unquote (c # s) =
     (if is_ascii c
      then utf8_decode_replace (unquote_to_bytes (takeWhile is_ascii (c # s))) @ unquote (dropWhile is_ascii (c # s))
      else c # unquote s)"
  by pat_completeness auto
termination
  by (relation "measure length") (auto simp: le_imp_less_Suc length_dropWhile_le)

definition unquote_plus :: "string \<Rightarrow> string" where
  "unquote_plus s = unquote (py_replace ''+'' '' '' s)"

text \<open>\<open>parse_qs\<close>: the pairs with a non-empty value; the caller takes the first of a name.\<close>

fun parse_pairs :: "string list \<Rightarrow> (string \<times> string) list" where
  "parse_pairs [] = []"
| "parse_pairs (p # ps) = (case py_split1 (CHR ''='') p of
     (k, Some v) \<Rightarrow> if v \<noteq> [] then (unquote_plus k, unquote_plus v) # parse_pairs ps else parse_pairs ps
   | _ \<Rightarrow> parse_pairs ps)"

definition parse_qs :: "string \<Rightarrow> (string \<times> string) list" where
  "parse_qs q = parse_pairs (py_split (CHR ''&'') q)"

lemma unquote_plain: "list_all (\<lambda>c. is_ascii c \<and> c \<noteq> CHR ''%'') s \<Longrightarrow> unquote s = s"
proof -
  assume s: "list_all (\<lambda>c. is_ascii c \<and> c \<noteq> CHR ''%'') s"
  have b: "unquote_to_bytes s = s" using s by (induction s rule: unquote_to_bytes.induct) auto
  have u: "utf8_decode_replace s = s" using s by (induction s) (auto simp: is_ascii_def)
  have t: "takeWhile is_ascii s = s" "dropWhile is_ascii s = []" using s by (induction s) auto
  show ?thesis
  proof (cases s)
    case (Cons c r)
    with s have "is_ascii c" by simp
    then have "unquote s = utf8_decode_replace (unquote_to_bytes (takeWhile is_ascii s)) @ unquote (dropWhile is_ascii s)"
      unfolding Cons by (subst unquote.simps(2)) simp
    then show ?thesis by (simp add: t b u)
  qed simp
qed

end
