(* ===== verification/Api_Appsvr.thy ===== *)
theory Api_Appsvr
  imports Py_Url
begin

text \<open>
  The device list, the actions of \<open>app.do\<close> and the other handlers of
  src/bumper/web/plugins/api/appsvr.py. The robots of the configuration groups are found by
  position, since the scan of a QR code changes the robot it finds in place.
\<close>

section \<open>The configuration groups\<close>

fun find_robot :: "string \<Rightarrow> json \<Rightarrow> json list \<Rightarrow> py_exc + (nat \<times> doc) option" where
  "find_robot key value [] = Inr None"
| "find_robot key value (r # rs) = res_bind (as_dict_value r) (\<lambda>d.
     if py_eq (dget d key) value then Inr (Some (0, d))
     else res_bind (find_robot key value rs) (\<lambda>x. Inr (map_option (apfst Suc) x)))"

fun find_group :: "string \<Rightarrow> json \<Rightarrow> json list \<Rightarrow> py_exc + (nat \<times> nat \<times> doc) option" where
  "find_group key value [] = Inr None"
| "find_group key value (g # gs) = res_bind (as_dict_value g) (\<lambda>d.
     res_bind (py_list (dget_or d ''robots'' (JList []))) (\<lambda>rs.
     res_bind (find_robot key value rs) (\<lambda>x. case x of
       Some (j, r) \<Rightarrow> Inr (Some (0, j, r))
     | None \<Rightarrow> res_bind (find_group key value gs) (\<lambda>y. Inr (map_option (apfst Suc) y)))))"

definition get_config_groups_robot :: "api \<Rightarrow> json \<Rightarrow> string \<Rightarrow> (app, (nat \<times> nat \<times> doc) option) py" where
  "get_config_groups_robot A value key =
     (if \<not> truthy value then py_ret None
      else py_bind (get_config_groups_response A) (\<lambda>gs. py_of (find_group key value gs)))"

definition put_robot :: "nat \<Rightarrow> nat \<Rightarrow> doc \<Rightarrow> json list \<Rightarrow> json list" where
  "put_robot i j d gs =
     (case gs ! i of
        JObj g \<Rightarrow> (case dget g ''robots'' of
            JList rs \<Rightarrow> gs[i := JObj (dset g ''robots'' (JList (rs[j := JObj d])))]
          | _ \<Rightarrow> gs)
      | _ \<Rightarrow> gs)"

definition get_product_category :: "json \<Rightarrow> doc option \<Rightarrow> py_exc + json" where
  "get_product_category device_name robot =
     (case robot of
        Some (kv # d) \<Rightarrow> Inr (dget_or (kv # d) ''category'' (JStr ''UNKNOWN''))
      | _ \<Rightarrow> res_bind (starts_with device_name ''DEEBOT'') (\<lambda>deebot.
          if deebot then Inr (JStr ''DEEBOT'')
          else res_bind (starts_with device_name ''GOAT'') (\<lambda>goat.
            Inr (JStr (if goat then ''GOATBOT'' else ''UNKNOWN'')))))"

section \<open>The device list\<close>

text \<open>The first entry of the product map with a class.\<close>

fun find_product :: "json \<Rightarrow> json list \<Rightarrow> py_exc + json option" where
  "find_product class_id [] = Inr None"
| "find_product class_id (b # bs) = res_bind (subscript b ''classid'') (\<lambda>c.
     if py_eq c class_id then Inr (Some b) else find_product class_id bs)"

definition smart_code :: "json \<Rightarrow> py_exc + doc" where
  "smart_code smart_type =
     (let common = (\<lambda>v. [(''tmallstand'', JBool v), (''video'', JBool v), (''clean'', JBool True),
            (''charge'', JBool True), (''chargestate'', JBool True)]);
          scode = (\<lambda>d. (''scode'', JObj ((''battery'', JBool True) # d)))
      in if \<not> truthy smart_type then Inr [scode (common False)]
         else res_bind (starts_with smart_type ''MQ'') (\<lambda>mq.
           if mq then Inr [scode (common True)]
           else res_bind (starts_with smart_type ''BLAP'') (\<lambda>blap.
             if blap then Inr [scode [(''appArchVer'', JStr ''2.0''), (''bt_mode'', JBool True),
                 (''ff_mode'', JBool True), (''fwPlat'', JStr ''DZ'')],
               (''btName'', JStr []), (''btMac'', JStr [])]
             else Inr [scode (common False)])))"

definition product_fields :: "json \<Rightarrow> py_exc + doc" where
  "product_fields product =
     res_bind (res_map (subscript product) [''_id'', ''materialNo'', ''name'', ''model'', ''UILogicId'', ''ota'', ''iconUrl''])
       (\<lambda>vs. Inr (zip [''pid'', ''materialNo'', ''deviceName'', ''model'', ''UILogicId'', ''ota'', ''icon''] vs))"

definition product_info :: "api \<Rightarrow> json \<Rightarrow> (nat \<times> nat \<times> doc) option \<Rightarrow> doc \<Rightarrow> (app, doc) py" where
  "product_info A product robot result =
     py_bind (py_of (product_fields product)) (\<lambda>fs. let result = dupdate result fs in
     py_bind (if robot = None then get_config_groups_robot A (dget result ''deviceName'') ''groupName''
              else py_ret robot) (\<lambda>robot.
     py_bind (py_of (subscript product ''name'')) (\<lambda>name.
     py_bind (py_of (get_product_category name (map_option (snd \<circ> snd) robot))) (\<lambda>category.
     py_bind (py_of (get_attr product ''smartType'' JNull)) (\<lambda>smart_type.
     py_bind (py_of (smart_code smart_type)) (\<lambda>code.
       py_ret (dupdate result ((''product_category'', category) # code))))))))"

definition device_state :: "api \<Rightarrow> vac_bot \<Rightarrow> doc" where
  "device_state A dev =
     [(''status'', JInt (if truthy (bot_mqtt_connection dev) \<or> truthy (bot_xmpp_connection dev) then 1 else 0)),
      (''otaUpgrade'', JObj []),
      (''updateInfo'', JObj [(''changeLog'', JStr []), (''needUpdate'', JBool False)]),
      (''shareable'', JBool (truthy (bot_mqtt_connection dev))),
      (''sharedDevice'', JBool False),
      (''homeId'', JStr (HOME_ID (ap_cfg A))),
      (''homeSort'', JInt 1),
      (''bindTs'', JInt (ap_ms A)),
      (''offmap'', JBool True),
      (''service'', JObj
        [(''jmq'', JStr (''jmq-ngiot-eu.'' @ DOM_SUB_2 (ap_cfg A) @ DOMAIN_MAIN (ap_cfg A))),
         (''mqs'', JStr (''api-ngiot.'' @ DOM_SUB_1 (ap_cfg A) @ DOMAIN_MAIN (ap_cfg A)))])]"

definition include_product_iot_map_info :: "api \<Rightarrow> vac_bot \<Rightarrow> (app, json option) py" where
  "include_product_iot_map_info A dev =
     py_bind (py_of (get_product_iot_map A)) (\<lambda>products.
     py_bind (py_of (find_product (bot_class_id dev) products)) (\<lambda>found.
     case found of
       None \<Rightarrow> py_ret None
     | Some botprod \<Rightarrow>
         let result = dpop (dpop (bot_as_dict dev) ''mqtt_connection'') ''xmpp_connection'' in
         py_bind (get_config_groups_robot A (dget result ''class'') ''mid'') (\<lambda>robot.
         py_bind (py_of (get_attr botprod ''product'' JNull)) (\<lambda>product.
         py_bind (if product = JNull then py_ret result else product_info A product robot result) (\<lambda>result.
           py_ret (Some (JObj (dupdate result (device_state A dev)))))))))"

definition has_class :: "vac_bot \<Rightarrow> bool" where
  "has_class dev \<longleftrightarrow> truthy (bot_class_id dev) \<and> bot_class_id dev \<noteq> JStr []"

fun device_infos :: "api \<Rightarrow> vac_bot list \<Rightarrow> (app, json list) py" where
  "device_infos A [] = py_ret []"
| "device_infos A (dev # bots) =
     (if has_class dev then
        py_bind (include_product_iot_map_info A dev) (\<lambda>device.
        py_bind (device_infos A bots) (\<lambda>devices.
          py_ret (case device of None \<Rightarrow> devices | Some d \<Rightarrow> d # devices)))
      else device_infos A bots)"

definition create_device_list :: "api \<Rightarrow> (app, json list) py" where
  "create_device_list A = py_bind (web_run (db_gets (bot_list_all (ap_store A)))) (device_infos A)"

section \<open>Scanning a QR code\<close>

text \<open>The steps on the robot that was found, each written at once to the cached groups.\<close>

definition robot_put :: "nat \<Rightarrow> nat \<Rightarrow> doc \<Rightarrow> (app, doc) py" where
  "robot_put i j d =
     py_seq (py_modify (\<lambda>s. s\<lparr>st_groups := map_option (put_robot i j d) (st_groups s)\<rparr>)) (py_ret d)"

definition robot_rename :: "nat \<Rightarrow> nat \<Rightarrow> string \<Rightarrow> string \<Rightarrow> doc \<Rightarrow> (app, doc) py" where
  "robot_rename i j old new d =
     py_bind (py_of (pop_key old d)) (\<lambda>(v, d). robot_put i j (dset d new v))"

fun robot_drop :: "nat \<Rightarrow> nat \<Rightarrow> string list \<Rightarrow> doc \<Rightarrow> (app, doc) py" where
  "robot_drop i j [] d = py_ret d"
| "robot_drop i j (k # ks) d =
     py_bind (py_of (pop_key k d)) (\<lambda>(_, d). py_bind (robot_put i j d) (robot_drop i j ks))"

definition scanned_robot :: "json \<Rightarrow> nat \<times> nat \<times> doc \<Rightarrow> (app, doc) py" where
  "scanned_robot mid robot = (case robot of (i, j, d) \<Rightarrow>
     py_bind (robot_put i j (dset d ''mid'' mid)) (\<lambda>d.
     py_bind (robot_rename i j ''cusSteps'' ''customSteps'' d) (\<lambda>d.
     py_bind (robot_rename i j ''groupName'' ''name'' d)
       (robot_drop i j [''groupId'', ''service'', ''products'', ''smartTypes'', ''icon'', ''sort'']))))"

definition qr_answer :: "api \<Rightarrow> json \<Rightarrow> json \<Rightarrow> json \<Rightarrow> json" where
  "qr_answer A product_category sn robot =
     (let base_url = ''https://api-app.'' @ DOM_SUB_1 (ap_cfg A) @ ''ecouser.net/api/pim'' in
      JObj [
        (''supportApp'', JStr ''global''),
        (''belongApp'', JList [JStr ''ecoglobal'', JStr ''yeedi'']),
        (''supportRegion'', JStr ''International''), (''qrType'', JStr ''config''),
        (''productCategory'', product_category), (''code_sn'', sn), (''configGuide'', robot),
        (''configFAQ'', JObj [
          (''wifiFAQUrl'', JStr (base_url @ ''/faqproblem.html?lang=en&defaultLang=iotclient_lang_english'')),
          (''notFoundAPUrl'', JStr (base_url @ ''/findDbWifi.html?lang=en&defaultLang=iotclient_lang_english'')),
          (''configFailedUrl'', JStr (base_url @ ''/configfail.html?lang=en&defaultLang=iotclient_lang_english''))])])"

definition scan_product :: "api \<Rightarrow> json \<Rightarrow> (app, json \<times> json) py" where
  "scan_product A mid =
     py_bind (py_of (get_product_iot_map A)) (\<lambda>products.
     py_bind (py_of (find_product mid products)) (\<lambda>found.
     case found of
       None \<Rightarrow> py_ret (JNull, JNull)
     | Some botprod \<Rightarrow>
         py_bind (py_of (get_attr botprod ''product'' (JObj []))) (\<lambda>product.
         py_bind (py_of (get_attr product ''name'' JNull)) (\<lambda>name.
         py_bind (get_config_groups_robot A name ''groupName'') (\<lambda>robot.
         py_bind (py_of (get_product_category name (map_option (snd \<circ> snd) robot))) (\<lambda>category.
         case robot of
           None \<Rightarrow> py_ret (category, JNull)
         | Some r \<Rightarrow> py_bind (scanned_robot mid r) (\<lambda>d. py_ret (category, JObj d))))))))"

definition decode_qr_code :: "api \<Rightarrow> doc \<Rightarrow> (app, response) py" where
  "decode_qr_code A post_body =
     (case dget_or post_body ''qrcode'' (JStr []) of
        JStr qrcode \<Rightarrow>
          py_bind (py_of (url_query qrcode)) (\<lambda>query.
          let qrcode_q = parse_qs query; sn = map_of qrcode_q ''sn''; mid = map_of qrcode_q ''mid'' in
          if sn = None \<and> mid = None then py_ret (success_v2 (JObj []))
          else py_bind (scan_product A (opt_str mid)) (\<lambda>(category, robot).
            py_ret (success_v2 (qr_answer A category (opt_str sn) robot))))
      | _ \<Rightarrow> py_ret (success_v2 (JObj [])))"

section \<open>app.do\<close>

definition robot_control :: "api \<Rightarrow> doc \<Rightarrow> (app, response) py" where
  "robot_control A post_body =
     (case dget_or post_body ''data'' (JObj []) of
        JObj data_ctl \<Rightarrow>
          (case dget data_ctl ''ctl'' of
             JObj [] \<Rightarrow> py_raise StopIteration
           | JObj ((cmd, cmd_json) # _) \<Rightarrow>
               py_bind (new_command A cmd_json VERSION_P2P) (\<lambda>c.
               py_bind (py_gets st_helper) (\<lambda>helperbot.
               case helperbot of
                 Some h \<Rightarrow> bot_send_command A h c
               | None \<Rightarrow> py_ret response_error_v5))
           | _ \<Rightarrow> py_ret response_error_v5)
      | _ \<Rightarrow> py_ret response_error_v5)"

definition app_video_url :: "api \<Rightarrow> doc \<Rightarrow> response" where
  "app_video_url A post_body =
     (case dget_or post_body ''keys'' (JList []) of
        JList keys \<Rightarrow> success_v2 (JObj
          (if py_in (JStr ''t9_promotional_video'') keys
           then [(''t9_promotional_video'', JStr (''https://'' @ DOMAIN_ALI (ap_cfg A) @ ''/public/t9_promotional_video.mp4''))]
           else []))
      | _ \<Rightarrow> response_error_v5)"

definition device_protocol_v2 :: "api \<Rightarrow> response" where
  "device_protocol_v2 A = success_v2
     (JObj [
        (''video'', JObj [
          (''version'', JStr ''13.01''), (''hasNewProtocol'', JBool False),
          (''hasReadOld'', JBool True), (''isAccept'', JBool True),
          (''protocolUrl'', JStr (''https://'' @ DOM_SUB_PORT (ap_cfg A) @ ''/api/pim/protocol.html?version=13.01&lang=en&defaultLang=en&country=DE&type=video''))]),
        (''improve'', JObj [
          (''version'', JStr ''11.15''), (''hasNewProtocol'', JBool False),
          (''hasReadOld'', JBool True), (''isAccept'', JBool False),
          (''protocolUrl'', JStr (''https://'' @ DOM_SUB_PORT (ap_cfg A) @ ''/api/pim/protocol.html?version=11.15&lang=en&defaultLang=en&country=DE&type=improve''))])])"

definition handle_app_do :: "api \<Rightarrow> request \<Rightarrow> (app, response) py" where
  "handle_app_do A rq = app_guarded
     (py_bind (py_of (rq_body rq)) (\<lambda>body.
      py_bind (py_of (as_dict_value body)) (\<lambda>post_body.
      let todo = dget_or post_body ''todo'' (JStr []) in
      if todo = JStr ''GetGlobalDeviceList'' then
        py_bind (create_device_list A) (\<lambda>devices.
          py_ret (response_success_v2 (JList devices) (Some 0) ''devices'' ''ret''))
      else if todo = JStr ''GetCodepush'' then
        py_ret (success_v2 (JObj [(''extend'', JObj []), (''type'', JStr ''microsoft''), (''url'', JStr [])]))
      else if todo = JStr ''RobotControl'' then robot_control A post_body
      else if todo = JStr ''GetAppVideoUrl'' then py_ret (app_video_url A post_body)
      else if todo = JStr ''GetDeviceProtocolV2'' then py_ret (device_protocol_v2 A)
      else if todo = JStr ''DecodeQrCode'' then decode_qr_code A post_body
      else py_ret response_error_v5)))"

end
