(* ===== verification/Api_App_Info.thy ===== *)
theory Api_App_Info
  imports Api_Appsvr
begin

text \<open>
  The information handlers of src/bumper/web/plugins/api/appsvr.py: application
  configuration, service list, product improvement page, update check, robot properties,
  video sessions. The literal table of language names of \<open>app_lang_enum\<close> holds characters
  beyond the strings of the model: it is the argument \<open>lang_names\<close>.
\<close>

definition time_zone_list :: json where
  "time_zone_list =
     JList [
       JObj [
         (''resId'', JStr ''61a055be6533d2e6d9d8f0f1''), (''code'', JStr ''time_zone_list''),
         (''description'', JStr []), (''type'', JStr ''json''),
         (''content'', JList [
           JObj [(''name'', JStr ''New Zealand''), (''zone'', JStr ''+12:00'')],
           JObj [(''name'', JStr ''Australia''), (''zone'', JStr ''+10:00'')],
           JObj [(''name'', JStr ''South Korea, Japan''), (''zone'', JStr ''+09:00'')],
           JObj [
             (''name'', JStr ''China Mainland, Hong Kong, Macao, Taiwan, Singapore, Philippines, Malaysia''),
             (''zone'', JStr ''+08:00'')],
           JObj [(''name'', JStr ''Thailand, Indonesia, Vietnam''), (''zone'', JStr ''+07:00'')],
           JObj [(''name'', JStr ''Kazakhstan, Kyrgyzstan''), (''zone'', JStr ''+06:00'')],
           JObj [
             (''name'', JStr ''Tajikistan, Turkmenistan, Republic of Uzbekistan, India''),
             (''zone'', JStr ''+05:00'')],
           JObj [
             (''name'', JStr ''United Arab Emirates, Oman, Azerbaijan, Armenia''),
             (''zone'', JStr ''+04:00'')],
           JObj [(''name'', JStr ''Iran''), (''zone'', JStr ''+03:30'')],
           JObj [
             (''name'', JStr ''Belarus,Russian Federation, Kuwait, Saudi Arabia, Turkey''),
             (''zone'', JStr ''+03:00'')],
           JObj [
             (''name'', JStr ''Egypt, Estonia, Bulgaria, Finland, Latvia, Lithuania,Romania, Moldova, Cyprus, Ukraine, Greece, Israel''),
             (''zone'', JStr ''+02:00'')],
           JObj [
             (''name'', JStr ''Albania, Ireland, Andorra, Austria, Belgium,Bosnia Hercegovina, Poland, Denmark, Germany, France,Vatican City State, Netherlands, Czech Republic, Croatia,Luxembourg, Malta, Macedonia, Monaco,Norway, Sweden,Switzerland, Serbia, San Marino, Slovakia, Slovenia, Spain, Hungary,Italy''),
             (''zone'', JStr ''+01:00'')],
           JObj [
             (''name'', JStr ''Iceland, Portugal, United Kingdom''), (''zone'', JStr ''00:00'')],
           JObj [(''name'', JStr ''Argentina, Uruguay''), (''zone'', JStr ''-03:00'')],
           JObj [(''name'', JStr ''Dominican Republic''), (''zone'', JStr ''-04:00'')],
           JObj [
             (''name'', JStr ''United States, Brazil, Colombia, Peru''),
             (''zone'', JStr ''-05:00'')],
           JObj [(''name'', JStr ''Mexico''), (''zone'', JStr ''-06:00'')],
           JObj [
             (''name'', JStr ''Mountain Time (US and Canada)''), (''zone'', JStr ''-07:00'')],
           JObj [(''name'', JStr ''Canada''), (''zone'', JStr ''-08:00'')]])]]"

definition app_config_data :: "api \<Rightarrow> json \<Rightarrow> string \<Rightarrow> py_exc + json" where
  "app_config_data A lang_names code =
     (let contenturl = ''adv-app.'' @ DOM_SUB_1 (ap_cfg A) @ DOMAIN_MAIN (ap_cfg A) in
      if code = ''app_lang_enum'' then Inr lang_names
      else if code = ''codepush_config'' then res_bind (get_code_push_config A) (\<lambda>xs. Inr (JList xs))
      else if code = ''base_station_guide'' then Inr
        (JList [
          JObj [
            (''resId'', JStr ''61cd0abe312d7cfc89acf608''),
            (''code'', JStr ''base_station_guide''),
            (''name'', JStr ''Introduction to AES base stations''), (''description'', JStr []),
            (''type'', JStr ''text''),
            (''content'', JStr (''https://'' @ contenturl @ ''/pim/base_station_guide_newton_curi.html?lang=en&defaultLang=en''))]])
      else if code = ''time_zone_list'' then Inr time_zone_list
      else if code = ''yiko_record_enabled'' \<or> code = ''full_stack_yiko_entry'' then Inr (JList [])
      else if code = ''yiko_support_lang'' then Inr
        (JList [
          JObj [
            (''resId'', JStr ''675681bca7c061000750cb05''),
            (''code'', JStr ''yiko_support_lang''),
            (''name'', JStr ''Languages supported by Full Stack YIKO''),
            (''description'', JStr ''Languages supported by Full Stack YIKO''),
            (''type'', JStr ''json''), (''content'', JObj [(''lang'', JList [JStr ''en''])])]])
      else if code = ''home_teamwork_entry'' then Inr (JList [])
      else if code = ''globalapp_netcfg_h5_url_list'' then
        let base_url = ''https://api-app.'' @ DOM_SUB_1 (ap_cfg A) @ ''ecouser.net/app_adv/pim'' in Inr
        (JList [
          JObj [
            (''resId'', JStr ''642fc135604348000681bfd2''),
            (''code'', JStr ''globalapp_netcfg_h5_url_list''),
            (''name'', JStr ''globalapp Distribution Network Process H5''),
            (''description'', JStr ''globalapp URL of the HTML5 page used in the distribution network process''),
            (''type'', JStr ''json''),
            (''content'', JObj [
              (''network_setup'', JStr (base_url @ ''/network_setup_preparation_by_series.html?t=network'')),
              (''findqrcodenew'', JStr (base_url @ ''/find_qrcode.html?t=findqrcodenew'')),
              (''faqproblem'', JStr (base_url @ ''/faq_problem_new.html?t=faqproblem'')),
              (''autofind'', JStr (base_url @ ''/active_discovery.html?t=autofind'')),
              (''notFoundAPUrl'', JStr (base_url @ ''/network_setup_preparation_by_series.html?_t=findDbWifi'')),
              (''notFoundBTUrl'', JStr (base_url @ ''/active_discovery.html?t=notFoundBTUrl'')),
              (''viewWiFi'', JStr (base_url @ ''/viewWiFi.html?t=viewWiFi''))])]])
      else Inr (JList []))"

definition handle_app_config :: "api \<Rightarrow> json \<Rightarrow> request \<Rightarrow> (app, response) py" where
  "handle_app_config A lang_names rq =
     py_bind (py_of (app_config_data A lang_names (rq_get_or rq ''code'' []))) (\<lambda>data. py_ret (success_v3 data))"

definition handle_service_list :: "api \<Rightarrow> request \<Rightarrow> (app, response) py" where
  "handle_service_list A rq = app_guarded
     (let area_code = py_lower (rq_get_or rq ''area'' (ECOVACS_DEFAULT_COUNTRY (ap_cfg A)));
          dc_code = get_dc_code (area_code_map A) area_code;
          sub_domain_1 = DOM_SUB_1 (ap_cfg A) @ DOMAIN_MAIN (ap_cfg A);
          sub_domain_2 = DOM_SUB_2 (ap_cfg A) @ DOMAIN_MAIN (ap_cfg A);
          sub_domain_3 = DOM_SUB_3 (ap_cfg A) @ DOMAIN_MAIN (ap_cfg A) in
      py_ret (success_v2 (JObj [
          (''account'', JStr (''users-base.'' @ sub_domain_1)),
          (''adv'', JStr (''adv-app.'' @ sub_domain_1)), (''dc'', dc_code),
          (''jmq'', JStr (''jmq-ngiot-eu.'' @ sub_domain_2)),
          (''lb'', JStr (''lbo.'' @ DOMAIN_MAIN (ap_cfg A))),
          (''magw'', JStr (''api-app.'' @ sub_domain_1)),
          (''msgcloud'', JStr (''msg-eu.'' @ DOMAIN_MAIN (ap_cfg A) @ '':5223'')),
          (''ngiot'', JStr (''api-ngiot.'' @ sub_domain_1)),
          (''ngiotLb'', JStr (''jmq-ngiot-de.'' @ sub_domain_3)),
          (''nlp'', JStr (''iot-api-nlp.'' @ sub_domain_1)),
          (''rop'', JStr (''api-rop.'' @ sub_domain_1)),
          (''bigdata'', JStr (''bigdata-europe.'' @ DOMAIN_MAIN (ap_cfg A))),
          (''base'', JStr (''api-base.'' @ sub_domain_1)),
          (''eis'', JStr (''eis-nlp.'' @ sub_domain_1)),
          (''codepush'', JStr (''codepush-base.'' @ sub_domain_1)),
          (''setApConfig'', JObj [
            (''a'', JStr (area_code)), (''r'', JStr (DOMAIN_MAIN (ap_cfg A))),
            (''v'', JStr ''ww'')])])))"

text \<open>
  The token of the improvement page is read from a dictionary under \<open>auth\<close>; a parameter of
  a URL is a text, and the default is the empty dictionary.
\<close>

definition improve_token :: "request \<Rightarrow> json" where
  "improve_token rq =
     (case (case map_of (rq_query rq) ''auth'' of Some v \<Rightarrow> JStr v | None \<Rightarrow> JObj []) of
        JObj d \<Rightarrow> dget_or d ''token'' (JStr [])
      | _ \<Rightarrow> JStr [])"

definition improve_content :: "api \<Rightarrow> request \<Rightarrow> string" where
  "improve_content A rq =
     ''https://'' @ ''adv-app.'' @ DOM_SUB_1 (ap_cfg A) @ DOMAIN_MAIN (ap_cfg A)
       @ ''/pim/productImprovePlan_ww.html?initSync=false&did='' @ rq_get_or rq ''did'' []
       @ ''&mid='' @ rq_get_or rq ''mid'' [] @ ''&uid='' @ rq_get_or rq ''uid'' []
       @ ''&lang='' @ py_lower (rq_get_or rq ''lang'' []) @ ''&a='' @ rq_get_or rq ''a'' []
       @ ''&c='' @ rq_get_or rq ''c'' [] @ ''&v='' @ rq_get_or rq ''v'' [] @ ''&''
       @ ''p='' @ rq_get_or rq ''p'' [] @ ''&id=628dcf819dbd613d9ebb4fe4&ver=11.16&showRemark=''
       @ rq_get_or rq ''show_remark'' [] @ ''&remark=&token='' @ py_str (improve_token rq)"

definition handle_improve :: "api \<Rightarrow> request \<Rightarrow> response" where
  "handle_improve A rq = success_v4 (JObj
     [(''show'', JBool False), (''content'', JStr (improve_content A rq)), (''remark'', JStr []), (''updateLog'', JStr [])])"

section \<open>Update check\<close>

text \<open>\<open>d.get(v, x)\<close> with a value as the key: a list or a dictionary cannot be looked up.\<close>

definition get_by_value :: "doc \<Rightarrow> json \<Rightarrow> json \<Rightarrow> py_exc + json" where
  "get_by_value d key dflt =
     (case key of JStr k \<Rightarrow> Inr (dget_or d k dflt) | JList _ \<Rightarrow> Inl TypeError | JObj _ \<Rightarrow> Inl TypeError
      | _ \<Rightarrow> Inr dflt)"

definition no_update_info :: "request \<Rightarrow> json \<Rightarrow> json" where
  "no_update_info rq deployment_key = JObj [(''update_info'', JObj
     [(''download_url'', JStr []), (''description'', JStr []), (''is_available'', JBool False),
      (''is_disabled'', JBool True), (''target_binary_range'', JStr (rq_get_or rq ''app_version'' ''1.0.0'')),
      (''label'', JStr (rq_get_or rq ''label'' [])), (''package_hash'', JStr (rq_get_or rq ''package_hash'' [])),
      (''package_size'', JInt 0), (''should_run_binary_version'', JBool False),
      (''update_app_version'', JBool False), (''is_mandatory'', JBool False),
      (''deployment_key'', deployment_key),
      (''deployment_name'', JStr (rq_get_or rq ''deployment_name'' ''Production'')), (''publish_time'', JInt 0)])]"

definition get_codepush_update_check_data :: "api \<Rightarrow> request \<Rightarrow> py_exc + json" where
  "get_codepush_update_check_data A rq =
     (let deployment_key = rq_get_or rq ''deployment_key'' [];
          package_name = rq_get rq ''package_name'' in
      res_bind (if deployment_key = [] \<and> truthy package_name
                then res_bind (get_codepush_update_check_mapping A) (\<lambda>m. get_by_value m package_name (JStr []))
                else Inr (JStr deployment_key)) (\<lambda>deployment_key.
      res_bind (get_codepush_update_check A) (\<lambda>m.
        get_by_value m deployment_key (no_update_info rq deployment_key))))"

definition handle_codepush_update_check :: "api \<Rightarrow> request \<Rightarrow> (app, response) py" where
  "handle_codepush_update_check A rq =
     py_bind (py_of (get_codepush_update_check_data A rq)) (\<lambda>data. py_ret (success_v3 data))"

section \<open>Properties of a robot\<close>

definition isoformat_millis :: "datetime \<Rightarrow> string" where
  "isoformat_millis t = pad 4 (year t) @ ''-'' @ pad 2 (month t) @ ''-'' @ pad 2 (day t) @ ''T'' @
     pad 2 (hour t) @ '':'' @ pad 2 (minute t) @ '':'' @ pad 2 (second t) @
     ''.'' @ pad 3 (micro t div 1000) @ offset_str (utcoff t)"

definition get_millis_to_iso_z :: "api \<Rightarrow> int \<Rightarrow> string" where
  "get_millis_to_iso_z A ms = py_replace ''+00:00'' ''Z'' (isoformat_millis (ap_local A ms))"

definition prop_command :: "request \<Rightarrow> string \<Rightarrow> json" where
  "prop_command rq prop_o =
     (let prop = (if py_startswith prop_o ''on'' then ''get'' @ drop 2 prop_o else prop_o) in
      JObj [(''cmd'', JStr prop), (''did'', rq_get rq ''did''), (''mid'', rq_get rq ''mid''),
            (''res'', rq_get rq ''res''), (''data'', JObj [(''td'', JStr prop)])])"

definition prop_value :: "api \<Rightarrow> string \<Rightarrow> json \<Rightarrow> py_exc + json list" where
  "prop_value A prop_o resp =
     (case resp of
        JObj d \<Rightarrow>
          res_bind (get_attr (dget_or d ''body'' (JObj [])) ''data'' JNull) (\<lambda>body_value. Inr
            (if truthy body_value then
               [JObj [(''key'', JStr prop_o),
                  (''value'', JStr (json_dumps_compact (JObj [(''body'', JObj [(''data'', body_value)])]))),
                  (''ts'', JStr (get_millis_to_iso_z A (ap_ms A)))]]
             else []))
      | _ \<Rightarrow> Inr [])"

fun prop_values :: "api \<Rightarrow> request \<Rightarrow> string list \<Rightarrow> (app, json list) py" where
  "prop_values A rq [] = py_ret []"
| "prop_values A rq (prop_o # props) =
     py_bind (py_gets st_helper) (\<lambda>helperbot.
     case helperbot of
       None \<Rightarrow> py_ret []
     | Some h \<Rightarrow>
         py_bind (new_command A (prop_command rq prop_o) VERSION_P2P) (\<lambda>c.
         py_bind (bot_send_plain A h c) (\<lambda>resp.
         py_bind (py_of (prop_value A prop_o resp)) (\<lambda>v.
         py_bind (prop_values A rq props) (\<lambda>vs. py_ret (v @ vs))))))"

definition handle_device_prop_list :: "api \<Rightarrow> request \<Rightarrow> (app, response) py" where
  "handle_device_prop_list A rq =
     py_bind (prop_values A rq (py_split (CHR '','') (rq_get_or rq ''props'' []))) (\<lambda>props_result.
       py_ret (success_v3 (JObj [(''did'', rq_get rq ''did''), (''ts'', JInt (ap_ms A)), (''props'', JList props_result)])))"

section \<open>Video session, groups\<close>

definition start_watch_answer ::
    "api \<Rightarrow> string \<Rightarrow> string \<Rightarrow> string \<Rightarrow> string \<Rightarrow> string \<Rightarrow> string \<Rightarrow> string \<Rightarrow> json" where
  "start_watch_answer A did client_id key s1 s2 stoken session = JObj
     [(''ret'', JStr ''ok''), (''region'', JStr ''eu-central-1''), (''channel'', JStr (''production-'' @ did)),
      (''client_id'', JStr client_id),
      (''credentials'', JObj
        [(''AccessKeyId'', JStr (''ASIA'' @ map upper_char key)),
         (''SecretAccessKey'', JStr (''wJalrXUtnFEMI/'' @ s1 @ ''/'' @ s2)),
         (''SessionToken'', JStr stoken),
         (''Expiration'', JStr ''9999-12-31T00:00:00.000Z''), (''TtlSec'', JInt 3600)]),
      (''session'', JStr (''de/'' @ session)), (''ts'', JInt (ap_ms A))]"

definition handle_akvs_start_watch :: "api \<Rightarrow> request \<Rightarrow> (app, response) py" where
  "handle_akvs_start_watch A rq =
     py_bind (py_of (case map_of (rq_query rq) ''auth'' of
         Some t \<Rightarrow> e_loads (ap_env A) t | None \<Rightarrow> Inr (JObj []))) (\<lambda>query_auth.
     py_bind (py_of (get_attr query_auth ''userid'' (JStr []))) (\<lambda>user_id.
     py_bind (py_of (get_attr query_auth ''resource'' (JStr []))) (\<lambda>resource.
     py_bind (token_hex A 10) (\<lambda>key.
     py_bind (token_hex A 15) (\<lambda>s1.
     py_bind (token_hex A 10) (\<lambda>s2.
     py_bind (draw_with (\<lambda>i. ap_token_urlsafe A i 128)) (\<lambda>stoken.
     py_bind (token_hex A 4) (\<lambda>session.
       py_ret (JsonResponse (start_watch_answer A (rq_get_or rq ''did'' [])
         (py_str user_id @ ''-'' @ py_str resource) key s1 s2 stoken session))))))))))"

definition config_faq :: "api \<Rightarrow> json" where
  "config_faq A =
     JObj [
       (''wifiFAQUrl'', JStr (''https://'' @ DOM_SUB_PORT (ap_cfg A) @ ''/api/pim/faqproblem.html?lang=en&defaultLang=en'')),
       (''notFoundAPUrl'', JStr (''https://'' @ DOM_SUB_PORT (ap_cfg A) @ ''/api/pim/findDbWifi.html?lang=en&defaultLang=en'')),
       (''configFailedUrl'', JStr (''https://'' @ DOM_SUB_PORT (ap_cfg A) @ ''/api/pim/configfail.html?lang=en&defaultLang=en''))]"

definition config_groups_answer :: "api \<Rightarrow> json list \<Rightarrow> response" where
  "config_groups_answer A groups =
     response_success_v3 0 (JList groups) ''data'' ''success'' ''msg'' (config_faq A) (Some ''configFAQ'') False"

definition handle_get_config_groups :: "api \<Rightarrow> (app, response) py" where
  "handle_get_config_groups A = app_guarded
     (py_bind (get_config_groups_response A) (\<lambda>groups. py_ret (config_groups_answer A groups)))"

end
