(* ===== verification/Api_Users.thy ===== *)
theory Api_Users
  imports Api_App_Info
begin

text \<open>
  The account actions of \<open>user.do\<close> (src/bumper/web/plugins/api/users.py) and the commands to
  robots (src/bumper/web/plugins/api/iot.py, dim.py).
\<close>

abbreviation error_v6 :: "string \<Rightarrow> response" where
  "error_v6 debug \<equiv> response_error_v6 debug ''Error request, unknown todo''"

abbreviation error_v7 :: response where
  "error_v7 \<equiv> response_error_v7 1 ''unknown''"

section \<open>user.do\<close>

text \<open>A handler answers, or returns nothing when it could not process the request.\<close>

definition handle_find_best :: "api \<Rightarrow> doc \<Rightarrow> (app, response option) py" where
  "handle_find_best A post_body =
     (let service = dget_or post_body ''service'' (JStr []) in
      if service = JStr ''EcoMsgNew'' then
        py_ret (Some (JsonResponse (JObj [(''ip'', JStr (bumper_announce_ip (ap_cfg A))),
          (''port'', JInt (XMPP_LISTEN_PORT_TLS (ap_cfg A))), (''result'', JStr ''ok'')])))
      else if service = JStr ''EcoUpdate'' then
        py_ret (Some (JsonResponse (JObj [(''ip'', JStr (ECOVACS_UPDATE_SERVER (ap_cfg A))),
          (''port'', JInt (ECOVACS_UPDATE_SERVER_PORT (ap_cfg A))), (''result'', JStr ''ok'')])))
      else py_ret None)"

definition it_login_answer :: "doc \<Rightarrow> json \<Rightarrow> json \<Rightarrow> (app, response option) py" where
  "it_login_answer post_body tok userid =
     py_bind (py_of (subscript (JObj post_body) ''resource'')) (\<lambda>resource.
       py_ret (Some (JsonResponse (JObj [(''resource'', resource), (''result'', JStr ''ok''),
         (''todo'', JStr ''result''), (''token'', tok), (''userId'', userid)]))))"

definition handle_login_by_it_token :: "api \<Rightarrow> doc \<Rightarrow> (app, response option) py" where
  "handle_login_by_it_token A post_body =
     (case map_of post_body ''userId'' of
        Some userid \<Rightarrow>
          py_bind (py_of (subscript (JObj post_body) ''token'')) (\<lambda>tok.
          py_bind (web_run (db_gets (token_verify_it (ap_store A) userid tok))) (\<lambda>ok.
            if ok then it_login_answer post_body tok userid else py_ret None))
      | None \<Rightarrow>
          py_bind (py_of (subscript (JObj post_body) ''token'')) (\<lambda>tok.
          py_bind (web_run (db_try (token_login_by_it_token (ap_store A) tok))) (\<lambda>login_token.
          case login_token of
            None \<Rightarrow> py_ret None
          | Some t \<Rightarrow> it_login_answer post_body (tok_token t) (tok_userid t))))"

definition handle_get_device_list :: "api \<Rightarrow> (app, response option) py" where
  "handle_get_device_list A =
     py_bind (create_device_list A) (\<lambda>devices.
       py_ret (Some (JsonResponse (JObj [(''devices'', JList devices), (''result'', JStr ''ok''), (''todo'', JStr ''result'')]))))"

text \<open>\<open>response_success_v2(result_key="result")\<close>: the key of the status and \<open>todo\<close> name the result.\<close>

definition todo_done :: response where
  "todo_done = response_success_v2 JNull (Some 0) ''data'' ''result''"

definition with_did :: "doc \<Rightarrow> (json \<Rightarrow> (app, unit) py) \<Rightarrow> (app, response option) py" where
  "with_did post_body f =
     (let did = dget post_body ''did'' in
      if truthy did then py_seq (f did) (py_ret (Some todo_done)) else py_ret None)"

definition handle_set_device_nick :: "api \<Rightarrow> doc \<Rightarrow> (app, response option) py" where
  "handle_set_device_nick A post_body = with_did post_body (\<lambda>did.
     web_run (db_do (bot_set_nick (ap_store A) did (dget_or post_body ''nick'' (JStr [])))))"

definition handle_add_one_device :: "api \<Rightarrow> doc \<Rightarrow> (app, response option) py" where
  "handle_add_one_device A post_body = with_did post_body (\<lambda>did.
     web_run (db_do (bot_set_nick (ap_store A) did (dget_or post_body ''nick'' (JStr [])))))"

definition handle_delete_one_device :: "api \<Rightarrow> doc \<Rightarrow> (app, response option) py" where
  "handle_delete_one_device A post_body = with_did post_body (\<lambda>did.
     web_run (db_do (bot_remove (ap_store A) did)))"

definition handle_logout :: "api \<Rightarrow> doc \<Rightarrow> (app, response option) py" where
  "handle_logout A post_body =
     py_bind (py_of (subscript (JObj post_body) ''userId'')) (\<lambda>user_id.
     py_seq (web_run (db_do (user_remove (ap_store A) user_id)))
     (py_seq (web_run (db_do (client_remove (ap_store A) user_id)))
       (py_ret (Some (JsonResponse (JObj [(''todo'', JStr ''result''), (''result'', JStr ''ok'')]))))))"

definition todo_handler :: "api \<Rightarrow> request \<Rightarrow> string \<Rightarrow> (doc \<Rightarrow> (app, response option) py) option" where
  "todo_handler A rq todo = map_of
     [(''FindBest'', handle_find_best A),
      (''loginByItToken'', handle_login_by_it_token A),
      (''GetAuthCode'', \<lambda>_. py_bind (web_run (get_auth_code_v2 (ap_env A) rq)) (\<lambda>r. py_ret (Some r))),
      (''GetDeviceList'', \<lambda>_. handle_get_device_list A),
      (''SetDeviceNick'', handle_set_device_nick A),
      (''AddOneDevice'', handle_add_one_device A),
      (''DeleteOneDevice'', handle_delete_one_device A),
      (''logout'', handle_logout A)] todo"

definition handle_user :: "api \<Rightarrow> request \<Rightarrow> (app, response) py" where
  "handle_user A rq = app_guarded
     (py_bind (py_of (rq_body rq)) (\<lambda>body.
      py_bind (py_of (as_dict_value body)) (\<lambda>post_body.
      let todo = py_str (dget_or post_body ''todo'' (JStr [])) in
      case todo_handler A rq todo of
        None \<Rightarrow> py_ret (error_v6 todo)
      | Some h \<Rightarrow>
          py_try (py_bind (h post_body) (\<lambda>r. py_ret (case r of None \<Rightarrow> error_v6 todo | Some r \<Rightarrow> r)))
            (\<lambda>_. py_ret (error_v6 todo)))))"

section \<open>Commands to robots\<close>

definition command_body :: "request \<Rightarrow> string \<Rightarrow> py_exc + json" where
  "command_body rq version =
     (if version = VERSION_OLD then rq_json rq
      else if version = VERSION_NEW then
        res_bind (rq_json rq) (\<lambda>payload. Inr (JObj (dset (fields_doc (rq_query rq)) ''payload'' payload)))
      else Inr (JObj []))"

definition not_supported :: "mqtt_command \<Rightarrow> response" where
  "not_supported c = response_error_v8 (JStr (cmd_request_id c)) (JStr ''requested bot is not supported'')"

definition answer_td :: "json \<Rightarrow> response" where
  "answer_td td =
     (if td = JStr ''PollSCResult'' then JsonResponse (JObj [(''ret'', JStr ''ok'')])
      else if td = JStr ''HasUnreadMsg'' then JsonResponse (JObj [(''ret'', JStr ''ok''), (''unRead'', JBool False)])
      else if td = JStr ''PreWifiConfig'' then JsonResponse (JObj [(''ret'', JStr ''ok'')])
      else error_v7)"

definition run_command :: "api \<Rightarrow> helper \<Rightarrow> bool \<Rightarrow> mqtt_command \<Rightarrow> (app, response) py" where
  "run_command A h extended_check c =
     (if cmd_did c \<noteq> JNull then
        py_bind (web_run (db_gets (bot_get (ap_store A) (cmd_did c)))) (\<lambda>found.
        case found of
          None \<Rightarrow> py_ret (not_supported c)
        | Some dev \<Rightarrow>
            if bot_company dev \<noteq> JStr ''eco-ng'' then py_ret (not_supported c)
            else if extended_check \<and> (bot_company dev \<noteq> JStr ''eco-ng'' \<or> \<not> truthy (bot_mqtt_connection dev))
            then py_ret (not_supported c)
            else bot_send_command A h c)
      else if cmd_td c \<noteq> JNull then py_ret (answer_td (cmd_td c))
      else py_ret error_v7)"

definition handle_commands :: "api \<Rightarrow> request \<Rightarrow> string \<Rightarrow> bool \<Rightarrow> (app, response) py" where
  "handle_commands A rq version extended_check = py_try
     (py_bind (py_gets st_helper) (\<lambda>helperbot.
      case helperbot of
        None \<Rightarrow> py_raise (PlainException ([CHR 0x27] @ ''bumper_isc.mqtt_helperbot'' @ [CHR 0x27] @ '' is None''))
      | Some h \<Rightarrow>
          py_bind (py_of (command_body rq version)) (\<lambda>body.
          py_bind (new_command A body version) (run_command A h extended_check))))
     (\<lambda>_. py_ret error_v7)"

definition handle_devmanager_bot_command :: "api \<Rightarrow> request \<Rightarrow> (app, response) py" where
  "handle_devmanager_bot_command A rq = handle_commands A rq VERSION_OLD False"

definition handle_endpoint_control :: "api \<Rightarrow> request \<Rightarrow> (app, response) py" where
  "handle_endpoint_control A rq = handle_commands A rq VERSION_NEW False"

definition handle_dev_manager :: "api \<Rightarrow> request \<Rightarrow> (app, response) py" where
  "handle_dev_manager A rq = handle_commands A rq VERSION_OLD True"

end
