(* ===== verification/Api_Devices.thy ===== *)
theory Api_Devices
  imports Api_Users
begin

text \<open>
  Homes (src/bumper/web/plugins/api/homed.py), cleaning logs (app/dln.py, api/lg.py), areas
  (api/basis.py), signed tokens (api/new_perm.py), firmware (api/ota.py), products
  (api/pim/product.py) and the handlers of neng.py, ecms.py and pim that read the request.
\<close>

abbreviation plain_success :: "json \<Rightarrow> response" where
  "plain_success data \<equiv> response_success_v3 0 data ''data'' ''success'' ''message'' (JStr ''ok'') None False"

abbreviation error_v2 :: response where
  "error_v2 \<equiv> response_error_v2 param_error ERR_COMMON"

text \<open>Header names do not depend on the case.\<close>

definition rq_header :: "request \<Rightarrow> string \<Rightarrow> string option" where
  "rq_header rq k = map_option snd (List.find (\<lambda>(h, _). py_lower h = py_lower k) (rq_headers rq))"

definition body_dict :: "request \<Rightarrow> (app, doc) py" where
  "body_dict rq = py_bind (py_of (rq_json rq)) (\<lambda>body. py_of (as_dict_value body))"

section \<open>Homes\<close>

fun home_entries :: "api \<Rightarrow> bumper_user \<Rightarrow> nat \<Rightarrow> json list \<Rightarrow> json list" where
  "home_entries A user i [] = []"
| "home_entries A user i (home_id # hs) = JObj
     [(''createTime'', JInt (ap_ms A)), (''createUser'', usr_userid user), (''createUserName'', usr_username user),
      (''firstCreate'', JBool False), (''homeId'', home_id), (''name'', JStr (''My Home ('' @ nat_str i @ '')'')),
      (''type'', JStr ''own'')] # home_entries A user (Suc i) hs"

definition handle_home_list :: "api \<Rightarrow> request \<Rightarrow> (app, response) py" where
  "handle_home_list A rq = app_guarded
     (let user_id = rq_get rq ''userid'' in
      py_bind (if user_id \<noteq> JNull
               then web_run (db_gets (user_get_by_id (ap_store A) (ap_cfg A) user_id)) else py_ret None) (\<lambda>user.
      case user of
        None \<Rightarrow> py_ret (success_v3 (JList []))
      | Some u \<Rightarrow> py_bind (py_of (py_list (usr_homeids u))) (\<lambda>hs.
          py_ret (success_v3 (JList (home_entries A u 0 hs))))))"

definition handle_home_create :: "api \<Rightarrow> request \<Rightarrow> (app, response) py" where
  "handle_home_create A rq =
     py_bind (py_of (rq_json rq)) (\<lambda>body.
     case get_jwt_details (ap_env A) (opt_str (rq_header rq ''authorization'')) of
       None \<Rightarrow> py_ret error_v2
     | Some jwt_info \<Rightarrow>
         py_bind (py_of (get_attr body ''name'' JNull)) (\<lambda>name.
         py_bind (web_run (db_try (token_get_by_auth_code (ap_store A) (dget_or jwt_info ''auth_code'' (JStr []))))) (\<lambda>tok.
         py_seq (case tok of
             Some t \<Rightarrow>
               if tok_userid t \<noteq> JNull then
                 py_bind (web_run (draw_uuid (ap_env A))) (\<lambda>u.
                   web_run (db_run (user_add_home_id (ap_store A) (tok_userid t) (JStr u))))
               else py_ret ()
           | None \<Rightarrow> py_ret ())
           (py_ret (plain_success JNull)))))"

definition handle_home_update :: "api \<Rightarrow> request \<Rightarrow> (app, response) py" where
  "handle_home_update A rq = py_bind (body_dict rq) (\<lambda>_. py_ret (plain_success JNull))"

definition handle_home_delete :: "api \<Rightarrow> request \<Rightarrow> (app, response) py" where
  "handle_home_delete A rq =
     py_bind (body_dict rq) (\<lambda>json_body. let home_id = dget json_body ''homeId'' in
     py_bind (web_run (db_gets (user_get_by_home_id (ap_store A) (ap_cfg A) home_id))) (\<lambda>user.
     py_seq (case user of
         Some u \<Rightarrow> web_run (db_run (user_remove_home_id (ap_store A) (usr_userid u) home_id))
       | None \<Rightarrow> py_ret ())
       (py_ret (plain_success JNull))))"

definition handle_member_list :: "api \<Rightarrow> request \<Rightarrow> (app, response) py" where
  "handle_member_list A rq = app_guarded
     (py_bind (web_run (db_gets (user_get_by_home_id (ap_store A) (ap_cfg A)
         (JStr (rq_get_or rq ''homeId'' (HOME_ID (ap_cfg A))))))) (\<lambda>user.
      case user of
        None \<Rightarrow> py_raise (HTTPException 500)
      | Some u \<Rightarrow> py_ret (success_v3 (JList [JObj
          [(''createTime'', JInt (ap_ms A)), (''id'', usr_userid u), (''isAdmin'', JInt 2),
           (''name'', JStr (USER_NICKNAME_DEFAULT (ap_cfg A))), (''roleId'', JStr ''xxx''),
           (''roleName'', JStr ''Fraternal grandpa''), (''status'', JInt 1), (''uid'', usr_userid u)]]))))"

definition handle_device_move :: "api \<Rightarrow> request \<Rightarrow> (app, response) py" where
  "handle_device_move A rq = py_bind (body_dict rq) (\<lambda>_. py_ret (plain_success JNull))"

section \<open>Cleaning logs\<close>

definition ts_less :: "doc \<Rightarrow> doc \<Rightarrow> bool option" where
  "ts_less a b = val_less (dget a ''ts'') (dget b ''ts'')"

text \<open>The logs of a robot, when it is known and talks over MQTT.\<close>

definition logs_of :: "api \<Rightarrow> json \<Rightarrow> (app, clean_log list) py" where
  "logs_of A did =
     py_bind (web_run (db_gets (bot_get (ap_store A) did))) (\<lambda>found.
     case found of
       None \<Rightarrow> py_ret []
     | Some dev \<Rightarrow>
         if bot_company dev \<noteq> JStr ''eco-ng'' then py_ret []
         else web_run (db_try (clean_log_list_by_did (ap_store A) did)))"

definition handle_clean_result_list :: "api \<Rightarrow> request \<Rightarrow> (app, response) py" where
  "handle_clean_result_list A rq = app_guarded
     (let did = rq_get rq ''did'' in
      py_bind (if did \<noteq> JNull \<and> rq_get_or rq ''logType'' [] = ''clean'' then logs_of A did else py_ret [])
       (\<lambda>logs.
      py_bind (py_of (sort_desc ts_less (map (\<lambda>l. dset (log_as_dict l) ''did'' did) logs))) (\<lambda>data.
        py_ret (success_v3 (JList (map JObj data))))))"

definition handle_clean_result_del :: "api \<Rightarrow> request \<Rightarrow> (app, response) py" where
  "handle_clean_result_del A rq =
     py_bind (body_dict rq) (\<lambda>json_data.
     py_bind (py_of (py_list (dget_or json_data ''logIds'' (JList [])))) (\<lambda>log_ids.
     py_seq (py_for log_ids (\<lambda>i. web_run (db_do (clean_log_remove_by_id (ap_store A) i))))
       (py_ret (success_v3 JNull))))"

definition handle_lg_log :: "api \<Rightarrow> request \<Rightarrow> (app, response) py" where
  "handle_lg_log A rq = py_try
     (py_bind (body_dict rq) (\<lambda>json_body. let did = dget json_body ''did'' in
      py_bind (if did \<noteq> JNull \<and> dget_or json_body ''td'' (JStr []) = JStr ''GetCleanLogs''
               then logs_of A did else py_ret []) (\<lambda>logs.
      py_bind (py_of (sort_desc ts_less (map log_as_dict logs))) (\<lambda>data.
        py_ret (JsonResponse (JObj [(''ret'', JStr ''ok''), (''logs'', JList (map JObj data))]))))))
     (\<lambda>_. py_ret error_v7)"

section \<open>Areas and signed tokens\<close>

definition area_error :: "api \<Rightarrow> string" where
  "area_error A = (let q = CHR 0x22 in
     ''area: area must be one of the following: '' @ [q] @ py_join ([q] @ '', '' @ [q]) (map fst (area_code_map A)) @ [q])"

definition handle_get_by_area :: "api \<Rightarrow> request \<Rightarrow> (app, response) py" where
  "handle_get_by_area A rq = app_guarded
     (let area_code = py_lower (rq_get_or rq ''area'' (ECOVACS_DEFAULT_COUNTRY (ap_cfg A))) in
      py_ret (if map_of (area_code_map A) area_code = None
        then response_success_v4 (JStr (area_error A)) 4000 ''msg''
        else response_success_v4 (JObj [(''dc'', get_dc_code (area_code_map A) area_code)]) 0 ''data''))"

text \<open>The day before, and a moment shifted by any number of seconds: beyond the calendar it raises.\<close>

fun prev_day :: "nat \<times> nat \<times> nat \<Rightarrow> nat \<times> nat \<times> nat" where
  "prev_day (y, m, d) =
     (if 1 < d then (y, m, d - 1)
      else if 1 < m then (y, m - 1, days_in_month y (m - 1)) else (y - 1, 12, 31))"

definition dt_shift :: "(datetime \<Rightarrow> int) \<Rightarrow> int \<Rightarrow> datetime \<Rightarrow> py_exc + datetime" where
  "dt_shift tz n t =
     (let total = int (second_of_day t) + n; days = total div 86400; sod = nat (total mod 86400);
          (y, m, d) = (if 0 \<le> days then (next_day ^^ nat days) (year t, month t, day t)
                       else (prev_day ^^ nat (- days)) (year t, month t, day t)) in
      if y < 1 \<or> 9999 < y then Inl OverflowError
      else let r = t\<lparr>year := y, month := m, day := d, hour := sod div 3600,
                  minute := sod mod 3600 div 60, second := sod mod 60\<rparr>
           in Inr (r\<lparr>utcoff := tz r\<rparr>))"

text \<open>\<open>generate_jwt_helper\<close> with a type and a validity of its own.\<close>

definition signed_token :: "env \<Rightarrow> doc \<Rightarrow> string \<Rightarrow> json \<Rightarrow> py_exc + string" where
  "signed_token E data t exp_seconds =
     res_bind (py_int exp_seconds) (\<lambda>n.
     res_bind (dt_shift (e_tz E) n (e_now E)) (\<lambda>exp_dt.
     let payload = dupdate [(''t'', JStr t), (''iat'', JInt (timestamp (e_now E))),
           (''exp'', JInt (if t \<noteq> ''a'' then timestamp exp_dt else timestamp (e_now E)))] data in
     res_bind (e_key_file E) (\<lambda>private_key.
       Inr (e_jwt_encode E (JObj payload) private_key (TOKEN_JWT_ALG (e_cfg E))
              (JObj [(''alg'', JStr (TOKEN_JWT_ALG (e_cfg E))), (''typ'', JStr ''JWT'')])))))"

definition handle_sst_issue :: "api \<Rightarrow> request \<Rightarrow> (app, response) py" where
  "handle_sst_issue A rq = app_guarded
     (py_bind (body_dict rq) (\<lambda>body.
      let acl = dget body ''acl''; exp_seconds = dget body ''exp''; sub = dget body ''sub'' in
      if \<not> truthy acl \<or> \<not> truthy exp_seconds \<or> \<not> truthy sub then py_raise (HTTPException 400)
      else py_bind (py_of (signed_token (ap_env A) [(''acl'', acl), (''sub'', sub), (''grant'', sub)] ''SST'' exp_seconds))
        (\<lambda>tok. py_ret (response_success_v3 0 (JObj [(''data'', JObj [(''token'', JStr (''SST.'' @ tok))])])
           ''data'' ''ok'' ''msg'' (JStr ''ok'') None False))))"

section \<open>Firmware, products, messages\<close>

definition firmware_info :: "request \<Rightarrow> json" where
  "firmware_info rq =
     (let ver = JStr (rq_get_or rq ''ver'' ''0.0.0'') in
      JObj (AList.update (rq_get_or rq ''module'' ''fw0'') (JObj
          [(''force'', JBool False), (''version'', ver), (''size'', JInt 0), (''checkSum'', JNull),
           (''changeLog'', JStr (b64encode ''You are running on bumper, here will no update be provided!'')),
           (''extra'', JObj []), (''url'', JNull), (''urls'', JList [])])
        [(''version'', ver), (''name'', JStr ''wukong''), (''force'', JBool False)]))"

text \<open>The route passes the request only, so \<open>todo\<close> keeps its default \<open>False\<close>.\<close>

definition handle_products_firmware_latest :: "request \<Rightarrow> bool \<Rightarrow> response" where
  "handle_products_firmware_latest rq todo =
     (if \<not> todo then StatusResponse 404 ''Not Found'' else JsonResponse (firmware_info rq))"

definition hashable :: "json \<Rightarrow> bool" where
  "hashable v = (case v of JList _ \<Rightarrow> False | JObj _ \<Rightarrow> False | _ \<Rightarrow> True)"

text \<open>\<open>{item.get("pid", ""): item for item in items}\<close>, then \<open>get\<close>: a later item wins.\<close>

definition pid_table :: "json list \<Rightarrow> py_exc + (json \<times> json) list" where
  "pid_table batch =
     res_map (\<lambda>item. res_bind (get_attr item ''pid'' (JStr [])) (\<lambda>pid.
       if hashable pid then Inr (pid, item) else Inl TypeError)) batch"

definition batch_item :: "(json \<times> json) list \<Rightarrow> json \<Rightarrow> py_exc + json" where
  "batch_item table pid =
     (if \<not> hashable pid then Inl TypeError
      else (let config = (case List.find (\<lambda>(k, _). py_eq k pid) (List.rev table) of None \<Rightarrow> JNull | Some (_, c) \<Rightarrow> c)
            in Inr (if truthy config then config else JObj [(''cfg'', JObj []), (''pid'', pid)])))"

definition handle_config_batch :: "api \<Rightarrow> request \<Rightarrow> (app, response) py" where
  "handle_config_batch A rq = app_guarded
     (py_bind (py_of (get_product_config_batch A)) (\<lambda>batch.
      py_bind (py_of (pid_table batch)) (\<lambda>table.
      py_bind (body_dict rq) (\<lambda>json_body.
      py_bind (py_of (py_list (dget_or json_body ''pids'' (JList [])))) (\<lambda>pids.
      py_bind (py_of (res_map (batch_item table) pids)) (\<lambda>data.
        py_ret (response_success_v3 200 (JList data) ''data'' ''success'' ''message'' (JStr ''ok'') (Some ''ret'') False)))))))"

definition handle_get_share_info :: "api \<Rightarrow> request \<Rightarrow> (app, response) py" where
  "handle_get_share_info A rq = app_guarded (py_bind (body_dict rq) (\<lambda>_. py_ret (success_v4 (JList []))))"

definition handle_get_product_iot_map :: "api \<Rightarrow> (app, response) py" where
  "handle_get_product_iot_map A = py_bind (py_of (get_product_iot_map A)) (\<lambda>xs. py_ret (success_v4 (JList xs)))"

definition handle_get_config_net_all :: "api \<Rightarrow> (app, response) py" where
  "handle_get_config_net_all A =
     py_bind (py_of (get_config_net_all_response A)) (\<lambda>xs. py_ret (config_groups_answer A xs))"

definition pim_get_config_groups :: "api \<Rightarrow> (app, response) py" where
  "pim_get_config_groups A =
     py_bind (get_config_groups_response A) (\<lambda>groups. py_ret (config_groups_answer A groups))"

definition get_entry_group :: "api \<Rightarrow> (app, response) py" where
  "get_entry_group A = py_bind (py_of (get_product_entry_group A)) (\<lambda>d. py_ret (success_v3 (JObj d)))"

definition handle_get_err_detail :: "api \<Rightarrow> (app, response) py" where
  "handle_get_err_detail A = py_bind (py_of (get_err_detail A)) (\<lambda>xs.
     py_ret (response_success_v3 0 (JList xs) ''data'' ''success'' ''msg'' (JStr ''ok'') None False))"

definition handle_v3_message_push_status :: "api \<Rightarrow> request \<Rightarrow> (app, response) py" where
  "handle_v3_message_push_status A rq =
     py_bind (web_run (db_gets (bot_list_all (ap_store A)))) (\<lambda>bots.
       py_ret (plain_success (JObj
         [(''uid'', JStr (case rq_header rq ''userid'' of None \<Rightarrow> [] | Some u \<Rightarrow> u)),
          (''msgPushStatus'', JObj [(''DEVICE'', JBool True), (''SHARE'', JBool True)]),
          (''devices'', JList (map (\<lambda>b. JObj [(''did'', bot_did b), (''msgPushStatus'', JBool True),
             (''nickName'', bot_nick b)]) bots))])))"

definition handle_hint :: "request \<Rightarrow> response" where
  "handle_hint rq = response_success_v3 0
     (JObj (fold (\<lambda>code data. dset data code (JBool False)) (py_split (CHR '','') (rq_get_or rq ''codes'' [])) []))
     ''data'' ''success'' ''message'' (JStr ''ok'') None True"

section \<open>Pages\<close>

definition handle_event_detail :: "api \<Rightarrow> (app, response) py" where
  "handle_event_detail A = py_bind (py_of (get_event_detail A)) (\<lambda>t. py_ret (TextResponse t))"

definition handle_faq_problem :: "api \<Rightarrow> (app, response) py" where
  "handle_faq_problem A = py_bind (py_of (get_faq_problem A)) (\<lambda>t. py_ret (TextResponse t))"

definition handle_offline :: "api \<Rightarrow> (app, response) py" where
  "handle_offline A = py_bind (py_of (get_offline A)) (\<lambda>t. py_ret (TextResponse t))"

definition handle_base_station_guide_newton_curi :: "api \<Rightarrow> (app, response) py" where
  "handle_base_station_guide_newton_curi A =
     py_bind (py_of (get_base_station_guide_newton_curi A)) (\<lambda>t. py_ret (TextResponse t))"

end
