(* ===== verification/Api_Private.thy ===== *)
theory Api_Private
  imports Api_Devices
begin

text \<open>
  The handlers of the private API that depend on the request or the database
  (src/bumper/web/plugins/v1/private: user.py, intl.py, common.py, member.py,
  osmall.py). The device id is part of the path.
\<close>

section \<open>Accounts\<close>

definition user_of_device :: "api \<Rightarrow> request \<Rightarrow> (app, bumper_user option) py" where
  "user_of_device A rq =
     web_run (db_gets (user_get_by_device_id (ap_store A) (ap_cfg A) (JStr (rq_info_or rq ''devid'' []))))"

text \<open>A handler that answers for the user of the device and fails when there is none.\<close>

definition for_user :: "api \<Rightarrow> request \<Rightarrow> (bumper_user \<Rightarrow> json) \<Rightarrow> (app, response) py" where
  "for_user A rq f = app_guarded
     (py_bind (user_of_device A rq) (\<lambda>user.
      case user of
        None \<Rightarrow> py_raise (HTTPException 500)
      | Some u \<Rightarrow> py_ret (response_success_v1 (ap_load_ms A) (f u))))"

definition logout :: "api \<Rightarrow> request \<Rightarrow> (app, response) py" where
  "logout A rq = app_guarded
     (let device_id = rq_info rq ''devid''; access_token = rq_get rq ''accessToken'' in
      py_seq
        (if device_id \<noteq> JNull \<and> access_token \<noteq> JNull then
           py_bind (web_run (db_gets (user_get_by_device_id (ap_store A) (ap_cfg A) device_id))) (\<lambda>user.
           case user of
             None \<Rightarrow> py_ret ()
           | Some u \<Rightarrow>
               py_bind (web_run (db_try (token_verify (ap_store A) (e_now (ap_env A)) (usr_userid u) access_token))) (\<lambda>ok.
                 if ok then web_run (db_do (token_revoke_token (ap_store A) (usr_userid u) access_token))
                 else py_ret ()))
         else py_ret ())
        (py_ret (response_success_v1 (ap_load_ms A) JNull)))"

definition intl_member_info :: "api \<Rightarrow> json" where
  "intl_member_info A =
     JObj [
       (''availableGeneralIntegral'', JInt 0), (''availableLimitedIntegral'', JInt 0),
       (''benefitList'', JList []), (''expiringLimitedPointShowDesc'', JNull),
       (''expiringLimitedPoints'', JNull), (''expiringPointDesc'', JNull),
       (''expiringPointExplain'', JNull), (''expiringPoints'', JNull),
       (''frozenIntegral'', JInt 0),
       (''frozenIntegralTips'', JStr ''Points will be issued 20 days after order payment. Please wait.''),
       (''goodsDetailIntegralDesc'', JStr ''Points will be issued 20 days after order payment. Please wait.''),
       (''integral'', JInt 0),
       (''integralDescWapUrl'', JStr (''https://'' @ DOMAIN_SEC3 (ap_cfg A) @ ''/web/page?no=hh3yxg4g'')),
       (''intlMemberMallUrl'', JStr (''https://'' @ DOMAIN_SEC1 (ap_cfg A) @ ''/us'')),
       (''isCountryOpen'', JStr ''Y''), (''isLimitedIntegralOpen'', JStr ''N''),
       (''isMember'', JStr ''Y''), (''levelName'', JStr ''VIP1''), (''remainingDay'', JNull),
       (''vipLevelIconUrl'', JStr (''https://'' @ DOMAIN_SEC2 (ap_cfg A) @ ''/public/220628/d01e939518354ee0af5c88a5269e27d8.png''))]"

definition handle_get_user_account_info :: "api \<Rightarrow> request \<Rightarrow> (app, response) py" where
  "handle_get_user_account_info A rq = for_user A rq (\<lambda>u.
     JObj [
       (''email'', JStr (USER_MAIL_DEFAULT (ap_cfg A))), (''hasMobile'', JStr ''N''),
       (''hasPassword'', JStr ''Y''), (''headIco'', JStr []),
       (''intlMemberInfo'', intl_member_info A), (''loginName'', usr_username u),
       (''mobile'', JNull), (''mobileAreaNo'', JNull), (''nickname'', JStr []),
       (''obfuscatedMobile'', JNull),
       (''thirdLoginInfoList'', JList [JObj [(''accountType'', JStr ''WeChat''), (''hasBind'', JStr ''N'')]]),
       (''uid'', usr_userid u), (''userName'', usr_username u),
       (''userShowName'', usr_username u)])"

definition agreements :: "api \<Rightarrow> json" where
  "agreements A =
     (let domain = ''https://'' @ DOMAIN_SEC3 (ap_cfg A) @ ''/content/agreement'' in
      JList [
        JObj [
          (''force'', JStr ''N''),
          (''id'', JStr ''20180804040641_7d746faf18b8cb22a50d145598fe4c90''),
          (''type'', JStr ''USER''),
          (''url'', JStr (domain @ ''?id=20180804040641_7d746faf18b8cb22a50d145598fe4c90&language=EN'')),
          (''version'', JStr ''1.01''), (''acceptTime'', JInt 1681542128770)],
        JObj [
          (''force'', JStr ''N''),
          (''id'', JStr ''20180804040245_4e7c56dfb7ebd3b81b1f2747d0859fac''),
          (''type'', JStr ''PRIVACY''),
          (''url'', JStr (domain @ ''?id=20180804040245_4e7c56dfb7ebd3b81b1f2747d0859fac&language=EN'')),
          (''version'', JStr ''1.01''), (''acceptTime'', JInt 1681542128770)]])"

definition handle_check_agreement :: "api \<Rightarrow> request \<Rightarrow> response" where
  "handle_check_agreement A rq = response_success_v1 (ap_load_ms A)
     (if contains ''global_'' (rq_info_or rq ''apptype'' []) then agreements A else JList [])"

definition handle_get_member_info :: "api \<Rightarrow> request \<Rightarrow> (app, response) py" where
  "handle_get_member_info A rq =
     (let user_id = rq_get rq ''uid'' in
      py_bind (if truthy user_id
               then web_run (db_gets (user_get_by_id (ap_store A) (ap_cfg A) user_id)) else py_ret None) (\<lambda>user.
      let user_name = (case user of None \<Rightarrow> JStr (USER_USERNAME_DEFAULT (ap_cfg A)) | Some u \<Rightarrow> usr_username u) in
      py_ret (response_success_v1 (ap_load_ms A)
       (JObj [
          (''name'', JStr ''smart eco''), (''memberNo'', JStr (''1337.'' @ py_str user_name)),
          (''userName'', user_name), (''integral'', JNull), (''exp'', JNull),
          (''headIco'', JNull), (''nickName'', JStr (USER_NICKNAME_DEFAULT (ap_cfg A))),
          (''mobile'', JNull), (''email'', JStr (USER_MAIL_DEFAULT (ap_cfg A))),
          (''isMember'', JNull), (''slogan'', JNull), (''sloganUrl'', JNull),
          (''expUpNeed'', JNull), (''userlevel'', JNull), (''userlevelName'', JStr ''default''),
          (''levelList'', JNull)]))))"

definition handle_basic_info :: "api \<Rightarrow> request \<Rightarrow> (app, response) py" where
  "handle_basic_info A rq = for_user A rq (\<lambda>u.
     let frozen_integral_desc = ''The points will be credited to your member account 20 days after the payment of the order.'' in
     JObj [
       (''availableGeneralIntegral'', JInt 9999), (''availableLimitedIntegral'', JInt 0),
       (''benefitList'', JList []), (''expiringLimitedPointExplain'', JNull),
       (''expiringLimitedPointShowDesc'', JNull), (''expiringLimitedPoints'', JNull),
       (''expiringPointDesc'', JNull), (''expiringPointExplain'', JNull),
       (''expiringPoints'', JNull), (''frozenIntegral'', JInt 0),
       (''frozenIntegralDesc'', JStr (frozen_integral_desc)),
       (''goodsDetailIntegralDesc'', JStr ''Redeem points for discounts!''),
       (''integral'', JInt 9999),
       (''integralDescWapUrl'', JStr (''https://'' @ DOMAIN_SEC3 (ap_cfg A) @ ''/web/page?no=jusapxaw'')),
       (''isCountryOpen'', JStr ''Y''), (''isLimitedIntegralOpen'', JStr ''N''),
       (''isMember'', JStr ''Y''), (''level'', JInt 1),
       (''levelIconUrl'', JStr (''https://'' @ DOMAIN_SEC2 (ap_cfg A) @ ''/public/221027/f187b4b72f434fcc9eae655dbb389ac7.png'')),
       (''levelName'', JStr ''VIP1''),
       (''memberDescWapUrl'', JStr (''https://'' @ DOMAIN_SEC4 (ap_cfg A) @ ''/DE/EN/content/description'')),
       (''remainingDay'', JNull), (''shoppingGetIntegralShowDesc'', JNull),
       (''shoppingGetIntegraltimes'', JNull), (''shoppingGetIntegraltimesShowDesc'', JNull),
       (''shoppingGetIntegraltimesUp'', JNull), (''shoppingGetIntegraltimesUpShowDesc'', JNull),
       (''signStatus'', JStr ''SIGN''), (''userHeadImg'', JNull),
       (''userShowName'', usr_username u)])"

definition handle_get_user_config :: "api \<Rightarrow> request \<Rightarrow> (app, response) py" where
  "handle_get_user_config A rq = for_user A rq (\<lambda>u.
     JObj [
       (''saTraceConfig'', JObj [
         (''collectionStatus'', JStr ''DISABLED''), (''isTrace'', JStr ''N''),
         (''saUserId'', usr_userid u),
         (''serverUrl'', JStr (''https://'' @ DOMAIN_SEC5 (ap_cfg A) @ ''/sa?project=production''))])])"

section \<open>Configuration\<close>

definition config_value :: "api \<Rightarrow> string \<Rightarrow> py_exc + string" where
  "config_value A key =
     (if key = ''PUBLIC.KEY.CONFIG'' then
        res_bind (ap_public_key A) (\<lambda>k. Inr (json_dumps (JObj [(''publicKey'', JStr k)])))
      else Inr
       (if key = ''EMAIL.REGISTER.CONFIG'' then json_dumps (JObj [(''needVerify'', JStr ''N'')])
        else if key = ''OPEN.APP.CERTIFICATE.CONFIG'' then
          json_dumps (JObj [(''ISO27001'', JStr ''ENABLED''), (''TUV'', JStr ''ENABLED'')])
        else if key = ''USER.DATA.COLLECTION'' then ''N''
        else if key = ''USER.DEVICE.LIST.CONFIG'' then json_dumps (JObj [(''showFlag'', JStr ''N'')])
        else if key = ''PRIVACY.CONFIG'' then json_dumps (JList
          [JObj [(''key'', JStr ''PERSONAL_INFO_SHARING''), (''status'', JStr ''DISABLED''), (''url'', JStr [])],
           JObj [(''key'', JStr ''THIRD_PARTY_SDK''), (''status'', JStr ''DISABLED''), (''url'', JStr [])]])
        else if key = ''FIND.PASSWORD.FAQ.CONF'' then ''https://gl-US-wap.ecovacs.com/web/page?no=qp8mz4iv''
        else if key = ''PASSWORD.STRENGTH.URL'' then ''https://gl-de-wap.ecovacs.com/web/page?no=4vkpuvpy''
        else if key = ''SUGGESTION.DEFAULT.FLAG'' then ''Y''
        else ''Y''))"

definition config_entry :: "api \<Rightarrow> string \<Rightarrow> py_exc + json" where
  "config_entry A key =
     res_bind (config_value A key) (\<lambda>v. Inr (JObj [(''key'', JStr key), (''value'', JStr v)]))"

definition handle_get_config :: "api \<Rightarrow> request \<Rightarrow> (app, response) py" where
  "handle_get_config A rq = app_guarded
     (case map_of (rq_query rq) ''keys'' of
        None \<Rightarrow> py_raise KeyError
      | Some keys \<Rightarrow>
          py_bind (py_of (res_map (config_entry A) (py_split (CHR '','') keys))) (\<lambda>data.
            py_ret (response_success_v1 (ap_load_ms A) (JList data))))"

definition handle_get_areas :: "api \<Rightarrow> (app, response) py" where
  "handle_get_areas A = app_guarded
     (py_bind (py_of (get_common_area A)) (\<lambda>d. py_ret (response_success_v1 (ap_load_ms A) (JObj d))))"

definition handle_get_timestamp :: "api \<Rightarrow> response" where
  "handle_get_timestamp A =
     (let time = ap_ms A in response_success_v1 time (JObj [(''timestamp'', JInt time)]))"

definition exp_of_scene :: "string \<Rightarrow> json \<times> json" where
  "exp_of_scene scene =
     (if scene = ''GLOBALAPP_REGULATE_DEEBOT_SUCTION'' then
        (JInt 0, JStr ''Task DEEBOT Perform suction power setting, +0'')
      else if scene = ''GLOBALAPP_REGULATE_DEEBOT_WATER'' then
        (JInt 0, JStr ''Perform task DEEBOT water flow rate, +0'')
      else if scene = ''GLOBALAPP_TIMING_OF_CONSUMABLES'' then
        (JInt 0, JStr ''Perform Display accessory usage task, +0'')
      else if scene = ''GLOBALAPP_VIRTUAL_WALL_MANAGEMENT'' then
        (JInt 0, JStr ''Perform task Manage DEEBOT Virtual Walls, +0'')
      else if scene \<in> {''GLOBALAPP_MACHINE_RENAME'', ''GLOBALAPP_AREA_CATE_RENAME'',
          ''GLOBALAPP_FIRST_SET_PERSONAL_CLEAN_MODULE'', ''GLOBALAPP_SHOW_CLEAN_LOG'',
          ''GLOBALAPP_USE_HELP_CENTER'', ''GLOBALAPP_USE_SIDE_FILTER''} then (JInt 0, JStr '':P, +0'')
      else (JNull, JNull))"

definition handle_get_exp_by_scene :: "api \<Rightarrow> request \<Rightarrow> response" where
  "handle_get_exp_by_scene A rq =
     (case exp_of_scene (rq_get_or rq ''scene'' []) of (get_point, prompt) \<Rightarrow>
        response_success_v1 (ap_load_ms A) (JObj [(''completeList'', JList [JObj
          [(''getExp'', JInt 0), (''getPoint'', get_point), (''only'' @ ''Once'', JStr ''N''), (''prompt'', prompt)]])]))"

definition handle_get_country_config :: "api \<Rightarrow> request \<Rightarrow> response" where
  "handle_get_country_config A rq = response_success_v1 (ap_load_ms A) (JObj
     [(''defaultLang'', JStr (map upper_char (rq_info_or rq ''country'' ''EN''))),
      (''openNative'', JStr ''Y''), (''wapMallUrl'', JStr [])])"

end
