(* ===== verification/Single_Paths.thy ===== *)
theory Single_Paths
  imports Api_Private
begin

text \<open>
  The handlers of single paths (src/bumper/web/single_paths.py) and the web proxy
  (src/bumper/web/server.py). The archive of certificates is its list of members; md5, gzip
  and the writing of the archive are arguments.
\<close>

section \<open>The certificate archive\<close>

datatype cert_read = Cert_Bytes string | Cert_Missing | Cert_Unreadable

record cert_env =
  ce_read :: "string \<Rightarrow> cert_read"
  ce_original :: string
  ce_md5 :: "string \<Rightarrow> string"
  ce_write_ok :: bool

datatype file_answer = Archive "(string \<times> string) list" | Plain_Text nat string

text \<open>\<open>_get_ca_cert\<close>: the status and the text of the HTTP exception it raises, or the bytes.\<close>

definition get_ca_cert :: "cert_env \<Rightarrow> string \<Rightarrow> (nat \<times> string) + string" where
  "get_ca_cert C path =
     (case ce_read C path of
        Cert_Bytes b \<Rightarrow> Inr b
      | Cert_Missing \<Rightarrow> Inl (404, ''CA cert file not found: '' @ path)
      | Cert_Unreadable \<Rightarrow> Inl (500, ''500: Internal Server Error''))"

definition ends_with :: "string \<Rightarrow> string \<Rightarrow> bool" where
  "ends_with s p = suffix p s"

definition ca_bundle :: "config \<Rightarrow> cert_env \<Rightarrow> (nat \<times> string) + string" where
  "ca_bundle cfg C =
     (case get_ca_cert C (ca_cert cfg) of
        Inl e \<Rightarrow> Inl e
      | Inr cert_bumper \<Rightarrow>
          if CA_CERT_API_ONLY_BUMPER_CERT cfg then Inr cert_bumper
          else (case get_ca_cert C (ce_original C) of
              Inl e \<Rightarrow> Inl e
            | Inr certs_ecovacs \<Rightarrow>
                Inr ((if ends_with cert_bumper [CHR 0x0A] then cert_bumper else cert_bumper @ [CHR 0x0A]) @ certs_ecovacs)))"

definition create_ca_tar_file :: "config \<Rightarrow> cert_env \<Rightarrow> (nat \<times> string) + (string \<times> string) list" where
  "create_ca_tar_file cfg C =
     (case ca_bundle cfg C of
        Inl e \<Rightarrow> Inl e
      | Inr cert_result \<Rightarrow>
          if \<not> ce_write_ok C then Inl (500, ''500: Internal Server Error'')
          else Inr [(''ca-certificates/ca-certificates.crt'', cert_result),
                    (''ca-certificates/MD5SUMS'', ce_md5 C cert_result @ [CHR 0x0A])])"

text \<open>The state is the archive on disk; it is built once and served from then on.\<close>

definition handle_ca_certificates ::
    "config \<Rightarrow> cert_env \<Rightarrow> (string \<times> string) list option \<Rightarrow> file_answer \<times> (string \<times> string) list option" where
  "handle_ca_certificates cfg C archive =
     (case archive of
        Some members \<Rightarrow> (Archive members, archive)
      | None \<Rightarrow>
          (case create_ca_tar_file cfg C of
             Inl (status, text) \<Rightarrow> (Plain_Text status text, None)
           | Inr members \<Rightarrow> (Archive members, Some members)))"

section \<open>Login and lookup\<close>

definition handle_new_auth :: "api \<Rightarrow> request \<Rightarrow> (app, response) py" where
  "handle_new_auth A rq = app_guarded
     (py_bind (body_dict rq) (\<lambda>post_body.
      if dget_or post_body ''todo'' (JStr []) = JStr ''OLoginByITToken'' then web_run (get_new_auth (ap_env A) rq)
      else py_ret (response_error_v2 ''Error request, unknown todo'' ERR_UNKNOWN_TODO)))"

definition lookup_answer :: "api \<Rightarrow> doc \<Rightarrow> response" where
  "lookup_answer A post_body =
     (let service = dget_or post_body ''service'' (JStr []) in
      if dget_or post_body ''todo'' (JStr []) = JStr ''FindBest'' \<and> service = JStr ''EcoMsgNew'' then
        TextResponse (py_replace '' '' [] (json_dumps (JObj
          [(''ip'', JStr (bumper_announce_ip (ap_cfg A))), (''port'', JInt (XMPP_LISTEN_PORT_TLS (ap_cfg A))),
           (''result'', JStr ''ok'')])))
      else if dget_or post_body ''todo'' (JStr []) = JStr ''FindBest'' \<and> service = JStr ''EcoUpdate'' then
        JsonResponse (JObj [(''result'', JStr ''ok''), (''ip'', JStr (ECOVACS_UPDATE_SERVER (ap_cfg A))),
          (''port'', JInt (ECOVACS_UPDATE_SERVER_PORT (ap_cfg A)))])
      else JsonResponse (JObj []))"

definition handle_lookup :: "api \<Rightarrow> request \<Rightarrow> (app, response) py" where
  "handle_lookup A rq = app_guarded
     (py_bind (py_of (rq_body rq)) (\<lambda>body.
      py_bind (py_of (as_dict_value body)) (\<lambda>post_body. py_ret (lookup_answer A post_body))))"

definition handle_config_android_conf :: response where
  "handle_config_android_conf = JsonResponse (JObj
     [(''v'', JStr ''v1''), (''configs'', JObj [(''disableSDK'', JBool False), (''disableDebugMode'', JBool False)])])"

definition handle_data_collect :: response where
  "handle_data_collect = JsonResponse JNull"

text \<open>The decoded data is only logged, but data that cannot be decoded is answered with status 500.\<close>

definition handle_sa :: "api \<Rightarrow> (string \<Rightarrow> py_exc + string) \<Rightarrow> request \<Rightarrow> (app, response) py" where
  "handle_sa A gunzip rq = app_guarded
     (py_seq
       (if DEBUG_LOGGING_SA_RESULT (ap_cfg A) then
          py_bind (py_of (rq_body rq)) (\<lambda>body.
          py_bind (py_of (as_dict_value body)) (\<lambda>post_body.
          case dget post_body ''data_list'' of
            JStr data_list \<Rightarrow>
              if py_str (dget_or post_body ''gzip'' (JInt 0)) = ''1'' then
                py_bind (py_of (b64decode data_list)) (\<lambda>d.
                py_bind (py_of (gunzip d)) (\<lambda>t.
                py_bind (py_of (utf8_decode t)) (\<lambda>_. py_ret ())))
              else py_ret ()
          | _ \<Rightarrow> py_ret ()))
        else py_ret ())
       (py_ret (JsonResponse JNull)))"

definition single_codepush_update_check :: "api \<Rightarrow> request \<Rightarrow> (app, response) py" where
  "single_codepush_update_check A rq =
     py_bind (py_of (get_codepush_update_check_data A rq)) (\<lambda>data. py_ret (JsonResponse data))"

section \<open>The web proxy\<close>

text \<open>A URL is its host, the text before the query, and the rest.\<close>

record url =
  url_host :: "string option"
  url_base :: string
  url_rest :: string

definition allowed_hosts :: "string list" where
  "allowed_hosts = [''ecouser.net'', ''ecovacs.com'']"

definition validate_and_sanitize_url :: "url \<Rightarrow> py_exc + string" where
  "validate_and_sanitize_url u =
     (case url_host u of
        None \<Rightarrow> Inl ValueError
      | Some h \<Rightarrow> if h \<in> set allowed_hosts then Inr (url_base u) else Inl ValueError)"

text \<open>
  What the server behind the proxy answers: content type, status and text. The body of the
  request is read first, as a form or as JSON; \<open>sent\<close> is what the proxy passes on.
\<close>

record upstream =
  up_type :: string
  up_status :: nat
  up_text :: string

record proxy_env =
  px_url :: "request \<Rightarrow> url"
  px_raw_path :: "request \<Rightarrow> string"
  px_has_body :: "request \<Rightarrow> bool"
  px_request :: "string \<Rightarrow> json \<Rightarrow> json \<Rightarrow> py_exc + upstream"

definition proxy_body :: "proxy_env \<Rightarrow> request \<Rightarrow> py_exc + json \<times> json" where
  "proxy_body P rq =
     (if \<not> px_has_body P rq then Inr (JNull, JNull)
      else (case rq_form rq of
          Some f \<Rightarrow> Inr (JObj (fields_doc f), JNull)
        | None \<Rightarrow> res_bind (rq_json rq) (\<lambda>j. Inr (JNull, j))))"

definition proxy_pass :: "proxy_env \<Rightarrow> request \<Rightarrow> py_exc + response" where
  "proxy_pass P rq =
     res_bind (proxy_body P rq) (\<lambda>(data, json_data).
     res_bind (validate_and_sanitize_url (px_url P rq)) (\<lambda>validated_url.
     res_bind (px_request P validated_url data json_data) (\<lambda>resp.
       Inr (StatusResponse 200 (up_text resp)))))"

definition handle_proxy :: "api \<Rightarrow> proxy_env \<Rightarrow> (app, response) py \<Rightarrow> request \<Rightarrow> (app, response) py" where
  "handle_proxy A P handle_base rq = app_guarded
     (if px_raw_path P rq = ''/'' then handle_base
      else if px_raw_path P rq = ''/lookup.do'' then handle_lookup A rq
      else py_of (proxy_pass P rq))"

end
