(* ===== verification/Web_Server.thy ===== *)
theory Web_Server
  imports MQTT_Server
begin

text \<open>
  The web server as an object (src/bumper/web/server.py): its sites, their start and shutdown,
  the directories it serves, and the icon and images it sends as files. The runners of aiohttp,
  the TLS context and the sockets are parameters; a runner is known by its binding and how far
  it came.
\<close>

section \<open>Directories and files\<close>

definition resolve_path :: "(string \<Rightarrow> bool) \<Rightarrow> string \<Rightarrow> string \<Rightarrow> string \<Rightarrow> string" where
  "resolve_path there dir package folder =
     (let path = path_join (path_join (path_join dir ''bumper'') ''web'') folder in
      if there path then path else path_join package folder)"

text \<open>\<open>get_bot_image_path\<close>, in the directory of its module.\<close>

definition get_bot_image_path :: "string \<Rightarrow> string" where
  "get_bot_image_path static_dir = path_join static_dir ''robotvac_image.jpg''"

datatype sent_file = Sent_File string

definition get_bot_image :: "string \<Rightarrow> sent_file" where
  "get_bot_image static_dir = Sent_File (get_bot_image_path static_dir)"

text \<open>An exception of the test for existence counts as absence.\<close>

definition check_file_exists :: "(string \<Rightarrow> py_exc + bool) \<Rightarrow> string \<Rightarrow> bool" where
  "check_file_exists probe f = (case probe f of Inr b \<Rightarrow> b | Inl _ \<Rightarrow> False)"

definition handle_favicon :: "(string \<Rightarrow> py_exc + bool) \<Rightarrow> string \<Rightarrow> py_exc + sent_file" where
  "handle_favicon probe package =
     (let favicon_path = path_join package ''static_web/favicon.ico'' in
      if \<not> check_file_exists probe favicon_path then Inl (HTTPException 500)
      else Inr (Sent_File favicon_path))"

section \<open>The sites\<close>

record runner =
  ru_binding :: mqtt_binding
  ru_set_up :: bool
  ru_listens :: bool

record web_server =
  ws_bindings :: "mqtt_binding list"
  ws_proxy :: bool
  ws_runners :: "runner list"

text \<open>What aiohttp and ssl answer: the certificate with its key and the authority, a port.\<close>

record sites =
  st_set_up :: "mqtt_binding \<Rightarrow> py_exc + unit"
  st_tls :: "string \<Rightarrow> string \<Rightarrow> string \<Rightarrow> py_exc + unit"
  st_listen :: "mqtt_binding \<Rightarrow> py_exc + unit"
  st_stop :: "mqtt_binding \<Rightarrow> py_exc + unit"
  st_app_down :: "py_exc + unit"

definition WebServer :: "mqtt_binding list \<Rightarrow> bool \<Rightarrow> web_server" where
  "WebServer bindings proxy_mode = \<lparr>ws_bindings = bindings, ws_proxy = proxy_mode, ws_runners = []\<rparr>"

definition add_runner :: "mqtt_binding \<Rightarrow> (web_server, unit) py" where
  "add_runner b = py_modify (\<lambda>w. w\<lparr>ws_runners := ws_runners w @ [\<lparr>ru_binding = b, ru_set_up = False, ru_listens = False\<rparr>]\<rparr>)"

definition on_runner :: "(runner \<Rightarrow> runner) \<Rightarrow> (web_server, unit) py" where
  "on_runner f = py_modify (\<lambda>w. w\<lparr>ws_runners := butlast (ws_runners w) @ [f (last (ws_runners w))]\<rparr>)"

definition start_site :: "sites \<Rightarrow> config \<Rightarrow> mqtt_binding \<Rightarrow> (web_server, unit) py" where
  "start_site V c b =
     py_seq (add_runner b)
    (py_seq (py_of (st_set_up V b))
    (py_seq (on_runner (ru_set_up_update (\<lambda>_. True)))
    (py_seq (py_of (if mb_ssl b then st_tls V (server_cert c) (server_key c) (ca_cert c) else Inr ()))
    (py_seq (py_of (st_listen V b))
            (on_runner (ru_listens_update (\<lambda>_. True)))))))"

definition web_server_start :: "sites \<Rightarrow> config \<Rightarrow> (web_server, unit) py" where
  "web_server_start V c = py_bind (py_gets ws_bindings) (\<lambda>bs. py_for bs (start_site V c))"

definition web_server_shutdown :: "sites \<Rightarrow> (web_server, unit) py" where
  "web_server_shutdown V =
     py_bind (py_gets ws_runners) (\<lambda>rs.
     py_seq (py_for rs (\<lambda>r. py_of (st_stop V (ru_binding r))))
    (py_seq (py_modify (\<lambda>w. w\<lparr>ws_runners := []\<rparr>)) (py_of (st_app_down V))))"

section \<open>Laws\<close>

text \<open>The first error of a binding, and the runner that opens its port or stops at the error.\<close>

definition site_error :: "sites \<Rightarrow> config \<Rightarrow> mqtt_binding \<Rightarrow> py_exc option" where
  "site_error V c b =
     (case res_bind (st_set_up V b) (\<lambda>_.
           res_bind (if mb_ssl b then st_tls V (server_cert c) (server_key c) (ca_cert c) else Inr ()) (\<lambda>_. st_listen V b)) of
        Inl e \<Rightarrow> Some e
      | Inr _ \<Rightarrow> None)"

definition listening :: "mqtt_binding \<Rightarrow> runner" where
  "listening b = \<lparr>ru_binding = b, ru_set_up = True, ru_listens = True\<rparr>"

definition stopped_at :: "sites \<Rightarrow> mqtt_binding \<Rightarrow> runner" where
  "stopped_at V b = \<lparr>ru_binding = b, ru_set_up = (st_set_up V b = Inr ()), ru_listens = False\<rparr>"

lemma start_site_run:
  "start_site V c b w =
     (case site_error V c b of
        None \<Rightarrow> (Inr (), w\<lparr>ws_runners := ws_runners w @ [listening b]\<rparr>)
      | Some e \<Rightarrow> (Inl e, w\<lparr>ws_runners := ws_runners w @ [stopped_at V b]\<rparr>))"
  by (auto simp: start_site_def add_runner_def on_runner_def site_error_def listening_def stopped_at_def py_run
      res_bind_def split: sum.splits if_splits)

lemma start_sites_run:
  "py_for bs (start_site V c) w =
     (case dropWhile (\<lambda>b. site_error V c b = None) bs of
        [] \<Rightarrow> (Inr (), w\<lparr>ws_runners := ws_runners w @ map listening bs\<rparr>)
      | b # later \<Rightarrow> (Inl (the (site_error V c b)),
          w\<lparr>ws_runners := ws_runners w @ map listening (takeWhile (\<lambda>b. site_error V c b = None) bs) @ [stopped_at V b]\<rparr>))"
proof (induction bs arbitrary: w)
  case Nil
  then show ?case by (simp add: py_run)
next
  case (Cons b bs)
  then show ?case
    by (cases "site_error V c b"; cases "dropWhile (\<lambda>b. site_error V c b = None) bs")
      (simp_all add: py_seq_def py_bind_def start_site_run del: dropWhile_eq_Nil_conv)
qed

text \<open>The ports are opened in order; the first failure keeps the ports before it open and its
  own runner for the shutdown, and no later binding is tried.\<close>

lemma web_server_start_run:
  "web_server_start V c w =
     (case dropWhile (\<lambda>b. site_error V c b = None) (ws_bindings w) of
        [] \<Rightarrow> (Inr (), w\<lparr>ws_runners := ws_runners w @ map listening (ws_bindings w)\<rparr>)
      | b # later \<Rightarrow> (Inl (the (site_error V c b)),
          w\<lparr>ws_runners := ws_runners w @
            map listening (takeWhile (\<lambda>b. site_error V c b = None) (ws_bindings w)) @ [stopped_at V b]\<rparr>))"
  unfolding web_server_start_def py_bind_def py_gets_def
  by (simp add: start_sites_run)

text \<open>After a shutdown without an exception, or when every runner can be stopped, no runner is left.\<close>

definition sites_stop :: "sites \<Rightarrow> bool" where
  "sites_stop V \<longleftrightarrow> (\<forall>b. st_stop V b = Inr ())"

lemma stop_run: "sites_stop V \<Longrightarrow> py_for rs (\<lambda>r. py_of (st_stop V (ru_binding r))) w = (Inr (), w)"
  by (induction rs) (simp_all add: py_run sites_stop_def)

lemma web_server_shutdown_runners:
  assumes "web_server_shutdown V w = (r, w')" "sites_stop V \<or> r = Inr ()"
  shows "ws_runners w' = []"
proof (cases "py_for (ws_runners w) (\<lambda>r. py_of (st_stop V (ru_binding r))) w")
  case (Pair q v)
  then show ?thesis
    using assms stop_run [of V "ws_runners w" w]
    by (cases q) (auto simp: web_server_shutdown_def py_bind_def py_seq_def py_gets_def py_modify_def py_of_def)
qed

end
