(* ===== verification/Services.thy ===== *)
theory Services
  imports Single_Paths Web_Server
begin

text \<open>
  The life of the program (src/bumper/__init__.py) and the restart of its services
  (src/bumper/web/web_paths.py). The database is one; a component that works on it is given
  its current content and its result is kept. The MQTT broker is known by the name of its
  state: what its operations and the passing of time make of that state are arguments, as
  are the generation of the certificates and the opening of the ports. \<open>pr_xmpp_server\<close> says
  that the XMPP server has opened its port once.
\<close>

record program =
  pr_cfg :: config
  pr_mig :: mig_state
  pr_mqtt :: "string option"
  pr_mqtt_bindings :: "mqtt_binding list"
  pr_helper :: "helper option"
  pr_web :: "web_server option"
  pr_xmpp :: "xmpp option"
  pr_xmpp_server :: bool
  pr_shutting_down :: bool

abbreviation pr_db :: "program \<Rightarrow> db" where "pr_db p \<equiv> mig_db (pr_mig p)"

definition put_db :: "db \<Rightarrow> program \<Rightarrow> program" where
  "put_db d p = p\<lparr>pr_mig := (pr_mig p)\<lparr>mig_db := d\<rparr>\<rparr>"

record services =
  sv_env :: env
  sv_certs :: "py_exc + unit"
  sv_ts :: "nat \<Rightarrow> string"
  sv_start :: "string \<Rightarrow> py_exc + string"
  sv_shutdown :: "string \<Rightarrow> py_exc + string"
  sv_settle :: "string \<Rightarrow> string"
  sv_listen :: "py_exc + unit"
  sv_sites :: sites
  sv_valid_ip :: "string \<Rightarrow> bool"

section \<open>The MQTT broker\<close>

text \<open>\<open>MQTTServer.start\<close> and \<open>shutdown\<close>: the calls of MQTT_Server on the state of the broker.\<close>

definition mqtt_start :: "services \<Rightarrow> string \<Rightarrow> py_exc + string" where
  "mqtt_start S state =
     (let seen = (if state = ''stopping'' then sv_settle S state else state) in
      case server_start state seen of None \<Rightarrow> Inr seen | Some _ \<Rightarrow> sv_start S seen)"

definition mqtt_shutdown :: "services \<Rightarrow> string \<Rightarrow> py_exc + string" where
  "mqtt_shutdown S state =
     (let seen = (if state \<in> {''starting'', ''stopping''} then sv_settle S state else state) in
      case server_shutdown state seen of None \<Rightarrow> Inr seen | Some _ \<Rightarrow> sv_shutdown S seen)"

text \<open>\<open>wait_for_state_change(s)\<close> returns at once in the wanted state and after a bounded time otherwise.\<close>

definition await_state :: "services \<Rightarrow> string \<Rightarrow> string \<Rightarrow> string" where
  "await_state S desired state = (if state = desired then state else sv_settle S state)"

definition set_mqtt_state :: "string \<Rightarrow> (program, unit) py" where
  "set_mqtt_state st = py_modify (\<lambda>p. p\<lparr>pr_mqtt := Some st\<rparr>)"

section \<open>Restart\<close>

definition restart_helper_bot :: "(program, bool) py" where
  "restart_helper_bot p =
     (case pr_helper p of
        None \<Rightarrow> (Inr False, p)
      | Some h \<Rightarrow> (Inr True, p\<lparr>pr_helper := Some (hb_start (hb_disconnect h))\<rparr>))"

definition restart_mqtt_server :: "services \<Rightarrow> (program, bool) py" where
  "restart_mqtt_server S =
     py_bind (py_gets pr_mqtt) (\<lambda>server.
     case server of
       None \<Rightarrow> py_ret False
     | Some st0 \<Rightarrow>
         py_bind (py_of (mqtt_shutdown S st0)) (\<lambda>st1. let st2 = await_state S ''stopped'' st1 in
         py_seq (set_mqtt_state st2)
         (if st2 \<noteq> ''stopped'' then py_ret False
          else py_bind (py_of (mqtt_start S st2)) (\<lambda>st3. let st4 = await_state S ''started'' st3 in
            py_seq (set_mqtt_state st4) (py_ret (st4 = ''started''))))))"

definition xmpp_disconnect :: "services \<Rightarrow> (program, unit) py" where
  "xmpp_disconnect S p =
     (case pr_xmpp p of
        None \<Rightarrow> (Inr (), p)
      | Some x \<Rightarrow>
          (case server_disconnect (sv_env S) (x\<lparr>xs_db := pr_db p\<rparr>) of
             (r, x') \<Rightarrow> (r, (put_db (xs_db x') p)\<lparr>pr_xmpp := Some x'\<rparr>)))"

definition xmpp_start :: "services \<Rightarrow> (program, unit) py" where
  "xmpp_start S =
     py_seq (py_of (sv_listen S)) (py_modify (\<lambda>p. p\<lparr>pr_xmpp_server := True\<rparr>))"

definition status_answer :: "string \<Rightarrow> response" where
  "status_answer t = JsonResponse (JObj [(''status'', JStr t)])"

definition handle_restart_service :: "services \<Rightarrow> request \<Rightarrow> (program, response) py" where
  "handle_restart_service S rq = py_try
     (let service = rq_info_or rq ''service'' [] in
      if service = ''Helperbot'' then
        py_bind restart_helper_bot (\<lambda>ok. py_ret (status_answer (if ok then ''complete'' else ''failed'')))
      else if service = ''MQTTServer'' then
        py_bind (restart_mqtt_server S) (\<lambda>ok. py_ret (status_answer (if ok then ''complete'' else ''failed'')))
      else py_bind (py_gets pr_xmpp) (\<lambda>x.
        if service = ''XMPPServer'' \<and> x \<noteq> None then
          py_seq (xmpp_disconnect S) (py_seq (xmpp_start S) (py_ret (status_answer ''complete'')))
        else py_ret (status_answer ''invalid service'')))
     (\<lambda>_. py_raise (HTTPException 500))"

section \<open>Configuration and start\<close>

definition mqtt_bindings :: "config \<Rightarrow> mqtt_binding list" where
  "mqtt_bindings c =
     [\<lparr>mb_host = bumper_listen c, mb_port = MQTT_LISTEN_PORT_TLS c, mb_ssl = True\<rparr>,
      \<lparr>mb_host = bumper_listen c, mb_port = MQTT_LISTEN_PORT c, mb_ssl = False\<rparr>]"

definition web_bindings :: "config \<Rightarrow> mqtt_binding list" where
  "web_bindings c =
     [\<lparr>mb_host = bumper_listen c, mb_port = WEB_SERVER_TLS_LISTEN_PORT c, mb_ssl = True\<rparr>,
      \<lparr>mb_host = bumper_listen c, mb_port = WEB_SERVER_LISTEN_PORT c, mb_ssl = False\<rparr>]"

definition create_servers :: "program \<Rightarrow> program" where
  "create_servers p = p
     \<lparr>pr_mqtt := Some ''new'',
      pr_mqtt_bindings := mqtt_bindings (pr_cfg p),
      pr_helper := Some (hb_init (pr_db p)),
      pr_web := Some (WebServer (web_bindings (pr_cfg p)) (BUMPER_PROXY_WEB (pr_cfg p))),
      pr_xmpp := Some (xmpp_init (pr_db p)), pr_xmpp_server := False\<rparr>"

definition reset_connections :: "store_ops \<Rightarrow> db \<Rightarrow> db" where
  "reset_connections D db = client_reset_all_connections D (bot_reset_all_connections D db)"

definition start_configuration :: "services \<Rightarrow> (program, unit) py" where
  "start_configuration S =
     py_bind (py_gets pr_cfg) (\<lambda>c.
     if bumper_listen c = [] then py_raise ValueError
     else
       py_seq (py_of (sv_certs S))
       (py_seq (py_zoom pr_mig (\<lambda>m p. p\<lparr>pr_mig := m\<rparr>)
           (migrate_db (e_store (sv_env S)) (APP_VERSION c) (db_file c) (sv_ts S)))
       (py_seq (py_modify (\<lambda>p. put_db (reset_connections (e_store (sv_env S)) (pr_db p)) p))
         (py_modify create_servers))))"

text \<open>
  Waiting in a loop for a condition: the number of rounds, or nothing when the loop never
  ends. \<open>f\<close> is what the loop sees in each round.
\<close>

partial_function (option) poll :: "(nat \<Rightarrow> bool) \<Rightarrow> nat \<Rightarrow> nat option" where
  "poll f n = (if f n then Some n else poll f (Suc n))"

declare poll.simps [code]

text \<open>
  \<open>states\<close> and \<open>connected\<close> are what the two loops of the start see. The web server opens its
  sites in a task of its own, which a failure ends.
\<close>

definition web_start :: "services \<Rightarrow> program \<Rightarrow> program" where
  "web_start S p =
     (case pr_web p of
        None \<Rightarrow> p
      | Some w \<Rightarrow> p\<lparr>pr_web := Some (snd (web_server_start (sv_sites S) (pr_cfg p) w))\<rparr>)"

definition start_service ::
    "services \<Rightarrow> (nat \<Rightarrow> string) \<Rightarrow> (nat \<Rightarrow> bool) \<Rightarrow> program \<Rightarrow> ((py_exc + unit) \<times> program) option" where
  "start_service S states connected p =
     (let p = (if pr_xmpp p \<noteq> None then snd (xmpp_start S p) else p) in
      case pr_mqtt p of
        None \<Rightarrow> Some (Inr (), web_start S p)
      | Some st \<Rightarrow>
          (case mqtt_start S st of
             Inl e \<Rightarrow> Some (Inl e, p)
           | Inr _ \<Rightarrow>
               (case poll (\<lambda>n. states n = ''started'') 0 of
                  None \<Rightarrow> None
                | Some n \<Rightarrow>
                    (let p = p\<lparr>pr_mqtt := Some (states n)\<rparr> in
                     case pr_helper p of
                       None \<Rightarrow> Some (Inr (), web_start S p)
                     | Some h \<Rightarrow>
                         (case poll connected 0 of
                            None \<Rightarrow> None
                          | Some _ \<Rightarrow> Some (Inr (), web_start S
                              (p\<lparr>pr_helper := Some (hb_session_open (hb_start h))\<rparr>)))))))"

section \<open>Maintenance and shutdown\<close>

text \<open>One round of the maintenance loop for each moment; the loop ends once the program shuts down.\<close>

fun maintenance :: "services \<Rightarrow> datetime list \<Rightarrow> program \<Rightarrow> program" where
  "maintenance S [] p = p"
| "maintenance S (now # later) p =
     (if pr_shutting_down p then p
      else maintenance S later (put_db (token_revoke_expired (e_store (sv_env S)) now (pr_db p)) p))"

text \<open>
  The shutdown: the helper bot, the web server, the broker once its state is stable, the
  XMPP server when it has a port. An exception of one ends the
  shutdown. \<open>states\<close> is what the wait for a stable broker sees.
\<close>

definition shutdown_mqtt :: "services \<Rightarrow> (nat \<Rightarrow> string) \<Rightarrow> program \<Rightarrow> ((py_exc + unit) \<times> program) option" where
  "shutdown_mqtt S states p =
     (case pr_mqtt p of
        None \<Rightarrow> Some (Inr (), p)
      | Some _ \<Rightarrow>
          (case poll (\<lambda>n. states n \<notin> {''starting'', ''stopping''}) 0 of
             None \<Rightarrow> None
           | Some n \<Rightarrow>
               if states n = ''started'' then
                 (case mqtt_shutdown S (states n) of
                    Inl e \<Rightarrow> Some (Inl e, p)
                  | Inr st \<Rightarrow> Some (Inr (), p\<lparr>pr_mqtt := Some st\<rparr>))
               else Some (Inr (), p\<lparr>pr_mqtt := Some (states n)\<rparr>)))"

definition shutdown_web :: "services \<Rightarrow> (program, unit) py" where
  "shutdown_web S p =
     (case pr_web p of
        None \<Rightarrow> (Inr (), p)
      | Some w \<Rightarrow> (case web_server_shutdown (sv_sites S) w of (r, w) \<Rightarrow> (r, p\<lparr>pr_web := Some w\<rparr>)))"

definition shutdown_program :: "services \<Rightarrow> (nat \<Rightarrow> string) \<Rightarrow> program \<Rightarrow> ((py_exc + unit) \<times> program) option" where
  "shutdown_program S states p =
     (case shutdown_web S (p\<lparr>pr_shutting_down := True, pr_helper := map_option hb_disconnect (pr_helper p)\<rparr>) of
        (Inl e, p) \<Rightarrow> Some (Inl e, p)
      | (Inr _, p) \<Rightarrow>
          (case shutdown_mqtt S states p of
             Some (Inr _, p) \<Rightarrow>
               Some (if pr_xmpp p \<noteq> None \<and> pr_xmpp_server p then xmpp_disconnect S p else (Inr (), p))
           | r \<Rightarrow> r))"

section \<open>The command line\<close>

record cli_args =
  arg_listen :: "string option"
  arg_announce :: "string option"
  arg_debug_level :: "string option"
  arg_debug_verbose :: "int option"

text \<open>The arguments argparse yields; an empty text or the number 0 counts as not given.\<close>

definition given :: "string option \<Rightarrow> string \<Rightarrow> string" where
  "given a old = (case a of None \<Rightarrow> old | Some v \<Rightarrow> if v = [] then old else v)"

definition read_args :: "cli_args \<Rightarrow> config \<Rightarrow> config" where
  "read_args a c = c
     \<lparr>debug_bumper_level := given (arg_debug_level a) (debug_bumper_level c),
      debug_bumper_verbose := (case arg_debug_verbose a of None \<Rightarrow> debug_bumper_verbose c
        | Some v \<Rightarrow> if v = 0 then debug_bumper_verbose c else v),
      bumper_listen := given (arg_listen a) (bumper_listen c),
      bumper_announce_ip := given (arg_announce a) (bumper_announce_ip c)\<rparr>"

text \<open>
  \<open>start\<close> logs an exception and returns; the life ends with the shutdown in every case.
  \<open>rounds\<close> are the moments of the maintenance rounds before the program is told to end.
\<close>

definition start :: "services \<Rightarrow> (nat \<Rightarrow> string) \<Rightarrow> (nat \<Rightarrow> bool) \<Rightarrow> datetime list \<Rightarrow> program \<Rightarrow> program option" where
  "start S states connected rounds p =
     (case start_configuration S p of
        (Inl _, p) \<Rightarrow> Some p
      | (Inr _, p) \<Rightarrow>
          (case start_service S states connected p of
             None \<Rightarrow> None
           | Some (Inl _, p) \<Rightarrow> Some p
           | Some (Inr _, p) \<Rightarrow> Some (maintenance S rounds p)))"

definition lifecycle ::
    "services \<Rightarrow> cli_args \<Rightarrow> (nat \<Rightarrow> string) \<Rightarrow> (nat \<Rightarrow> bool) \<Rightarrow> datetime list \<Rightarrow> (nat \<Rightarrow> string) \<Rightarrow> program
       \<Rightarrow> ((py_exc + unit) \<times> program) option" where
  "lifecycle S args states connected rounds at_end p =
     (let p = p\<lparr>pr_cfg := read_args args (pr_cfg p)\<rparr>;
          q = (if sv_valid_ip S (bumper_listen (pr_cfg p)) then start S states connected rounds p else Some p) in
      case q of None \<Rightarrow> None | Some p \<Rightarrow> shutdown_program S at_end p)"

end
