(* ===== verification/Web_Paths.thy ===== *)
theory Web_Paths
  imports Services
begin

text \<open>
  The pages of the administration interface (src/bumper/web/web_paths.py): the contexts the
  templates are rendered with, the pages of the cleaning logs and the removal of records.
  Rendering is the template engine's.
\<close>

section \<open>Contexts\<close>

definition bot_context :: "vac_bot \<Rightarrow> json" where
  "bot_context b = JObj
     [(''name'', bot_name b), (''nick'', bot_nick b), (''did'', bot_did b), (''class_id'', bot_class_id b),
      (''resource'', bot_resource b), (''company'', bot_company b),
      (''mqtt_connection'', bot_mqtt_connection b), (''xmpp_connection'', bot_xmpp_connection b)]"

definition client_context :: "vac_client \<Rightarrow> json" where
  "client_context c = JObj
     [(''name'', cl_name c), (''userid'', cl_userid c), (''realm'', cl_realm c), (''resource'', cl_resource c),
      (''mqtt_connection'', cl_mqtt_connection c), (''xmpp_connection'', cl_xmpp_connection c)]"

definition user_context :: "bumper_user \<Rightarrow> json" where
  "user_context u = JObj
     [(''username'', usr_username u), (''userid'', usr_userid u), (''devices'', usr_devices u)]"

text \<open>\<open>strftime("%Y-%m-%d %H:%M")\<close>; a time stamp of 0 or none at all shows nothing.\<close>

definition minute_text :: "datetime \<Rightarrow> string" where
  "minute_text t = pad 4 (year t) @ ''-'' @ pad 2 (month t) @ ''-'' @ pad 2 (day t) @ '' '' @
     pad 2 (hour t) @ '':'' @ pad 2 (minute t)"

definition ts_text :: "api \<Rightarrow> json \<Rightarrow> json" where
  "ts_text A ts = (case ts of JInt i \<Rightarrow> if i = 0 then JNull else JStr (minute_text (ap_local A (i * 1000))) | _ \<Rightarrow> JNull)"

definition log_context :: "api \<Rightarrow> clean_log \<Rightarrow> json" where
  "log_context A l = JObj
     [(''clean_log_id'', log_id l), (''did'', log_did l), (''cid'', log_cid l),
      (''area'', py_or (log_area l) (JInt 0)), (''stop_reason'', log_stop_reason l),
      (''last'', py_or (log_last l) (JInt 0)), (''ts'', ts_text A (log_ts l)), (''type'', log_type l)]"

definition log_less :: "clean_log \<Rightarrow> clean_log \<Rightarrow> bool option" where
  "log_less a b = pair_less (log_ts a, log_did a) (log_ts b, log_did b)"

text \<open>\<open>xs[offset : offset + limit]\<close>; negative numbers count from the end, as in any slice.\<close>

definition page_of :: "int \<Rightarrow> int \<Rightarrow> 'a list \<Rightarrow> 'a list" where
  "page_of offset limit xs = py_slice offset (offset + limit) xs"

definition page_number :: "request \<Rightarrow> string \<Rightarrow> int \<Rightarrow> py_exc + int" where
  "page_number rq k d = (case map_of (rq_query rq) k of None \<Rightarrow> Inr d | Some s \<Rightarrow> py_int (JStr s))"

definition clean_logs_context :: "api \<Rightarrow> int \<Rightarrow> int \<Rightarrow> clean_log list \<Rightarrow> doc" where
  "clean_logs_context A offset limit logs =
     [(''count'', JInt (int (length logs))),
      (''clean_logs'', JList (map (log_context A) (page_of offset limit logs))),
      (''offset'', JInt offset), (''limit'', JInt limit),
      (''has_next'', JBool (offset + limit < int (length logs))), (''has_prev'', JBool (0 < offset))]"

definition get_clean_logs_context :: "api \<Rightarrow> request \<Rightarrow> (web, doc) py" where
  "get_clean_logs_context A rq =
     py_bind (py_of (page_number rq ''offset'' 0)) (\<lambda>offset.
     py_bind (py_of (page_number rq ''limit'' 5)) (\<lambda>limit.
     py_bind (db_try (clean_log_list_all (ap_store A))) (\<lambda>logs.
     py_bind (py_of (sort_desc log_less logs)) (\<lambda>sorted_logs.
       py_ret (clean_logs_context A offset limit sorted_logs)))))"

text \<open>The services as the status page shows them; a session is its user name, client id and state.\<close>

record status_env =
  se_sessions :: "(json \<times> json \<times> json) list"
  se_serving :: bool

definition session_context :: "json \<times> json \<times> json \<Rightarrow> json" where
  "session_context s = (case s of (username, client_id, state) \<Rightarrow>
     JObj [(''username'', username), (''client_id'', client_id), (''state'', state)])"

definition server_status_context :: "status_env \<Rightarrow> program \<Rightarrow> doc" where
  "server_status_context V p =
     [(''mqtt_server'', JObj
        [(''state'', JStr (case pr_mqtt p of None \<Rightarrow> ''offline'' | Some st \<Rightarrow> st)),
         (''sessions'', JObj [(''clients'',
            JList (if pr_mqtt p = None then [] else map session_context (se_sessions V)))])]),
      (''xmpp_server'', JObj
        [(''state'', JStr (if pr_xmpp p = None then ''offline''
            else if pr_xmpp_server p \<and> se_serving V then ''running'' else ''stopped'')),
         (''sessions'', JObj [(''clients'', JList (case pr_xmpp p of None \<Rightarrow> []
            | Some x \<Rightarrow> map (\<lambda>n. JObj (xclient_to_dict (xs_obj x n))) (xs_clients x)))])]),
      (''helperbot'', JObj
        [(''state'', case pr_helper p of None \<Rightarrow> JStr ''offline'' | Some h \<Rightarrow> JBool (hb_connected h))])]"

definition base_context :: "config \<Rightarrow> doc" where
  "base_context c =
     [(''app_version'', JStr (APP_VERSION c)), (''github_repo'', JStr (GITHUB_REPO c)),
      (''github_release'', JStr (GITHUB_RELEASE c))]"

definition get_context :: "api \<Rightarrow> status_env \<Rightarrow> program \<Rightarrow> request \<Rightarrow> string \<Rightarrow> (web, doc) py" where
  "get_context A V p rq template_name =
     (if template_name = ''server_status'' then py_ret (server_status_context V p)
      else if template_name = ''bots'' then
        py_bind (db_gets (bot_list_all (ap_store A))) (\<lambda>xs. py_ret [(''bots'', JList (map bot_context xs))])
      else if template_name = ''clients'' then
        py_bind (db_gets (client_list_all (ap_store A))) (\<lambda>xs. py_ret [(''clients'', JList (map client_context xs))])
      else if template_name = ''users'' then
        py_bind (db_gets (user_list_all (ap_store A) (ap_cfg A))) (\<lambda>xs. py_ret [(''users'', JList (map user_context xs))])
      else if template_name = ''clean_logs'' then get_clean_logs_context A rq
      else py_ret (base_context (ap_cfg A)))"

text \<open>A page is the template and the context it is rendered with.\<close>

definition handle_partial :: "api \<Rightarrow> status_env \<Rightarrow> program \<Rightarrow> request \<Rightarrow> string \<Rightarrow> (web, string \<times> doc) py" where
  "handle_partial A V p rq template_name = guarded
     (py_bind (get_context A V p rq template_name) (\<lambda>context.
       py_ret (''partials/'' @ template_name @ ''.jinja2'', context)))"

fun merge_contexts :: "api \<Rightarrow> status_env \<Rightarrow> program \<Rightarrow> request \<Rightarrow> string list \<Rightarrow> doc \<Rightarrow> (web, doc) py" where
  "merge_contexts A V p rq [] context = py_ret context"
| "merge_contexts A V p rq (t # ts) context =
     py_bind (get_context A V p rq t) (\<lambda>c. merge_contexts A V p rq ts (dupdate context c))"

definition handle_base :: "api \<Rightarrow> status_env \<Rightarrow> program \<Rightarrow> request \<Rightarrow> (web, string \<times> doc) py" where
  "handle_base A V p rq = guarded
     (py_bind (merge_contexts A V p rq ([] # [''server_status'', ''bots'', ''clients'', ''users'', ''clean_logs'']) [])
       (\<lambda>context. py_ret (''home.jinja2'', context)))"

section \<open>Removal\<close>

definition removed_answer :: "string \<Rightarrow> bool \<Rightarrow> response" where
  "removed_answer entity_type left =
     status_answer ((if left then ''failed to remove '' else ''successfully removed '') @ entity_type)"

text \<open>
  What \<open>_handle_remove_entity\<close> selects for a type of record: the name of the path variable,
  the removal and whether the record can still be read.
\<close>

definition entity_ops ::
    "api \<Rightarrow> string \<Rightarrow> (string \<times> (json \<Rightarrow> db \<Rightarrow> db) \<times> (json \<Rightarrow> db \<Rightarrow> py_exc + bool)) option" where
  "entity_ops A entity_type = (let D = ap_store A in map_of
     [(''bot'', (''did'', bot_remove D, \<lambda>i db. Inr (bot_get D i db \<noteq> None))),
      (''client'', (''userid'', client_remove D, \<lambda>i db. Inr (client_get D i db \<noteq> None))),
      (''user'', (''userid'', user_remove D, \<lambda>i db. Inr (user_get_by_id D (ap_cfg A) i db \<noteq> None))),
      (''clean_log'', (''clean_log_id'', clean_log_remove_by_id D,
         \<lambda>i db. res_bind (clean_log_list_by_id D i db) (\<lambda>l. Inr (l \<noteq> None))))] entity_type)"

definition remove_all_logs :: "api \<Rightarrow> (web, response) py" where
  "remove_all_logs A =
     py_seq (db_do (clean_log_clear (ap_store A)))
     (py_bind (db_try (clean_log_list_all (ap_store A))) (\<lambda>left.
       py_ret (removed_answer ''clean_logs'' (left \<noteq> []))))"

text \<open>Without an id the removal is called without its argument, which raises.\<close>

definition handle_remove_entity :: "api \<Rightarrow> string \<Rightarrow> request \<Rightarrow> (web, response) py" where
  "handle_remove_entity A entity_type rq = guarded
     (if entity_type = ''clean_logs'' then remove_all_logs A
      else (case entity_ops A entity_type of
          None \<Rightarrow> py_ret (status_answer (''not implemented for '' @ entity_type))
        | Some (param, remove, present) \<Rightarrow>
            let entity_id = rq_info rq param in
            if \<not> truthy entity_id then py_raise TypeError
            else py_seq (db_do (remove entity_id))
              (py_bind (db_try (present entity_id)) (\<lambda>left. py_ret (removed_answer entity_type left)))))"

end
