(* ===== verification/Static_Api.thy ===== *)
theory Static_Api
  imports Web_Paths
begin

text \<open>
  The handlers of the plugins under src/bumper/web/plugins/api and the single paths
  that do not read the request: the answer is a literal, up to the domains of the
  configuration and the current time.
\<close>

section \<open>plugins/api/appsvr.py\<close>

definition appsvr_improve_accept_answer :: "api \<Rightarrow> response" where
  "appsvr_improve_accept_answer _ =
     JsonResponse (JObj [(''code'', JInt 0)])"

definition appsvr_improve_user_accept_answer :: "api \<Rightarrow> response" where
  "appsvr_improve_user_accept_answer _ =
     JsonResponse (JObj [(''code'', JInt 0), (''data'', JObj [(''accept'', JBool False)])])"

definition appsvr_notice_home_answer :: "api \<Rightarrow> response" where
  "appsvr_notice_home_answer _ =
     success_v2 (JObj [])"

definition appsvr_notice_list_answer :: "api \<Rightarrow> response" where
  "appsvr_notice_list_answer _ =
     success_v2 (JObj [])"

definition appsvr_ota_firmware_answer :: "api \<Rightarrow> response" where
  "appsvr_ota_firmware_answer _ =
     JsonResponse (JObj [(''code'', JInt (- 1)), (''message'', JStr ''No upgrades at this time'')])"

definition appsvr_device_blacklist_check_answer :: "api \<Rightarrow> response" where
  "appsvr_device_blacklist_check_answer _ =
     success_v3 (JList [])"

section \<open>plugins/api/content.py\<close>

definition content_content_agreement_answer :: "api \<Rightarrow> response" where
  "content_content_agreement_answer A =
     response_success_v1 (ap_load_ms A) (JNull)"

section \<open>plugins/api/ecms.py\<close>

definition ecms_ad_res_answer :: "api \<Rightarrow> response" where
  "ecms_ad_res_answer _ =
     response_success_v3 0 (JList []) ''data'' ''success'' ''message'' (JStr ''ok'') None True"

definition ecms_push_event_answer :: "api \<Rightarrow> response" where
  "ecms_push_event_answer _ =
     response_success_v3 0 (JStr ''ok'') ''data'' ''success'' ''message'' (JStr ''ok'') None True"

definition ecms_user_theme_answer :: "api \<Rightarrow> response" where
  "ecms_user_theme_answer _ =
     response_success_v3 0 JNull ''data'' ''success'' ''message'' (JStr ''ok'') None True"

section \<open>plugins/api/microservice-recomend.py\<close>

definition microservice_recomend_user_reminder_result_answer :: "api \<Rightarrow> response" where
  "microservice_recomend_user_reminder_result_answer _ =
     response_success_v3 0 JNull ''data'' ''success'' ''message'' (JStr ''ok'') None True"

section \<open>plugins/api/neng.py\<close>

definition neng_has_unread_message_answer :: "api \<Rightarrow> response" where
  "neng_has_unread_message_answer _ =
     success_v4 (JObj [(''hasUnRead'', JBool False), (''shareMsgUnRead'', JBool False)])"

definition neng_get_share_msgs_answer :: "api \<Rightarrow> response" where
  "neng_get_share_msgs_answer _ =
     success_v4 (JObj [(''hasNext'', JBool False), (''msgs'', JList [])])"

definition neng_get_list_answer :: "api \<Rightarrow> response" where
  "neng_get_list_answer _ =
     success_v4 (JObj [(''hasNext'', JBool False), (''msgs'', JList [])])"

definition neng_read_answer :: "api \<Rightarrow> response" where
  "neng_read_answer _ =
     plain_success JNull"

definition neng_v2_message_push_answer :: "api \<Rightarrow> response" where
  "neng_v2_message_push_answer _ =
     response_success_v3 0 (JStr ''success'') ''data'' ([]) ''message'' (JStr ''ok'') (Some ''ret'') False"

definition neng_v3_latest_by_did_answer :: "api \<Rightarrow> response" where
  "neng_v3_latest_by_did_answer _ =
     success_v3 (JList [])"

definition neng_v3_message_list_answer :: "api \<Rightarrow> response" where
  "neng_v3_message_list_answer _ =
     success_v3 (JList [])"

definition neng_v3_product_msg_tabs_answer :: "api \<Rightarrow> response" where
  "neng_v3_product_msg_tabs_answer _ =
     success_v3 (JList [
         JObj [(''code'', JStr ''evt''), (''name'', JStr ''Work messages'')],
         JObj [(''code'', JStr ''error''), (''name'', JStr ''Malfunction messages'')]])"

definition neng_v3_share_msg_has_unread_msg_answer :: "api \<Rightarrow> response" where
  "neng_v3_share_msg_has_unread_msg_answer _ =
     success_v3 (JObj [(''count'', JInt 0), (''unRead'', JBool False)])"

section \<open>plugins/api/notice.py\<close>

definition notice_notice_app_answer :: "api \<Rightarrow> response" where
  "notice_notice_app_answer _ =
     success_v4 (JObj [])"

section \<open>plugins/api/photo.py\<close>

definition photo_photo_list_answer :: "api \<Rightarrow> response" where
  "photo_photo_list_answer _ =
     response_success_v3 0 JNull ''data'' ''success'' ''message'' (JStr ''ok'') None True"

section \<open>plugins/api/pim/consumable.py\<close>

definition consumable_get_purchase_url_answer :: "api \<Rightarrow> response" where
  "consumable_get_purchase_url_answer A =
     (let desc_side_brush = ''Dual Side Brushes can collect dust and send it to the Main Brush, so as to better clean the corners. In the process of cleaning, the Side Brush may get entangled with hair. Please remove the hair with the multi-function cleaning tool promptly. To get the best cleaning experience, it is recommended to change the Side Brush every 150 hours of work or less.  If you wish to purchase our special multi-function cleaning tool, visit our store online or in the ECOVACS HOME App.'' in
     let desc_main_brush = ''Main Brush is the main cleaning component of DEEBOT, which can pick up debris on the floor and send it to the Dust Bin. In the process of cleaning, the Main Brush may be tangled with hair. Please remove the hair with the multi-function cleaning tool promptly. To get the best cleaning experience, it is recommended to change the Main Brush every 300 hours of cleaning or less. If you wish to purchase our special multi-function cleaning tool, visit our store online or in the ECOVACS HOME App.'' in
     let desc_filter = ''When DEEBOT is cleaning, the filter can effectively prevent the dust in the Dust Bin from escaping. With an increase in cleaning duration, dust may gradually block the filter and affect cleaning efficiency. Rinse the filter with water and dry it thoroughly every two weeks. It is recommended to change the filter every 120 hours of cleaning or less.'' in
     let desc_dust_bag = ''The Dust Bag is an accessory for the Station; it is recommended to use it with a station that supports Auto-Empty feature. When cleaning is complete, DEEBOT will return to the Station and automatically empty the Dust Bin, saving you time and effort. To get the best cleaning experience, it is recommended to regularly replace the Dust Bag and clean the Dust Bag Cabin once a month.'' in
     let desc_disposable_cleaning_cloth = ''DEEBOT is compatible with a Disposable Cleaning Cloth for mopping, which is easy to apply and dispose of, does not need to be washed, and prevents the breeding of bacteria from prolonged storage of a damp cloth. To get the best cleaning experience, it is recommended to dispose of the Disposable Cleaning Cloth every time after mopping.'' in
     let desc_other_components = ''1. DEEBOT Maintenance: After DEEBOT has been working for a while, components will be contaminated with dust, hair and other debris, which will reduce cleaning efficiency. It is recommended to wipe up the dust with a dry cloth and remove the hair with the multi-function cleaning tool every 30 hours of cleaning or less. For more information, please refer to the instruction manual.  If you wish to purchase our special multi-function cleaning tool, visit our store online or in the ECOVACS HOME App.'' in
     let desc_air_freshener_capsule = ''DEEBOT can diffuse fragrance via Air Freshener while cleaning. To get the best air freshening experience, it is recommended to change the Air Freshening Capsule every 60 hours or less.'' in
     response_success_v3 0 (JList [
         JObj [
           (''id'', JStr ''62df48fe55e82d6b346214d9''), (''name'', JStr ''Side Brush''),
           (''icon'', JStr (''https://'' @ DOM_SUB_PORT (ap_cfg A) @ ''/api/pim/file/get/61a5f036ed50344bd5b52819'')),
           (''url'', JStr []), (''paramType'', JStr ''URL''), (''type'', JStr ''sideBrush''),
           (''sort'', JInt 0),
           (''desc'', JObj [
             (''images'', JList [
               JStr (''https://'' @ DOM_SUB_PORT (ap_cfg A) @ ''/api/pim/file/get/61d65a53a95a16082ef62b75''),
               JStr (''https://'' @ DOM_SUB_PORT (ap_cfg A) @ ''/api/pim/file/get/61d65a5370c881b5d965ebd6'')]),
             (''content'', JStr (desc_side_brush))]),
           (''hasLifeSpan'', JInt 0)],
         JObj [
           (''id'', JStr ''62df495e176a4d3d8780acdc''), (''name'', JStr ''Main Brush''),
           (''icon'', JStr (''https://'' @ DOM_SUB_PORT (ap_cfg A) @ ''/api/pim/file/get/61a5f0a45afd254c7a5c6959'')),
           (''url'', JStr []), (''paramType'', JStr ''URL''), (''type'', JStr ''brush''),
           (''sort'', JInt 1),
           (''desc'', JObj [
             (''images'', JList [
               JStr (''https://'' @ DOM_SUB_PORT (ap_cfg A) @ ''/api/pim/file/get/61d65a6470c881359c65ebd7''),
               JStr (''https://'' @ DOM_SUB_PORT (ap_cfg A) @ ''/api/pim/file/get/61d65a649d1b811cd1574677'')]),
             (''content'', JStr (desc_main_brush))]),
           (''hasLifeSpan'', JInt 0)],
         JObj [
           (''id'', JStr ''6284c3c0dd78021dc557ffbe''), (''name'', JStr ''Filter''),
           (''icon'', JStr (''https://'' @ DOM_SUB_PORT (ap_cfg A) @ ''/api/pim/file/get/61a5f0e472e3052928c1160a'')),
           (''url'', JStr []), (''paramType'', JStr ''URL''), (''type'', JStr ''heap''),
           (''sort'', JInt 2),
           (''desc'', JObj [
             (''images'', JList [
               JStr (''https://'' @ DOM_SUB_PORT (ap_cfg A) @ ''/api/pim/file/get/61d65a77843b5ac787b74e36''),
               JStr (''https://'' @ DOM_SUB_PORT (ap_cfg A) @ ''/api/pim/file/get/61d65a77fd39e41ee3132ded'')]),
             (''content'', JStr (desc_filter))]),
           (''hasLifeSpan'', JInt 0)],
         JObj [
           (''id'', JStr ''62df49bb55e82d2a2c6214de''), (''name'', JStr ''Dust Bag''),
           (''icon'', JStr (''https://'' @ DOM_SUB_PORT (ap_cfg A) @ ''/api/pim/file/get/61a5f1fded5034391bb5281a'')),
           (''url'', JStr []), (''paramType'', JStr ''URL''), (''type'', JStr ''dustBag''),
           (''sort'', JInt 3),
           (''desc'', JObj [
             (''images'', JList [
               JStr (''https://'' @ DOM_SUB_PORT (ap_cfg A) @ ''/api/pim/file/get/61d65a889ee4d3820c02cd71''),
               JStr (''https://'' @ DOM_SUB_PORT (ap_cfg A) @ ''/api/pim/file/get/61d65a8870c88178a665ebd8'')]),
             (''content'', JStr (desc_dust_bag))]),
           (''hasLifeSpan'', JInt 0)],
         JObj [
           (''id'', JStr ''6284c3c6dd7802847257ffc3''),
           (''name'', JStr ''Disposable Cleaning Cloth''),
           (''icon'', JStr (''https://'' @ DOM_SUB_PORT (ap_cfg A) @ ''/api/pim/file/get/61d6592cfe802336b9d12e7d'')),
           (''url'', JStr []), (''paramType'', JStr ''URL''), (''type'', JStr ''oneTimeCloth''),
           (''sort'', JInt 5),
           (''desc'', JObj [
             (''images'', JList [
               JStr (''https://'' @ DOM_SUB_PORT (ap_cfg A) @ ''/api/pim/file/get/61d659c89ee4d39fc802cd6d''),
               JStr (''https://'' @ DOM_SUB_PORT (ap_cfg A) @ ''/api/pim/file/get/61d659c8843b5a8597b74e35'')]),
             (''content'', JStr (desc_disposable_cleaning_cloth))]),
           (''hasLifeSpan'', JInt 0)],
         JObj [
           (''id'', JStr ''6284c3c9dd78023a6057ffc5''), (''name'', JStr ''Other Components''),
           (''icon'', JStr (''https://'' @ DOM_SUB_PORT (ap_cfg A) @ ''/api/pim/file/get/61a5f38172e305764bc1160c'')),
           (''url'', JStr []), (''paramType'', JStr ''URL''), (''type'', JStr ''unitCare''),
           (''sort'', JInt 6),
           (''desc'', JObj [
             (''images'', JList [
               JStr (''https://'' @ DOM_SUB_PORT (ap_cfg A) @ ''/api/pim/file/get/61d65aa4fd39e4647a132dee''),
               JStr (''https://'' @ DOM_SUB_PORT (ap_cfg A) @ ''/api/pim/file/get/61d65aa470c88112d965ebd9''),
               JStr (''https://'' @ DOM_SUB_PORT (ap_cfg A) @ ''/api/pim/file/get/61d65aa4fe80236a34d12e7f''),
               JStr (''https://'' @ DOM_SUB_PORT (ap_cfg A) @ ''/api/pim/file/get/61d65aa4fd39e448e0132def''),
               JStr (''https://'' @ DOM_SUB_PORT (ap_cfg A) @ ''/api/pim/file/get/61d65aa4843b5a5049b74e37''),
               JStr (''https://'' @ DOM_SUB_PORT (ap_cfg A) @ ''/api/pim/file/get/61d65aa470c881c28865ebda''),
               JStr (''https://'' @ DOM_SUB_PORT (ap_cfg A) @ ''/api/pim/file/get/61d65aa470c8814e1c65ebdb''),
               JStr (''https://'' @ DOM_SUB_PORT (ap_cfg A) @ ''/api/pim/file/get/629471d79dbd618f3fbb501e'')]),
             (''content'', JStr (desc_other_components))]),
           (''hasLifeSpan'', JInt 0)],
         JObj [
           (''id'', JStr ''6284c3ccdd78024ea157ffc7''),
           (''name'', JStr ''Air Freshener Capsule''),
           (''icon'', JStr (''https://'' @ DOM_SUB_PORT (ap_cfg A) @ ''/api/pim/file/get/61d659e6fd39e48ab8132dec'')),
           (''url'', JStr []), (''paramType'', JStr ''URL''), (''type'', JStr ''dModule''),
           (''sort'', JInt 7),
           (''desc'', JObj [
             (''images'', JList [
               JStr (''https://'' @ DOM_SUB_PORT (ap_cfg A) @ ''/api/pim/file/get/61d659fa9ee4d3154402cd6e''),
               JStr (''https://'' @ DOM_SUB_PORT (ap_cfg A) @ ''/api/pim/file/get/61d659fa9ee4d345dd02cd6f'')]),
             (''content'', JStr (desc_air_freshener_capsule))]),
           (''hasLifeSpan'', JInt 0)]]) ''data'' ''success'' (''msg'') (JStr ''ok'') (Some ''ret'') False)"

section \<open>plugins/api/pim/voice.py\<close>

definition voice_download_answer :: "api \<Rightarrow> response" where
  "voice_download_answer _ =
     response_success_v3 0 JNull (''voices'') ''success'' ''message'' (JStr ''ok'') (Some ''ret'') False"

section \<open>plugins/api/rapp.py\<close>

definition rapp_map_get_answer :: "api \<Rightarrow> response" where
  "rapp_map_get_answer _ =
     plain_success (JObj [(''data'', JObj [(''name'', JStr ''My Home'')]), (''tag'', JNull)])"

definition rapp_user_data_del_answer :: "api \<Rightarrow> response" where
  "rapp_user_data_del_answer _ =
     plain_success JNull"

definition rapp_user_data_list_answer :: "api \<Rightarrow> response" where
  "rapp_user_data_list_answer A =
     plain_success (JList [
         JObj [
           (''key'', JStr ''iwashere''), (''data'', JNull), (''createTime'', JInt (ap_ms A)),
           (''updateTime'', JInt (ap_ms A))]])"

section \<open>plugins/api/sds.py\<close>

definition sds_baidu_audio_getcred_answer :: "api \<Rightarrow> response" where
  "sds_baidu_audio_getcred_answer _ =
     response_success_v3 0 JNull ''data'' ''success'' ''message'' (JStr ''ok'') None True"

section \<open>single paths\<close>

definition single_paths_codepush_report_status_deploy_answer :: "api \<Rightarrow> response" where
  "single_paths_codepush_report_status_deploy_answer _ =
     response_success_v3 0 JNull ''data'' ''success'' (''msg'') (JStr ''ok'') None False"

definition single_paths_global_app_bury_point_api_answer :: "api \<Rightarrow> response" where
  "single_paths_global_app_bury_point_api_answer _ =
     JsonResponse (JObj [(''header'', JObj [(''result_code'', JStr ''000000'')]), (''body'', JObj [])])"

definition single_paths_global_app_bury_point_api_appevent_answer :: "api \<Rightarrow> response" where
  "single_paths_global_app_bury_point_api_appevent_answer _ =
     JsonResponse (JObj [(''header'', JObj [(''result_code'', JStr ''000000'')]), (''body'', JObj [])])"

definition single_paths_chat_bot_id_config_answer :: "api \<Rightarrow> response" where
  "single_paths_chat_bot_id_config_answer _ =
     response_success_v3 0 (JObj [
         (''chat_bot_id'', JStr ''yiko_full_stack_en''),
         (''introduction'', JStr ''Welcome to use the smart assistant''),
         (''lang'', JStr ''en'')]) ''data'' ''success'' (''msg'') (JStr ''ok'') (Some ''ret'') False"

end
