(* ===== verification/Static_Private.thy ===== *)
theory Static_Private
  imports Static_Api
begin

text \<open>
  The handlers of the private API (src/bumper/web/plugins/v1, v2)
  that do not read the request: the answer is a literal, up to the domains of the
  configuration and the current time.
\<close>

section \<open>plugins/v1/private/ad.py\<close>

definition ad_answer :: "api \<Rightarrow> response" where
  "ad_answer A =
     response_success_v1 (ap_load_ms A) (JNull)"

section \<open>plugins/v1/private/agreement.py\<close>

definition agreement_get_user_accept_info_answer :: "api \<Rightarrow> response" where
  "agreement_get_user_accept_info_answer A =
     (let domain = ''https://'' @ DOMAIN_SEC3 (ap_cfg A) @ ''/content/agreement'' in
     response_success_v1 (ap_load_ms A) (JObj [
         (''acceptList'', JList [
           JObj [
             (''acceptTime'', JInt 1681542125538), (''force'', JNull),
             (''id'', JStr ''20230403095818_78798528690d2307bd692c0b624909f9''),
             (''type'', JStr ''USER''), (''updateDesc'', JNull),
             (''url'', JStr (domain @ ''?id=20230403095818_78798528690d2307bd692c0b624909f9&language=EN'')),
             (''version'', JStr ''1.03'')],
           JObj [
             (''acceptTime'', JInt 1681542128770), (''force'', JNull),
             (''id'', JStr ''20230322085808_ff1bcf0d24ece3a37e3dac81b7e91733''),
             (''type'', JStr ''PRIVACY''), (''updateDesc'', JNull),
             (''url'', JStr (domain @ ''?id=20230322085808_ff1bcf0d24ece3a37e3dac81b7e91733&language=EN'')),
             (''version'', JStr ''1.07'')]]),
         (''newestList'', JList [
           JObj [
             (''acceptTime'', JNull), (''force'', JStr ''N''),
             (''id'', JStr ''20230403095818_78798528690d2307bd692c0b624909f9''),
             (''type'', JStr ''USER''), (''updateDesc'', JNull),
             (''url'', JStr (domain @ ''?id=20230403095818_78798528690d2307bd692c0b624909f9&language=EN'')),
             (''version'', JStr ''1.03'')],
           JObj [
             (''acceptTime'', JNull), (''force'', JStr ''N''),
             (''id'', JStr ''20230322085808_ff1bcf0d24ece3a37e3dac81b7e91733''),
             (''type'', JStr ''PRIVACY''), (''updateDesc'', JNull),
             (''url'', JStr (domain @ ''?id=20230322085808_ff1bcf0d24ece3a37e3dac81b7e91733&language=EN'')),
             (''version'', JStr ''1.07'')]])]))"

section \<open>plugins/v1/private/common.py\<close>

definition common_check_version_answer :: "api \<Rightarrow> response" where
  "common_check_version_answer A =
     response_success_v1 (ap_load_ms A) (JObj [
         (''c'', JNull), (''img'', JNull), (''r'', JInt 0), (''t'', JNull), (''u'', JNull),
         (''ut'', JInt 0), (''v'', JNull)])"

definition common_check_app_version_answer :: "api \<Rightarrow> response" where
  "common_check_app_version_answer A =
     response_success_v1 (ap_load_ms A) (JObj [
         (''c'', JNull), (''downPageUrl'', JNull), (''img'', JNull), (''nextAlertTime'', JNull),
         (''r'', JInt 0), (''t'', JNull), (''u'', JNull), (''ut'', JInt 0), (''v'', JNull)])"

definition common_upload_device_info_answer :: "api \<Rightarrow> response" where
  "common_upload_device_info_answer A =
     response_success_v1 (ap_load_ms A) (JObj [(''devicePushRegisterResult'', JStr ''N'')])"

definition common_get_system_reminder_answer :: "api \<Rightarrow> response" where
  "common_get_system_reminder_answer A =
     response_success_v1 (ap_load_ms A) (JObj [
         (''iosGradeTime'', JObj [(''iodGradeFlag'', JStr ''N'')]),
         (''openNotification'', JObj [
           (''openNotificationContent'', JNull), (''openNotificationFlag'', JStr ''N''),
           (''openNotificationTitle'', JNull)])])"

definition common_common_get_area_support_service_answer :: "api \<Rightarrow> response" where
  "common_common_get_area_support_service_answer A =
     response_success_v1 (ap_load_ms A) (JObj [(''isSelfHelpRepair'', JStr ''N'')])"

definition common_get_agreement_url_batch_answer :: "api \<Rightarrow> response" where
  "common_get_agreement_url_batch_answer A =
     (let domain = ''https://'' @ DOMAIN_SEC3 (ap_cfg A) @ ''/content/agreement'' in
     response_success_v1 (ap_load_ms A) (JList [
         JObj [
           (''id'', JStr ''20250123112347_96bf8aa2fe1f6e2659999dd5873b000a''),
           (''type'', JStr ''USER''), (''version'', JStr ''1.10''),
           (''url'', JStr (domain @ ''?id=20250123112347_96bf8aa2fe1f6e2659999dd5873b000a&language=EN'')),
           (''force'', JNull), (''acceptTime'', JNull), (''updateDesc'', JStr ''      '')],
         JObj [
           (''id'', JStr ''20250220115739_f6ae49bb83f9de656b0d458f1820580c''),
           (''type'', JStr ''PRIVACY''), (''version'', JStr ''1.10''),
           (''url'', JStr (domain @ ''?id=20250220115739_f6ae49bb83f9de656b0d458f1820580c&language=EN'')),
           (''force'', JNull), (''acceptTime'', JNull),
           (''updateDesc'', JStr (''This is a modified (bumper) version of the original application.'' @ [CHR 0x0A] @ '' Use at your own risk. No guarantees are made regarding data security,'' @ [CHR 0x0A] @ '' functionality, or privacy. By using this version, you accept full responsibility for any outcomes.''))]]))"

definition common_get_about_brief_item_answer :: "api \<Rightarrow> response" where
  "common_get_about_brief_item_answer A =
     response_success_v1 (ap_load_ms A) (JList [])"

definition common_get_bottom_navigate_info_list_answer :: "api \<Rightarrow> response" where
  "common_get_bottom_navigate_info_list_answer A =
     (let domain_01 = ''https://'' @ DOMAIN_SEC2 (ap_cfg A) @ ''/upload/global'' in
     let domain_02 = ''https://'' @ DOMAIN_SEC1 (ap_cfg A) @ ''/us'' in
     response_success_v1 (ap_load_ms A) (JList [
         JObj [
           (''bgImgUrl'', JNull),
           (''defaultImgUrl'', JStr (domain_01 @ ''/2023/05/09/20230509015020_b1503be93bea4cc11d75bf350f3c188d.png'')),
           (''iconId'', JStr ''20230509015048_e6d8aafd16e80fe0d3ec893be8f40b32''),
           (''iconName'', JStr ''Robot''), (''iconType'', JStr ''ROBOT''),
           (''lightImgUrl'', JStr (domain_01 @ ''/2023/05/09/20230509015024_8e854006dd2b049460c96dea89604909.png'')),
           (''lightNameRgb'', JStr ''#005EB8''), (''mediaType'', JNull),
           (''mediaUrl'', JStr ''NULL''), (''positionType'', JStr ''Robot''),
           (''tabItemActionUrl'', JNull)],
         JObj [
           (''bgImgUrl'', JNull),
           (''defaultImgUrl'', JStr (domain_01 @ ''/2023/05/09/20230509015030_13ea2faef0d0908af8a3a6486a678eef.png'')),
           (''iconId'', JStr ''20230509015048_fa825040a65166c17bafdadc718df095''),
           (''iconName'', JStr ''Store''), (''iconType'', JStr ''MALL''),
           (''lightImgUrl'', JStr (domain_01 @ ''/2023/05/09/20230509015033_9af971ffdf084a11b153fd3753418d92.png'')),
           (''lightNameRgb'', JStr ''#005EB8''), (''mediaType'', JNull),
           (''mediaUrl'', JStr ''NULL''), (''positionType'', JStr ''Store''),
           (''tabItemActionUrl'', JStr (domain_02 @ ''?utm_source=ecovacsGlobalApp&utm_medium=Appshopclick_US&utm_campaign=Menu_US''))],
         JObj [
           (''bgImgUrl'', JNull),
           (''defaultImgUrl'', JStr (domain_01 @ ''/2023/05/09/20230509015037_d8126eaa65d38935cbb6283cca2a0519.png'')),
           (''iconId'', JStr ''20230509015048_04732bdb41f45b3510e9fd0adc6dc008''),
           (''iconName'', JStr ''Mine''), (''iconType'', JStr ''MINE''),
           (''lightImgUrl'', JStr (domain_01 @ ''/2023/05/09/20230509015041_0e8b6fb3428ae8aac6a0c04a81e26525.png'')),
           (''lightNameRgb'', JStr ''#005EB8''), (''mediaType'', JNull),
           (''mediaUrl'', JStr ''NULL''), (''positionType'', JStr ''Mine''),
           (''tabItemActionUrl'', JNull)]]))"

definition common_get_current_area_support_service_info_answer :: "api \<Rightarrow> response" where
  "common_get_current_area_support_service_info_answer A =
     response_success_v1 (ap_load_ms A) (JObj [
         (''intlFeedbackStartInfo'', JObj [
           (''emailStartInfo'', JNull), (''feedbackType'', JNull), (''phoneStartInfo'', JNull),
           (''zendeskStartInfo'', JObj [
             (''appId'', JNull), (''clientId'', JNull),
             (''feedbackTags'', JList [JStr ''tag_area_de'']), (''jwtIdentity'', JNull),
             (''zendeskUrl'', JNull)])]),
         (''liveChatInfo'', JObj [
           (''accountKey'', JNull), (''email'', JNull), (''endTime'', JNull),
           (''isService'', JNull), (''isSupport'', JNull), (''name'', JNull),
           (''preChatFormMap'', JObj [
             (''emailStatus'', JStr ''0''), (''nameStatus'', JStr ''0''),
             (''phoneStatus'', JStr ''0'')]),
           (''serviceTimeEndStr'', JStr ''00:00''), (''serviceTimeStartStr'', JStr ''00:00''),
           (''serviceTimeStr'', JStr ''Hi, we have no working hours. You can checkout GitHub project page for more info.''),
           (''startTime'', JStr ''00:00'')]),
         (''officialWebSite'', JNull),
         (''phoneServiceInfo'', JObj [
           (''email'', JStr ''bumper@home.local''), (''phone'', JStr ''0000-0000000''),
           (''phoneAvailableTime'', JStr (''Monday-Friday 9 AM - 6 PM'' @ [CHR 0x0D] @ [CHR 0x0A] @ ''(Public holidays excepted)'')),
           (''phoneAvailable'', JStr ''N''),
           (''url'', JStr (''https://'' @ DOMAIN_SEC (ap_cfg A)))]),
         (''salesforceLiveChat'', JNull),
         (''emailInfo'', JObj [(''isSupport'', JStr ''N''), (''email'', JStr ''bumper@home.local'')])])"

section \<open>plugins/v1/private/discover.py\<close>

definition discover_get_label_list_answer :: "api \<Rightarrow> response" where
  "discover_get_label_list_answer A =
     response_success_v1 (ap_load_ms A) (JNull)"

definition discover_get_all_info_page_answer :: "api \<Rightarrow> response" where
  "discover_get_all_info_page_answer A =
     response_success_v1 (ap_load_ms A) (JNull)"

section \<open>plugins/v1/private/help.py\<close>

definition help_get_help_index_answer :: "api \<Rightarrow> response" where
  "help_get_help_index_answer A =
     response_success_v1 (ap_load_ms A) (JObj [
         (''indexProductList'', JList [
           JObj [
             (''imgUrl'', JStr (''https://'' @ DOM_SUB_PORT (ap_cfg A) @ ''/api/pim/api/pim/file/get/5cf711aeb0acfc000179ff8a'')),
             (''isConfNet'', JStr ''Y''), (''marketName'', JStr ''DEEBOT OZMO/PRO 930 Series''),
             (''materialNo'', JStr ''110-1602-0101''), (''model'', JStr ''DR930''),
             (''productId'', JStr ''20200115064102_59428181dfdcae88ea5b745415e30d37'')],
           JObj [
             (''imgUrl'', JStr (''https://'' @ DOM_SUB_PORT (ap_cfg A) @ ''/api/pim/api/pim/file/get/606278df4a84d700082b39f1'')),
             (''isConfNet'', JStr ''Y''), (''marketName'', JStr ''DEEBOT OZMO 950 Series''),
             (''materialNo'', JStr ''110-1820-0101''), (''model'', JStr ''DX9G''),
             (''productId'', JStr ''20200115064101_c871daa7c1cb74f447d4fcdb38040eaf'')],
           JObj [
             (''imgUrl'', JStr (''https://'' @ DOM_SUB_PORT (ap_cfg A) @ ''/api/pim/api/pim/file/get/61f0ba7970c881c6bf65ec3d'')),
             (''isConfNet'', JStr ''Y''), (''marketName'', JStr ''DEEBOT T10 PLUS''),
             (''materialNo'', JStr ''110-2113-0301''), (''model'', JStr ''CURIE_AES_INT_OK''),
             (''productId'', JStr ''20220127010107_783c591a6632cc89c914cc0d8f2d338e'')],
           JObj [
             (''imgUrl'', JStr (''https://'' @ DOM_SUB_PORT (ap_cfg A) @ ''/api/pim/api/pim/file/get/624d4e73031bdd7c7b531af9'')),
             (''isConfNet'', JStr ''N''), (''marketName'', JStr ''AIRBOT Z1''),
             (''materialNo'', JStr ''113-2109-0200''), (''model'', JStr ''BRUCE_INT''),
             (''productId'', JStr ''20220407010045_bd1a7f60c8befe4c79c4e8b8e6f35c76'')],
           JObj [
             (''imgUrl'', JStr (''https://'' @ DOM_SUB_PORT (ap_cfg A) @ ''/api/pim/api/pim/file/get/5c874326280fda0001770d2a'')),
             (''isConfNet'', JStr ''N''), (''marketName'', JStr ''DEEBOT 500''),
             (''materialNo'', JStr ''702-0000-0163''), (''model'', JStr ''D500''),
             (''productId'', JStr ''20200115064057_5aa61e982672ae0c5a1883e3260eb869'')],
           JObj [
             (''imgUrl'', JStr (''https://'' @ DOM_SUB_PORT (ap_cfg A) @ ''/api/pim/api/pim/file/get/5c931fef280fda0001770d7e'')),
             (''isConfNet'', JStr ''N''), (''marketName'', JStr ''DEEBOT 501''),
             (''materialNo'', JStr ''702-0000-0169''), (''model'', JStr ''D501''),
             (''productId'', JStr ''20200115064057_db0462273510a60eaaae32a78923491f'')],
           JObj [
             (''imgUrl'', JStr (''https://'' @ DOM_SUB_PORT (ap_cfg A) @ ''/api/pim/api/pim/file/get/5c93204b63023c0001e7faa7'')),
             (''isConfNet'', JStr ''N''), (''marketName'', JStr ''DEEBOT 502''),
             (''materialNo'', JStr ''702-0000-0161''), (''model'', JStr ''D502''),
             (''productId'', JStr ''20200115064057_7a8ea52adf4b96a8b9752315ae86c8b5'')],
           JObj [
             (''imgUrl'', JStr (''https://'' @ DOM_SUB_PORT (ap_cfg A) @ ''/api/pim/api/pim/file/get/5c932067280fda0001770d7f'')),
             (''isConfNet'', JStr ''N''), (''marketName'', JStr ''DEEBOT 505''),
             (''materialNo'', JStr ''20200115005''), (''model'', JStr ''D505''),
             (''productId'', JStr ''20200115064057_024db39cda0d9f092563c364f62c5b50'')]]),
         (''moreHelpModuleList'', JList [])])"

section \<open>plugins/v1/private/intl.py\<close>

definition intl_sign_status_answer :: "api \<Rightarrow> response" where
  "intl_sign_status_answer A =
     response_success_v1 (ap_load_ms A) (JObj [(''signStatus'', JStr ''SIGN'')])"

section \<open>plugins/v1/private/message.py\<close>

definition message_has_unread_message_answer :: "api \<Rightarrow> response" where
  "message_has_unread_message_answer A =
     response_success_v1 (ap_load_ms A) (JStr ''N'')"

definition message_get_msg_list_answer :: "api \<Rightarrow> response" where
  "message_get_msg_list_answer A =
     response_success_v1 (ap_load_ms A) (JObj [(''hasNextPage'', JInt 0), (''items'', JList [])])"

section \<open>plugins/v1/private/osmall.py\<close>

definition osmall_get_layout_answer :: "api \<Rightarrow> response" where
  "osmall_get_layout_answer A =
     response_success_v1 (ap_load_ms A) (JObj [
         (''bgColorNo'', JStr []), (''bgImgUrlBenefit'', JStr []), (''bgImgUrlNv'', JStr []),
         (''indexId'', JStr ''20220929111910_9f988dd276fec8ecaedb5f83bbe227fb''),
         (''indexItemList'', JList [
           JObj [(''moduleType'', JStr ''TOP_BENEFIT'')],
           JObj [(''moduleType'', JStr ''TOP_BANNER'')],
           JObj [(''moduleType'', JStr ''GOODS_CATEGORY'')],
           JObj [(''moduleType'', JStr ''ACCESSORY_RECOMMEND'')],
           JObj [(''moduleType'', JStr ''GOODS_RECOMMEND'')],
           JObj [(''moduleType'', JStr ''OFFICIAL_BENEFIT'')],
           JObj [(''moduleType'', JStr ''SAFE_PAYMENT'')]])])"

definition osmall_get_goods_category_answer :: "api \<Rightarrow> response" where
  "osmall_get_goods_category_answer A =
     (let domain = ''https://'' @ DOMAIN_SEC2 (ap_cfg A) @ ''/upload/global'' in
     response_success_v1 (ap_load_ms A) (JObj [
         (''categoryList'', JList [
           JObj [
             (''categoryId'', JStr ''deebot''),
             (''categoryImgUrl'', JStr (domain @ ''/2022/09/29/20220929102735_3f3c7c2e901a331e0b67ca492fdc3c6a.png'')),
             (''categoryName'', JStr ''DEEBOT''),
             (''categoryPageTopImgUrl'', JStr (domain @ ''/2022/09/29/20220929102846_1049b38781c4873ddce718ba7e5c18b8.jpg'')),
             (''categorySubTitle'', JStr ''Tomorrow's robots today'')],
           JObj [
             (''categoryId'', JStr ''winbot''),
             (''categoryImgUrl'', JStr (domain @ ''/2022/09/29/20220929102922_3034e697186933d61dfef1cbd9c23795.png'')),
             (''categoryName'', JStr ''WINBOT''),
             (''categoryPageTopImgUrl'', JStr (domain @ ''/2022/09/29/20220929102913_7b64ef5036d146b9c7425f52eb6e31fa.jpg'')),
             (''categorySubTitle'', JStr ''Spotless windows, so simple, so clean'')],
           JObj [
             (''categoryId'', JStr ''atmobot''),
             (''categoryImgUrl'', JStr (domain @ ''/2022/10/22/20221022141810_84db4431bf3a5d23e2046f6c7e8d4c16.png'')),
             (''categoryName'', JStr ''AIRBOT''),
             (''categoryPageTopImgUrl'', JStr (domain @ ''/2022/10/22/20221022142252_3db74870acc2a1f16052714ba00cdd2b.jpg'')),
             (''categorySubTitle'', JStr ''A BREAKTHROUGH IN AIR CLEANING'')],
           JObj [
             (''categoryId'', JStr ''accessory''),
             (''categoryImgUrl'', JStr (domain @ ''/2022/09/29/20220929103036_2e6c9f31a0df1d2e286492fdc1ca4253.png'')),
             (''categoryName'', JStr ''ACCESSORIES''),
             (''categoryPageTopImgUrl'', JStr (domain @ ''/2022/12/13/20221213024206_bdbe94f753316a1e779f0d36800b8ab2.jpg'')),
             (''categorySubTitle'', JStr ''Find the right accessories for your DEEBOT'')],
           JObj [
             (''categoryId'', JStr ''goat''),
             (''categoryImgUrl'', JStr (domain @ ''/2023/03/29/20230329125208_fad7fc1e678b4f55a7520b6e52ad96ee.png'')),
             (''categoryName'', JStr ''GOAT''),
             (''categoryPageTopImgUrl'', JStr (domain @ ''/2023/03/29/20230329125218_bc88e13645ee1538bade4f7618719e35.jpg'')),
             (''categorySubTitle'', JStr ''A CLASS OF ITS OWN'')]])]))"

definition osmall_get_conf_net_robot_parts_goods_answer :: "api \<Rightarrow> response" where
  "osmall_get_conf_net_robot_parts_goods_answer A =
     response_success_v1 (ap_load_ms A) (JObj [])"

definition osmall_get_recommend_goods_answer :: "api \<Rightarrow> response" where
  "osmall_get_recommend_goods_answer A =
     response_success_v1 (ap_load_ms A) (JObj [
         (''goodsList'', JList []), (''materialNo'', JNull), (''mid'', JNull),
         (''nickName'', JNull)])"

definition osmall_get_user_center_coupon_list_answer :: "api \<Rightarrow> response" where
  "osmall_get_user_center_coupon_list_answer A =
     response_success_v1 (ap_load_ms A) (JList [])"

definition osmall_get_my_coupon_answer :: "api \<Rightarrow> response" where
  "osmall_get_my_coupon_answer A =
     response_success_v1 (ap_load_ms A) (JObj [(''available'', JList []), (''used'', JList []), (''invalidated'', JList [])])"

definition osmall_get_customer_coupon_send_activity_coupon_answer :: "api \<Rightarrow> response" where
  "osmall_get_customer_coupon_send_activity_coupon_answer A =
     response_success_v1 (ap_load_ms A) (JList [])"

definition osmall_material_accessory_list_answer :: "api \<Rightarrow> response" where
  "osmall_material_accessory_list_answer A =
     response_success_v1 (ap_load_ms A) (JList [])"

definition osmall_v2_get_benefits_answer :: "api \<Rightarrow> response" where
  "osmall_v2_get_benefits_answer A =
     response_success_v1 (ap_load_ms A) (JList [])"

definition osmall_v2_payment_icon_index_answer :: "api \<Rightarrow> response" where
  "osmall_v2_payment_icon_index_answer A =
     response_success_v1 (ap_load_ms A) (JList [])"

section \<open>plugins/v1/private/osmall2.py\<close>

definition osmall2_get_layout_answer :: "api \<Rightarrow> response" where
  "osmall2_get_layout_answer A =
     response_success_v1 (ap_load_ms A) (JObj [
         (''bgColorNo'', JStr []), (''bgImgUrlBenefit'', JStr []), (''bgImgUrlNv'', JStr []),
         (''indexId'', JStr ''20220929111910_9f988dd276fec8ecaedb5f83bbe227fb''),
         (''indexItemList'', JList [
           JObj [(''moduleType'', JStr ''TOP_BANNER'')],
           JObj [(''moduleType'', JStr ''CATEGORY'')],
           JObj [(''moduleType'', JStr ''PRODUCT_POSTER'')],
           JObj [(''moduleType'', JStr ''ACTIVITY_CARD'')],
           JObj [(''moduleType'', JStr ''BENEFIT'')], JObj [(''moduleType'', JStr ''PAYMENT'')],
           JObj [(''moduleType'', JStr ''EXPRESS'')],
           JObj [(''moduleType'', JStr ''RECOMMEND_PRODUCT'')],
           JObj [(''moduleType'', JStr ''RECOMMEND_CONSUMABLE'')],
           JObj [(''moduleType'', JStr ''ACTIVITY_ZONE'')],
           JObj [(''moduleType'', JStr ''INFO'')], JObj [(''moduleType'', JStr ''BAND'')]])])"

section \<open>plugins/v1/private/shop.py\<close>

definition shop_get_cn_wap_shop_config_answer :: "api \<Rightarrow> response" where
  "shop_get_cn_wap_shop_config_answer A =
     response_success_v1 (ap_load_ms A) (JObj [
         (''myShopShowFlag'', JStr ''N''), (''myShopUrl'', JStr []),
         (''shopIndexShowFlag'', JStr ''N''), (''shopIndexUrl'', JStr [])])"

section \<open>plugins/v1/private/user.py\<close>

definition user_check_agreement_batch_answer :: "api \<Rightarrow> response" where
  "user_check_agreement_batch_answer A =
     (let domain = ''https://'' @ DOMAIN_SEC3 (ap_cfg A) @ ''/content/agreement'' in
     response_success_v1 (ap_load_ms A) (JList [
         JObj [
           (''acceptTime'', JInt 1681542128770), (''force'', JStr ''N''),
           (''id'', JStr ''20230403095818_78798528690d2307bd692c0b624909f9''),
           (''type'', JStr ''USER''), (''url'', JNull), (''version'', JStr ''1.03''),
           (''updateDesc'', JNull)],
         JObj [
           (''acceptTime'', JInt 1681542128770), (''force'', JStr ''N''),
           (''id'', JStr ''20230322085808_ff1bcf0d24ece3a37e3dac81b7e91733''),
           (''type'', JStr ''PRIVACY''), (''url'', JNull), (''version'', JStr ''1.07''),
           (''updateDesc'', JNull)],
         JObj [
           (''acceptTime'', JInt 1681542128770), (''force'', JStr ''N''),
           (''id'', JStr ''20251124143026_570d32ec1f78f36066b64193cd347e5b''),
           (''type'', JStr ''PRIVACY''),
           (''url'', JStr (domain @ ''?id=20251124143026_570d32ec1f78f36066b64193cd347e5b&language=EN'')),
           (''version'', JStr ''1.11''), (''updateDesc'', JNull)]]))"

definition user_get_user_menu_info_answer :: "api \<Rightarrow> response" where
  "user_get_user_menu_info_answer A =
     (let domain = ''https://'' @ DOMAIN_SEC2 (ap_cfg A) @ ''/upload/global'' in
     response_success_v1 (ap_load_ms A) (JList [
         JObj [
           (''menuItems'', JList [
             JObj [
               (''clickAction'', JInt 1),
               (''clickUri'', JStr ''https://ecovacs.zendesk.com/hc/en-us''),
               (''menuIconUrl'', JStr (domain @ ''/2019/12/16/2019121603180741b73907046e742b80e8fe4a90fe2498.png'')),
               (''menuId'', JStr ''20191216031849_4d744630f7ad2f5208a4b8051be61d10''),
               (''menuName'', JStr ''Help & Feedback''), (''paramsJson'', JStr [])]]),
           (''menuPositionKey'', JStr ''A_FIRST'')],
         JObj [
           (''menuItems'', JList [
             JObj [
               (''clickAction'', JInt 3), (''clickUri'', JStr ''robotShare''),
               (''menuIconUrl'', JStr (domain @ ''/2019/12/16/2019121603284185e632ec6c5da10bd82119d7047a1f9e.png'')),
               (''menuId'', JStr ''20191216032853_5fac4cc9cbd0e166dfa951485d1d8cc4''),
               (''menuName'', JStr ''Share Robot''), (''paramsJson'', JStr [])]]),
           (''menuPositionKey'', JStr ''B_SECOND'')],
         JObj [
           (''menuItems'', JList [
             JObj [
               (''clickAction'', JInt 3), (''clickUri'', JStr ''config''),
               (''menuIconUrl'', JStr (domain @ ''/2019/12/16/201912160325324068da4e4a09b8c3973db162e84784d5.png'')),
               (''menuId'', JStr ''20191216032545_ebea0fbb4cb02d9c2fec5bdf3371bc2d''),
               (''menuName'', JStr ''Settings''), (''paramsJson'', JStr [])]]),
           (''menuPositionKey'', JStr ''C_THIRD'')],
         JObj [
           (''menuItems'', JList [
             JObj [
               (''clickAction'', JInt 1),
               (''clickUri'', JStr (''https://'' @ DOMAIN_SEC6 (ap_cfg A) @ ''/'')),
               (''menuIconUrl'', JStr (domain @ ''/2019/12/16/201912160325324068da4e4a09b8c3973db162e84784d5.png'')),
               (''menuId'', JStr ''20191216032545_ebea0fbb4cb02d9c2fec5bdf3371bc2c''),
               (''menuName'', JStr ''Bumper Status''), (''paramsJson'', JStr [])]]),
           (''menuPositionKey'', JStr ''D_FOURTH'')]]))"

definition user_get_my_user_menu_info_answer :: "api \<Rightarrow> response" where
  "user_get_my_user_menu_info_answer A =
     (let domain = ''https://'' @ DOMAIN_SEC2 (ap_cfg A) @ ''/upload/global'' in
     response_success_v1 (ap_load_ms A) (JObj [
         (''menuList'', JList [
           JObj [
             (''menuItems'', JList [
               JObj [
                 (''clickAction'', JInt 3), (''clickUri'', JStr ''glOrlderList''),
                 (''menuIconUrl'', JStr (domain @ ''/2022/10/10/20221010104231_68dd6755a706e47113b110a6d5ec931a.png'')),
                 (''menuId'', JStr ''20221010104238_3f41cf9ecc1c44ebd39fc6e77a975067''),
                 (''menuName'', JStr ''My Orders''), (''menuSubName'', JStr []),
                 (''paramsJson'', JStr []), (''redDotId'', JNull)],
               JObj [
                 (''clickAction'', JInt 1),
                 (''clickUri'', JStr (''https://adv-app.'' @ DOM_SUB_1 (ap_cfg A) @ DOMAIN_MAIN (ap_cfg A) @ ''/pim/third_party_voice_control.html'')),
                 (''menuIconUrl'', JStr (domain @ ''/2022/12/14/20221214024053_10124672980fdcd4828fd5cbdf5c87ef.png'')),
                 (''menuId'', JStr ''20221214024100_207b336dcbcd6b96fb6b2c57fc14f095''),
                 (''menuName'', JStr ''Third-party Voice Control''), (''menuSubName'', JNull),
                 (''paramsJson'', JStr []), (''redDotId'', JNull)],
               JObj [
                 (''clickAction'', JInt 3), (''clickUri'', JStr ''helpfbView''),
                 (''menuIconUrl'', JStr (domain @ ''/2022/05/10/20220510035541_93dd3bd6a9e4ee67eb4950d710f62ee1.png'')),
                 (''menuId'', JStr ''20220510035545_505adfaba38be91cd4426a5870173479''),
                 (''menuName'', JStr ''Help & Feedback''), (''menuSubName'', JNull),
                 (''paramsJson'', JStr []), (''redDotId'', JNull)],
               JObj [
                 (''clickAction'', JInt 3), (''clickUri'', JStr ''config''),
                 (''menuIconUrl'', JStr (domain @ ''/2022/05/10/20220510035629_ac83db12a8ff972f1f611e8a549c18ab.png'')),
                 (''menuId'', JStr ''20220510035647_d2c7960a95f47b85158a0128ef562020''),
                 (''menuName'', JStr ''Settings''), (''menuSubName'', JNull),
                 (''paramsJson'', JStr []), (''redDotId'', JNull)]]),
             (''menuPositionKey'', JStr ''MY_A'')]])]))"

definition user_change_area_answer :: "api \<Rightarrow> response" where
  "user_change_area_answer A =
     response_success_v1 (ap_load_ms A) (JObj [(''isNeedReLogin'', JStr ''N'')])"

definition user_accept_agreement_batch_answer :: "api \<Rightarrow> response" where
  "user_accept_agreement_batch_answer A =
     response_success_v1 (ap_load_ms A) (JNull)"

section \<open>plugins/v1/private/user-setting.py\<close>

definition user_setting_get_suggestion_setting_answer :: "api \<Rightarrow> response" where
  "user_setting_get_suggestion_setting_answer A =
     (let activity_sub_title = ''Allow to receive notification including membership benefits, product and consumable recommendations.'' in
     response_success_v1 (ap_load_ms A) (JObj [
         (''acceptSuggestion'', JStr ''N''),
         (''itemList'', JList [
           JObj [
             (''name'', JStr ''Notification''), (''settingKey'', JStr ''ACTIVITY''),
             (''subTitle'', JStr (activity_sub_title)), (''val'', JStr ''N'')],
           JObj [
             (''name'', JStr ''Allow to Receive Recommendation''),
             (''settingKey'', JStr ''APP_RECOMMEND''),
             (''subTitle'', JStr ''Receive operation instructions and product recommendations in the advertising wanted.''),
             (''val'', JStr ''N'')],
           JObj [
             (''name'', JStr ''Promotions/Offers/Events''), (''settingKey'', JStr ''MARKETING''),
             (''subTitle'', JNull), (''val'', JStr ''N'')],
           JObj [
             (''name'', JStr ''User Surveys''), (''settingKey'', JStr ''QUESTIONNAIRE''),
             (''subTitle'', JNull), (''val'', JStr ''N'')],
           JObj [
             (''name'', JStr ''Product Upgrade/User Help''),
             (''settingKey'', JStr ''INTRODUCTION''), (''subTitle'', JNull),
             (''val'', JStr ''N'')],
           JObj [
             (''name'', JStr ''E-mail''), (''settingKey'', JStr ''EMAIL''),
             (''subTitle'', JStr ''Receive operation instructions and product recommendations by e-mail''),
             (''val'', JStr ''N'')]]),
         (''userPersonalization'', JObj [
           (''settingKey'', JStr ''PERSONALIZATIONIZATION_ADVERTISING''), (''name'', JNull),
           (''val'', JStr ''N''),
           (''url'', JStr (''https://'' @ DOMAIN_SEC3 (ap_cfg A) @ ''/web/page?no=tye52bsd''))])]))"

definition user_setting_get_msg_receive_setting_answer :: "api \<Rightarrow> response" where
  "user_setting_get_msg_receive_setting_answer A =
     response_success_v1 (ap_load_ms A) (JObj [
         (''list'', JList [
           JObj [
             (''name'', JStr ''Promotion messages''), (''openOrClose'', JStr ''Y''),
             (''settingType'', JStr ''ACTIVITY'')],
           JObj [
             (''name'', JStr ''Service notifications''), (''openOrClose'', JStr ''Y''),
             (''settingType'', JStr ''SERVICE_NOTIFICATION'')],
           JObj [
             (''name'', JStr ''Customer service messages''), (''openOrClose'', JStr ''Y''),
             (''settingType'', JStr ''CUSTOMER_SERVICE'')]])])"

definition user_setting_save_user_setting_answer :: "api \<Rightarrow> response" where
  "user_setting_save_user_setting_answer A =
     response_success_v1 (ap_load_ms A) (JNull)"

section \<open>plugins/v2/private/common.py\<close>

definition v2_common_get_bottom_navigate_info_list_answer :: "api \<Rightarrow> response" where
  "v2_common_get_bottom_navigate_info_list_answer A =
     (let domain = ''https://'' @ DOMAIN_SEC2 (ap_cfg A) @ ''/upload/global'' in
     response_success_v1 (ap_load_ms A) (JObj [
         (''bgImgUrl'', JNull),
         (''navigateInfoResponseList'', JList [
           JObj [
             (''iconId'', JStr ''20241122063707_19a7b3237fe6ef5a2f082063c7241d7a''),
             (''iconName'', JStr ''Robot''), (''iconType'', JStr ''ROBOT''),
             (''defaultImgUrl'', JStr (domain @ ''/2024/11/04/20241104074310_add0cf9b618994adecd48a2ada9289c0.png'')),
             (''lightImgUrl'', JStr (domain @ ''/2024/11/04/20241104074317_32d5a6c83ad298b59e45343316fb9311.png'')),
             (''lightNameRgb'', JStr ''#253746''), (''mediaType'', JNull), (''mediaUrl'', JNull),
             (''positionType'', JStr ''Robot''), (''tabItemActionUrl'', JNull),
             (''bgImgUrl'', JNull), (''defaultNameRgb'', JStr ''#B1C4DE'')],
           JObj [
             (''iconId'', JStr ''20241122063707_ee95e86e7f0e617bd235490a6bd73d8a''),
             (''iconName'', JStr ''Store''), (''iconType'', JStr ''MALL''),
             (''defaultImgUrl'', JStr (domain @ ''/2024/11/04/20241104075006_c0acb1320aa6ee4cf4150012bd394471.png'')),
             (''lightImgUrl'', JStr (domain @ ''/2024/11/04/20241104075015_54a2f48ee2ca61104c4b9d541b56a740.png'')),
             (''lightNameRgb'', JStr ''#253746''), (''mediaType'', JNull), (''mediaUrl'', JNull),
             (''positionType'', JStr ''Store''), (''tabItemActionUrl'', JNull),
             (''bgImgUrl'', JNull), (''defaultNameRgb'', JStr ''#B1C4DE'')],
           JObj [
             (''iconId'', JStr ''20241122063707_f44f7914d334ea6a33ba9735fac86ed7''),
             (''iconName'', JStr ''Discover''), (''iconType'', JStr ''DISCOVER''),
             (''defaultImgUrl'', JStr (domain @ ''/2024/11/04/20241104080407_3f320d885453c106e58bfd2da305f644.png'')),
             (''lightImgUrl'', JStr (domain @ ''/2024/11/04/20241104080420_1eb0a172dc65e6bb6acd676f8e31be4c.png'')),
             (''lightNameRgb'', JStr ''#253746''), (''mediaType'', JNull), (''mediaUrl'', JNull),
             (''positionType'', JStr ''Discovery''), (''tabItemActionUrl'', JNull),
             (''bgImgUrl'', JNull), (''defaultNameRgb'', JStr ''#B1C4DE'')],
           JObj [
             (''iconId'', JStr ''20241122063707_4b19facb3f136f95b23f81f2d72272dc''),
             (''iconName'', JStr ''Me''), (''iconType'', JStr ''MINE''),
             (''defaultImgUrl'', JStr (domain @ ''/2024/11/04/20241104075720_cc63447c6ea13b4b51093230415f6851.png'')),
             (''lightImgUrl'', JStr (domain @ ''/2024/11/04/20241104075733_e1ef1d2f744347ac0b8af09508fa0299.png'')),
             (''lightNameRgb'', JStr ''#253746''), (''mediaType'', JNull), (''mediaUrl'', JNull),
             (''positionType'', JStr ''Mine''), (''tabItemActionUrl'', JNull),
             (''bgImgUrl'', JNull), (''defaultNameRgb'', JStr ''#B1C4DE'')]]),
         (''robotBackgroundImg'', JNull), (''robotBaseArcShapedImg'', JNull),
         (''onLineBtnGradientsBackground'', JNull), (''onLineBtnInsideText'', JNull),
         (''onLineBtnInsideOutline'', JNull), (''onLineBtnOutsideOutline'', JNull),
         (''offLineBtn'', JNull), (''otherElements'', JNull),
         (''robotPersonalizationConfigSwitch'', JStr ''N'')]))"

definition v2_common_yiko_basic_setting_answer :: "api \<Rightarrow> response" where
  "v2_common_yiko_basic_setting_answer A =
     response_success_v1 (ap_load_ms A) (JNull)"

section \<open>plugins/v2/private/member.py\<close>

definition v2_member_get_bind_benefit_answer :: "api \<Rightarrow> response" where
  "v2_member_get_bind_benefit_answer A =
     response_success_v1 (ap_load_ms A) (JObj [(''completeList'', JList [])])"

section \<open>plugins/v2/private/message.py\<close>

definition v2_message_has_more_unread_message_answer :: "api \<Rightarrow> response" where
  "v2_message_has_more_unread_message_answer A =
     response_success_v1 (ap_load_ms A) (JObj [(''moreUnReadMsg'', JStr ''N'')])"

definition v2_message_waterfall_flow_answer :: "api \<Rightarrow> response" where
  "v2_message_waterfall_flow_answer A =
     response_success_v1 (ap_load_ms A) (JObj [(''list'', JList [])])"

definition v2_message_module_configuration_answer :: "api \<Rightarrow> response" where
  "v2_message_module_configuration_answer A =
     (let domain = ''https://'' @ DOMAIN_SEC2 (ap_cfg A) @ ''/upload/global'' in
     response_success_v1 (ap_load_ms A) (JObj [
         (''list'', JList [
           JObj [
             (''icon'', JStr (domain @ ''/2021/11/24/20211124063251_b87eda89effe37115d1812af65aef03c.png'')),
             (''id'', JStr ''20211124153947_8e4efefa3eb46b424a6fab894239679b''),
             (''lastUnReadMsgType'', JNull), (''moduleName'', JStr ''Promotion messages''),
             (''moduleType'', JStr ''ACTIVITY''), (''moreUnReadMsg'', JStr ''N''),
             (''sort'', JInt 2000), (''tip'', JNull)],
           JObj [
             (''icon'', JStr (domain @ ''/2021/11/24/20211124063334_59849310e3a426ae9b8f190f1210c6d5.png'')),
             (''id'', JStr ''20211124153947_94355558fb85f05d182fb73f91222a3b''),
             (''lastUnReadMsgType'', JNull), (''moduleName'', JStr ''Service notifications''),
             (''moduleType'', JStr ''SERVICE_NOTIFICATION''), (''moreUnReadMsg'', JStr ''N''),
             (''sort'', JInt 3000), (''tip'', JNull)],
           JObj [
             (''icon'', JStr (domain @ ''/2021/11/24/20211124063217_b8e8aca3588d70304b97708b88e7e415.png'')),
             (''id'', JStr ''20211124153947_c9d40a1be9cbefb15c67a91ab4bc52d9''),
             (''lastUnReadMsgType'', JNull), (''moduleName'', JStr ''Sharing Message''),
             (''moduleType'', JStr ''SHARE_MESSAGE''), (''moreUnReadMsg'', JStr ''N''),
             (''sort'', JInt 4000), (''tip'', JNull)]])]))"

end
