(* ===== verification/Web_Laws.thy ===== *)
theory Web_Laws
  imports Static_Private
begin

text \<open>
  What the properties of the web handlers rest on: the search in the cached groups, the
  entries of the device list, the scan of a QR code, the ordered lists, the answers of the
  account actions, the tables after each action, the loops of the start.
\<close>

lemma py_bind_of: "py_bind (py_of (Inr x)) f = f x" "py_bind (py_of (Inl e)) f = py_raise e"
  by (rule ext; simp add: py_run)+

section \<open>The configuration groups\<close>

definition groups_of :: "api \<Rightarrow> app \<Rightarrow> py_exc + json list" where
  "groups_of A s = (case st_groups s of Some gs \<Rightarrow> Inr gs | None \<Rightarrow> load_config_groups A)"

fun is_str :: "json \<Rightarrow> bool" where
  "is_str (JStr _) = True"
| "is_str _ = False"

definition robot_list :: "json \<Rightarrow> json list option" where
  "robot_list g = (case g of
     JObj d \<Rightarrow> (case dget_or d ''robots'' (JList []) of JList rs \<Rightarrow> if list_all is_obj rs then Some rs else None | _ \<Rightarrow> None)
   | _ \<Rightarrow> None)"

definition good_groups :: "json list \<Rightarrow> bool" where
  "good_groups gs \<longleftrightarrow> list_all (\<lambda>g. robot_list g \<noteq> None) gs"

lemma groups_response:
  "groups_of A s = Inr gs \<Longrightarrow> get_config_groups_response A s = (Inr gs, s\<lparr>st_groups := Some gs\<rparr>)"
  by (cases "st_groups s") (auto simp: groups_of_def get_config_groups_response_def py_run)

lemma is_obj_cases: "is_obj r \<Longrightarrow> (\<And>d. r = JObj d \<Longrightarrow> P) \<Longrightarrow> P"
  by (cases r) auto

lemma find_robot_total: "list_all is_obj rs \<Longrightarrow> \<exists>x. find_robot key v rs = Inr x"
  by (induction rs) (auto elim!: is_obj_cases)

lemma robot_list_Some: "robot_list g = Some rs \<Longrightarrow>
  \<exists>d. g = JObj d \<and> dget_or d ''robots'' (JList []) = JList rs \<and> list_all is_obj rs"
  by (auto simp: robot_list_def split: json.splits if_splits)

lemma find_group_total: "good_groups gs \<Longrightarrow> \<exists>x. find_group key v gs = Inr x"
proof (induction gs)
  case (Cons g gs)
  then obtain rs where "robot_list g = Some rs" by (auto simp: good_groups_def)
  then obtain d where g: "g = JObj d" "dget_or d ''robots'' (JList []) = JList rs" "list_all is_obj rs"
    using robot_list_Some by blast
  obtain x where x: "find_robot key v rs = Inr x" using find_robot_total [OF g(3)] by blast
  obtain y where "find_group key v gs = Inr y" using Cons by (auto simp: good_groups_def)
  with g x show ?case by (auto split: option.splits)
qed simp

lemma groups_of_set [simp]: "groups_of A (s\<lparr>st_groups := Some gs\<rparr>) = Inr gs"
  by (simp add: groups_of_def)

lemma config_robot_total:
  assumes "groups_of A s = Inr gs" "good_groups gs"
  obtains x s' where "get_config_groups_robot A v key s = (Inr x, s')" "st_web s' = st_web s" "groups_of A s' = Inr gs"
proof (cases "truthy v")
  case True
  obtain x where x: "find_group key v gs = Inr x" using find_group_total [OF assms(2)] by blast
  have "get_config_groups_robot A v key s = (Inr x, s\<lparr>st_groups := Some gs\<rparr>)"
    by (simp add: get_config_groups_robot_def True py_bind_def groups_response [OF assms(1)] py_of_def x)
  then show ?thesis using that by simp
next
  case False
  then have "get_config_groups_robot A v key s = (Inr None, s)" by (simp add: get_config_groups_robot_def py_ret_def)
  then show ?thesis using that assms(1) by simp
qed

section \<open>The device list\<close>

definition product_keys :: "string list" where
  "product_keys = [''_id'', ''materialNo'', ''name'', ''model'', ''UILogicId'', ''ota'', ''iconUrl'']"

definition good_product :: "json \<Rightarrow> bool" where
  "good_product b = (case b of
     JObj d \<Rightarrow> map_of d ''classid'' \<noteq> None \<and> (case dget d ''product'' of
         JNull \<Rightarrow> True
       | JObj p \<Rightarrow> list_all (\<lambda>k. map_of p k \<noteq> None) product_keys \<and> is_str (dget p ''name'')
           \<and> (dget p ''smartType'' = JNull \<or> is_str (dget p ''smartType''))
       | _ \<Rightarrow> False)
   | _ \<Rightarrow> False)"

definition class_of :: "json \<Rightarrow> json" where
  "class_of b = (case subscript b ''classid'' of Inr c \<Rightarrow> c | Inl _ \<Rightarrow> JNull)"

definition listed :: "json list \<Rightarrow> vac_bot \<Rightarrow> bool" where
  "listed products dev \<longleftrightarrow> has_class dev \<and> list_ex (\<lambda>b. py_eq (class_of b) (bot_class_id dev)) products"

definition device_entry :: "vac_bot \<Rightarrow> json \<Rightarrow> bool" where
  "device_entry dev v = (case v of
     JObj d \<Rightarrow> dget d ''did'' = bot_did dev \<and> dget d ''class'' = bot_class_id dev \<and>
       dget d ''status'' = JInt (of_bool (truthy (bot_mqtt_connection dev) \<or> truthy (bot_xmpp_connection dev)))
   | _ \<Rightarrow> False)"

lemma good_product_subscript: "good_product b \<Longrightarrow> subscript b ''classid'' = Inr (class_of b)"
  by (auto simp: good_product_def class_of_def split: json.splits option.splits)

lemma find_product_total:
  "list_all good_product bs \<Longrightarrow> \<exists>x. find_product c bs = Inr x \<and>
     (x = None \<longleftrightarrow> \<not> list_ex (\<lambda>b. py_eq (class_of b) c) bs) \<and> (\<forall>b. x = Some b \<longrightarrow> good_product b)"
  by (induction bs) (auto simp: good_product_subscript)

lemma category_total: "is_str n \<Longrightarrow> \<exists>c. get_product_category n r = Inr c"
  by (cases n) (auto simp: get_product_category_def split: option.splits list.splits)

lemma smart_code_total: "v = JNull \<or> is_str v \<Longrightarrow> \<exists>c. smart_code v = Inr c \<and> set (map fst c) \<subseteq> {''scode'', ''btName'', ''btMac''}"
  by (cases v) (auto simp: smart_code_def Let_def)

lemma res_map_total: "(\<And>x. x \<in> set xs \<Longrightarrow> \<exists>y. f x = Inr y) \<Longrightarrow> \<exists>ys. res_map f xs = Inr ys \<and> length ys = length xs"
proof (induction xs)
  case (Cons x xs)
  obtain y where y: "f x = Inr y" using Cons.prems by auto
  obtain ys where "res_map f xs = Inr ys \<and> length ys = length xs" using Cons by auto
  with y show ?case by simp
qed simp

lemma product_fields_total:
  assumes "list_all (\<lambda>k. map_of p k \<noteq> None) product_keys"
  shows "\<exists>fs. product_fields (JObj p) = Inr fs \<and>
    set (map fst fs) \<subseteq> {''pid'', ''materialNo'', ''deviceName'', ''model'', ''UILogicId'', ''ota'', ''icon''}"
proof -
  have "\<exists>y. subscript (JObj p) k = Inr y" if "k \<in> set product_keys" for k
    using assms that by (auto simp: list_all_iff)
  then obtain ys where ys: "res_map (subscript (JObj p)) product_keys = Inr ys" "length ys = length product_keys"
    using res_map_total [of product_keys "subscript (JObj p)"] by blast
  then show ?thesis
    by (auto simp: product_fields_def product_keys_def dest: set_zip_leftD)
qed

text \<open>The two fields by which an entry is recognised survive what is added to it.\<close>

definition same_device :: "doc \<Rightarrow> doc \<Rightarrow> bool" where
  "same_device d e \<longleftrightarrow> dget e ''did'' = dget d ''did'' \<and> dget e ''class'' = dget d ''class''"

lemma same_device_dupdate: "set (map fst fs) \<inter> {''did'', ''class''} = {} \<Longrightarrow> same_device d (dupdate d fs)"
  by (auto simp: same_device_def)

lemma same_device_trans: "same_device d e \<Longrightarrow> same_device e f \<Longrightarrow> same_device d f"
  by (simp add: same_device_def)

lemma product_info_total:
  assumes p: "list_all (\<lambda>k. map_of p k \<noteq> None) product_keys" "is_str (dget p ''name'')"
      "dget p ''smartType'' = JNull \<or> is_str (dget p ''smartType'')"
    and g: "groups_of A s = Inr gs" "good_groups gs"
  obtains r s' where "product_info A (JObj p) robot result s = (Inr r, s')" "same_device result r"
    "st_web s' = st_web s" "groups_of A s' = Inr gs"
proof -
  obtain fs where fs: "product_fields (JObj p) = Inr fs"
    "set (map fst fs) \<subseteq> {''pid'', ''materialNo'', ''deviceName'', ''model'', ''UILogicId'', ''ota'', ''icon''}"
    using product_fields_total [OF p(1)] by blast
  define result' where "result' = dupdate result fs"
  obtain x s1 where x: "(if robot = None then get_config_groups_robot A (dget result' ''deviceName'') ''groupName''
      else py_ret robot) s = (Inr x, s1)" "st_web s1 = st_web s" "groups_of A s1 = Inr gs"
  proof (cases "robot = None")
    case True
    obtain y s' where "get_config_groups_robot A (dget result' ''deviceName'') ''groupName'' s = (Inr y, s')"
      "st_web s' = st_web s" "groups_of A s' = Inr gs" using config_robot_total [OF g] by blast
    then show ?thesis using that [of y s'] True by simp
  next
    case False
    then have "(if robot = None then get_config_groups_robot A (dget result' ''deviceName'') ''groupName''
      else py_ret robot) s = (Inr robot, s)" by (simp only: if_False py_ret_def)
    then show ?thesis by (rule that) (use g in simp_all)
  qed
  have "map_of p ''name'' \<noteq> None" using p(1) by (simp add: product_keys_def)
  then have n: "subscript (JObj p) ''name'' = Inr (dget p ''name'')" by (auto simp: dget_def dget_or_def)
  obtain c where c: "get_product_category (dget p ''name'') (map_option (snd \<circ> snd) x) = Inr c"
    using category_total [OF p(2)] by blast
  obtain code where code: "smart_code (dget p ''smartType'') = Inr code" "set (map fst code) \<subseteq> {''scode'', ''btName'', ''btMac''}"
    using smart_code_total [OF p(3)] by blast
  have t: "get_attr (JObj p) ''smartType'' JNull = Inr (dget p ''smartType'')" by (simp add: get_attr_def dget_def)
  have run: "product_info A (JObj p) robot result s = (Inr (dupdate result' ((''product_category'', c) # code)), s1)"
    unfolding product_info_def fs(1) Let_def result'_def [symmetric] py_bind_of
    by (rule trans, rule py_bind_Inr, rule x(1)) (simp only: py_bind_of n c t code(1) py_ret_def)
  have "same_device result result'" unfolding result'_def using fs(2) by (intro same_device_dupdate) auto
  moreover have "same_device result' (dupdate result' ((''product_category'', c) # code))"
    using code(2) by (intro same_device_dupdate) auto
  ultimately show ?thesis using that [OF run] x same_device_trans by blast
qed

lemma good_product_cases:
  assumes "good_product b"
  obtains d where "b = JObj d" "dget d ''product'' = JNull"
  | d p where "b = JObj d" "dget d ''product'' = JObj p" "list_all (\<lambda>k. map_of p k \<noteq> None) product_keys"
      "is_str (dget p ''name'')" "dget p ''smartType'' = JNull \<or> is_str (dget p ''smartType'')"
  using assms by (auto simp: good_product_def split: json.splits)

lemma device_entry_state:
  assumes "same_device (dpop (dpop (bot_as_dict dev) ''mqtt_connection'') ''xmpp_connection'') r"
  shows "device_entry dev (JObj (dupdate r (device_state A dev)))"
proof -
  have "dget r ''did'' = bot_did dev" "dget r ''class'' = bot_class_id dev"
    using assms by (simp_all add: same_device_def bot_as_dict_def)
  then show ?thesis by (simp add: device_entry_def device_state_def)
qed

lemma include_info_total:
  assumes m: "get_product_iot_map A = Inr products" "list_all good_product products"
    and g: "groups_of A s = Inr gs" "good_groups gs"
  obtains r s' where "include_product_iot_map_info A dev s = (Inr r, s')" "st_web s' = st_web s" "groups_of A s' = Inr gs"
    "r = None \<longleftrightarrow> \<not> list_ex (\<lambda>b. py_eq (class_of b) (bot_class_id dev)) products"
    "\<And>v. r = Some v \<Longrightarrow> device_entry dev v"
proof -
  obtain x where x: "find_product (bot_class_id dev) products = Inr x"
    "x = None \<longleftrightarrow> \<not> list_ex (\<lambda>b. py_eq (class_of b) (bot_class_id dev)) products" "\<And>b. x = Some b \<Longrightarrow> good_product b"
    using find_product_total [OF m(2)] by blast
  show ?thesis
  proof (cases x)
    case None
    then show ?thesis using that [of None s] x g
      by (simp add: include_product_iot_map_info_def py_bind_def py_of_def py_ret_def m)
  next
    case (Some b)
    let ?result = "dpop (dpop (bot_as_dict dev) ''mqtt_connection'') ''xmpp_connection''"
    obtain y s1 where y: "get_config_groups_robot A (dget ?result ''class'') ''mid'' s = (Inr y, s1)"
      "st_web s1 = st_web s" "groups_of A s1 = Inr gs"
      using config_robot_total [OF g] by blast
    obtain pr where pr: "get_attr b ''product'' JNull = Inr pr"
      and info: "\<exists>r s2. (if pr = JNull then py_ret ?result else product_info A pr y ?result) s1 = (Inr r, s2) \<and>
         same_device ?result r \<and> st_web s2 = st_web s \<and> groups_of A s2 = Inr gs"
    proof (rule good_product_cases [OF x(3) [OF Some]])
      fix d assume "b = JObj d" "dget d ''product'' = JNull"
      then show ?thesis using that [of JNull] y
        by (simp add: get_attr_def py_ret_def same_device_def flip: dget_def)
    next
      fix d p
      assume p: "b = JObj d" "dget d ''product'' = JObj p" "list_all (\<lambda>k. map_of p k \<noteq> None) product_keys"
        "is_str (dget p ''name'')" "dget p ''smartType'' = JNull \<or> is_str (dget p ''smartType'')"
      obtain r s2 where "product_info A (JObj p) y ?result s1 = (Inr r, s2)" "same_device ?result r"
        "st_web s2 = st_web s1" "groups_of A s2 = Inr gs"
        using product_info_total [OF p(3-5) y(3) g(2)] by blast
      then show ?thesis using that [of "JObj p"] p(1,2) y(2)
        by (simp add: get_attr_def flip: dget_def)
    qed
    from info obtain r s2 where r: "(if pr = JNull then py_ret ?result else product_info A pr y ?result) s1 = (Inr r, s2)"
      "same_device ?result r" "st_web s2 = st_web s" "groups_of A s2 = Inr gs" by blast
    have "include_product_iot_map_info A dev s = (Inr (Some (JObj (dupdate r (device_state A dev)))), s2)"
      unfolding include_product_iot_map_info_def
      by (simp add: py_bind_def py_of_def m x(1) Some y(1) pr r(1) py_ret_def Let_def del: bot_as_dict_def)
    then show ?thesis using that r device_entry_state [OF r(2)] x(2) Some by blast
  qed
qed

lemma device_infos_total:
  assumes m: "get_product_iot_map A = Inr products" "list_all good_product products" and "good_groups gs"
    and "groups_of A s = Inr gs"
  shows "\<exists>ds s'. device_infos A devs s = (Inr ds, s') \<and> st_web s' = st_web s \<and>
    list_all2 device_entry (filter (listed products) devs) ds"
  using assms(4)
proof (induction devs arbitrary: s)
  case Nil
  then show ?case by (simp add: py_ret_def)
next
  case (Cons dev devs)
  show ?case
  proof (cases "has_class dev")
    case False
    then have "device_infos A (dev # devs) = device_infos A devs" "\<not> listed products dev" by (simp_all add: listed_def)
    then show ?thesis using Cons by simp
  next
    case True
    obtain r s1 where r: "include_product_iot_map_info A dev s = (Inr r, s1)" "st_web s1 = st_web s"
      "groups_of A s1 = Inr gs" "r = None \<longleftrightarrow> \<not> list_ex (\<lambda>b. py_eq (class_of b) (bot_class_id dev)) products"
      "\<And>v. r = Some v \<Longrightarrow> device_entry dev v"
      using include_info_total [OF m Cons.prems assms(3)] by blast
    obtain ds s2 where ds: "device_infos A devs s1 = (Inr ds, s2)" "st_web s2 = st_web s1"
      "list_all2 device_entry (filter (listed products) devs) ds"
      using Cons.IH [OF r(3)] by blast
    have "listed products dev \<longleftrightarrow> r \<noteq> None" using True r(4) by (simp add: listed_def)
    then show ?thesis using True r ds
      by (cases r) (simp_all add: py_bind_def py_ret_def)
  qed
qed

section \<open>The scan of a QR code\<close>

text \<open>All robots of the groups in order, and the robots a search matches.\<close>

definition robot_docs :: "json list \<Rightarrow> json list" where
  "robot_docs gs = concat (map (\<lambda>g. case robot_list g of Some rs \<Rightarrow> rs | None \<Rightarrow> []) gs)"

definition matches :: "string \<Rightarrow> json \<Rightarrow> json \<Rightarrow> bool" where
  "matches key v r = (case r of JObj d \<Rightarrow> py_eq (dget d key) v | _ \<Rightarrow> False)"

lemma find_robot_None: "list_all is_obj rs \<Longrightarrow> find_robot key v rs = Inr None \<longleftrightarrow> \<not> list_ex (matches key v) rs"
  by (induction rs) (auto elim!: is_obj_cases simp: matches_def res_bind_Inr dest: find_robot_total)

lemma find_robot_Some:
  "find_robot key v rs = Inr (Some (j, d)) \<Longrightarrow>
   j < length rs \<and> rs ! j = JObj d \<and> py_eq (dget d key) v \<and> \<not> list_ex (matches key v) (take j rs)"
proof (induction rs arbitrary: j)
  case (Cons r rs)
  then obtain e where r: "r = JObj e" by (cases r) auto
  show ?case
  proof (cases "py_eq (dget e key) v")
    case True
    then show ?thesis using Cons.prems r by auto
  next
    case False
    then obtain k where "find_robot key v rs = Inr (Some (k, d))" "j = Suc k"
      using Cons.prems r by (auto simp: res_bind_Inr)
    then show ?thesis using Cons.IH False r by (simp add: matches_def)
  qed
qed simp

text \<open>Where the search finds a robot, that robot can be replaced and nothing else changes.\<close>

lemma put_robot_Cons: "put_robot (Suc i) j d (g # gs) = g # put_robot i j d gs"
  by (auto simp: put_robot_def split: json.splits)

lemma list_all_is_obj_update: "list_all is_obj rs \<Longrightarrow> list_all is_obj (rs[j := JObj d])"
  by (auto simp: list_all_iff dest!: set_update_subset_insert [THEN subsetD])

lemma put_robot_head:
  assumes "robot_list (JObj e) = Some rs" "j < length rs"
  shows "\<exists>e'. put_robot 0 j d (JObj e # gs) = JObj e' # gs \<and> robot_list (JObj e') = Some (rs[j := JObj d])"
proof -
  have rs: "dget_or e ''robots'' (JList []) = JList rs" "list_all is_obj rs"
    using robot_list_Some [OF assms(1)] by auto
  then have "dget e ''robots'' = JList rs" using assms(2) by (auto simp: dget_def dget_or_def split: option.splits)
  then show ?thesis
    by (simp add: put_robot_def robot_list_def list_all_is_obj_update [OF rs(2)])
qed

lemma find_group_Some:
  assumes "find_group key v gs = Inr (Some (i, j, d))" "good_groups gs"
  shows "\<exists>xs ys. robot_docs gs = xs @ JObj d # ys \<and> \<not> list_ex (matches key v) xs \<and> py_eq (dget d key) v \<and>
    (\<forall>d'. good_groups (put_robot i j d' gs) \<and> robot_docs (put_robot i j d' gs) = xs @ JObj d' # ys)"
  using assms
proof (induction gs arbitrary: i)
  case (Cons g gs)
  then obtain rs where rs: "robot_list g = Some rs" by (auto simp: good_groups_def)
  then obtain e where g: "g = JObj e" "dget_or e ''robots'' (JList []) = JList rs" "list_all is_obj rs"
    using robot_list_Some by blast
  have docs: "robot_docs (g # gs) = rs @ robot_docs gs" using rs by (simp add: robot_docs_def)
  obtain x where x: "find_robot key v rs = Inr x" using find_robot_total [OF g(3)] by blast
  show ?case
  proof (cases x)
    case None
    then have no: "\<not> list_ex (matches key v) rs" using find_robot_None [OF g(3)] x by simp
    obtain k where k: "find_group key v gs = Inr (Some (k, j, d))" "i = Suc k"
      using Cons.prems(1) g x None by (auto simp: res_bind_Inr)
    obtain xs ys where "robot_docs gs = xs @ JObj d # ys" "\<not> list_ex (matches key v) xs" "py_eq (dget d key) v"
      "\<And>d'. good_groups (put_robot k j d' gs) \<and> robot_docs (put_robot k j d' gs) = xs @ JObj d' # ys"
      using Cons.IH [OF k(1)] Cons.prems(2) by (auto simp: good_groups_def)
    then show ?thesis
      by (intro exI [of _ "rs @ xs"] exI [of _ ys])
        (simp add: k(2) docs no put_robot_Cons good_groups_def rs, simp add: robot_docs_def rs)
  next
    case (Some p)
    then have i: "i = 0" "x = Some (j, d)" using Cons.prems(1) g x by auto
    then have j: "j < length rs" "rs ! j = JObj d" "py_eq (dget d key) v" "\<not> list_ex (matches key v) (take j rs)"
      using find_robot_Some x by blast+
    have "good_groups (put_robot 0 j d' (g # gs)) \<and>
        robot_docs (put_robot 0 j d' (g # gs)) = take j rs @ JObj d' # (drop (Suc j) rs @ robot_docs gs)" for d'
      using put_robot_head [OF rs [unfolded g(1)] j(1), of d' gs] Cons.prems(2) j(1) g(1)
      by (auto simp: good_groups_def robot_docs_def upd_conv_take_nth_drop)
    moreover have "rs = take j rs @ JObj d # drop (Suc j) rs" using j(1,2) by (metis id_take_nth_drop)
    ultimately show ?thesis using j(3,4) i(1) docs
      by (intro exI [of _ "take j rs"] exI [of _ "drop (Suc j) rs @ robot_docs gs"]) auto
  qed
qed simp

lemma find_group_None: "good_groups gs \<Longrightarrow> find_group key v gs = Inr None \<longleftrightarrow> \<not> list_ex (matches key v) (robot_docs gs)"
proof (induction gs)
  case (Cons g gs)
  then obtain rs where rs: "robot_list g = Some rs" by (auto simp: good_groups_def)
  then obtain e where g: "g = JObj e" "dget_or e ''robots'' (JList []) = JList rs" "list_all is_obj rs"
    using robot_list_Some by blast
  obtain x where x: "find_robot key v rs = Inr x" using find_robot_total [OF g(3)] by blast
  have "robot_docs (g # gs) = rs @ robot_docs gs" using rs by (simp add: robot_docs_def)
  then show ?case using Cons g x find_robot_None [OF g(3), of key v]
    by (cases x) (auto simp: good_groups_def res_bind_Inr)
qed (simp add: robot_docs_def)

lemma dget_dpop: "dget (dpop d k') k = (if k = k' then JNull else dget d k)"
  by (simp add: dget_def dget_or_def delete_conv')

lemma dset_twice [simp]: "dset (dset d k v) k w = dset d k w"
  by (induction d) auto

lemma put_robot_twice: "put_robot i j d' (put_robot i j d gs) = put_robot i j d' gs"
proof (cases "i < length gs")
  case True
  then show ?thesis by (simp add: put_robot_def dset_twice split: json.splits)
next
  case False
  then have beyond: "gs[i := x] = gs" for x by (simp add: list_update_beyond)
  show ?thesis by (simp add: put_robot_def beyond split: json.splits)
qed

definition drop_keys :: "string list \<Rightarrow> doc \<Rightarrow> doc" where
  "drop_keys ks d = fold (\<lambda>k d. dpop d k) ks d"

definition scan_keys :: "string list" where
  "scan_keys = [''groupId'', ''service'', ''products'', ''smartTypes'', ''icon'', ''sort'']"

definition scannable :: "doc \<Rightarrow> bool" where
  "scannable d \<longleftrightarrow> list_all (\<lambda>k. map_of d k \<noteq> None) (''cusSteps'' # ''groupName'' # scan_keys)"

text \<open>The robot as the answer shows it.\<close>

definition scanned :: "json \<Rightarrow> doc \<Rightarrow> doc" where
  "scanned mid d =
     (let d1 = dset d ''mid'' mid;
          d2 = dset (dpop d1 ''cusSteps'') ''customSteps'' (dget d1 ''cusSteps'');
          d3 = dset (dpop d2 ''groupName'') ''name'' (dget d2 ''groupName'')
      in drop_keys scan_keys d3)"

lemma robot_put_run:
  "st_groups s = Some gs \<Longrightarrow> robot_put i j d s = (Inr d, s\<lparr>st_groups := Some (put_robot i j d gs)\<rparr>)"
  by (simp add: robot_put_def py_run)

lemma pop_key_known: "map_of d k \<noteq> None \<Longrightarrow> pop_key k d = Inr (dget d k, dpop d k)"
  by (auto simp: pop_key_def dget_def dget_or_def)

lemma robot_rename_run:
  "map_of d old \<noteq> None \<Longrightarrow> st_groups s = Some gs \<Longrightarrow>
   robot_rename i j old new d s =
     (Inr (dset (dpop d old) new (dget d old)),
      s\<lparr>st_groups := Some (put_robot i j (dset (dpop d old) new (dget d old)) gs)\<rparr>)"
  by (simp add: robot_rename_def pop_key_known py_bind_of robot_put_run)

lemma robot_drop_run:
  "distinct ks \<Longrightarrow> list_all (\<lambda>k. map_of d k \<noteq> None) ks \<Longrightarrow> st_groups s = Some (put_robot i j d gs) \<Longrightarrow>
   robot_drop i j ks d s = (Inr (drop_keys ks d), s\<lparr>st_groups := Some (put_robot i j (drop_keys ks d) gs)\<rparr>)"
proof (induction ks arbitrary: d s)
  case Nil
  then show ?case by (simp add: py_ret_def drop_keys_def)
next
  case (Cons k ks)
  let ?d = "dpop d k" and ?s = "s\<lparr>st_groups := Some (put_robot i j (dpop d k) gs)\<rparr>"
  have put: "robot_put i j ?d s = (Inr ?d, ?s)"
    using Cons.prems(3) by (simp add: robot_put_run put_robot_twice)
  have "list_all (\<lambda>k. map_of ?d k \<noteq> None) ks"
    using Cons.prems(1,2) by (auto simp: list_all_iff delete_conv')
  then have "robot_drop i j ks ?d ?s = (Inr (drop_keys ks ?d), ?s\<lparr>st_groups := Some (put_robot i j (drop_keys ks ?d) gs)\<rparr>)"
    using Cons by simp
  then show ?case using Cons.prems
    by (simp add: pop_key_known py_bind_of py_bind_def put drop_keys_def)
qed

lemma scanned_robot_run:
  assumes gs: "st_groups s = Some gs" and d: "scannable d"
  shows "scanned_robot mid (i, j, d) s =
    (Inr (scanned mid d), s\<lparr>st_groups := Some (put_robot i j (scanned mid d) gs)\<rparr>)"
proof -
  let ?st = "\<lambda>d. s\<lparr>st_groups := Some (put_robot i j d gs)\<rparr>"
  define d1 where "d1 = dset d ''mid'' mid"
  define d2 where "d2 = dset (dpop d1 ''cusSteps'') ''customSteps'' (dget d1 ''cusSteps'')"
  define d3 where "d3 = dset (dpop d2 ''groupName'') ''name'' (dget d2 ''groupName'')"
  have k: "map_of d1 ''cusSteps'' \<noteq> None" "map_of d2 ''groupName'' \<noteq> None"
    using d by (simp_all add: scannable_def d1_def d2_def delete_conv')
  have k3: "list_all (\<lambda>k. map_of d3 k \<noteq> None) scan_keys" "distinct scan_keys"
    using d by (simp_all add: scannable_def d1_def d2_def d3_def scan_keys_def delete_conv')
  have s1: "robot_put i j d1 s = (Inr d1, ?st d1)" by (rule robot_put_run [OF gs])
  have s2: "robot_rename i j ''cusSteps'' ''customSteps'' d1 (?st d1) = (Inr d2, ?st d2)"
    unfolding d2_def by (subst robot_rename_run [OF k(1), of _ "put_robot i j d1 gs"]) (simp_all add: put_robot_twice)
  have s3: "robot_rename i j ''groupName'' ''name'' d2 (?st d2) = (Inr d3, ?st d3)"
    unfolding d3_def by (subst robot_rename_run [OF k(2), of _ "put_robot i j d2 gs"]) (simp_all add: put_robot_twice)
  have s4: "robot_drop i j scan_keys d3 (?st d3) = (Inr (drop_keys scan_keys d3), ?st (drop_keys scan_keys d3))"
    by (subst robot_drop_run [OF k3(2,1), of _ i j gs]) simp_all
  have e: "scanned mid d = drop_keys scan_keys d3" by (simp add: scanned_def d1_def d2_def d3_def Let_def)
  show ?thesis
    unfolding scanned_robot_def prod.case scan_keys_def [symmetric] d1_def [symmetric]
    by (simp add: py_bind_def s1 s2 s3 s4 e)
qed

lemma scanned_nameless: "py_eq (dget (scanned mid d) ''groupName'') (JStr n) = False"
  by (simp add: scanned_def drop_keys_def scan_keys_def Let_def dget_dpop)

lemma scan_product_run:
  assumes g: "groups_of A s = Inr gs" "good_groups gs"
    and p: "get_product_iot_map A = Inr products" "find_product mid products = Inr (Some (JObj b))"
      "dget_or b ''product'' (JObj []) = JObj q" "dget q ''name'' = JStr n" "n \<noteq> []"
    and f: "find_group ''groupName'' (JStr n) gs = Inr r"
    and c: "get_product_category (JStr n) (map_option (snd \<circ> snd) r) = Inr category"
    and d: "\<And>i j d. r = Some (i, j, d) \<Longrightarrow> scannable d"
  shows "scan_product A mid s = (case r of
      None \<Rightarrow> (Inr (category, JNull), s\<lparr>st_groups := Some gs\<rparr>)
    | Some (i, j, d) \<Rightarrow> (Inr (category, JObj (scanned mid d)), s\<lparr>st_groups := Some (put_robot i j (scanned mid d) gs)\<rparr>))"
proof -
  have "get_attr (JObj b) ''product'' (JObj []) = Inr (JObj q)" "get_attr (JObj q) ''name'' JNull = Inr (JStr n)"
    using p by (simp_all add: get_attr_def dget_def)
  moreover have "get_config_groups_robot A (JStr n) ''groupName'' s = (Inr r, s\<lparr>st_groups := Some gs\<rparr>)"
    using p(5) by (simp add: get_config_groups_robot_def py_bind_def groups_response [OF g(1)] py_of_def f)
  ultimately have "scan_product A mid s =
      (case r of None \<Rightarrow> py_ret (category, JNull)
       | Some r \<Rightarrow> py_bind (scanned_robot mid r) (\<lambda>d. py_ret (category, JObj d))) (s\<lparr>st_groups := Some gs\<rparr>)"
    by (simp add: scan_product_def p(1,2) py_bind_of c py_bind_def [of "get_config_groups_robot _ _ _"])
  then show ?thesis
    by (auto simp: py_ret_def py_bind_def scanned_robot_run [OF _ d] split: option.splits)
qed

end
