(* ===== verification/App_Laws.thy ===== *)
theory App_Laws
  imports Web_Laws
begin

text \<open>
  The tables after the account actions and the home handlers, whatever the request holds; the
  ordered lists of cleaning logs and their pages; commands through the helper bot; the loops
  and the steps of the start.
\<close>

section \<open>Tables after any step\<close>

text \<open>A step whose continuation depends on what the step has found.\<close>

lemma keeps_bind_at:
  assumes "\<And>s e s'. P s \<Longrightarrow> m s = (Inl e, s') \<Longrightarrow> P s'"
    and "\<And>s x s'. P s \<Longrightarrow> m s = (Inr x, s') \<Longrightarrow> P (snd (f x s'))"
  shows "keeps P (py_bind m f)"
proof (rule keepsI)
  fix s assume "P s"
  then show "P (snd (py_bind m f s))"
    using assms by (cases "m s"; cases "fst (m s)") (auto simp: py_bind_def)
qed

lemma keeps_db_gets [intro]: "keeps P (db_gets f)"
  by (simp add: keeps_def db_gets_def py_gets_def)

lemma keeps_db_try [intro]: "keeps P (db_try f)"
  by (simp add: keeps_def db_try_def)

lemma keeps_db_do [intro]: "(\<And>db. db_ok db \<Longrightarrow> db_ok (f db)) \<Longrightarrow> keeps (\<lambda>w. db_ok (w_db w)) (db_do f)"
  by (simp add: keeps_def db_do_def py_modify_def)

lemma ok_filter:
  "bots_ok db \<Longrightarrow> bots_ok (db(tn := filter P (db tn)))"
  "clients_ok db \<Longrightarrow> clients_ok (db(tn := filter P (db tn)))"
  "users_ok db \<Longrightarrow> users_ok (db(tn := filter P (db tn)))"
  "tokens_ok db \<Longrightarrow> tokens_ok (db(tn := filter P (db tn)))"
  "logs_ok db \<Longrightarrow> logs_ok (db(tn := filter P (db tn)))"
proof -
  show "bots_ok db \<Longrightarrow> bots_ok (db(tn := filter P (db tn)))"
    unfolding bots_ok_def by (cases "tn = ''bots''") (simp_all add: unique_filter)
  show "clients_ok db \<Longrightarrow> clients_ok (db(tn := filter P (db tn)))"
    unfolding clients_ok_def by (cases "tn = ''clients''") (simp_all add: unique_filter)
  show "users_ok db \<Longrightarrow> users_ok (db(tn := filter P (db tn)))"
    unfolding users_ok_def by (cases "tn = ''users''") (simp_all add: unique_filter list_all_iff)
  show "tokens_ok db \<Longrightarrow> tokens_ok (db(tn := filter P (db tn)))"
    using tokens_ok_filter [of db P]
    by (cases "tn = ''tokens''") (simp_all add: tokens_ok_def)
  show "logs_ok db \<Longrightarrow> logs_ok (db(tn := filter P (db tn)))"
    unfolding logs_ok_def
    by (cases "tn = ''clean_logs''") (simp_all add: ids_ok_filter distinct_map_filter list_all_iff)
qed

lemma db_ok_filter: "db_ok db \<Longrightarrow> db_ok (db(tn := filter P (db tn)))"
  by (simp only: db_ok_def ok_filter simp_thms)

lemma str_keys_upsert_new:
  "f \<notin> fst ` set d \<Longrightarrow> str_keys f (fst (rows_upsert n d q t)) = str_keys f t"
proof -
  assume f: "f \<notin> fst ` set d"
  then have "map_of d f = None" by (simp add: map_of_eq_None_iff)
  then have "key_of f d = None" by (simp add: key_of_def)
  with f show ?thesis by (simp add: rows_upsert_def)
qed

context tinydb
begin

lemma remove_is_filter: "\<exists>P. repo_remove D tn (QEq f v) db = db(tn := filter P (db tn))"
proof (cases "List.find (rmatch (QEq f v)) (db tn)")
  case None
  then show ?thesis by (intro exI [of _ "\<lambda>_. True"]) (simp add: repo_remove_def)
next
  case (Some r)
  then have "r \<in> set (db tn)" using find_SomeD by metis
  with Some have "repo_remove D tn (QEq f v) db = db(tn := filter (\<lambda>x. fst x \<notin> {fst r}) (db tn))"
    by (simp add: repo_remove_def)
  then show ?thesis by blast
qed

lemma db_ok_remove: "db_ok db \<Longrightarrow> db_ok (repo_remove D tn (QEq f v) db)"
  using remove_is_filter [of tn f v db] db_ok_filter by metis

lemma db_ok_bot_set:
  assumes "f \<noteq> ''did''" "db_ok db"
  shows "db_ok (bot_set_field D did f v db)"
proof (cases "did = JNull")
  case False
  let ?t = "fst (rows_upsert (tdb_fresh D (db ''bots'')) [(f, v)] (QEq ''did'' did) (db ''bots''))"
  have run: "bot_set_field D did f v db = db(''bots'' := ?t)"
    using False by (simp add: bot_set_field_def repo_upsert_rows split: prod.splits)
  have "unique_key ''did'' ?t"
    using assms by (simp add: db_ok_def bots_ok_def unique_key_def str_keys_upsert_new ids_ok_upsert fresh_id)
  moreover have "\<forall>tn. tn \<noteq> ''bots'' \<longrightarrow> (db(''bots'' := ?t)) tn = db tn" by simp
  ultimately show ?thesis
    using assms(2) tables_elsewhere [of "''bots''" "db(''bots'' := ?t)" db]
    by (simp add: run db_ok_def bots_ok_def)
qed (use assms(2) in \<open>simp add: bot_set_field_def\<close>)

lemma db_ok_revoke:
  assumes "db_ok db"
  shows "db_ok (token_revoke_user_expired D now (JStr u) db)"
proof -
  have "tokens_ok db" using assms by (simp add: db_ok_def)
  show ?thesis unfolding revoke_user_expired_rows [OF \<open>tokens_ok db\<close>] by (rule db_ok_filter [OF assms])
qed

lemma db_ok_set_code:
  assumes "db_ok db" "f \<notin> {''userid'', ''token'', ''expiration''}"
  shows "db_ok (snd (token_set_code D f (JStr u) c db))"
proof -
  have "tokens_ok (snd (token_set_code D f (JStr u) c db))"
    using assms by (intro tokens_ok_set_code) (simp_all add: db_ok_def)
  moreover have "\<forall>tn. tn \<noteq> ''tokens'' \<longrightarrow> snd (token_set_code D f (JStr u) c db) tn = db tn"
    using assms(2) by (simp add: set_code_rows)
  ultimately show ?thesis
    using assms(1) tables_elsewhere [of "''tokens''" "snd (token_set_code D f (JStr u) c db)" db]
    by (simp add: db_ok_def)
qed

lemma db_ok_home:
  assumes "db_ok db" "f \<in> set list_fields"
  shows "db_ok (snd (user_list_op D (JStr k) f v add db))"
proof -
  obtain db' where "user_list_op D (JStr k) f v add db = (Inr (), db')" "users_ok db'"
    "\<forall>tn. tn \<noteq> ''users'' \<longrightarrow> db' tn = db tn"
    using user_list_op_ok [OF _ assms(2), of db k v add undefined] assms(1) by (auto simp: db_ok_def)
  then show ?thesis using assms(1) tables_elsewhere [of "''users''" db' db] by (simp add: db_ok_def)
qed

text \<open>A record found under a value has that value as its key, which is a text.\<close>

lemma user_found_key:
  assumes "users_ok db" "user_get_by_id D cfg v db \<noteq> None"
  shows "\<exists>k. v = JStr k"
proof -
  obtain r where r: "List.find (rmatch (QEq ''userid'' v)) (db ''users'') = Some r"
    using assms(2) by (auto simp: user_get_by_id_def repo_get_def)
  then have r: "r \<in> set (db ''users'')" "rmatch (QEq ''userid'' v) r" using find_SomeD by metis+
  obtain k where "map_of (snd r) ''userid'' = Some (JStr k)"
    using users_ok_row [OF assms(1) r(1)] by (auto simp: user_doc_def key_of_Some)
  with r(2) show ?thesis by (simp add: qmatch.simps(1))
qed

abbreviation good_web :: "web \<Rightarrow> bool" where
  "good_web w \<equiv> db_ok (w_db w)"

abbreviation good_app :: "app \<Rightarrow> bool" where
  "good_app s \<equiv> good_web (st_web s)"

lemma keeps_generate_code:
  assumes "e_store E = D"
  shows "keeps good_web (generate_auth_code E (JStr u))"
proof (rule keepsI)
  fix w assume ok: "good_web w"
  let ?c = "JStr (e_uuid E (w_drawn w))"
  obtain b db' where run: "token_set_code D ''auth_code'' (JStr u) ?c (w_db w) = (b, db')" by force
  have "db_ok (snd (token_set_code D ''auth_code'' (JStr u) ?c (w_db w)))"
    by (rule db_ok_set_code [OF ok]) simp
  then show "good_web (snd (generate_auth_code E (JStr u) w))"
    by (simp add: generate_auth_code_def token_add_auth_code_def py_bind_def draw_uuid_def db_step_def py_ret_def assms run)
qed

lemma keeps_get_auth_code_v2:
  assumes E: "e_store E = D"
  shows "keeps good_web (get_auth_code_v2 E rq)"
  unfolding get_auth_code_v2_def Let_def
proof (rule keeps_guarded, rule keeps_bind [OF keeps_of], rule keeps_bind [OF keeps_of], rule keeps_bind [OF keeps_of],
    rule keeps_bind_at)
  fix auth s user s'
  let ?id = "dget auth ''userid''"
  let ?m = "if ?id \<noteq> JNull then db_gets (user_get_by_id (e_store E) (e_cfg E) ?id) else py_ret None"
  assume ok: "good_web s" and run: "?m s = (Inr user, s')"
  have s': "s' = s" and user: "user = (if ?id \<noteq> JNull then user_get_by_id D (e_cfg E) ?id (w_db s) else None)"
    using run by (auto simp: E db_gets_def py_gets_def py_ret_def split: if_splits)
  let ?k = "\<lambda>user. case user of
        None \<Rightarrow> py_ret (response_error_v2 (''No user found for '' @ py_str ?id) ERR_USER_DISABLE)
      | Some user \<Rightarrow>
          py_seq (db_do (token_revoke_user_expired (e_store E) (e_now E) ?id))
          (py_bind (db_try (token_get_first (e_store E) ?id)) (\<lambda>t.
           if (case t of None \<Rightarrow> JNull | Some t \<Rightarrow> tok_auth_code t) \<noteq> JNull
           then py_ret (response_success_v2 (case t of None \<Rightarrow> JNull | Some t \<Rightarrow> tok_auth_code t) None ''code'' ''result'')
           else
             py_bind (generate_auth_code E (usr_userid user)) (\<lambda>auth_code.
               py_ret (if auth_code \<noteq> JNull
                 then response_success_v2 auth_code None ''code'' ''result''
                 else response_error_v2 ''Auth error'' ERR_USER_DISABLE))))"
  have "keeps good_web (?k user)"
  proof (cases user)
    case None
    then show ?thesis by (simp add: keeps_ret)
  next
    case (Some u)
    then obtain k where k: "?id = JStr k" "user_get_by_id D (e_cfg E) (JStr k) (w_db s) = Some u"
      using user user_found_key [of "w_db s" "e_cfg E" ?id] ok by (auto simp: db_ok_def split: if_splits)
    then have id: "usr_userid u = JStr k" using user_shape(1) ok by (auto simp: db_ok_def)
    show ?thesis unfolding Some k(1) id option.case
      by (intro keeps_rules keeps_generate_code E keeps_db_try keeps_db_do) (simp_all add: E db_ok_revoke)
  qed
  then show "good_web (snd (?k user s'))" unfolding s' using ok by (rule keepsD)
qed (auto simp: db_gets_def py_gets_def py_ret_def split: if_splits)

end

section \<open>The account actions\<close>

lemma keeps_groups_response [intro]: "keeps (\<lambda>s. P (st_web s)) (get_config_groups_response A)"
  unfolding get_config_groups_response_def
  by (intro keeps_rules) (simp add: keeps_def py_modify_def)

lemma keeps_groups_robot [intro]: "keeps (\<lambda>s. P (st_web s)) (get_config_groups_robot A v k)"
  unfolding get_config_groups_robot_def by (intro keeps_rules keeps_groups_response)

lemma keeps_device_infos: "keeps (\<lambda>s. P (st_web s)) (device_infos A devs)"
proof (induction devs)
  case (Cons dev devs)
  have "keeps (\<lambda>s. P (st_web s)) (product_info A p r d)" for p r d
    unfolding product_info_def Let_def by (intro keeps_rules keeps_groups_robot)
  then have "keeps (\<lambda>s. P (st_web s)) (include_product_iot_map_info A dev)"
    unfolding include_product_iot_map_info_def Let_def by (intro keeps_rules keeps_groups_robot)
  with Cons show ?case by (auto intro!: keeps_rules)
qed auto

lemma keeps_device_list: "keeps (\<lambda>s. P (st_web s)) (create_device_list A)"
  unfolding create_device_list_def by (intro keeps_rules keeps_device_infos keeps_web_run keeps_db_gets)

lemma keeps_login_answer: "keeps P (it_login_answer d t u)"
  unfolding it_login_answer_def by (intro keeps_rules)

context tinydb
begin

lemma keeps_action:
  assumes A: "ap_store A = D" and h: "todo_handler A rq todo = Some h"
  shows "keeps good_app (h post_body)"
proof -
  have did: "keeps good_app (with_did post_body f)" if "\<And>did. keeps good_app (f did)" for f
    using that unfolding with_did_def Let_def by (intro keeps_rules)
  have nick: "keeps good_app (web_run (db_do (bot_set_nick (ap_store A) did v)))" for did v
    by (intro keeps_web_run keeps_db_do) (simp add: A bot_set_nick_def db_ok_bot_set)
  have drop: "keeps good_app (web_run (db_do (bot_remove (ap_store A) v)))"
    "keeps good_app (web_run (db_do (user_remove (ap_store A) v)))"
    "keeps good_app (web_run (db_do (client_remove (ap_store A) v)))" for v
    by (intro keeps_web_run keeps_db_do, simp add: A bot_remove_def user_remove_def client_remove_def db_ok_remove)+
  have "keeps good_app (handle_find_best A post_body)" "keeps good_app (handle_get_device_list A)"
    "keeps good_app (handle_login_by_it_token A post_body)" "keeps good_app (handle_set_device_nick A post_body)"
    "keeps good_app (handle_add_one_device A post_body)" "keeps good_app (handle_delete_one_device A post_body)"
    "keeps good_app (handle_logout A post_body)"
    unfolding handle_find_best_def handle_get_device_list_def handle_login_by_it_token_def handle_logout_def
      handle_set_device_nick_def handle_add_one_device_def handle_delete_one_device_def Let_def
    by (intro keeps_rules keeps_device_list keeps_login_answer keeps_web_run keeps_db_gets keeps_db_try did nick drop)+
  moreover have "keeps good_app (py_bind (web_run (get_auth_code_v2 (ap_env A) rq)) (\<lambda>r. py_ret (Some r)))"
    by (intro keeps_rules keeps_web_run keeps_get_auth_code_v2 A)
  ultimately show ?thesis using h by (auto simp: todo_handler_def split: if_splits)
qed

lemma keeps_handle_user:
  assumes "ap_store A = D"
  shows "keeps good_app (handle_user A rq)"
proof -
  have "keeps good_app (case todo_handler A rq todo of
        None \<Rightarrow> py_ret (error_v6 todo)
      | Some h \<Rightarrow> py_try (py_bind (h d) (\<lambda>r. py_ret (case r of None \<Rightarrow> error_v6 todo | Some r \<Rightarrow> r)))
          (\<lambda>_. py_ret (error_v6 todo)))" for todo d
    by (cases "todo_handler A rq todo") (simp_all add: keeps_ret keeps_try keeps_bind keeps_action [OF assms])
  then show ?thesis unfolding handle_user_def Let_def by (intro keeps_app_guarded keeps_bind keeps_of)
qed

end

context tinydb
begin

lemma logout_run:
  assumes A: "ap_store A = D" and ok: "db_ok (w_db (st_web s))"
    and body: "rq_body rq = Inr (JObj d)" "dget_or d ''todo'' (JStr []) = JStr ''logout''"
      "map_of d ''userId'' = Some (JStr u)"
  shows "\<exists>s'. handle_user A rq s = (Inr (JsonResponse (JObj [(''todo'', JStr ''result''), (''result'', JStr ''ok'')])), s') \<and>
    (\<forall>k. user_get_by_id D cfg (JStr k) (w_db (st_web s')) =
       (if k = u then None else user_get_by_id D cfg (JStr k) (w_db (st_web s)))) \<and>
    (\<forall>k. client_get D (JStr k) (w_db (st_web s')) =
       (if k = u then None else client_get D (JStr k) (w_db (st_web s)))) \<and>
    w_db (st_web s') ''tokens'' = w_db (st_web s) ''tokens''"
proof -
  let ?db = "w_db (st_web s)"
  let ?db1 = "user_remove D (JStr u) ?db"
  let ?db2 = "client_remove D (JStr u) ?db1"
  have other: "?db1 tn = ?db tn" if "tn \<noteq> ''users''" for tn
    using that by (simp add: user_remove_def repo_remove_key split: option.splits)
  have other2: "?db2 tn = ?db1 tn" if "tn \<noteq> ''clients''" for tn
    using that by (simp add: client_remove_def repo_remove_key split: option.splits)
  have run: "handle_user A rq s = (Inr (JsonResponse (JObj [(''todo'', JStr ''result''), (''result'', JStr ''ok'')])),
      s\<lparr>st_web := (st_web s)\<lparr>w_db := ?db2\<rparr>\<rparr>)"
    using body by (simp add: handle_user_def Let_def todo_handler_def handle_logout_def py_run A)
  have "user_get_by_id D cfg (JStr k) ?db2 = user_get_by_id D cfg (JStr k) ?db1" for k
    using other2 by (simp add: user_get_lookup)
  moreover have "client_get D (JStr k) ?db1 = client_get D (JStr k) ?db" for k
    using other by (simp add: client_get_lookup)
  moreover have "clients_ok ?db1" using ok other by (simp add: db_ok_def clients_ok_def)
  ultimately show ?thesis
    using ok other other2 by (simp add: run users.get_remove clients.get_remove db_ok_def)
qed

end

lemma as_dict_Inr: "as_dict_value v = Inr d \<longleftrightarrow> v = JObj d"
  by (cases v) auto

lemma handle_user_answers:
  "(\<exists>r. fst (handle_user A rq s) = Inr r) \<longleftrightarrow> (\<exists>d. rq_body rq = Inr (JObj d))"
  by (cases "rq_body rq")
    (auto simp: handle_user_def Let_def py_run as_dict_Inr split: prod.splits sum.splits option.splits)

section \<open>Homes and cleaning logs\<close>

context tinydb
begin

lemma token_owner_str:
  assumes "tokens_ok db" "token_get_by_auth_code D c db = Inr (Some t)"
  shows "\<exists>u. tok_userid t = JStr u"
proof -
  obtain i d where r: "List.find (rmatch (QEq ''auth_code'' c)) (db ''tokens'') = Some (i, d)" "token_from_dict d = Inr t"
    using assms(2) by (auto simp: token_get_by_auth_code_def token_of_row_def split: option.splits sum.splits)
  then have "token_doc d" using tokens_ok_row [OF assms(1)] find_SomeD [OF r(1)] by fastforce
  then show ?thesis using r(2)
    by (auto simp: token_doc_def token_from_dict_def key_of_Some dget_def dget_or_def Let_def split: sum.splits option.splits)
qed

lemma user_of_home_str:
  assumes "users_ok db" "user_get_by_home_id D cfg h db = Some u"
  shows "\<exists>k. usr_userid u = JStr k"
proof -
  obtain r where r: "r \<in> set (db ''users'')" "u = user_from_dict cfg (snd r)"
    using assms(2) find_SomeD by (fastforce simp: user_get_by_home_id_def repo_get_def)
  then obtain k where "map_of (snd r) ''userid'' = Some (JStr k)"
    using users_ok_row [OF assms(1) r(1)] by (auto simp: user_doc_def key_of_Some)
  then show ?thesis using r(2) by (simp add: user_from_dict_def BumperUser_def dget_or_def)
qed

lemma keeps_home_op: "f \<in> set list_fields \<Longrightarrow> keeps good_app (web_run (db_run (user_list_op D (JStr k) f v add)))"
  by (auto simp: keeps_def web_run_def db_run_def py_zoom_def split: prod.splits dest: db_ok_home [of _ f k v add])

lemma keeps_home_create:
  assumes A: "ap_store A = D"
  shows "keeps good_app (handle_home_create A rq)"
proof -
  let ?add = "\<lambda>t. if tok_userid t \<noteq> JNull then py_bind (web_run (draw_uuid (ap_env A)))
      (\<lambda>u. web_run (db_run (user_add_home_id (ap_store A) (tok_userid t) (JStr u)))) else py_ret ()"
  have add: "keeps good_app (?add t)" if "tok_userid t = JStr k" for t k
    unfolding that A user_add_home_id_def
    by (intro keeps_if keeps_bind keeps_home_op keeps_ret) (auto simp: list_fields_def keeps_def web_run_def py_zoom_def draw_uuid_def)
  have tok: "keeps good_app (py_bind (web_run (db_try (token_get_by_auth_code (ap_store A) c)))
      (\<lambda>tok. py_seq (case tok of Some t \<Rightarrow> ?add t | None \<Rightarrow> py_ret ()) (py_ret (plain_success JNull))))" for c
  proof (rule keeps_bind_at)
    fix s tok s'
    assume ok: "good_app s" and run: "web_run (db_try (token_get_by_auth_code (ap_store A) c)) s = (Inr tok, s')"
    have s': "s' = s" "token_get_by_auth_code D c (w_db (st_web s)) = Inr tok"
      using run by (auto simp: web_run_def py_zoom_def db_try_def A)
    have "keeps good_app (case tok of Some t \<Rightarrow> ?add t | None \<Rightarrow> py_ret ())"
    proof (cases tok)
      case None
      then show ?thesis by (simp add: keeps_ret)
    next
      case (Some t)
      then obtain k where "tok_userid t = JStr k"
        using token_owner_str [of "w_db (st_web s)" c t] s'(2) ok by (auto simp: db_ok_def)
      then show ?thesis unfolding Some option.case by (rule add)
    qed
    then have "keeps good_app (py_seq (case tok of Some t \<Rightarrow> ?add t | None \<Rightarrow> py_ret ()) (py_ret (plain_success JNull)))"
      by (intro keeps_seq keeps_ret)
    then show "good_app (snd (py_seq (case tok of Some t \<Rightarrow> ?add t | None \<Rightarrow> py_ret ()) (py_ret (plain_success JNull)) s'))"
      unfolding s'(1) using ok by (rule keepsD)
  qed (auto simp: web_run_def py_zoom_def db_try_def)
  show ?thesis unfolding handle_home_create_def
    by (intro keeps_bind keeps_of keeps_option keeps_ret tok)
qed

lemma keeps_home_delete:
  assumes A: "ap_store A = D"
  shows "keeps good_app (handle_home_delete A rq)"
proof -
  let ?drop = "\<lambda>h u. web_run (db_run (user_remove_home_id (ap_store A) (usr_userid u) h))"
  have "keeps good_app (py_bind (web_run (db_gets (user_get_by_home_id (ap_store A) (ap_cfg A) h)))
      (\<lambda>user. py_seq (case user of Some u \<Rightarrow> ?drop h u | None \<Rightarrow> py_ret ()) (py_ret (plain_success JNull))))" for h
  proof (rule keeps_bind_at)
    fix s user s'
    assume ok: "good_app s" and run: "web_run (db_gets (user_get_by_home_id (ap_store A) (ap_cfg A) h)) s = (Inr user, s')"
    have s': "s' = s" "user_get_by_home_id D (ap_cfg A) h (w_db (st_web s)) = user"
      using run by (auto simp: web_run_def py_zoom_def db_gets_def py_gets_def A)
    have "keeps good_app (case user of Some u \<Rightarrow> ?drop h u | None \<Rightarrow> py_ret ())"
    proof (cases user)
      case None
      then show ?thesis by (simp add: keeps_ret)
    next
      case (Some u)
      then obtain k where k: "usr_userid u = JStr k"
        using user_of_home_str [of "w_db (st_web s)" "ap_cfg A" h u] s'(2) ok by (auto simp: db_ok_def)
      show ?thesis unfolding Some option.case k A user_remove_home_id_def by (rule keeps_home_op) (simp add: list_fields_def)
    qed
    then have "keeps good_app (py_seq (case user of Some u \<Rightarrow> ?drop h u | None \<Rightarrow> py_ret ()) (py_ret (plain_success JNull)))"
      by (intro keeps_seq keeps_ret)
    then show "good_app (snd (py_seq (case user of Some u \<Rightarrow> ?drop h u | None \<Rightarrow> py_ret ()) (py_ret (plain_success JNull)) s'))"
      unfolding s'(1) using ok by (rule keepsD)
  qed (auto simp: web_run_def py_zoom_def db_gets_def py_gets_def)
  note drop = this
  have body: "keeps good_app (body_dict rq)" unfolding body_dict_def by (intro keeps_bind keeps_of)
  show ?thesis unfolding handle_home_delete_def Let_def by (rule keeps_bind [OF body drop])
qed

lemma keeps_clean_result_del:
  "ap_store A = D \<Longrightarrow> keeps good_app (handle_clean_result_del A rq)"
  unfolding handle_clean_result_del_def body_dict_def
  by (intro keeps_bind keeps_of keeps_seq keeps_for keeps_ret keeps_web_run keeps_db_do)
    (simp add: clean_log_remove_by_id_def db_ok_remove)

lemma keeps_remove_entity:
  assumes A: "ap_store A = D"
  shows "keeps good_web (handle_remove_entity A e rq)"
proof -
  have "db_ok (clean_log_clear D db)" if "db_ok db" for db
    using db_ok_filter [OF that, of "''clean_logs''" "\<lambda>_. False"] by (simp add: clean_log_clear_def)
  then have all: "keeps good_web (remove_all_logs A)"
    unfolding remove_all_logs_def A by (intro keeps_seq keeps_db_do keeps_bind keeps_db_try keeps_ret)
  have one: "keeps good_web (db_do (remove v))" if "entity_ops A e = Some (param, remove, present)" for param remove present v
    using that unfolding entity_ops_def A Let_def
    by (intro keeps_db_do) (auto simp: bot_remove_def client_remove_def user_remove_def clean_log_remove_by_id_def
        db_ok_remove split: if_splits)
  show ?thesis
  proof (cases "entity_ops A e")
    case None
    then show ?thesis unfolding handle_remove_entity_def by (simp add: keeps_guarded keeps_if all keeps_ret)
  next
    case (Some x)
    then show ?thesis unfolding handle_remove_entity_def
      by (cases x) (auto simp: Let_def intro!: keeps_rules keeps_guarded all one keeps_db_try)
  qed
qed

end

section \<open>Ordered logs and pages\<close>

definition ts_of :: "doc \<Rightarrow> int" where
  "ts_of d = (case dget d ''ts'' of JInt i \<Rightarrow> i | _ \<Rightarrow> 0)"

lemma sort_logs:
  assumes "\<And>d. d \<in> set ds \<Longrightarrow> \<exists>i. dget d ''ts'' = JInt i"
  shows "\<exists>es. sort_desc ts_less ds = Inr es \<and> mset es = mset ds \<and> sorted_wrt (\<lambda>a b. ts_of b \<le> ts_of a) es"
proof -
  have less: "ts_less a b = by_int ts_of a b" if "a \<in> set ds" "b \<in> set ds" for a b
    using assms [OF that(1)] assms [OF that(2)] by (auto simp: ts_less_def by_int_def ts_of_def)
  then have "all_pairs (\<lambda>a b. ts_less a b \<noteq> None) ds" by (intro all_pairs_set) (simp add: by_int_def)
  moreover have "foldr (insert_desc ts_less) ds [] = foldr (insert_desc (by_int ts_of)) ds []"
    by (rule foldr_insert_cong) (rule less)
  ultimately show ?thesis using sorted_foldr_insert [of ts_of ds] by (simp add: sort_desc_def)
qed

lemma val_less_JNull: "val_less JNull v = None" "val_less v JNull = None"
  by (cases v; simp)+

lemma all_pairs_bad:
  "x \<in> set xs \<Longrightarrow> 2 \<le> length xs \<Longrightarrow> (\<And>y. \<not> P x y \<and> \<not> P y x) \<Longrightarrow> \<not> all_pairs P xs"
proof (induction xs)
  case (Cons y ys)
  show ?case
  proof (cases "x = y")
    case True
    then show ?thesis using Cons.prems(2,3) by (cases ys) auto
  next
    case False
    then have "x \<in> set ys" using Cons.prems(1) by simp
    then show ?thesis using Cons.prems(3) by (auto simp: list_all_iff)
  qed
qed simp

lemma sort_missing_ts:
  "d \<in> set ds \<Longrightarrow> dget d ''ts'' = JNull \<Longrightarrow> 2 \<le> length ds \<Longrightarrow> sort_desc ts_less ds = Inl TypeError"
  using all_pairs_bad [of d ds "\<lambda>a b. ts_less a b \<noteq> None"] by (simp add: sort_desc_def ts_less_def val_less_JNull)

lemma page_of_rows: "0 \<le> offset \<Longrightarrow> 0 \<le> limit \<Longrightarrow> page_of offset limit xs = take (nat limit) (drop (nat offset) xs)"
  by (cases "nat offset \<le> length xs")
    (auto simp: page_of_def py_slice_def slice_index_def Let_def nat_add_distrib min_def)

lemma pages_prefix:
  "concat (map (\<lambda>i. page_of (int (i * l)) (int l) xs) [0..<n]) = take (n * l) xs"
proof (induction n)
  case (Suc n)
  have "take l (drop (n * l) xs) = page_of (int (n * l)) (int l) xs"
    using page_of_rows [of "int (n * l)" "int l" xs] by (simp only: of_nat_0_le_iff nat_int)
  then show ?case using Suc take_add [of "n * l" l xs] by (simp add: add.commute del: of_nat_mult)
qed simp

section \<open>Commands\<close>

text \<open>What a command of a request does, from the answers that come in while it waits.\<close>

lemma bot_send_command_run:
  assumes "hb_client h" "cmd_version c \<in> {VERSION_OLD, VERSION_NEW, VERSION_P2P}"
  shows "\<exists>s'. bot_send_command A h c s =
      (send_command c (command_value (ap_env A) c (answers (cmd_request_id c) (ap_inbox A c))), s') \<and>
    (\<exists>h'. st_helper s' = Some h' \<and> hb_commands h' (cmd_request_id c) = None) \<and> st_groups s' = st_groups s"
proof -
  let ?h = "h\<lparr>hb_db := w_db (st_web s)\<rparr>"
  obtain v h' where run: "send_command_plain (ap_env A) c (ap_inbox A c) ?h = (v, h')" by force
  have "hb_client ?h" using assms(1) by simp
  then have "v = command_value (ap_env A) c (answers (cmd_request_id c) (ap_inbox A c))"
    "hb_commands h' (cmd_request_id c) = None"
    using send_plain_value [of ?h "ap_env A" c "ap_inbox A c"]
      send_plain_pending [of ?h "ap_env A" c "ap_inbox A c" "cmd_request_id c"] run by simp_all
  then show ?thesis using assms(2) run
    by (auto simp: bot_send_command_def bot_send_plain_def py_bind_def py_of_def)
qed

section \<open>The start\<close>

lemma poll_finds: "f (n + k) \<Longrightarrow> (\<And>i. i < k \<Longrightarrow> \<not> f (n + i)) \<Longrightarrow> poll f n = Some (n + k)"
proof (induction k arbitrary: n)
  case 0
  then show ?case by (simp add: poll.simps)
next
  case (Suc k)
  have "\<not> f n" using Suc.prems(2) [of 0] by simp
  moreover have "poll f (Suc n) = Some (Suc n + k)"
  proof (rule Suc.IH)
    show "f (Suc n + k)" using Suc.prems(1) by simp
    show "\<not> f (Suc n + i)" if "i < k" for i using Suc.prems(2) [of "Suc i"] that by simp
  qed
  ultimately show ?case by (simp add: poll.simps [of f n])
qed

lemma poll_Some:
  assumes "poll f n = Some m"
  shows "f m \<and> n \<le> m \<and> (\<forall>i. n \<le> i \<longrightarrow> i < m \<longrightarrow> \<not> f i)"
proof (rule poll.raw_induct [of "\<lambda>f n m. f m \<and> n \<le> m \<and> (\<forall>i. n \<le> i \<longrightarrow> i < m \<longrightarrow> \<not> f i)", OF _ assms])
  fix poll' :: "(nat \<Rightarrow> bool) \<Rightarrow> nat \<Rightarrow> nat option" and f n m
  assume IH: "\<And>f n m. poll' f n = Some m \<Longrightarrow> f m \<and> n \<le> m \<and> (\<forall>i. n \<le> i \<longrightarrow> i < m \<longrightarrow> \<not> f i)"
    and step: "(if f n then Some n else poll' f (Suc n)) = Some m"
  show "f m \<and> n \<le> m \<and> (\<forall>i. n \<le> i \<longrightarrow> i < m \<longrightarrow> \<not> f i)"
  proof (cases "f n")
    case False
    then have "poll' f (Suc n) = Some m" using step by simp
    note found = IH [OF this]
    have "\<not> f i" if "n \<le> i" "i < m" for i
      using found False that by (cases "i = n") (auto simp: Suc_le_eq)
    then show ?thesis using found by simp
  qed (use step in auto)
qed

text \<open>The loop ends exactly when its condition comes true, in the first such round.\<close>

lemma poll_least: "poll f 0 = (if \<exists>n. f n then Some (LEAST n. f n) else None)"
proof (cases "\<exists>n. f n")
  case True
  define l where "l = (LEAST n. f n)"
  have l: "f l" "\<And>i. i < l \<Longrightarrow> \<not> f i"
    unfolding l_def using True by (auto intro: LeastI_ex dest: not_less_Least)
  then have "poll f 0 = Some l" using poll_finds [of f 0 l] by simp
  then show ?thesis using True by (simp add: l_def)
next
  case False
  then show ?thesis using poll_Some [of f 0] by (cases "poll f 0") auto
qed

lemma poll_returns: "(\<exists>n. poll f 0 = Some n) \<longleftrightarrow> (\<exists>n. f n)"
  by (simp add: poll_least)

lemma shutdown_mqtt_keeps:
  assumes "shutdown_mqtt S at_end p = Some (r, p')"
  shows "pr_shutting_down p' = pr_shutting_down p \<and> pr_helper p' = pr_helper p \<and> pr_web p' = pr_web p"
  using assms by (cases "pr_mqtt p") (auto simp: shutdown_mqtt_def split: option.splits if_splits sum.splits)

lemma xmpp_disconnect_keeps:
  "pr_shutting_down (snd (xmpp_disconnect S p)) = pr_shutting_down p \<and>
   pr_helper (snd (xmpp_disconnect S p)) = pr_helper p \<and> pr_web (snd (xmpp_disconnect S p)) = pr_web p"
  by (simp add: xmpp_disconnect_def put_db_def split: option.splits prod.splits)

lemma shutdown_web_keeps:
  assumes "shutdown_web S p = (r, p')"
  shows "pr_shutting_down p' = pr_shutting_down p \<and> pr_helper p' = pr_helper p \<and>
    (\<forall>w. pr_web p' = Some w \<longrightarrow> sites_stop (sv_sites S) \<or> r = Inr () \<longrightarrow> ws_runners w = [])"
  using assms by (auto simp: shutdown_web_def dest: web_server_shutdown_runners split: option.splits prod.splits)

lemma shutdown_quiet:
  assumes "shutdown_program S at_end q = Some (r, p')"
  shows "pr_shutting_down p' \<and> (\<forall>h. pr_helper p' = Some h \<longrightarrow> \<not> hb_connected h \<and> \<not> hb_client h) \<and>
    (\<forall>w. pr_web p' = Some w \<longrightarrow> sites_stop (sv_sites S) \<or> r = Inr () \<longrightarrow> ws_runners w = [])"
proof -
  let ?q = "q\<lparr>pr_shutting_down := True, pr_helper := map_option hb_disconnect (pr_helper q)\<rparr>"
  obtain d pw where w: "shutdown_web S ?q = (d, pw)" by force
  show ?thesis
  proof (cases d)
    case (Inl e)
    then show ?thesis
      using assms w shutdown_web_keeps [OF w] by (auto simp: shutdown_program_def hb_disconnect_def)
  next
    case (Inr u)
    obtain r'' p'' where m: "shutdown_mqtt S at_end pw = Some (r'', p'')"
      using assms w Inr by (cases "shutdown_mqtt S at_end pw") (auto simp: shutdown_program_def)
    then have "p' = p'' \<or> p' = snd (xmpp_disconnect S p'')"
      using assms w Inr by (cases r'') (auto simp: shutdown_program_def split: if_splits)
    then have "pr_shutting_down p' = pr_shutting_down pw \<and> pr_helper p' = pr_helper pw \<and> pr_web p' = pr_web pw"
      using xmpp_disconnect_keeps shutdown_mqtt_keeps [OF m] by metis
    then show ?thesis
      using Inr shutdown_web_keeps [OF w] by (auto simp: hb_disconnect_def)
  qed
qed

context tinydb
begin

lemma client_set_elsewhere: "tn \<noteq> ''clients'' \<Longrightarrow>
  fst (repo_upsert D ''clients'' (Some d) (QEq ''userid'' v) db) tn = db tn"
  by (simp add: repo_upsert_rows split: prod.splits)

lemma client_reset_elsewhere: "tn \<noteq> ''clients'' \<Longrightarrow> client_reset_all_connections D db tn = db tn"
proof -
  assume tn: "tn \<noteq> ''clients''"
  have "fold (\<lambda>r db. let user = dget (snd r) ''userid'' in client_set_xmpp D user False (client_set_mqtt D user False db)) rs d tn = d tn" for rs d
    by (induction rs arbitrary: d) (simp_all add: Let_def client_set_xmpp_def client_set_mqtt_def client_set_elsewhere tn)
  then show ?thesis by (simp add: client_reset_all_connections_def)
qed

end

section \<open>Removal\<close>

context tinydb
begin

lemmas entity_removed = bots.get_remove clients.get_remove users.get_remove

text \<open>Two logs with one id: the removal leaves the second.\<close>

lemma remove_log_leaves_second:
  assumes A: "ap_store A = D" and ok: "logs_ok (w_db w)" and i: "rq_info rq ''clean_log_id'' = JStr i" "i \<noteq> []"
    and two: "r1 \<in> set (w_db w ''clean_logs'')" "r2 \<in> set (w_db w ''clean_logs'')" "r1 \<noteq> r2"
      "key_of ''clean_log_id'' (snd r1) = Some i" "key_of ''clean_log_id'' (snd r2) = Some i"
  shows "\<exists>w'. handle_remove_entity A ''clean_log'' rq w = (Inr (removed_answer ''clean_log'' True), w') \<and>
    length (w_db w' ''clean_logs'') = length (w_db w ''clean_logs'') - 1"
proof -
  let ?t = "w_db w ''clean_logs''"
  have ids: "ids_ok ?t" using ok by (simp add: logs_ok_def)
  obtain r where r: "lookup ''clean_log_id'' i ?t = Some r"
    using two(1,4) lookup_None [of "''clean_log_id''" i ?t] by (cases "lookup ''clean_log_id'' i ?t") (auto simp: set_str_keys)
  then have rt: "r \<in> set ?t" using lookup_Some by blast
  have "filter (\<lambda>x. fst x \<noteq> fst r) ?t = filter (\<lambda>x. x \<noteq> r) ?t"
    using filter_ids_rows [OF ids, of "[r]"] rt by simp
  moreover have "distinct ?t" using ids by (auto simp: ids_ok_def distinct_map)
  then have "filter (\<lambda>x. x \<noteq> r) ?t = remove1 r ?t"
    by (simp add: distinct_remove1_removeAll removeAll_filter_not_eq) (metis (mono_tags, lifting))
  ultimately have t': "filter (\<lambda>x. fst x \<noteq> fst r) ?t = remove1 r ?t" by simp
  let ?db = "(w_db w)(''clean_logs'' := remove1 r ?t)"
  have rm: "clean_log_remove_by_id D (JStr i) (w_db w) = ?db"
    by (simp add: clean_log_remove_by_id_def repo_remove_key r t')
  obtain r' where "r' \<in> {r1, r2}" "r' \<noteq> r" using two(3) by blast
  then have "r' \<in> set (remove1 r ?t)" "key_of ''clean_log_id'' (snd r') = Some i" using two by (auto simp: in_set_remove1)
  then obtain r'' where r'': "lookup ''clean_log_id'' i (remove1 r ?t) = Some r''"
    using lookup_None [of "''clean_log_id''" i "remove1 r ?t"]
    by (cases "lookup ''clean_log_id'' i (remove1 r ?t)") (auto simp: set_str_keys)
  then have "r'' \<in> set ?t" using lookup_Some set_remove1_subset by fastforce
  then obtain l where "log_from_db (snd r'') = Inr l" using log_doc_from_db logs_ok_row [OF ok] by blast
  then have left: "clean_log_list_by_id D (JStr i) ?db = Inr (Some l)"
    by (simp add: clean_log_list_by_id_def r'')
  have "handle_remove_entity A ''clean_log'' rq w = (Inr (removed_answer ''clean_log'' True), w\<lparr>w_db := ?db\<rparr>)"
    using i by (simp add: handle_remove_entity_def entity_ops_def Let_def guarded_def py_run A rm left)
  then show ?thesis using rt by (simp add: length_remove1)
qed

end

end
