(* ===== verification/Samples.thy ===== *)
theory Samples
  imports App_Laws
begin

text \<open>
  Concrete states on which the properties are instantiated: a clock, an environment over the
  store in memory, a token table, a database with one row of each kind, an XMPP server with
  connections. They model no code.
\<close>

definition demo_now :: datetime where
  "demo_now = \<lparr>year = 2025, month = 6, day = 1, hour = 12, minute = 0, second = 0, micro = 0, utcoff = 0\<rparr>"

definition demo_past :: datetime where
  "demo_past = demo_now\<lparr>hour := 11\<rparr>"

definition demo_later :: datetime where
  "demo_later = demo_now\<lparr>hour := 13\<rparr>"

definition demo_env :: env where
  "demo_env = \<lparr>e_store = mem_store, e_cfg = default_config, e_tz = (\<lambda>_. 0), e_now = demo_now,
     e_now_ms = 1748779200000, e_load_ms = 1748000000000, e_uuid = (\<lambda>n. ''uuid'' @ nat_str n),
     e_sha256 = (\<lambda>_. ''0123456789abcdef0123456789abcdef''), e_jwt_encode = (\<lambda>_ _ _ _. ''jwt''),
     e_jwt_decode = (\<lambda>_. None), e_key_file = Inr ''key'', e_loads = (\<lambda>_. Inl ValueError)\<rparr>"

definition demo_tokens :: table where
  "demo_tokens =
     [(1, token_to_db (Token (JStr ''u1'') (JStr ''t1'') demo_past)),
      (2, token_to_db (Token (JStr ''u1'') (JStr ''t2'') demo_later)),
      (3, token_to_db (Token (JStr ''u2'') (JStr ''t3'') demo_later))]"

definition demo_user :: bumper_user where
  "demo_user = (BumperUser default_config (JStr ''u1''))\<lparr>usr_devices := JList [JStr ''dev1'']\<rparr>"

definition demo_log :: clean_log where
  "demo_log = log_from_dict ''d1'' ''r1'' [(''cid'', JStr ''c1''), (''start'', JInt 5), (''type'', JStr ''auto'')]"

definition demo_db :: db where
  "demo_db = (\<lambda>tn.
     if tn = ''bots'' then [(1, bot_as_dict (new_bot ''d1'' (JStr ''bot1'', JStr ''ls1ok3'', JStr ''abc'', JStr ''eco-ng'')))]
     else if tn = ''clients'' then [(1, client_as_dict (new_client ''u1'' (JStr ''app'', JStr ''ecouser'', JStr ''res'')))]
     else if tn = ''users'' then [(1, user_as_dict demo_user)]
     else if tn = ''tokens'' then demo_tokens
     else if tn = ''clean_logs'' then [(1, log_to_db demo_log)]
     else [])"

definition demo_web :: web where
  "demo_web = \<lparr>w_db = demo_db, w_drawn = 0\<rparr>"

lemma demo_env_simps [simp]:
  "e_store demo_env = mem_store" "e_cfg demo_env = default_config" "e_now demo_env = demo_now"
  "e_uuid demo_env n = ''uuid'' @ nat_str n" "e_tz demo_env = (\<lambda>_. 0)" "e_key_file demo_env = Inr ''key''"
  "e_sha256 demo_env s = ''0123456789abcdef0123456789abcdef''"
  by (simp_all add: demo_env_def)

lemma demo_web_simps [simp]: "w_db demo_web = demo_db" "w_drawn demo_web = 0"
  by (simp_all add: demo_web_def)

lemma demo_db_simps [simp]:
  "demo_db ''bots'' = [(1, bot_as_dict (new_bot ''d1'' (JStr ''bot1'', JStr ''ls1ok3'', JStr ''abc'', JStr ''eco-ng'')))]"
  "demo_db ''clients'' = [(1, client_as_dict (new_client ''u1'' (JStr ''app'', JStr ''ecouser'', JStr ''res'')))]"
  "demo_db ''users'' = [(1, user_as_dict demo_user)]" "demo_db ''tokens'' = demo_tokens"
  "demo_db ''clean_logs'' = [(1, log_to_db demo_log)]"
  by (simp_all add: demo_db_def)

lemma demo_dates [simp]: "valid_dt demo_now" "valid_dt demo_past" "valid_dt demo_later"
  "utcoff demo_now = 0" "utcoff demo_past = 0" "utcoff demo_later = 0"
  by (simp_all add: valid_dt_def demo_now_def demo_past_def demo_later_def valid_date_def days_in_month_def is_leap_def)

lemma demo_instants [simp]: "instant demo_past < instant demo_now" "instant demo_now < instant demo_later"
  by (simp_all add: instant_def wall_def demo_now_def demo_past_def demo_later_def second_of_day_def)

lemma demo_new_expiry [simp]: "new_expiry demo_env = demo_now\<lparr>minute := 30\<rparr>" "valid_dt (demo_now\<lparr>minute := 30\<rparr>)"
  by (simp_all add: new_expiry_def dt_add_def demo_now_def second_of_day_def Let_def
      valid_dt_def valid_date_def days_in_month_def is_leap_def)

lemma demo_bots_ok [simp]: "bots_ok demo_db"
  by code_simp

lemma demo_clients_ok [simp]: "clients_ok demo_db"
  by code_simp

lemma demo_users_ok [simp]: "users_ok demo_db"
  by code_simp

lemma demo_pairs [simp]:
  "map token_pair demo_tokens = [(Some ''u1'', Some ''t1''), (Some ''u1'', Some ''t2''), (Some ''u2'', Some ''t3'')]"
  by (simp add: demo_tokens_def token_pair_def token_to_db_def Token_def key_of_def)

lemma demo_tokens_ok [simp]: "tokens_ok demo_db"
  unfolding tokens_ok_def demo_db_simps demo_pairs
  by (simp add: demo_tokens_def ids_ok_def token_to_db_doc(1) Token_def)

lemma demo_log_doc [simp]: "log_doc (log_to_db demo_log)"
  by code_simp

lemma demo_logs_ok [simp]: "logs_ok demo_db"
  by (simp add: logs_ok_def ids_ok_def)

lemma demo_token_names [simp]:
  "(\<lambda>r. key_of ''token'' (snd r)) ` set demo_tokens = {Some ''t1'', Some ''t2'', Some ''t3''}"
  by (simp add: demo_tokens_def token_to_db_def Token_def key_of_def)

lemma demo_fresh [simp]: "fresh_uuid demo_env demo_web"
  by (simp add: fresh_uuid_def)

lemma demo_user_key [simp]: "key_of ''userid'' (user_as_dict demo_user) = Some ''u1''"
  by code_simp

lemma demo_user_found [simp]: "user_get_by_id mem_store cfg (JStr ''u1'') demo_db = Some demo_user"
  by (simp add: mem.user_get_lookup lookup_def user_round_trip)

lemma demo_bot_found: "\<exists>b. bot_get mem_store (JStr ''d1'') demo_db = Some b"
proof -
  have "bot_get mem_store (JStr ''d1'') demo_db \<noteq> None" by code_simp
  then show ?thesis by blast
qed

lemmas mem_tinydb = mem.tinydb_axioms

end
