(* ===== verification/Store_Properties.thy ===== *)
theory Store_Properties
  imports Samples
begin

text \<open>
  The properties of the database: the records' conversions, the token store, the users'
  devices, the cleaning logs, the connection flags and the migrations. The engine is any
  \<open>D\<close> with the laws of \<open>tinydb\<close>; the witnesses take the store in memory.
\<close>

section \<open>Tokens\<close>

text \<open>C14: while the offset to UTC does not change, revoking the expired tokens removes exactly
  the tokens whose expiration instant lies in the past, although it compares texts.\<close>

theorem revoke_expired_exact:
  assumes "tinydb D" and ok: "tokens_ok db" and now: "valid_dt now"
    and same: "\<forall>r \<in> set (db ''tokens''). utcoff (expiry (snd r)) = utcoff now"
  shows "token_revoke_expired D now db =
    db(''tokens'' := filter (\<lambda>r. instant now \<le> instant (expiry (snd r))) (db ''tokens''))"
proof -
  have "filter (\<lambda>r. \<not> rmatch (QLt ''expiration'' (JStr (isoformat now))) r) (db ''tokens'') =
      filter (\<lambda>r. instant now \<le> instant (expiry (snd r))) (db ''tokens'')"
    using same expired_text [OF tokens_ok_row [OF ok] now] by (intro filter_cong) (auto simp: not_less)
  then show ?thesis by (simp add: tinydb.revoke_expired_rows [OF assms(1) ok])
qed

lemma demo_expiry: "expiry (token_to_db (Token u s t)) = t" if "valid_dt t"
  using that by (simp add: expiry_def token_to_db_def Token_def key_of_def fromisoformat_isoformat)

theorem revoke_expired_exact_witness:
  "map token_pair (token_revoke_expired mem_store demo_now demo_db ''tokens'') =
     [(Some ''u1'', Some ''t2''), (Some ''u2'', Some ''t3'')]"
proof -
  have "\<forall>r \<in> set (demo_db ''tokens''). utcoff (expiry (snd r)) = utcoff demo_now"
    by (simp add: demo_tokens_def demo_expiry)
  then have "token_revoke_expired mem_store demo_now demo_db =
      demo_db(''tokens'' := filter (\<lambda>r. instant demo_now \<le> instant (expiry (snd r))) (demo_db ''tokens''))"
    using revoke_expired_exact [OF mem_tinydb demo_tokens_ok demo_dates(1)] by blast
  moreover have "\<not> instant demo_now \<le> instant demo_past" "instant demo_now \<le> instant demo_later"
    using demo_instants by linarith+
  then have "filter (\<lambda>r. instant demo_now \<le> instant (expiry (snd r))) (demo_db ''tokens'') = tl demo_tokens"
    by (simp add: demo_tokens_def demo_expiry)
  ultimately show ?thesis using demo_pairs by (simp add: map_tl)
qed

text \<open>C18: across the change to summer time the comparison of texts revokes a token that is
  still valid: it is issued at 01:45+01:00 for half an hour, so its expiration is written
  02:15+01:00; at 03:05+02:00, twenty minutes later, \<open>verify\<close> accepts it, but
  \<open>revoke_user_expired\<close> removes it, because \<open>02:15\<close> sorts before \<open>03:05\<close>.\<close>

definition spring_tz :: "datetime \<Rightarrow> int" where
  "spring_tz t = (if (month t < 3 \<or> (month t = 3 \<and> (day t < 30 \<or> (day t = 30 \<and> hour t < 3)))) then 60 else 120)"

definition spring_login :: datetime where
  "spring_login = \<lparr>year = 2025, month = 3, day = 30, hour = 1, minute = 45, second = 0, micro = 0, utcoff = 60\<rparr>"

definition spring_check :: datetime where
  "spring_check = \<lparr>year = 2025, month = 3, day = 30, hour = 3, minute = 5, second = 0, micro = 0, utcoff = 120\<rparr>"

definition spring_expiry :: datetime where
  "spring_expiry = \<lparr>year = 2025, month = 3, day = 30, hour = 2, minute = 15, second = 0, micro = 0, utcoff = 60\<rparr>"

lemma spring_add: "dt_add spring_tz (TOKEN_VALIDITY_SECONDS default_config) spring_login = spring_expiry"
  by (simp add: dt_add_def spring_login_def spring_expiry_def spring_tz_def second_of_day_def Let_def)

lemma mem_first_id: "tdb_fresh mem_store [] = 1"
  by (simp add: mem_store_def mem_fresh_def)

lemma spring_valid: "valid_dt spring_expiry" "valid_dt spring_check" "instant spring_check < instant spring_expiry"
  by (simp_all add: spring_expiry_def spring_check_def valid_dt_def valid_date_def days_in_month_def is_leap_def
      instant_def wall_def second_of_day_def)

lemma spring_text: "isoformat spring_expiry < isoformat spring_check"
  by (simp add: isoformat_def spring_expiry_def spring_check_def) code_simp

theorem summer_time_revokes_valid_token:
  "let db = token_add mem_store default_config spring_tz spring_login (JStr ''u1'') (JStr ''t1'') empty_db
   in instant spring_check - instant spring_login = 20 * 60 * 1000000 \<and>
      token_verify mem_store spring_check (JStr ''u1'') (JStr ''t1'') db = Inr True \<and>
      token_verify mem_store spring_check (JStr ''u1'') (JStr ''t1'')
        (token_revoke_user_expired mem_store spring_check (JStr ''u1'') db) = Inr False"
proof -
  let ?d = "token_to_db (Token (JStr ''u1'') (JStr ''t1'') spring_expiry)"
  have "token_add mem_store default_config spring_tz spring_login (JStr ''u1'') (JStr ''t1'') empty_db =
      empty_db(''tokens'' := [(1, ?d)])"
    by (simp add: mem.token_add_rows spring_add [simplified] empty_db_def mem_first_id)
  moreover have "tokens_ok (empty_db(''tokens'' := [(1, ?d)]))"
    using spring_valid by (simp add: tokens_ok_def ids_ok_def token_to_db_doc(1) Token_def)
  moreover have "key_of ''userid'' ?d = Some ''u1''" "token_pair (1, ?d) = (Some ''u1'', Some ''t1'')"
    by (simp_all add: token_to_db_def Token_def key_of_def token_pair_def)
  moreover have "qmatch (QLt ''expiration'' (JStr (isoformat spring_check))) ?d"
    using spring_text by (simp add: token_to_db_def Token_def)
  moreover have "expiry ?d = spring_expiry"
    using spring_valid by (simp add: demo_expiry)
  moreover have "instant spring_check - instant spring_login = 20 * 60 * 1000000"
    by (simp add: spring_login_def spring_check_def instant_def wall_def second_of_day_def ordinal_def)
  ultimately show ?thesis
    using spring_valid
    by (simp add: Let_def mem.token_verify_iff mem.revoke_user_expired_rows tokens_ok_def ids_ok_def
        del: qmatch.simps)
qed

text \<open>a token is accepted from its issue until its validity is over, and at no later moment.\<close>

theorem new_token_lifetime:
  assumes "tinydb D" and ok: "tokens_ok db" and v: "valid_dt (dt_add tz (TOKEN_VALIDITY_SECONDS cfg) now)"
    and new: "(Some u, Some s) \<notin> token_pair ` set (db ''tokens'')"
  shows "token_verify D now' (JStr u) (JStr s) (token_add D cfg tz now (JStr u) (JStr s) db) =
    Inr (instant now' < instant (dt_add tz (TOKEN_VALIDITY_SECONDS cfg) now))"
  using tinydb.verify_new_token [OF assms(1) ok v new] .

theorem new_token_lifetime_witness:
  "token_verify mem_store demo_now (JStr ''u1'') (JStr ''t9'')
     (token_add mem_store default_config (\<lambda>_. 0) demo_now (JStr ''u1'') (JStr ''t9'') demo_db) = Inr True"
proof -
  have "valid_dt (dt_add (\<lambda>_. 0) (TOKEN_VALIDITY_SECONDS default_config) demo_now)"
    using demo_new_expiry by (simp add: new_expiry_def)
  moreover have "(Some ''u1'', Some ''t9'') \<notin> token_pair ` set (demo_db ''tokens'')"
    using arg_cong [OF demo_pairs, of set] by (simp add: image_set del: set_map)
  ultimately show ?thesis
    using new_token_lifetime [OF mem_tinydb demo_tokens_ok, of "\<lambda>_. 0" default_config demo_now "''u1''" "''t9''" demo_now]
      wall_dt_add [OF demo_dates(1), of "\<lambda>_. 0" 1800]
    by (simp add: instant_def dt_add_def Let_def split: prod.splits)
qed

text \<open>a new authorisation code replaces the code of its user in every token and leaves the
  codes of the other users as they are.\<close>

theorem new_code_exclusive:
  assumes "tinydb D" and u: "has_user u (db ''tokens'')" and o: "u' \<noteq> u"
  shows "token_verify_auth_code D (JStr u) (JStr c') (snd (token_add_auth_code D (JStr u) (JStr c) db)) = (c' = c) \<and>
    token_verify_auth_code D (JStr u') (JStr c') (snd (token_add_auth_code D (JStr u) (JStr c) db)) =
      token_verify_auth_code D (JStr u') (JStr c') db"
  using tinydb.verify_code_after_set [OF assms(1), of "''auth_code''" u db c c'] u o
    tinydb.verify_code_other_user [OF assms(1), of "''auth_code''" u' u "''auth_code''" c db c']
  by (simp add: token_verify_auth_code_def token_add_auth_code_def)

theorem new_code_exclusive_witness:
  "token_verify_auth_code mem_store (JStr ''u1'') (JStr ''c1'')
     (snd (token_add_auth_code mem_store (JStr ''u1'') (JStr ''c1'') demo_db))"
  using new_code_exclusive [OF mem_tinydb, of "''u1''" demo_db "''u2''" "''c1''" "''c1''"]
  by (simp add: has_user_def demo_tokens_def token_to_db_def Token_def key_of_def)

text \<open>The text form of a moment determines it: \<open>fromisoformat\<close> reads back what
  \<open>isoformat\<close> wrote, and texts of one offset are ordered as the moments are.\<close>

theorem isoformat_faithful:
  assumes "valid_dt s" "valid_dt t"
  shows "fromisoformat (isoformat t) = Inr t \<and> (isoformat s = isoformat t \<longleftrightarrow> s = t) \<and>
    (utcoff s = utcoff t \<longrightarrow> (isoformat s < isoformat t \<longleftrightarrow> instant s < instant t))"
  using assms fromisoformat_isoformat isoformat_inj isoformat_less_instant by blast

theorem isoformat_faithful_witness: "isoformat demo_past < isoformat demo_now"
  using isoformat_faithful [OF demo_dates(2) demo_dates(1)] demo_instants(1) demo_dates(4,5) by simp

section \<open>Records\<close>

text \<open>every record read back from what was stored is the record: robots, apps, users and
  tokens exactly; cleaning logs with their numbers normalised, once and for all.\<close>

theorem records_round_trip:
  assumes "valid_dt (tok_expiration t)"
  shows "bot_from_dict (bot_as_dict b) = b \<and> client_from_dict (client_as_dict c) = c \<and>
    user_from_dict cfg (user_as_dict u) = u \<and> token_from_dict (token_to_db t) = Inr t \<and>
    log_from_db (log_to_db l) = Inr (log_normal l) \<and> log_from_db (log_to_db (log_normal l)) = Inr (log_normal l)"
  using assms by (simp add: bot_round_trip client_round_trip user_round_trip token_round_trip log_db_round_trip)

theorem records_round_trip_witness:
  "token_from_dict (token_to_db (Token (JStr ''u1'') (JStr ''t1'') demo_now)) = Inr (Token (JStr ''u1'') (JStr ''t1'') demo_now)"
  using records_round_trip [of "Token (JStr ''u1'') (JStr ''t1'') demo_now"] demo_dates(1) by (simp add: Token_def)

text \<open>the search by device finds a user exactly when some stored user has the device in its
  list, and what it finds is such a user.\<close>

theorem device_search_correct:
  assumes "tinydb D" and ok: "users_ok db"
  shows "(\<forall>u. user_get_by_device_id D cfg (JStr s) db = Some u \<longrightarrow>
      (\<exists>xs k. usr_devices u = JList xs \<and> JStr s \<in> set xs \<and> usr_userid u = JStr k \<and>
         user_get_by_id D cfg (JStr k) db = Some u)) \<and>
    (\<forall>k u xs. user_get_by_id D cfg (JStr k) db = Some u \<longrightarrow> usr_devices u = JList xs \<longrightarrow> JStr s \<in> set xs \<longrightarrow>
      user_get_by_device_id D cfg (JStr s) db \<noteq> None)"
  using tinydb.get_by_device_sound [OF assms(1) ok] tinydb.get_by_device_complete [OF assms(1) ok] by blast

theorem device_search_correct_witness:
  "user_get_by_device_id mem_store default_config (JStr ''dev1'') demo_db \<noteq> None"
  using device_search_correct [OF mem_tinydb demo_users_ok, THEN conjunct2, rule_format,
      OF demo_user_found, of "[JStr ''dev1'']" "''dev1''"]
  by (simp add: demo_user_def BumperUser_def)

text \<open>Adding a device to a user is seen by the search by device, and touches no other user.\<close>

theorem added_device_found:
  assumes "tinydb D" and ok: "users_ok db" and u: "user_get_by_id D cfg (JStr k) db \<noteq> None"
  shows "\<exists>db'. user_add_device D (JStr k) (JStr s) db = (Inr (), db') \<and> users_ok db' \<and>
    user_get_by_device_id D cfg (JStr s) db' \<noteq> None \<and>
    (\<forall>k'. k' \<noteq> k \<longrightarrow> user_get_by_id D cfg (JStr k') db' = user_get_by_id D cfg (JStr k') db)"
proof -
  obtain db' where "user_add_device D (JStr k) (JStr s) db = (Inr (), db')" "users_ok db'"
    "user_get_by_device_id D cfg (JStr s) db' \<noteq> None"
    using tinydb.add_device_found [OF assms] by blast
  moreover from this(1) have
    "\<forall>k'. k' \<noteq> k \<longrightarrow> user_get_by_id D cfg (JStr k') db' = user_get_by_id D cfg (JStr k') db"
    using tinydb.user_list_op_ok [OF assms(1) ok, of "''devices''" k "JStr s" True cfg]
    by (auto simp: user_add_device_def list_fields_def)
  ultimately show ?thesis by blast
qed

theorem added_device_found_witness:
  "\<exists>db'. user_add_device mem_store (JStr ''u1'') (JStr ''dev2'') demo_db = (Inr (), db') \<and>
     user_get_by_device_id mem_store default_config (JStr ''dev2'') db' \<noteq> None"
  using added_device_found [OF mem_tinydb demo_users_ok, of default_config "''u1''" "''dev2''"] demo_user_found by auto

text \<open>At start-up every known robot is marked as disconnected, and nothing else of it changes.\<close>

theorem reset_disconnects_all:
  assumes "tinydb D" and ok: "bots_ok db" "str_or_missing ''did'' (db ''bots'')"
  shows "bot_get D (JStr k) (bot_reset_all_connections D db) =
    map_option (\<lambda>b. b\<lparr>bot_mqtt_connection := JBool False, bot_xmpp_connection := JBool False\<rparr>) (bot_get D (JStr k) db)"
  using tinydb.bot_reset_get [OF assms] by (cases "bot_get D (JStr k) db") (simp_all add: put_mqtt_def put_xmpp_def)

theorem reset_disconnects_all_witness:
  "bot_get mem_store (JStr ''d1'') (bot_reset_all_connections mem_store
     (bot_set_mqtt mem_store (JStr ''d1'') True demo_db)) \<noteq> None"
proof -
  have "bots_ok (bot_set_mqtt mem_store (JStr ''d1'') True demo_db)"
    "str_or_missing ''did'' (bot_set_mqtt mem_store (JStr ''d1'') True demo_db ''bots'')"
    "bot_get mem_store (JStr ''d1'') (bot_set_mqtt mem_store (JStr ''d1'') True demo_db) \<noteq> None"
    by code_simp+
  then show ?thesis
    using reset_disconnects_all [OF mem_tinydb, of "bot_set_mqtt mem_store (JStr ''d1'') True demo_db" "''d1''"] by simp
qed

section \<open>Cleaning logs\<close>

text \<open>C24: on what \<open>list_all\<close> shows, \<open>add_or_update\<close> is the update of a map from pairs of log id
  and type: it replaces the entry of the same pair or appends a new one; no other entry
  changes, the list per robot is the filter of the whole, and the invariant is kept.\<close>

theorem clean_log_update_refines:
  assumes "tinydb D" and ok: "logs_ok db" and l: "str_log l" and all: "clean_log_list_all D db = Inr ls"
  shows "logs_ok (clean_log_add_or_update D l db) \<and>
    clean_log_list_all D (clean_log_add_or_update D l db) =
      Inr (if list_ex (\<lambda>m. same_log m l) ls then map (\<lambda>m. if same_log m l then log_normal l else m) ls
           else ls @ [log_normal l]) \<and>
    clean_log_list_by_did D (JStr did) db = Inr (filter (\<lambda>m. log_did m = JStr did) ls)"
  using tinydb.logs_ok_add [OF assms(1) ok l] tinydb.list_all_after_add [OF assms(1) ok l all]
    tinydb.list_by_did_is_view [OF assms(1) ok all] by blast

theorem clean_log_update_refines_witness:
  "clean_log_list_all mem_store (clean_log_add_or_update mem_store demo_log empty_db) = Inr [log_normal demo_log]"
proof -
  have "clean_log_list_all mem_store empty_db = Inr []" "logs_ok empty_db" "str_log demo_log"
    using db_ok_empty by (code_simp, simp add: db_ok_def,
      simp add: str_log_def demo_log_def log_from_dict_def dget_def dget_or_def)
  then show ?thesis using clean_log_update_refines [OF mem_tinydb] by simp
qed

section \<open>Migration\<close>

text \<open>C7: from every version before 0.2.3 the migration succeeds on a database of the old
  schema: it first writes one backup, which is the database as it was; the logs table then
  holds the nested logs, flattened in order, each with the robot of its row; no other table
  but the one of the version changes, and the version is the application's.\<close>

theorem migration_flattens_logs:
  assumes "tinydb D" and v: "get_db_version D (mig_db s) \<in> {JNull, JStr [], JStr ''0.0.0'', JStr ''0.2.2''}"
    and rows: "list_all old_schema (mig_db s ''clean_logs'')"
  shows "\<exists>s'. migrate_db D app dbf ts s = (Inr (), s') \<and>
    mig_backups s' = mig_backups s @ [(dbf @ ''.bak.'' @ ts (length (mig_backups s)), mig_db s)] \<and>
    map snd (mig_db s' ''clean_logs'') = flat_docs (mig_db s ''clean_logs'') \<and>
    (\<forall>tn. tn \<noteq> ''clean_logs'' \<and> tn \<noteq> ''_meta'' \<longrightarrow> mig_db s' tn = mig_db s tn) \<and>
    get_db_version D (mig_db s') = JStr app"
proof -
  obtain t where t: "map snd t = flat_docs (mig_db s ''clean_logs'')" "migrate_db D app dbf ts s =
      (Inr (), align_version D app (JStr ''0.2.3'')
        (s\<lparr>mig_backups := mig_backups s @ [(dbf @ ''.bak.'' @ ts (length (mig_backups s)), mig_db s)],
           mig_db := set_db_version D ''0.2.3'' ((mig_db s)(''clean_logs'' := t))\<rparr>))"
    using tinydb.migrate_old_version [OF assms] by blast
  have other: "set_db_version D ver db tn = db tn" if "tn \<noteq> ''_meta''" for ver db tn
    using that by (simp add: set_db_version_def split: prod.split)
  show ?thesis
    by (intro exI [of _ "snd (migrate_db D app dbf ts s)"])
      (simp add: t tinydb.version_after_align [OF assms(1)] tinydb.get_set_db_version [OF assms(1)],
       simp add: align_version_def other tinydb.get_set_db_version [OF assms(1)] t(1))
qed

definition demo_old :: mig_state where
  "demo_old = \<lparr>mig_db = empty_db(''clean_logs'' :=
     [(1, [(''did'', JStr ''d1''), (''logs'', JList [JObj [(''cid'', JStr ''a'')], JObj [(''cid'', JStr ''b'')]])])]), mig_backups = []\<rparr>"

lemma demo_old_facts:
  "get_db_version mem_store (mig_db demo_old) = JNull" "list_all old_schema (mig_db demo_old ''clean_logs'')"
  "flat_docs (mig_db demo_old ''clean_logs'') =
    [[(''cid'', JStr ''a''), (''did'', JStr ''d1'')], [(''cid'', JStr ''b''), (''did'', JStr ''d1'')]]"
  by (simp_all add: get_db_version_def demo_old_def empty_db_def old_schema_def flat_docs_def dget_def dget_or_def)

lemma demo_old_version: "get_db_version mem_store (mig_db demo_old) \<in> {JNull, JStr [], JStr ''0.0.0'', JStr ''0.2.2''}"
  by (simp add: demo_old_facts)

lemma demo_old_migrates: "\<exists>s'. migrate_db mem_store ''0.3.0'' ''f'' (\<lambda>_. ''a'') demo_old = (Inr (), s')"
  using mem.migrate_old_version [OF demo_old_version demo_old_facts(2)] by blast

theorem migration_flattens_logs_witness:
  "\<exists>s'. migrate_db mem_store ''0.3.0'' ''bumper.db'' (\<lambda>_. ''ts'') demo_old = (Inr (), s') \<and>
     map snd (mig_db s' ''clean_logs'') =
       [[(''cid'', JStr ''a''), (''did'', JStr ''d1'')], [(''cid'', JStr ''b''), (''did'', JStr ''d1'')]]"
  using migration_flattens_logs [OF mem_tinydb demo_old_version demo_old_facts(2),
      where app = "''0.3.0''" and dbf = "''bumper.db''" and ts = "\<lambda>_. ''ts''"]
  by (elim exE conjE, intro exI conjI) (simp_all only: demo_old_facts(3))

text \<open>C12: a database that does not have the old schema is left as it was: the migration
  raises, the version does not advance, and the backup is kept.\<close>

theorem migration_failure_keeps_db:
  assumes "tinydb D" and v: "get_db_version D (mig_db s) \<in> {JNull, JStr [], JStr ''0.0.0'', JStr ''0.2.2''}"
    and rows: "\<not> list_all old_schema (mig_db s ''clean_logs'')"
  shows "\<exists>m. migrate_db D app dbf ts s = (Inl (MigrationError m),
    s\<lparr>mig_backups := mig_backups s @ [(dbf @ ''.bak.'' @ ts (length (mig_backups s)), mig_db s)]\<rparr>)"
  using tinydb.migrate_old_version_bad [OF assms] .

definition demo_bad :: mig_state where
  "demo_bad = \<lparr>mig_db = empty_db(''clean_logs'' := [(1, [(''logs'', JInt 1)])]), mig_backups = []\<rparr>"

theorem migration_failure_keeps_db_witness:
  "\<exists>m s'. migrate_db mem_store ''0.3.0'' ''f'' (\<lambda>_. ''ts'') demo_bad = (Inl (MigrationError m), s')"
proof -
  have "get_db_version mem_store (mig_db demo_bad) = JNull"
    by (simp add: get_db_version_def demo_bad_def empty_db_def)
  moreover have "\<not> list_all old_schema (mig_db demo_bad ''clean_logs'')"
    by (simp add: demo_bad_def old_schema_def dget_def dget_or_def)
  ultimately show ?thesis
    using migration_failure_keeps_db [OF mem_tinydb, of demo_bad "''0.3.0''" "''f''" "\<lambda>_. ''ts''"] by auto
qed

text \<open>What the chain leaves: the version it stops at is stored, unless it did nothing.\<close>

lemma migrate_loop_version:
  "tinydb D \<Longrightarrow> migrate_loop D dbf ts v s = (Inr v', s') \<Longrightarrow>
    (v' = v \<and> s' = s) \<or> get_db_version D (mig_db s') = JStr v'"
proof (induct D dbf ts v s rule: migrate_loop.induct)
  case (1 D dbf ts v s)
  show ?case
  proof (cases "map_of MIGRATIONS v")
    case None
    then show ?thesis using "1.prems" by (simp add: migrate_loop.simps [of D dbf ts v s])
  next
    case (Some nm)
    obtain w m where nm: "nm = (w, m)" by force
    let ?s1 = "backup_db dbf (ts (length (mig_backups s))) s"
    obtain db' where db': "run_migration D m (mig_db ?s1) = (Inr (), db')"
      and next_loop: "migrate_loop D dbf ts w (?s1\<lparr>mig_db := set_db_version D w db'\<rparr>) = (Inr v', s')"
      using "1.prems" Some
      by (auto simp: nm migrate_loop.simps [of D dbf ts v s] Let_def split: prod.splits sum.splits)
    from "1.hyps" [OF Some nm [symmetric] refl db' [symmetric] refl] "1.prems"(1) next_loop
    show ?thesis by (auto simp: tinydb.get_set_db_version)
  qed
qed

lemma migrate_db_version:
  assumes D: "tinydb D" and ok: "migrate_db D app dbf ts s = (Inr (), s')" "app \<noteq> []"
    "map_of MIGRATIONS app = None"
  shows "get_db_version D (mig_db s') = JStr app"
proof -
  have aligned: "get_db_version D (mig_db (align_version D app v t)) = JStr app"
    if "v \<noteq> JStr app \<or> get_db_version D (mig_db t) = JStr app" for v t
    using that by (auto simp: align_version_def tinydb.get_set_db_version [OF D])
  show ?thesis
  proof (cases "py_or (get_db_version D (mig_db s)) (JStr ''0.0.0'')")
    case (JStr v)
    obtain v' t where l: "migrate_loop D dbf ts v s = (Inr v', t)" "s' = align_version D app (JStr v') t"
      using ok(1) JStr by (auto simp: migrate_db_def split: prod.splits sum.splits)
    have "v' = app \<Longrightarrow> get_db_version D (mig_db t) = JStr app"
      using migrate_loop_version [OF D l(1)] JStr ok(2,3) by (auto simp: py_or_def MIGRATIONS_def split: if_splits)
    then show ?thesis using l(2) aligned [of "JStr v'" t] by auto
  qed (use ok in \<open>auto simp: migrate_db_def intro!: aligned\<close>)
qed

text \<open>after a run that succeeded, a second run does nothing, neither a backup nor a write.\<close>

theorem migration_idempotent:
  assumes "tinydb D" and "app \<noteq> []" and "map_of MIGRATIONS app = None"
    and "migrate_db D app dbf ts s = (Inr (), s')"
  shows "migrate_db D app dbf ts' s' = (Inr (), s')"
  using tinydb.migrate_current [OF assms(1) migrate_db_version [OF assms(1,4,2,3)] assms(2,3)] .

theorem migration_idempotent_witness:
  "\<exists>s'. migrate_db mem_store ''0.3.0'' ''f'' (\<lambda>_. ''a'') demo_old = (Inr (), s') \<and>
     migrate_db mem_store ''0.3.0'' ''f'' (\<lambda>_. ''b'') s' = (Inr (), s')"
proof -
  obtain s' where "migrate_db mem_store ''0.3.0'' ''f'' (\<lambda>_. ''a'') demo_old = (Inr (), s')"
    using demo_old_migrates by blast
  then show ?thesis
    using migration_idempotent [OF mem_tinydb, of "''0.3.0''" "''f''" "\<lambda>_. ''a''" demo_old s' "\<lambda>_. ''b''"]
    by (auto simp: MIGRATIONS_def)
qed

end
