(* ===== verification/Auth_Properties.thy ===== *)
theory Auth_Properties
  imports Store_Properties
begin

text \<open>
  The properties of the authentication service: what a login issues, what the exchange of
  tokens for codes gives, and which answers the failures get.
\<close>

section \<open>Login\<close>

text \<open>C1: a login without authentication creates the user when it is not known, records the
  device and every robot in the user's lists, and answers with the user's details and a new
  token; that token is accepted until its validity is over, and nothing but the users and the
  tokens changes.\<close>

theorem login_issues_valid_token:
  assumes "tinydb D" and E: "e_store E = D" "e_cfg E = cfg" and ok: "users_ok (w_db s)" "tokens_ok (w_db s)"
    and v: "valid_dt (new_expiry E)" and fresh: "fresh_uuid E s" and k: "k \<noteq> []"
  shows "\<exists>s' u. auth_any E (JStr k) JNull (JStr dev) app country False s =
      (Inr (response_success_v1 (e_load_ms E) (get_login_details E app country u (JStr (e_uuid E (w_drawn s))))), s') \<and>
    users_ok (w_db s') \<and> tokens_ok (w_db s') \<and> (\<forall>tn. tn \<noteq> ''users'' \<and> tn \<noteq> ''tokens'' \<longrightarrow> w_db s' tn = w_db s tn) \<and>
    u = known_or_new cfg k (user_get_by_id D cfg (JStr k) (w_db s)) \<and>
    user_get_by_id D cfg (JStr k) (w_db s') = Some (extended (JStr dev) (bot_list_all D (w_db s)) u) \<and>
    (\<forall>now. token_verify D now (JStr k) (JStr (e_uuid E (w_drawn s))) (w_db s') = Inr (instant now < instant (new_expiry E)))"
  using tinydb.login_ok [OF assms] .

theorem login_issues_valid_token_witness:
  "\<exists>r s'. auth_any demo_env (JStr ''u9'') JNull (JStr ''dev9'') ''app'' ''us'' False demo_web = (Inr r, s') \<and>
     token_verify mem_store demo_now (JStr ''u9'') (JStr ''uuid0'') (w_db s') = Inr True"
proof -
  have "nat_str 0 = ''0''" by code_simp
  moreover have "instant demo_now < instant (demo_now\<lparr>minute := 30\<rparr>)"
    by (simp add: instant_def wall_def second_of_day_def demo_now_def)
  ultimately show ?thesis
    using login_issues_valid_token [OF mem_tinydb, of demo_env default_config demo_web "''u9''" "''dev9''" "''app''" "''us''"]
    by auto
qed

text \<open>the user of a login depends on the parameter \<open>account\<close> only: the fallbacks to
  \<open>encryptAccount\<close> and \<open>authAppkey\<close> cannot be reached, because a missing account is hashed as
  the default user.\<close>

theorem login_account_fallbacks_unreachable:
  assumes "\<And>s. e_sha256 E s \<noteq> []" and "rq_get rq ''account'' = rq_get rq' ''account''"
  shows "login_uid E rq = login_uid E rq'"
  using login_uid_account [OF assms(1)] assms(2) by simp

definition encrypted_login :: "string \<Rightarrow> request" where
  "encrypted_login a = \<lparr>rq_path = ''/user/login'', rq_query = [(''encryptAccount'', a)], rq_match = [], rq_headers = [],
     rq_json = Inl ValueError, rq_form = None\<rparr>"

theorem login_account_fallbacks_unreachable_witness:
  "login_uid demo_env (encrypted_login ''alice'') = login_uid demo_env (encrypted_login ''bob'')"
  using login_account_fallbacks_unreachable [of demo_env "encrypted_login ''alice''" "encrypted_login ''bob''"]
  by (simp add: encrypted_login_def rq_get_def)

section \<open>Codes\<close>

text \<open>C39: \<open>getAuthCode\<close> gives a user with a token a new code, and that code logs in as the user.\<close>

theorem auth_code_logs_in:
  assumes "tinydb D" and E: "e_store E = D" "e_cfg E = cfg" and ok: "users_ok (w_db s)" "tokens_ok (w_db s)"
    and q: "map_of (rq_query rq) ''uid'' = Some k"
    and u: "user_get_by_id D cfg (JStr k) (w_db s) \<noteq> None" "has_user k (w_db s ''tokens'')"
    and new: "Some (''GLOBAL_APP_ECOVACS_IOT_'' @ e_uuid E (w_drawn s)) \<notin> (\<lambda>r. key_of ''it_token'' (snd r)) ` set (w_db s ''tokens'')"
  shows "\<exists>s' t. get_auth_code E rq s = (Inr (response_success_v1 (e_load_ms E)
        (JObj [(''authCode'', JStr (''GLOBAL_APP_ECOVACS_IOT_'' @ e_uuid E (w_drawn s))), (''ecovacsUid'', JStr k)])), s') \<and>
    tokens_ok (w_db s') \<and>
    token_login_by_it_token D (JStr (''GLOBAL_APP_ECOVACS_IOT_'' @ e_uuid E (w_drawn s))) (w_db s') = Inr (Some t) \<and>
    tok_userid t = JStr k"
  using tinydb.get_auth_code_ok [OF assms] .

definition demo_rq :: request where
  "demo_rq = \<lparr>rq_path = ''/'', rq_query = [(''uid'', ''u1'')], rq_match = [], rq_headers = [], rq_json = Inl ValueError, rq_form = None\<rparr>"

theorem auth_code_logs_in_witness:
  "\<exists>r s' t. get_auth_code demo_env demo_rq demo_web = (Inr r, s') \<and>
     token_login_by_it_token mem_store (JStr ''GLOBAL_APP_ECOVACS_IOT_uuid0'') (w_db s') = Inr (Some t) \<and> tok_userid t = JStr ''u1''"
proof -
  have "nat_str 0 = ''0''" "has_user ''u1'' demo_tokens"
    "(\<lambda>r. key_of ''it_token'' (snd r)) ` set demo_tokens = {None}" "map_of (rq_query demo_rq) ''uid'' = Some ''u1''"
    by (code_simp, simp_all add: demo_rq_def has_user_def demo_tokens_def token_to_db_def Token_def key_of_def)
  then show ?thesis
    using auth_code_logs_in [OF mem_tinydb, of demo_env default_config demo_web demo_rq "''u1''"] by auto
qed

text \<open>C40: \<open>newauth\<close> answers with the authorisation code of a token that it has just revoked as
  expired: the code it hands out is then known to no token.\<close>

definition stale_token :: token where
  "stale_token = (Token (JStr ''u1'') (JStr ''t1'') demo_past)\<lparr>tok_auth_code := JStr ''c1'', tok_it_token := JStr ''it1''\<rparr>"

definition stale_web :: web where
  "stale_web = \<lparr>w_db = empty_db(''tokens'' := [(1, token_to_db stale_token)]), w_drawn = 0\<rparr>"

definition new_auth_rq :: request where
  "new_auth_rq = \<lparr>rq_path = ''/newauth.do'', rq_query = [], rq_match = [], rq_headers = [],
     rq_json = Inr (JObj [(''itToken'', JStr ''it1'')]), rq_form = None\<rparr>"

lemma stale_facts:
  "tokens_ok (w_db stale_web)" "w_db stale_web ''tokens'' = [(1, token_to_db stale_token)]"
  "token_from_dict (token_to_db stale_token) = Inr stale_token"
  "key_of ''userid'' (token_to_db stale_token) = Some ''u1''"
  "key_of ''it_token'' (token_to_db stale_token) = Some ''it1''"
  "map_of (token_to_db stale_token) ''expiration'' = Some (JStr (isoformat demo_past))"
  "isoformat demo_past < isoformat demo_now"
proof -
  show "token_from_dict (token_to_db stale_token) = Inr stale_token"
    by (rule token_round_trip) (simp add: stale_token_def Token_def)
  show "tokens_ok (w_db stale_web)"
    by (simp add: stale_web_def tokens_ok_def ids_ok_def token_to_db_doc(1) stale_token_def Token_def)
  show "isoformat demo_past < isoformat demo_now"
    using isoformat_less_instant [OF demo_dates(2,1)] demo_instants(1) demo_dates(4,5) by simp
qed (simp_all add: stale_web_def stale_token_def Token_def token_to_db_def key_of_def)

theorem new_auth_returns_revoked_code:
  "\<exists>s'. get_new_auth demo_env new_auth_rq stale_web =
      (Inr (response_success_v2 (JStr ''c1'') None ''authCode'' ''result''), s') \<and>
    token_get_by_auth_code mem_store (JStr ''c1'') (w_db s') = Inr None"
proof -
  let ?db = "token_revoke_user_expired mem_store demo_now (JStr ''u1'') (w_db stale_web)"
  have "?db ''tokens'' = []"
    by (simp add: mem.revoke_user_expired_rows stale_facts)
  then have "token_get_by_auth_code mem_store (JStr ''c1'') ?db = Inr None"
    by (simp add: token_get_by_auth_code_def token_of_row_def)
  moreover have "token_login_by_it_token mem_store (JStr ''it1'') (w_db stale_web) = Inr (Some stale_token)"
    by (simp add: token_login_by_it_token_def stale_facts repo_get_first_def token_of_row_def)
  ultimately show ?thesis
    by (simp add: get_new_auth_def guarded_def new_auth_rq_def dget_def dget_or_def py_run stale_token_def Token_def)
qed

section \<open>OAuth\<close>

text \<open>the OAuth call-back answers a known code with the user of its token and changes
  nothing; a code no token has is refused.\<close>

theorem oauth_answers_known_code:
  assumes "tinydb D" and E: "e_store E = D" "e_key_file E = Inr key" and c: "map_of (rq_query rq) ''code'' = Some c"
    and t: "token_get_by_auth_code D (JStr c) (w_db s) = Inr t"
  shows "case t of
      None \<Rightarrow> oauth_callback E rq s = (Inr (response_error_v4 ''Auth code not known''), s)
    | Some t \<Rightarrow> \<exists>a r x. oauth_callback E rq s = (Inr (success_v3 (JObj
        [(''userId'', tok_userid t), (''access_token'', JStr a), (''refresh_token'', JStr r), (''expire_at'', JInt x)])), s)"
  using tinydb.oauth_user [OF assms(1) E(1) c E(2), of s] tinydb.oauth_unknown [OF assms(1) E(1) c, of s] t
  by (cases t) auto

definition oauth_rq :: request where
  "oauth_rq = \<lparr>rq_path = ''/oauth_callback'', rq_query = [(''code'', ''c1'')], rq_match = [], rq_headers = [], rq_json = Inl ValueError, rq_form = None\<rparr>"

theorem oauth_answers_known_code_witness:
  "\<exists>a r x. oauth_callback demo_env oauth_rq stale_web = (Inr (success_v3 (JObj
     [(''userId'', JStr ''u1''), (''access_token'', JStr a), (''refresh_token'', JStr r), (''expire_at'', JInt x)])), stale_web)"
proof -
  have "key_of ''auth_code'' (token_to_db stale_token) = Some ''c1''"
    by (simp add: stale_token_def Token_def token_to_db_def key_of_def)
  then have "token_get_by_auth_code mem_store (JStr ''c1'') (w_db stale_web) = Inr (Some stale_token)"
    by (simp add: token_get_by_auth_code_def stale_facts repo_get_first_def token_of_row_def)
  then show ?thesis
    using oauth_answers_known_code [OF mem_tinydb, of demo_env "''key''" oauth_rq "''c1''" stale_web "Some stale_token"]
    by (simp add: oauth_rq_def stale_token_def Token_def)
qed

text \<open>a refresh token leads back to the authorisation code it was issued for, as far as the
  token library decodes what it encoded.\<close>

theorem refresh_token_returns_code:
  assumes round: "\<And>key alg h. e_jwt_decode E (e_jwt_encode E (JObj (jwt_payload E (oauth_data c u r (JStr ac)) ''r'')) key alg h) =
      Some (jwt_payload E (oauth_data c u r (JStr ac)) ''r'')"
    and gen: "generate_jwt_helper E (oauth_data c u r (JStr ac)) ''r'' = Inr (tok, x)"
    and q: "map_of (rq_query rq) ''code'' = None" "map_of (rq_query rq) ''refresh_token'' = Some tok"
  shows "oauth_code E rq = JStr ac"
  using refresh_token_code [OF assms] .

definition jwt_env :: env where
  "jwt_env = demo_env\<lparr>e_jwt_decode := (\<lambda>_. Some (jwt_payload demo_env (oauth_data JNull (JStr ''u1'') JNull (JStr ''c1'')) ''r''))\<rparr>"

definition refresh_rq :: request where
  "refresh_rq = \<lparr>rq_path = ''/oauth_callback'', rq_query = [(''refresh_token'', ''jwt'')], rq_match = [], rq_headers = [],
     rq_json = Inl ValueError, rq_form = None\<rparr>"

theorem refresh_token_returns_code_witness: "oauth_code jwt_env refresh_rq = JStr ''c1''"
proof -
  have "jwt_payload jwt_env d t = jwt_payload demo_env d t" for d t
    by (simp add: jwt_env_def jwt_payload_def)
  then have "e_jwt_decode jwt_env s = Some (jwt_payload jwt_env (oauth_data JNull (JStr ''u1'') JNull (JStr ''c1'')) ''r'')" for s
    by (simp add: jwt_env_def)
  moreover have "\<exists>x. generate_jwt_helper jwt_env (oauth_data JNull (JStr ''u1'') JNull (JStr ''c1'')) ''r'' = Inr (''jwt'', x)"
    by (simp add: generate_jwt_helper_def jwt_env_def demo_env_def)
  ultimately show ?thesis
    using refresh_token_returns_code [of jwt_env JNull "JStr ''u1''" JNull "''c1''" "''jwt''" _ refresh_rq]
    by (auto simp: refresh_rq_def)
qed

end
