(* ===== verification/MQTT_Properties.thy ===== *)
theory MQTT_Properties
  imports Auth_Properties
begin

text \<open>
  The properties of the MQTT side: who may connect, what a connection does to the database,
  how answers find their commands, how the proxy hides and restores the sender of a request,
  when a robot's time zone is set.
\<close>

section \<open>Connections\<close>

text \<open>C33: with authentication, a client whose password is not a code of its own is refused
  and leaves the database as it was, unless anonymous access is allowed.\<close>

theorem wrong_code_refused:
  assumes "tinydb D" and E: "e_store E = D" "USE_AUTH (e_cfg E)" "\<not> me_allow_anonymous M"
    and id: "CHR ''@'' \<notin> set did" "CHR ''/'' \<notin> set cl" "did @ ''@'' @ cl @ ''/'' @ res \<noteq> HELPER_BOT_CLIENT_ID"
    and p: "case p of None \<Rightarrow> True | Some q \<Rightarrow> \<not> token_verify_auth_code D (JStr did) (JStr q) (ms_db s)"
  shows "\<exists>s'. authenticate M E \<lparr>ses_username = u, ses_password = p,
       ses_client_id = Some (did @ ''@'' @ cl @ ''/'' @ res)\<rparr> s = (False, s') \<and> ms_db s' = ms_db s"
  using tinydb.authenticate_denied [OF assms] .

definition auth_env :: env where
  "auth_env = demo_env\<lparr>e_cfg := default_config\<lparr>USE_AUTH := True\<rparr>\<rparr>"

definition demo_menv :: "bool \<Rightarrow> menv" where
  "demo_menv anonymous = \<lparr>me_verify = (\<lambda>_ _. Inr False), me_resolve = (\<lambda>_. Inl ValueError), me_connect = (\<lambda>_ _ _. Inr ()),
     me_allow_anonymous = anonymous\<rparr>"

definition demo_mserver :: mserver where
  "demo_mserver = \<lparr>ms_db = demo_db, ms_users = Map.empty, ms_proxies = Map.empty, ms_session_name = None, ms_sync_tasks = []\<rparr>"

theorem wrong_code_refused_witness:
  "fst (authenticate (demo_menv False) auth_env \<lparr>ses_username = Some ''u1'', ses_password = None,
     ses_client_id = Some ''u1@ecouser/res''\<rparr> demo_mserver) = False"
proof -
  have "''u1'' @ ''@'' @ ''ecouser'' @ ''/'' @ ''res'' \<noteq> HELPER_BOT_CLIENT_ID"
    by (simp add: HELPER_BOT_CLIENT_ID_def)
  then show ?thesis
    using wrong_code_refused [OF mem_tinydb, of auth_env "demo_menv False" "''u1''" "''ecouser''" "''res''" demo_mserver None
        "Some ''u1''"]
    by (auto simp: auth_env_def demo_menv_def)
qed

text \<open>C28: without authentication a robot that connects is registered under its id, with the
  class and resource of its client id; a robot known before keeps its record, and no other
  robot changes.\<close>

theorem robot_registered:
  assumes "tinydb D" and E: "e_store E = D" "\<not> USE_AUTH (e_cfg E)" "\<not> BUMPER_PROXY_MQTT (e_cfg E)"
    and ok: "ms_ok s" and id: "CHR ''@'' \<notin> set did" "CHR ''/'' \<notin> set cl" "cl \<notin> set (USER_REALMS (e_cfg E))"
    and name: "u \<noteq> []" "CHR ''@'' \<notin> set u" "CHR ''`'' \<notin> set u"
    and nh: "did @ ''@'' @ cl @ ''/'' @ res \<noteq> HELPER_BOT_CLIENT_ID"
  shows "\<exists>s'. authenticate M E \<lparr>ses_username = Some u, ses_password = p,
       ses_client_id = Some (did @ ''@'' @ cl @ ''/'' @ res)\<rparr> s = (True, s') \<and>
    (\<forall>k. bot_get D (JStr k) (ms_db s') =
      (if k = did \<and> bot_get D (JStr did) (ms_db s) = None
       then Some (new_bot did (JStr u, JStr cl, JStr res, JStr ''eco-ng'')) else bot_get D (JStr k) (ms_db s)))"
  using tinydb.authenticate_bot [OF assms] .

theorem robot_registered_witness:
  "\<exists>s'. authenticate (demo_menv False) demo_env \<lparr>ses_username = Some ''bot2'', ses_password = None,
       ses_client_id = Some ''d2@ls1ok3/atom''\<rparr> demo_mserver = (True, s') \<and>
     bot_get mem_store (JStr ''d1'') (ms_db s') = bot_get mem_store (JStr ''d1'') demo_db"
proof -
  have "''d2'' @ ''@'' @ ''ls1ok3'' @ ''/'' @ ''atom'' \<noteq> HELPER_BOT_CLIENT_ID" "ms_ok demo_mserver"
    by (simp_all add: HELPER_BOT_CLIENT_ID_def ms_ok_def demo_mserver_def)
  then show ?thesis
    using robot_registered [OF mem_tinydb, of demo_env demo_mserver "''d2''" "''ls1ok3''" "''bot2''" "''atom''" "demo_menv False" None]
    by (auto simp: demo_mserver_def)
qed

text \<open>C35: whatever a client sends, the decision keeps the robots and the apps well formed.\<close>

theorem authentication_keeps_tables:
  assumes "tinydb D" and E: "e_store E = D" and ok: "ms_ok s"
  shows "ms_ok (snd (authenticate M E ses s))"
  using tinydb.authenticate_keeps [OF assms] .

theorem authentication_keeps_tables_witness:
  "ms_ok (snd (authenticate (demo_menv True) demo_env \<lparr>ses_username = None, ses_password = Some ''x'', ses_client_id = Some ''@/''\<rparr>
     demo_mserver))"
  using authentication_keeps_tables [OF mem_tinydb, of demo_env demo_mserver]
  by (simp add: ms_ok_def demo_mserver_def)

text \<open>Connecting and disconnecting of a robot sets the flag of that robot and of no other.\<close>

theorem connection_flag_exact:
  assumes "tinydb D" and E: "e_store E = D" and ok: "ms_ok s"
    and id: "client_id_split_helper (e_cfg E) client_id = Some (did, cl, res, Bot_Client)"
    and nh: "client_id \<noteq> HELPER_BOT_CLIENT_ID"
  shows "bot_get D (JStr k) (ms_db (set_client_connected E client_id b s)) =
    (if k = did then map_option (\<lambda>r. r\<lparr>bot_mqtt_connection := JBool b\<rparr>) (bot_get D (JStr did) (ms_db s))
     else bot_get D (JStr k) (ms_db s))"
  using tinydb.connected_flag [OF assms, of k b] by (simp add: put_mqtt_def cong: option.map_cong)

theorem connection_flag_exact_witness:
  "map_option bot_mqtt_connection (bot_get mem_store (JStr ''d1'')
     (ms_db (set_client_connected demo_env ''d1@ls1ok3/atom'' True demo_mserver))) =
   map_option (\<lambda>_. JBool True) (bot_get mem_store (JStr ''d1'') demo_db)"
proof -
  have "ms_ok demo_mserver" "ms_db demo_mserver = demo_db"
    by (simp_all add: ms_ok_def demo_mserver_def)
  moreover have "client_id_split_helper (e_cfg demo_env) ''d1@ls1ok3/atom'' = Some (''d1'', ''ls1ok3'', ''atom'', Bot_Client)"
    "''d1@ls1ok3/atom'' \<noteq> HELPER_BOT_CLIENT_ID"
    by (simp_all add: client_id_split_helper_def HELPER_BOT_CLIENT_ID_def)
  ultimately show ?thesis
    using connection_flag_exact [OF mem_tinydb, of demo_env demo_mserver "''d1@ls1ok3/atom''" "''d1''" "''ls1ok3''" "''atom''" "''d1''" True]
    by (cases "bot_get mem_store (JStr ''d1'') demo_db") simp_all
qed

text \<open>A client id is split exactly: of \<open>did@class/resource\<close> the parts come back, and the
  parts of every accepted id make it up again.\<close>

theorem client_id_round_trip:
  "(CHR ''@'' \<notin> set did \<longrightarrow> CHR ''/'' \<notin> set cl \<longrightarrow> client_id_split_helper cfg (did @ ''@'' @ cl @ ''/'' @ res) =
      Some (did, cl, res, if cl \<in> set (USER_REALMS cfg) then User_Client else Bot_Client)) \<and>
    (client_id_split_helper cfg i = Some (did', cl', res', ct) \<longrightarrow>
      i = did' @ ''@'' @ cl' @ ''/'' @ res' \<and> (ct = User_Client \<longleftrightarrow> cl' \<in> set (USER_REALMS cfg)))"
  using client_id_split client_id_split_Some by blast

theorem client_id_round_trip_witness:
  "client_id_split_helper default_config ''u1@ecouser/res'' = Some (''u1'', ''ecouser'', ''res'', User_Client)"
  using client_id_round_trip [of "''u1''" "''ecouser''" default_config "''res''"] by simp

section \<open>Commands\<close>


definition demo_command :: mqtt_command where
  "demo_command = from_version_1 ''ABCD'' [(''toId'', JStr ''d1''), (''toType'', JStr ''ls1ok3''), (''toRes'', JStr ''atom''),
     (''cmdName'', JStr ''getBattery''), (''payloadType'', JStr ''x''), (''payload'', JStr ''p'')]"

definition demo_helper :: helper where
  "demo_helper = hb_session_open (hb_init demo_db)"


text \<open>The answer a robot sends on the reply topic of a command is the value of the
  command, when its body is a JSON object.\<close>

theorem command_gets_reply:
  assumes "hb_client h" "plain_topic c" "cmd_payload_type c = JStr ''j''"
    "e_loads E (utf8_decode_replace b) = Inr (JObj d)"
  shows "fst (send_command_plain E c [(reply_topic c, b)] h) = JObj d"
  using command_answered [OF assms] .

theorem command_gets_reply_witness:
  "fst (send_command_plain (demo_env\<lparr>e_loads := (\<lambda>_. Inr (JObj []))\<rparr>) (demo_command\<lparr>cmd_payload_type := JStr ''j''\<rparr>)
     [(reply_topic (demo_command\<lparr>cmd_payload_type := JStr ''j''\<rparr>), ''{}'')] demo_helper) = JObj []"
proof (rule command_gets_reply)
  show "hb_client demo_helper" by (simp add: demo_helper_def hb_session_open_def)
  show "plain_topic (demo_command\<lparr>cmd_payload_type := JStr ''j''\<rparr>)" by code_simp
qed simp_all

section \<open>The proxy\<close>

text \<open>C27: a request of the vendor's server reaches the robot with its sender hidden, and the
  robot's answer goes back to that sender on the topic the server expects; the entry of the
  request is then used up.\<close>

theorem proxy_round_trip:
  assumes p: "party [a, b, c]" "party rc" and n: "no_slash cmd" "no_slash rid" "no_slash ty"
    and a: "a \<noteq> ''proxyhelper''" "a \<noteq> []" "hd rc \<noteq> ''proxyhelper''"
    and h: "hb_client (ps_helper s)" and d: "utf8_decode bytes = Inr data"
  shows "\<exists>s'. proxy_message (p2p_topic cmd [a, b, c] rc ''q'' rid ty) (Some bytes) s = (Inr (), s') \<and>
    hb_published (ps_helper s') = hb_published (ps_helper s) @
      [(p2p_topic cmd [''proxyhelper'', b, c] rc ''q'' rid ty, data)] \<and>
    (\<exists>q. proxy_reply (p2p_topic cmd rc [''proxyhelper'', b, c] ''p'' rid ty) answer (ps_proxy s') = (Inr (), q) \<and>
      px_sent q = px_sent (ps_proxy s) @ [(p2p_topic cmd rc [a, b, c] ''p'' rid ty, utf8_encode answer)] \<and>
      px_mapper q rid = None)"
proof -
  have q: "no_slash ''q''" "no_slash ''p''" by (simp_all add: no_slash_def)
  show ?thesis
    using request_forwarded [OF p n(1) q(1) n(2,3) a(1) h d]
      reply_restored [OF p n(1) q(2) n(2,3) a(3) _ a(2),
        of "(ps_proxy s)\<lparr>px_mapper := (px_mapper (ps_proxy s))(rid \<mapsto> a)\<rparr>" answer]
    by simp
qed

definition demo_side :: proxy_side where
  "demo_side = \<lparr>ps_proxy = ProxyClient, ps_helper = demo_helper\<rparr>"

theorem proxy_round_trip_witness:
  "\<exists>s'. proxy_message (p2p_topic ''clean'' [''srv'', ''x'', ''y''] [''d1'', ''cl'', ''res''] ''q'' ''R1'' ''j'') (Some ''go'') demo_side =
     (Inr (), s')"
proof -
  have "party [''srv'', ''x'', ''y'']" "party [''d1'', ''cl'', ''res'']" "no_slash ''clean''" "no_slash ''R1''" "no_slash ''j''"
    "utf8_decode ''go'' = Inr ''go''" "hb_client (ps_helper demo_side)"
    by (simp_all add: party_def no_slash_def demo_side_def demo_helper_def hb_session_open_def) code_simp
  then show ?thesis
    using proxy_round_trip [of "''srv''" "''x''" "''y''" "[''d1'', ''cl'', ''res'']" "''clean''" "''R1''" "''j''" demo_side "''go''" "''go''"]
    by auto
qed

section \<open>Time zone\<close>

text \<open>the time zone is set on a connecting robot in every zone but UTC, where the offset of
  zero is taken for a missing one and no command is sent.\<close>

theorem timezone_command:
  assumes "SYNC_TIMEZONE (e_cfg E)" "bot_get (e_store E) (JStr did) db = Some b"
  shows "if utcoff (e_now E) = 0 then set_bot_timezone E True rid did db = None
    else \<exists>c. set_bot_timezone E True rid did db = Some c \<and> cmd_request_id c = rid \<and> cmd_name c = JStr ''setTimeZone'' \<and>
      cmd_did c = bot_did b"
  using no_timezone_in_utc [of E True rid did db] timezone_sent [OF _ assms] by simp

theorem timezone_command_witness:
  "set_bot_timezone (demo_env\<lparr>e_cfg := default_config\<lparr>SYNC_TIMEZONE := True\<rparr>\<rparr>) True ''ABCD'' ''d1'' demo_db = None"
proof -
  obtain b where "bot_get mem_store (JStr ''d1'') demo_db = Some b"
    using demo_bot_found by blast
  then show ?thesis
    using timezone_command [of "demo_env\<lparr>e_cfg := default_config\<lparr>SYNC_TIMEZONE := True\<rparr>\<rparr>" "''d1''" demo_db b "''ABCD''"] by simp
qed

text \<open>A malformed line ends the reading of the password file: the users of all later lines
  are not loaded, whatever the lines hold.\<close>

theorem malformed_password_line:
  assumes "py_strip l \<noteq> []" "\<not> py_startswith (py_strip l) ''#''" "length (py_split (CHR '':'') (py_strip l)) \<noteq> 2"
  shows "read_lines (l # ls) users = users"
  using read_lines_bad [OF assms] .

theorem malformed_password_line_witness:
  "read_lines [''a:b:c'', ''user:hash''] Map.empty ''user'' = None"
proof -
  have "py_strip ''a:b:c'' \<noteq> []" "\<not> py_startswith (py_strip ''a:b:c'') ''#''"
    "length (py_split (CHR '':'') (py_strip ''a:b:c'')) \<noteq> 2"
    by code_simp+
  then show ?thesis using malformed_password_line [of "''a:b:c''" "[''user:hash'']" Map.empty] by simp
qed

end
