(* ===== verification/XMPP_Properties.thy ===== *)
theory XMPP_Properties
  imports MQTT_Properties
begin

text \<open>
  The properties of the XMPP server: the invariant of its connections, authentication, what
  happens without it, delivery of results, and the loss of a connection.
\<close>

definition demo_xenv :: xenv where
  "demo_xenv = \<lparr>xe_parse = (\<lambda>_. None), xe_render = (\<lambda>_ _ _. ''<iq/>''), xe_uuid4 = (\<lambda>_. ''id'')\<rparr>"

definition demo_conn :: "nat \<Rightarrow> nat \<Rightarrow> string \<Rightarrow> string \<Rightarrow> xclient" where
  "demo_conn ty st uid jid = (new_xclient ''addr'' True)\<lparr>xc_type := ty, xc_state := st, xc_uid := uid, xc_jid := jid\<rparr>"

text \<open>A robot, an app, and a connection that is ready without a name.\<close>

definition demo_xmpp :: xmpp where
  "demo_xmpp = (xmpp_init demo_db)
     \<lparr>xs_obj := (\<lambda>_. new_xclient [] False)(0 := demo_conn TY_BOT ST_READY ''d1'' ''d1@cl'', 1 := demo_conn TY_CONTROLLER ST_READY ''u1'' ''u1@x'',
        2 := demo_conn TY_UNKNOWN ST_READY [] [], 3 := demo_conn TY_UNKNOWN ST_CONNECT [] []),
      xs_clients := [0, 1, 2, 3]\<rparr>"

section \<open>Connections\<close>

text \<open>C2: along every run of the server (connections, data, start-TLS, pings, losses, shutdown)
  the list of live connections has no duplicates, every live connection is past its initial
  state, the tables stay well formed, and the state of a connection never goes back.\<close>

theorem reachable_states:
  assumes "tinydb D" and E: "e_store E = D" and steps: "(xmpp_step E X)\<^sup>*\<^sup>* (xmpp_init db) s"
    and ok: "bots_ok db" "clients_ok db"
  shows "distinct (xs_clients s) \<and> (\<forall>n \<in> set (xs_clients s). ST_CONNECT \<le> xc_state (xs_obj s n)) \<and>
    (\<forall>n. xc_type (xs_obj s n) \<noteq> TY_UNKNOWN \<longrightarrow> ST_INIT \<le> xc_state (xs_obj s n)) \<and>
    bots_ok (xs_db s) \<and> clients_ok (xs_db s) \<and>
    (\<forall>s'. xmpp_step E X s s' \<longrightarrow> (\<forall>n. xc_state (xs_obj s n) \<le> xc_state (xs_obj s' n)))"
  using tinydb.xmpp_reachable_ok [OF assms(1) E steps xmpp_init_ok [OF ok]] tinydb.xmpp_step_ok [OF assms(1) E, of X s]
  by (auto simp: xmpp_ok_def xs_tables_def obj_ok_def)

theorem reachable_states_witness:
  "xs_clients (connection_made 0 ''addr'' True (xmpp_init demo_db)) = [0] \<and>
     ST_CONNECT \<le> xc_state (xs_obj (connection_made 0 ''addr'' True (xmpp_init demo_db)) 0)"
proof -
  have "xmpp_step demo_env demo_xenv (xmpp_init demo_db) (connection_made 0 ''addr'' True (xmpp_init demo_db))"
    by (rule xmpp_step.Connect) (simp_all add: xmpp_init_def new_xclient_def)
  then show ?thesis
    using reachable_states [OF mem_tinydb, of demo_env demo_xenv demo_db, OF _ r_into_rtranclp]
    by (simp add: connection_made_def xmpp_init_def)
qed

text \<open>C19: a connection that has done nothing but open becomes ready by asking for a session: it
  is neither robot nor app, has no name, and no code was checked.\<close>

theorem session_needs_no_authentication:
  assumes "xc_state (xs_obj s n) = ST_CONNECT"
  shows "\<exists>s'. handle_item E X n data (session_request i) s = (Inr (), s') \<and>
    xc_state (xs_obj s' n) = ST_READY \<and> xc_type (xs_obj s' n) = xc_type (xs_obj s n) \<and>
    xc_uid (xs_obj s' n) = xc_uid (xs_obj s n) \<and> xs_db s' = xs_db s \<and> xs_clients s' = xs_clients s"
  using session_without_auth [OF assms] .

theorem session_needs_no_authentication_witness:
  "\<exists>s'. handle_item demo_env demo_xenv 3 [] (session_request ''1'') demo_xmpp = (Inr (), s') \<and>
     xc_state (xs_obj s' 3) = ST_READY \<and> xc_type (xs_obj s' 3) = TY_UNKNOWN"
  using session_needs_no_authentication [of demo_xmpp 3 demo_env demo_xenv "[]" "''1''"]
  by (auto simp: demo_xmpp_def demo_conn_def)



text \<open>a robot's message to \<open>de.ecorobot.net\<close> is written twice to every other ready connection.\<close>

theorem broadcast_delivered_twice:
  assumes d: "distinct (xs_clients s)" and e: "\<not> contains (''errno='' @ [CHR 0x27] @ ''103'' @ [CHR 0x27]) data"
    and n: "xc_type (xs_obj s n) = TY_BOT" and to: "x_get x ''to'' = Some ''de.ecorobot.net''"
    and m: "m \<in> set (xs_clients s)" "other_ready (xs_obj s n) (xs_obj s m)" "xc_writable (xs_obj s m)"
  shows "\<exists>w. xc_out (xs_obj (snd (handle_result E X n x data s)) m) = xc_out (xs_obj s m) @ [w, w]"
  using broadcast_twice [OF assms(1-6)] m(3) by (simp add: Let_def received_def)

theorem broadcast_delivered_twice_witness:
  "\<exists>w. xc_out (xs_obj (snd (handle_result demo_env demo_xenv 0
     (Element ''iq'' [(''to'', ''de.ecorobot.net'')] None []) [] demo_xmpp)) 1) = [w, w]"
proof -
  have "\<not> contains (''errno='' @ [CHR 0x27] @ ''103'' @ [CHR 0x27]) []" by code_simp
  then show ?thesis
    using broadcast_delivered_twice [of demo_xmpp "[]" 0 "Element ''iq'' [(''to'', ''de.ecorobot.net'')] None []" 1 demo_env demo_xenv]
    by (auto simp: demo_xmpp_def demo_conn_def new_xclient_def x_get_def other_ready_def)
qed

section \<open>Authentication\<close>

text \<open>An app that authenticates is a known client afterwards, its connection moves to the
  next state and is answered with success.\<close>

theorem app_authenticates:
  assumes "tinydb D" and E: "e_store E = D" "\<not> USE_AUTH (e_cfg E)" and f: "plain_field user" "plain_field res"
    and c: "xc_devclass (xs_obj s n) = []" "xc_state (xs_obj s n) = ST_CONNECT" and ok: "clients_ok (xs_db s)"
  shows "\<exists>s'. handle_sasl_auth E n (auth_stanza user res) s = (Inr (), s') \<and>
    xc_state (xs_obj s' n) = ST_INIT \<and> xc_type (xs_obj s' n) = TY_CONTROLLER \<and> xc_uid (xs_obj s' n) = user \<and>
    client_get D (JStr user) (xs_db s') \<noteq> None \<and>
    (xc_writable (xs_obj s n) \<longrightarrow> last (xc_out (xs_obj s' n)) = utf8_encode (py_replace [CHR 0x22] [CHR 0x27] sasl_success))"
  using tinydb.sasl_app [OF assms] .

theorem app_authenticates_witness:
  "\<exists>s'. handle_sasl_auth demo_env 3 (auth_stanza ''u7'' ''res'') demo_xmpp = (Inr (), s') \<and>
     client_get mem_store (JStr ''u7'') (xs_db s') \<noteq> None"
proof -
  have "plain_field ''u7''" "plain_field ''res''" by code_simp+
  moreover have "xc_devclass (xs_obj demo_xmpp 3) = []" "xc_state (xs_obj demo_xmpp 3) = ST_CONNECT" "clients_ok (xs_db demo_xmpp)"
    by (simp_all add: demo_xmpp_def demo_conn_def new_xclient_def xmpp_init_def)
  ultimately show ?thesis
    using app_authenticates [OF mem_tinydb, of demo_env "''u7''" "''res''" demo_xmpp 3] by auto
qed

text \<open>a robot that authenticates is registered under its name with the class of its stream,
  and no other robot changes.\<close>

theorem robot_authenticates:
  assumes "tinydb D" and E: "e_store E = D" and f: "plain_field user" "plain_field res"
    and c: "xc_devclass (xs_obj s n) = cl" "cl \<noteq> []" "xc_state (xs_obj s n) = ST_CONNECT" and ok: "bots_ok (xs_db s)"
  shows "\<exists>s'. handle_sasl_auth E n (auth_stanza user res) s = (Inr (), s') \<and>
    xc_state (xs_obj s' n) = ST_INIT \<and> xc_type (xs_obj s' n) = TY_BOT \<and>
    (\<forall>k. bot_get D (JStr k) (xs_db s') =
      (if k = user \<and> bot_get D (JStr user) (xs_db s) = None
       then Some (new_bot user (JStr user, JStr cl, JStr ''atom'', JStr ''eco-legacy'')) else bot_get D (JStr k) (xs_db s)))"
  using tinydb.sasl_bot [OF assms] .

definition robot_xmpp :: xmpp where
  "robot_xmpp = demo_xmpp\<lparr>xs_obj := (xs_obj demo_xmpp)(3 := (demo_conn TY_UNKNOWN ST_CONNECT [] [])\<lparr>xc_devclass := ''126''\<rparr>)\<rparr>"

theorem robot_authenticates_witness:
  "\<exists>s'. handle_sasl_auth demo_env 3 (auth_stanza ''d1'' ''atom'') robot_xmpp = (Inr (), s') \<and>
     bot_get mem_store (JStr ''d1'') (xs_db s') = bot_get mem_store (JStr ''d1'') demo_db"
proof -
  have "plain_field ''d1''" "plain_field ''atom''" by code_simp+
  moreover have "xc_devclass (xs_obj robot_xmpp 3) = ''126''" "xc_state (xs_obj robot_xmpp 3) = ST_CONNECT" "bots_ok (xs_db robot_xmpp)"
    "xs_db robot_xmpp = demo_db"
    by (simp_all add: robot_xmpp_def demo_xmpp_def demo_conn_def xmpp_init_def)
  ultimately show ?thesis
    using robot_authenticates [OF mem_tinydb, of demo_env "''d1''" "''atom''" robot_xmpp 3 "''126''"] demo_bot_found by auto
qed

text \<open>When the connection of a robot is lost it leaves the list of live connections, ends in
  the last state, and exactly that robot is marked as disconnected.\<close>

theorem lost_robot_is_disconnected:
  assumes "tinydb D" and E: "e_store E = D" and ok: "xmpp_ok s" and n: "n \<in> set (xs_clients s)" "xc_devclass (xs_obj s n) \<noteq> []"
  shows "\<exists>s'. connection_lost E n s = (Inr (), s') \<and> n \<notin> set (xs_clients s') \<and>
    xc_state (xs_obj s' n) = ST_DISCONNECT \<and>
    (\<forall>k. bot_get D (JStr k) (xs_db s') =
      (if k = xc_uid (xs_obj s n) then map_option (\<lambda>b. b\<lparr>bot_xmpp_connection := JBool False\<rparr>) (bot_get D (JStr k) (xs_db s))
       else bot_get D (JStr k) (xs_db s)))"
proof -
  have put: "(\<lambda>b. b\<lparr>bot_xmpp_connection := JBool False\<rparr>) = put_xmpp False" by (simp add: put_xmpp_def fun_eq_iff)
  show ?thesis unfolding put using tinydb.lost_bot [OF assms] .
qed

theorem lost_robot_is_disconnected_witness:
  "\<exists>s'. connection_lost demo_env 3 robot_xmpp = (Inr (), s') \<and> 3 \<notin> set (xs_clients s')"
proof -
  have "xmpp_ok robot_xmpp"
    by (simp add: robot_xmpp_def demo_xmpp_def demo_conn_def xmpp_init_def xmpp_ok_def obj_ok_def new_xclient_def xs_tables_def)
  moreover have "3 \<in> set (xs_clients robot_xmpp)" "xc_devclass (xs_obj robot_xmpp 3) \<noteq> []"
    by (simp_all add: robot_xmpp_def demo_xmpp_def)
  ultimately show ?thesis
    using lost_robot_is_disconnected [OF mem_tinydb, of demo_env robot_xmpp 3] by auto
qed

end
