(* ===== verification/Web_Properties.thy ===== *)
theory Web_Properties
  imports XMPP_Properties
begin

text \<open>
  The properties of the web handlers and of the life of the program: the device list, the
  scan of a QR code, the lists and pages of cleaning logs, the account actions, commands to
  robots, the proxy, the removal of records, the start and the end.
\<close>

section \<open>A sample\<close>

definition demo_robot :: doc where
  "demo_robot = [(''groupName'', JStr ''X1''), (''mid'', JStr ''ls1ok3''), (''category'', JStr ''DEEBOT''), (''cusSteps'', JList []),
     (''groupId'', JStr ''g''), (''service'', JNull), (''products'', JList []), (''smartTypes'', JList []),
     (''icon'', JStr []), (''sort'', JInt 1)]"

definition demo_invent :: doc where
  "demo_invent = [(''_id'', JStr ''p''), (''materialNo'', JStr ''m''), (''name'', JStr ''X1''), (''model'', JStr ''x1''),
      (''UILogicId'', JStr ''u''), (''ota'', JBool True), (''iconUrl'', JStr [])]"

definition demo_product :: doc where
  "demo_product = [(''classid'', JStr ''ls1ok3''), (''product'', JObj demo_invent)]"

definition demo_groups :: "json list" where
  "demo_groups = [JObj [(''robots'', JList [JObj demo_robot])]]"

definition demo_files :: "string \<Rightarrow> py_exc + json" where
  "demo_files fn = Inr (JList (if fn = ''productIotMap.json'' then [JObj demo_product]
     else if fn = ''configGroupsResponse.json'' then demo_groups else []))"

definition demo_api :: api where
  "demo_api = \<lparr>ap_env = demo_env\<lparr>e_loads := demo_files\<rparr>, ap_rid = (\<lambda>_. ''ABCD''),
     ap_inbox = (\<lambda>c. [(reply_topic c, ''{}'')]), ap_text = (\<lambda>fn. Inr fn), ap_local = (\<lambda>_. demo_now),
     ap_token_hex = (\<lambda>_ _. ''00''), ap_token_urlsafe = (\<lambda>_ _. ''s''), ap_public_key = Inr ''key''\<rparr>"

definition demo_app :: app where
  "demo_app = \<lparr>st_web = demo_web, st_helper = Some demo_helper, st_groups = None\<rparr>"

definition demo_request :: request where
  "demo_request = \<lparr>rq_path = ''/'', rq_query = [], rq_match = [], rq_headers = [], rq_json = Inr (JObj []), rq_form = None\<rparr>"

lemma demo_api_simps [simp]:
  "ap_store demo_api = mem_store" "ap_cfg demo_api = default_config" "e_loads (ap_env demo_api) = demo_files"
  "ap_text demo_api fn = Inr fn" "ap_rid demo_api n = ''ABCD''" "st_web demo_app = demo_web"
  "st_helper demo_app = Some demo_helper" "st_groups demo_app = None"
  by (simp_all add: demo_api_def demo_env_def demo_app_def)

lemma demo_map: "get_product_iot_map demo_api = Inr [JObj demo_product]"
  by (simp add: get_product_iot_map_def read_json_def demo_files_def)

lemma demo_groups_of: "groups_of demo_api demo_app = Inr demo_groups" "good_groups demo_groups"
  by (simp_all add: groups_of_def load_config_groups_def read_json_def demo_files_def demo_groups_def
      good_groups_def robot_list_def)

lemma demo_db_ok: "db_ok demo_db"
  by (simp add: db_ok_def)

section \<open>The device list\<close>

text \<open>C6: the device list has exactly one entry for each robot whose class is in the product
  map, in the order of the table, with its device id, its class and its status; the database
  does not change. No robot is lost because its product or its group is incomplete.\<close>

theorem device_list_exact:
  assumes "tinydb D" "ap_store A = D"
    and "get_product_iot_map A = Inr products" "list_all good_product products"
    and "groups_of A s = Inr gs" "good_groups gs"
  shows "\<exists>ds s'. create_device_list A s = (Inr ds, s') \<and> st_web s' = st_web s \<and>
    list_all2 device_entry (filter (listed products) (bot_list_all D (w_db (st_web s)))) ds"
  using device_infos_total [OF assms(3,4,6,5)] assms(2)
  by (simp add: create_device_list_def py_bind_def web_run_def py_zoom_def db_gets_def py_gets_def)

theorem device_list_exact_witness:
  "\<exists>d s'. create_device_list demo_api demo_app = (Inr [d], s') \<and> device_entry (new_bot ''d1'' (JStr ''bot1'', JStr ''ls1ok3'', JStr ''abc'', JStr ''eco-ng'')) d"
proof -
  have good: "list_all good_product [JObj demo_product]" by code_simp
  have bots: "bot_list_all mem_store demo_db = [new_bot ''d1'' (JStr ''bot1'', JStr ''ls1ok3'', JStr ''abc'', JStr ''eco-ng'')]"
    by (simp add: bot_list_all_def bot_round_trip)
  have "listed [JObj demo_product] (new_bot ''d1'' (JStr ''bot1'', JStr ''ls1ok3'', JStr ''abc'', JStr ''eco-ng''))"
    by code_simp
  then show ?thesis
    using device_list_exact [OF mem_tinydb _ demo_map good demo_groups_of] by (auto simp: bots list_all2_Cons1)
qed

section \<open>Scanning a QR code\<close>

text \<open>C10: a scan renames the key \<open>groupName\<close> of the robot it finds in the cached configuration
  groups, so when one robot has the name, the first scan of its code answers with the robot
  and every later scan finds none.\<close>

theorem second_scan_finds_nothing:
  assumes g: "groups_of A s = Inr gs" "good_groups gs"
    and p: "get_product_iot_map A = Inr products" "find_product mid products = Inr (Some (JObj b))"
      "dget_or b ''product'' (JObj []) = JObj q" "dget q ''name'' = JStr n" "n \<noteq> []"
    and f: "find_group ''groupName'' (JStr n) gs = Inr (Some (i, j, d))" "scannable d"
    and one: "length (filter (matches ''groupName'' (JStr n)) (robot_docs gs)) = 1"
  shows "\<exists>c1 c2 s1 s2. scan_product A mid s = (Inr (c1, JObj (scanned mid d)), s1) \<and>
    scan_product A mid s1 = (Inr (c2, JNull), s2)"
proof -
  let ?gs = "put_robot i j (scanned mid d) gs"
  obtain xs ys where docs: "robot_docs gs = xs @ JObj d # ys" "\<not> list_ex (matches ''groupName'' (JStr n)) xs"
      "py_eq (dget d ''groupName'') (JStr n)"
    and put: "\<And>d'. good_groups (put_robot i j d' gs) \<and> robot_docs (put_robot i j d' gs) = xs @ JObj d' # ys"
    using find_group_Some [OF f(1) g(2)] by blast
  have "matches ''groupName'' (JStr n) (JObj d)" using docs(3) by (simp only: matches_def json.case)
  then have "\<not> list_ex (matches ''groupName'' (JStr n)) ys"
    using one docs(1) by (simp add: filter_empty_conv list_ex_iff)
  then have "\<not> list_ex (matches ''groupName'' (JStr n)) (robot_docs ?gs)"
    using put docs(2) scanned_nameless by (simp add: matches_def)
  then have none: "find_group ''groupName'' (JStr n) ?gs = Inr None" using find_group_None put by blast
  obtain c1 where c1: "get_product_category (JStr n) (map_option (snd \<circ> snd) (Some (i, j, d))) = Inr c1"
    using category_total [of "JStr n"] by auto
  obtain c2 where c2: "get_product_category (JStr n) (map_option (snd \<circ> snd) (None :: (nat \<times> nat \<times> doc) option)) = Inr c2"
    using category_total [of "JStr n"] by auto
  show ?thesis
    using scan_product_run [OF g p f(1) c1] f(2) scan_product_run [OF groups_of_set _ p none c2] put by auto
qed

theorem second_scan_finds_nothing_witness:
  "\<exists>c1 c2 s1 s2. scan_product demo_api (JStr ''ls1ok3'') demo_app = (Inr (c1, JObj (scanned (JStr ''ls1ok3'') demo_robot)), s1) \<and>
    scan_product demo_api (JStr ''ls1ok3'') s1 = (Inr (c2, JNull), s2)"
  by (rule second_scan_finds_nothing [OF demo_groups_of demo_map, where b = demo_product and q = demo_invent and n = "''X1''" and i = 0 and j = 0])
    (simp_all add: demo_product_def demo_invent_def demo_groups_def demo_robot_def scannable_def scan_keys_def robot_docs_def
      robot_list_def matches_def)

section \<open>Cleaning logs\<close>

lemma row_log_ts: "log_doc (snd r) \<Longrightarrow> log_ts (row_log r) = JNull \<or> (\<exists>i. log_ts (row_log r) = JInt i)"
  using to_int_cases [of "dget (snd r) ''ts''"] by (auto simp: row_log_def log_from_db_def log_doc_def key_of_Some)

lemma log_dict_ts: "dget (log_as_dict l) ''ts'' = log_ts l"
  by (simp add: log_as_dict_def)

lemma clean_result_run:
  assumes "rq_get rq ''did'' = JStr did" "rq_get_or rq ''logType'' [] = ''clean''"
    and "bot_get (ap_store A) (JStr did) (w_db (st_web s)) = Some dev" "bot_company dev = JStr ''eco-ng''"
    and "clean_log_list_by_did (ap_store A) (JStr did) (w_db (st_web s)) = Inr logs"
  shows "handle_clean_result_list A rq s =
    (case sort_desc ts_less (map (\<lambda>l. dset (log_as_dict l) ''did'' (JStr did)) logs) of
       Inl e \<Rightarrow> (Inl (HTTPException 500), s) | Inr data \<Rightarrow> (Inr (success_v3 (JList (map JObj data))), s))"
proof -
  have "logs_of A (JStr did) s = (Inr logs, s)"
    using assms(3-5) by (simp add: logs_of_def py_run)
  then show ?thesis using assms(1,2)
    by (simp add: handle_clean_result_list_def app_guarded_def py_try_def py_bind_def py_of_def py_ret_def py_raise_def
        Let_def split: sum.splits)
qed

text \<open>C25: the list of cleaning logs of a robot that talks over MQTT holds exactly its logs,
  newest first, when every log has a start time; with two logs or more of which one has none,
  the request fails with status 500.\<close>

theorem clean_result_list_sorted:
  assumes "tinydb D" "ap_store A = D" and ok: "logs_ok (w_db (st_web s))"
    and rq: "rq_get rq ''did'' = JStr did" "rq_get_or rq ''logType'' [] = ''clean''"
    and dev: "bot_get D (JStr did) (w_db (st_web s)) = Some dev" "bot_company dev = JStr ''eco-ng''"
    and logs: "logs = filter (\<lambda>l. log_did l = JStr did) (map row_log (w_db (st_web s) ''clean_logs''))"
  shows "(list_all (\<lambda>l. log_ts l \<noteq> JNull) logs \<longrightarrow> (\<exists>data.
      handle_clean_result_list A rq s = (Inr (success_v3 (JList (map JObj data))), s) \<and>
      mset data = mset (map (\<lambda>l. dset (log_as_dict l) ''did'' (JStr did)) logs) \<and>
      sorted_wrt (\<lambda>a b. ts_of b \<le> ts_of a) data)) \<and>
    (\<not> list_all (\<lambda>l. log_ts l \<noteq> JNull) logs \<and> 2 \<le> length logs \<longrightarrow>
      handle_clean_result_list A rq s = (Inl (HTTPException 500), s))"
proof -
  have "clean_log_list_by_did (ap_store A) (JStr did) (w_db (st_web s)) = Inr logs"
    using tinydb.clean_log_list_by_did_rows [OF assms(1) ok] assms(2) logs by simp
  note run = clean_result_run [OF rq dev [folded assms(2)] this]
  let ?ds = "map (\<lambda>l. dset (log_as_dict l) ''did'' (JStr did)) logs"
  have int: "\<exists>i. log_ts l = JInt i" if l: "l \<in> set logs" "log_ts l \<noteq> JNull" for l
  proof -
    obtain r where "r \<in> set (w_db (st_web s) ''clean_logs'')" "l = row_log r" using l(1) unfolding logs by auto
    then show ?thesis using row_log_ts [OF logs_ok_row [OF ok]] l(2) by blast
  qed
  have "\<exists>es. sort_desc ts_less ?ds = Inr es \<and> mset es = mset ?ds \<and> sorted_wrt (\<lambda>a b. ts_of b \<le> ts_of a) es"
    if "list_all (\<lambda>l. log_ts l \<noteq> JNull) logs"
    using that int by (intro sort_logs) (auto simp: list_all_iff log_dict_ts)
  moreover have "sort_desc ts_less ?ds = Inl TypeError"
    if bad: "\<not> list_all (\<lambda>l. log_ts l \<noteq> JNull) logs" "2 \<le> length logs"
  proof -
    obtain l where "l \<in> set logs" "log_ts l = JNull" using bad(1) by (auto simp: list_all_iff)
    then show ?thesis
      using bad(2) by (intro sort_missing_ts [of "dset (log_as_dict l) ''did'' (JStr did)"]) (auto simp: log_dict_ts)
  qed
  ultimately show ?thesis unfolding run by fastforce
qed


definition demo_logs_app :: app where
  "demo_logs_app = demo_app\<lparr>st_web := demo_web\<lparr>w_db := demo_db(''clean_logs'' :=
     [(1, log_to_db demo_log), (2, log_to_db (log_from_dict ''d1'' ''r2'' [(''start'', JInt 9), (''type'', JStr ''auto'')]))])\<rparr>\<rparr>"

definition demo_logs_request :: request where
  "demo_logs_request = demo_request\<lparr>rq_query := [(''did'', ''d1''), (''logType'', ''clean'')]\<rparr>"

theorem clean_result_list_sorted_witness:
  "\<exists>data. handle_clean_result_list demo_api demo_logs_request demo_logs_app =
      (Inr (success_v3 (JList (map JObj data))), demo_logs_app) \<and>
    length data = 2 \<and> sorted_wrt (\<lambda>a b. ts_of b \<le> ts_of a) data"
proof -
  let ?l2 = "log_from_dict ''d1'' ''r2'' [(''start'', JInt 9), (''type'', JStr ''auto'')]"
  have db: "w_db (st_web demo_logs_app) = demo_db(''clean_logs'' := [(1, log_to_db demo_log), (2, log_to_db ?l2)])"
    by (simp add: demo_logs_app_def)
  have "log_doc (log_to_db ?l2)" "log_pair (1, log_to_db demo_log) \<noteq> log_pair (2, log_to_db ?l2)" by code_simp+
  then have ok: "logs_ok (w_db (st_web demo_logs_app))" by (simp add: db logs_ok_def ids_ok_def)
  have rq: "rq_get demo_logs_request ''did'' = JStr ''d1''" "rq_get_or demo_logs_request ''logType'' [] = ''clean''"
    by code_simp+
  have dev: "bot_get mem_store (JStr ''d1'') (w_db (st_web demo_logs_app)) =
      Some (new_bot ''d1'' (JStr ''bot1'', JStr ''ls1ok3'', JStr ''abc'', JStr ''eco-ng''))"
    by (simp add: db mem.bot_get_lookup bot_round_trip del: new_bot.simps)
  have logs: "[log_normal demo_log, log_normal ?l2] =
      filter (\<lambda>l. log_did l = JStr ''d1'') (map row_log (w_db (st_web demo_logs_app) ''clean_logs''))"
    by (simp add: db demo_log_def log_normal_def log_from_dict_def Let_def)
  have "list_all (\<lambda>l. log_ts l \<noteq> JNull) [log_normal demo_log, log_normal ?l2]" by code_simp
  moreover have "bot_company (new_bot ''d1'' (JStr ''bot1'', JStr ''ls1ok3'', JStr ''abc'', JStr ''eco-ng'')) = JStr ''eco-ng''"
    by code_simp
  ultimately obtain data where data: "handle_clean_result_list demo_api demo_logs_request demo_logs_app =
      (Inr (success_v3 (JList (map JObj data))), demo_logs_app)"
    "mset data = mset (map (\<lambda>l. dset (log_as_dict l) ''did'' (JStr ''d1'')) [log_normal demo_log, log_normal ?l2])"
    "sorted_wrt (\<lambda>a b. ts_of b \<le> ts_of a) data"
    using clean_result_list_sorted [OF mem_tinydb demo_api_simps(1) ok rq dev _ logs] by blast
  then show ?thesis using mset_eq_length [OF data(2)] by auto
qed

section \<open>Pages\<close>



section \<open>Account actions\<close>



text \<open>The path \<open>user.do\<close> answers every request whose body is an object, errors included; the status
  500 is left to bodies that are no object or no JSON.\<close>

theorem user_do_answers:
  "(\<exists>r. fst (handle_user A rq s) = Inr r) \<longleftrightarrow> (\<exists>d. rq_body rq = Inr (JObj d))"
  by (rule handle_user_answers)

text \<open>C34: the action \<open>logout\<close> of \<open>user.do\<close> needs no token: it removes the user and the client
  that the body names, and no others, and leaves the tokens of that user valid.\<close>

theorem logout_without_token:
  assumes "tinydb D" "ap_store A = D" "db_ok (w_db (st_web s))"
    and "rq_body rq = Inr (JObj d)" "dget_or d ''todo'' (JStr []) = JStr ''logout''" "map_of d ''userId'' = Some (JStr u)"
  shows "\<exists>s'. handle_user A rq s = (Inr (JsonResponse (JObj [(''todo'', JStr ''result''), (''result'', JStr ''ok'')])), s') \<and>
    (\<forall>k. user_get_by_id D cfg (JStr k) (w_db (st_web s')) =
       (if k = u then None else user_get_by_id D cfg (JStr k) (w_db (st_web s)))) \<and>
    (\<forall>k. client_get D (JStr k) (w_db (st_web s')) =
       (if k = u then None else client_get D (JStr k) (w_db (st_web s)))) \<and>
    w_db (st_web s') ''tokens'' = w_db (st_web s) ''tokens''"
  by (rule tinydb.logout_run [OF assms])

theorem logout_without_token_witness:
  "\<exists>s'. handle_user demo_api (demo_request\<lparr>rq_json := Inr (JObj [(''todo'', JStr ''logout''), (''userId'', JStr ''u1'')])\<rparr>) demo_app =
      (Inr (JsonResponse (JObj [(''todo'', JStr ''result''), (''result'', JStr ''ok'')])), s') \<and>
    user_get_by_id mem_store default_config (JStr ''u1'') (w_db (st_web s')) = None \<and>
    w_db (st_web s') ''tokens'' = demo_tokens"
  using logout_without_token [OF mem_tinydb, of demo_api demo_app
      "demo_request\<lparr>rq_json := Inr (JObj [(''todo'', JStr ''logout''), (''userId'', JStr ''u1'')])\<rparr>"
      "[(''todo'', JStr ''logout''), (''userId'', JStr ''u1'')]" "''u1''" default_config] demo_db_ok
  by (auto simp: rq_body_def demo_request_def)

section \<open>Commands to robots\<close>




text \<open>A command for a device that is unknown or does not talk over MQTT is refused without
  anything being published or written.\<close>

theorem command_refused:
  assumes h: "st_helper s = Some h" and v: "version \<in> {VERSION_OLD, VERSION_NEW}"
    and body: "command_body rq version = Inr (JObj b)"
      "MQTTCommandModel (ap_rid A (w_drawn (st_web s))) b version = Inr c" "cmd_did c = JStr did"
    and dev: "case bot_get (ap_store A) (JStr did) (w_db (st_web s)) of None \<Rightarrow> True | Some dev \<Rightarrow> bot_company dev \<noteq> JStr ''eco-ng''"
  shows "\<exists>s'. handle_commands A rq version ext s = (Inr (not_supported c), s') \<and> st_helper s' = Some h \<and>
    w_db (st_web s') = w_db (st_web s)"
proof -
  let ?s = "s\<lparr>st_web := (st_web s)\<lparr>w_drawn := Suc (w_drawn (st_web s))\<rparr>\<rparr>"
  have cmd: "new_command A (JObj b) version s = (Inr c, ?s)"
    by (simp add: new_command_def py_bind_def draw_rid_def draw_with_def py_of_def body(2))
  have "run_command A h ext c ?s = (Inr (not_supported c), ?s)"
    using dev body(3)
    by (auto simp: run_command_def py_bind_def web_run_def py_zoom_def db_gets_def py_gets_def py_ret_def split: option.splits)
  then show ?thesis using h body(1)
    by (simp add: handle_commands_def py_try_def py_bind_def py_gets_def py_of_def cmd)
qed

theorem command_refused_witness:
  "\<exists>s'. handle_commands demo_api (demo_request\<lparr>rq_json := Inr (JObj [(''toId'', JStr ''d9'')])\<rparr>) VERSION_OLD False demo_app =
    (Inr (not_supported (from_version_1 ''ABCD'' [(''toId'', JStr ''d9'')])), s')"
proof -
  let ?rq = "demo_request\<lparr>rq_json := Inr (JObj [(''toId'', JStr ''d9'')])\<rparr>"
  have "command_body ?rq VERSION_OLD = Inr (JObj [(''toId'', JStr ''d9'')])" by (simp add: command_body_def)
  moreover have "MQTTCommandModel (ap_rid demo_api (w_drawn (st_web demo_app))) [(''toId'', JStr ''d9'')] VERSION_OLD =
      Inr (from_version_1 ''ABCD'' [(''toId'', JStr ''d9'')])" by (simp add: MQTTCommandModel_def)
  moreover have "cmd_did (from_version_1 ''ABCD'' [(''toId'', JStr ''d9'')]) = JStr ''d9''" by code_simp
  moreover have "bot_get mem_store (JStr ''d9'') demo_db = None"
    by (simp add: mem.bot_get_lookup del: new_bot.simps)
  ultimately show ?thesis
    using command_refused [of demo_app demo_helper VERSION_OLD ?rq "[(''toId'', JStr ''d9'')]" demo_api _ "''d9''" False] by fastforce
qed

section \<open>The web proxy\<close>

text \<open>C31: a request that the proxy passes on is answered if and only if its host is one of the
  two allowed names, its body can be read and the upstream server answers; the answer then
  has status 200 and the text of the upstream answer, and the URL requested has no query. In
  every other case it is status 500, and nothing changes. Sub-domains of the allowed names
  are no allowed names.\<close>

theorem proxy_answers_exactly:
  assumes "px_raw_path P rq \<notin> {''/'', ''/lookup.do''}"
  shows "(handle_proxy A P hb rq s = (Inr (StatusResponse 200 t), s) \<longleftrightarrow>
      (\<exists>host data json_data up. url_host (px_url P rq) = Some host \<and> host \<in> {''ecouser.net'', ''ecovacs.com''} \<and>
         proxy_body P rq = Inr (data, json_data) \<and>
         px_request P (url_base (px_url P rq)) data json_data = Inr up \<and> up_text up = t)) \<and>
    (handle_proxy A P hb rq s = (Inl (HTTPException 500), s) \<or> (\<exists>t. handle_proxy A P hb rq s = (Inr (StatusResponse 200 t), s)))"
proof -
  have run: "handle_proxy A P hb rq s =
      (case proxy_pass P rq of Inl e \<Rightarrow> (Inl (HTTPException 500), s) | Inr r \<Rightarrow> (Inr r, s))"
    using assms by (simp add: handle_proxy_def app_guarded_def py_try_def py_of_def py_raise_def split: sum.splits)
  show ?thesis unfolding run
    by (auto simp: proxy_pass_def res_bind_def validate_and_sanitize_url_def allowed_hosts_def
        split: sum.splits option.splits)
qed

definition demo_proxy :: proxy_env where
  "demo_proxy = \<lparr>px_url = (\<lambda>rq. \<lparr>url_host = Some ''portal.ecouser.net'', url_base = ''https://portal.ecouser.net/x'', url_rest = ''?a=1''\<rparr>),
     px_raw_path = (\<lambda>_. ''/x''), px_has_body = (\<lambda>_. False), px_request = (\<lambda>_ _ _. Inr \<lparr>up_type = ''text/plain'', up_status = 404, up_text = ''no''\<rparr>)\<rparr>"

theorem proxy_answers_exactly_witness:
  "handle_proxy demo_api demo_proxy (py_ret error_v7) demo_request demo_app = (Inl (HTTPException 500), demo_app) \<and>
    handle_proxy demo_api (demo_proxy\<lparr>px_url := (\<lambda>_. \<lparr>url_host = Some ''ecouser.net'', url_base = ''https://ecouser.net/x'', url_rest = ''?a=1''\<rparr>)\<rparr>)
      (py_ret error_v7) demo_request demo_app = (Inr (StatusResponse 200 ''no''), demo_app)"
proof
  show "handle_proxy demo_api demo_proxy (py_ret error_v7) demo_request demo_app = (Inl (HTTPException 500), demo_app)"
    using proxy_answers_exactly [of demo_proxy demo_request demo_api "py_ret error_v7" demo_app] by (auto simp: demo_proxy_def)
  let ?P = "demo_proxy\<lparr>px_url := (\<lambda>_. \<lparr>url_host = Some ''ecouser.net'', url_base = ''https://ecouser.net/x'', url_rest = ''?a=1''\<rparr>)\<rparr>"
  have "px_raw_path ?P demo_request \<notin> {''/'', ''/lookup.do''}" by (simp add: demo_proxy_def)
  from proxy_answers_exactly [OF this, of demo_api "py_ret error_v7" demo_app "''no''"]
  show "handle_proxy demo_api ?P (py_ret error_v7) demo_request demo_app = (Inr (StatusResponse 200 ''no''), demo_app)"
    by (auto simp: demo_proxy_def proxy_body_def)
qed

section \<open>Signed tokens\<close>

text \<open>A request for a signed token that misses a field, or has a false value in it, is
  answered with status 500: the status 400 the handler raises is caught by its own frame.\<close>

theorem missing_field_is_server_error:
  assumes "rq_json rq = Inr (JObj d)" "k \<in> {''acl'', ''exp'', ''sub''}" "\<not> truthy (dget d k)"
  shows "handle_sst_issue A rq s = (Inl (HTTPException 500), s)"
  using assms by (auto simp: handle_sst_issue_def body_dict_def Let_def py_run)

theorem missing_field_is_server_error_witness:
  "handle_sst_issue demo_api (demo_request\<lparr>rq_json := Inr (JObj [(''sub'', JStr ''u''), (''exp'', JInt 60)])\<rparr>) demo_app =
    (Inl (HTTPException 500), demo_app)"
  by (rule missing_field_is_server_error [where k = "''acl''" and d = "[(''sub'', JStr ''u''), (''exp'', JInt 60)]"]) simp_all

section \<open>Removal\<close>

text \<open>the administration pages remove exactly the robot, client or user with the id of the
  path and report success; every other record of the table can still be read.\<close>

theorem remove_entity_exact:
  assumes "tinydb D" "ap_store A = D" "db_ok (w_db w)" and e: "entity \<in> {''bot'', ''client'', ''user''}"
    and ops: "entity_ops A entity = Some (param, remove, present)"
    and id: "rq_info rq param = JStr k" "k \<noteq> []"
  shows "handle_remove_entity A entity rq w =
      (Inr (removed_answer entity False), w\<lparr>w_db := remove (JStr k) (w_db w)\<rparr>) \<and>
    present (JStr k') (remove (JStr k) (w_db w)) = (if k' = k then Inr False else present (JStr k') (w_db w))"
proof -
  have ok: "bots_ok (w_db w)" "clients_ok (w_db w)" "users_ok (w_db w)" using assms(3) by (simp_all add: db_ok_def)
  have present: "present (JStr k') (remove (JStr k) (w_db w)) = (if k' = k then Inr False else present (JStr k') (w_db w))" for k'
    using ops e tinydb.entity_removed(1) [OF assms(1) ok(1)] tinydb.entity_removed(2) [OF assms(1) ok(2)]
      tinydb.entity_removed(3) [OF assms(1) ok(3)] assms(2)
    by (auto simp: entity_ops_def Let_def)
  have "handle_remove_entity A entity rq w = (Inr (removed_answer entity False), w\<lparr>w_db := remove (JStr k) (w_db w)\<rparr>)"
    using e ops id present by (auto simp: handle_remove_entity_def guarded_def py_run Let_def)
  then show ?thesis using present by simp
qed

theorem remove_entity_exact_witness:
  "handle_remove_entity demo_api ''bot'' (demo_request\<lparr>rq_match := [(''did'', ''d1'')]\<rparr>) demo_web =
    (Inr (removed_answer ''bot'' False), demo_web\<lparr>w_db := bot_remove mem_store (JStr ''d1'') demo_db\<rparr>)"
  using remove_entity_exact [OF mem_tinydb, of demo_api demo_web "''bot''" "''did''" "bot_remove mem_store"
      "\<lambda>i db. Inr (bot_get mem_store i db \<noteq> None)" "demo_request\<lparr>rq_match := [(''did'', ''d1'')]\<rparr>" "''d1''"] demo_db_ok
  by (simp add: entity_ops_def Let_def rq_info_def opt_str_def)

text \<open>two cleaning logs with the same id and different types can be stored; the removal by id
  takes the first only, so the page reports a failure and the other log stays.\<close>

theorem removal_by_id_leaves_second:
  assumes "tinydb D" "ap_store A = D" "logs_ok (w_db w)" and i: "rq_info rq ''clean_log_id'' = JStr i" "i \<noteq> []"
    and two: "r1 \<in> set (w_db w ''clean_logs'')" "r2 \<in> set (w_db w ''clean_logs'')" "r1 \<noteq> r2"
      "key_of ''clean_log_id'' (snd r1) = Some i" "key_of ''clean_log_id'' (snd r2) = Some i"
  shows "\<exists>w'. handle_remove_entity A ''clean_log'' rq w = (Inr (removed_answer ''clean_log'' True), w') \<and>
    length (w_db w' ''clean_logs'') = length (w_db w ''clean_logs'') - 1"
  by (rule tinydb.remove_log_leaves_second [OF assms])

theorem removal_by_id_leaves_second_witness:
  "\<exists>w'. handle_remove_entity demo_api ''clean_log'' (demo_request\<lparr>rq_match := [(''clean_log_id'', ''d1@5@r1'')]\<rparr>)
      (demo_web\<lparr>w_db := demo_db(''clean_logs'' := [(1, log_to_db demo_log), (2, log_to_db (demo_log\<lparr>log_type := JStr ''spot''\<rparr>))])\<rparr>) =
    (Inr (removed_answer ''clean_log'' True), w') \<and> length (w_db w' ''clean_logs'') = 1"
proof -
  let ?l2 = "demo_log\<lparr>log_type := JStr ''spot''\<rparr>"
  let ?w = "demo_web\<lparr>w_db := demo_db(''clean_logs'' := [(1, log_to_db demo_log), (2, log_to_db ?l2)])\<rparr>"
  have 1: "log_doc (log_to_db ?l2)" "log_pair (1, log_to_db demo_log) \<noteq> log_pair (2, log_to_db ?l2)" by code_simp+
  have 2: "key_of ''clean_log_id'' (log_to_db demo_log) = Some ''d1@5@r1''" "key_of ''clean_log_id'' (log_to_db ?l2) = Some ''d1@5@r1''"
    by code_simp+
  have "logs_ok (w_db ?w)" using 1 by (simp add: logs_ok_def ids_ok_def)
  then show ?thesis
    using removal_by_id_leaves_second [OF mem_tinydb, of demo_api ?w "demo_request\<lparr>rq_match := [(''clean_log_id'', ''d1@5@r1'')]\<rparr>"
        "''d1@5@r1''" "(1, log_to_db demo_log)" "(2, log_to_db ?l2)"] 2
    by (simp add: rq_info_def opt_str_def)
qed

section \<open>Start and end\<close>

text \<open>C16: a start whose certificates and migration succeed leaves every robot of the database
  with both connections off and nothing else of it changed, and creates the broker, the
  helper bot, the web server with its two bindings and the XMPP server on that database.\<close>

theorem start_disconnects_robots:
  assumes "tinydb D" "e_store (sv_env S) = D" and c: "bumper_listen (pr_cfg p) \<noteq> []" "sv_certs S = Inr ()"
    and m: "migrate_db D (APP_VERSION (pr_cfg p)) (db_file (pr_cfg p)) (sv_ts S) (pr_mig p) = (Inr (), m)"
    and ok: "bots_ok (mig_db m)" "str_or_missing ''did'' (mig_db m ''bots'')"
  shows "\<exists>p'. start_configuration S p = (Inr (), p') \<and>
    (\<forall>k. bot_get D (JStr k) (pr_db p') =
      map_option (\<lambda>b. b\<lparr>bot_mqtt_connection := JBool False, bot_xmpp_connection := JBool False\<rparr>) (bot_get D (JStr k) (mig_db m))) \<and>
    pr_mqtt p' = Some ''new'' \<and> pr_helper p' = Some (hb_init (pr_db p')) \<and> pr_xmpp p' = Some (xmpp_init (pr_db p')) \<and>
    map_option ws_bindings (pr_web p') = Some (web_bindings (pr_cfg p)) \<and> pr_mqtt_bindings p' = mqtt_bindings (pr_cfg p)"
proof -
  let ?db = "reset_connections D (mig_db m)"
  have bot: "bot_get D (JStr k) ?db =
      map_option (\<lambda>b. b\<lparr>bot_mqtt_connection := JBool False, bot_xmpp_connection := JBool False\<rparr>) (bot_get D (JStr k) (mig_db m))" for k
  proof -
    have "bot_get D (JStr k) ?db = bot_get D (JStr k) (bot_reset_all_connections D (mig_db m))"
      by (simp add: reset_connections_def tinydb.bot_get_lookup [OF assms(1)] tinydb.client_reset_elsewhere [OF assms(1)])
    then show ?thesis using tinydb.bot_reset_get [OF assms(1) ok, of k]
      by (cases "bot_get D (JStr k) (mig_db m)") (simp_all add: put_mqtt_def put_xmpp_def)
  qed
  have "start_configuration S p = (Inr (), create_servers (put_db ?db (p\<lparr>pr_mig := m\<rparr>)))"
    using c m assms(2)
    by (simp add: start_configuration_def py_bind_def py_seq_def py_gets_def py_of_def py_zoom_def py_modify_def put_db_def)
  then show ?thesis using bot by (auto simp: create_servers_def WebServer_def put_db_def)
qed

definition demo_sites :: sites where
  "demo_sites = \<lparr>st_set_up = (\<lambda>_. Inr ()), st_tls = (\<lambda>_ _ _. Inr ()), st_listen = (\<lambda>_. Inr ()), st_stop = (\<lambda>_. Inr ()),
     st_app_down = Inr ()\<rparr>"

definition demo_services :: services where
  "demo_services = \<lparr>sv_env = demo_env, sv_certs = Inr (), sv_ts = (\<lambda>_. ''ts''), sv_start = (\<lambda>_. Inr ''started''),
     sv_shutdown = (\<lambda>_. Inr ''stopped''), sv_settle = id, sv_listen = Inr (), sv_sites = demo_sites, sv_valid_ip = (\<lambda>_. True)\<rparr>"

definition demo_program :: program where
  "demo_program = \<lparr>pr_cfg = default_config\<lparr>APP_VERSION := ''9.9.9''\<rparr>,
     pr_mig = \<lparr>mig_db = set_db_version mem_store ''9.9.9'' (bot_set_mqtt mem_store (JStr ''d1'') True demo_db), mig_backups = []\<rparr>,
     pr_mqtt = None, pr_mqtt_bindings = [], pr_helper = None, pr_web = None, pr_xmpp = None, pr_xmpp_server = False,
     pr_shutting_down = False\<rparr>"

theorem start_disconnects_robots_witness:
  "\<exists>p' b. start_configuration demo_services demo_program = (Inr (), p') \<and>
    bot_get mem_store (JStr ''d1'') (pr_db p') = Some b \<and> bot_mqtt_connection b = JBool False"
proof -
  let ?db = "set_db_version mem_store ''9.9.9'' (bot_set_mqtt mem_store (JStr ''d1'') True demo_db)"
  have listen: "bumper_listen default_config \<noteq> []" by code_simp
  have m: "migrate_db mem_store ''9.9.9'' (db_file default_config) (\<lambda>_. ''ts'') \<lparr>mig_db = ?db, mig_backups = []\<rparr> =
      (Inr (), \<lparr>mig_db = ?db, mig_backups = []\<rparr>)"
    by (rule mem.migrate_current) (simp_all add: mem.get_set_db_version MIGRATIONS_def)
  have ok: "bots_ok ?db" "str_or_missing ''did'' (?db ''bots'')" "bot_get mem_store (JStr ''d1'') ?db \<noteq> None" by code_simp+
  have "\<exists>p'. start_configuration demo_services demo_program = (Inr (), p') \<and>
    (\<forall>k. bot_get mem_store (JStr k) (pr_db p') =
      map_option (\<lambda>b. b\<lparr>bot_mqtt_connection := JBool False, bot_xmpp_connection := JBool False\<rparr>) (bot_get mem_store (JStr k) ?db))"
    using start_disconnects_robots [OF mem_tinydb, of demo_services demo_program "\<lparr>mig_db = ?db, mig_backups = []\<rparr>"] listen m ok
    by (auto simp: demo_services_def demo_program_def)
  then show ?thesis using ok(3) by force
qed

text \<open>A start that fails (no listen address, certificates, migration) creates no server and
  changes nothing but what the migration wrote.\<close>

theorem failed_start_creates_nothing:
  assumes "start_configuration S p = (Inl e, p')"
  shows "p' = p\<lparr>pr_mig := pr_mig p'\<rparr> \<and>
    (pr_mig p' \<noteq> pr_mig p \<longrightarrow> bumper_listen (pr_cfg p) \<noteq> [] \<and> sv_certs S = Inr () \<and>
      migrate_db (e_store (sv_env S)) (APP_VERSION (pr_cfg p)) (db_file (pr_cfg p)) (sv_ts S) (pr_mig p) = (Inl e, pr_mig p'))"
proof (cases "bumper_listen (pr_cfg p) = []")
  case False
  show ?thesis
  proof (cases "sv_certs S")
    case (Inr u)
    obtain r m where m: "migrate_db (e_store (sv_env S)) (APP_VERSION (pr_cfg p)) (db_file (pr_cfg p)) (sv_ts S) (pr_mig p) = (r, m)"
      by force
    show ?thesis using assms False Inr m
      by (cases r) (auto simp: start_configuration_def py_bind_def py_seq_def py_gets_def py_of_def py_zoom_def py_modify_def)
  qed (use assms False in \<open>auto simp: start_configuration_def py_bind_def py_seq_def py_gets_def py_of_def\<close>)
qed (use assms in \<open>auto simp: start_configuration_def py_bind_def py_gets_def py_raise_def\<close>)

theorem failed_start_creates_nothing_witness:
  "\<exists>p'. start_configuration (demo_services\<lparr>sv_certs := Inl ValueError\<rparr>) demo_program = (Inl ValueError, p') \<and>
    p' = demo_program\<lparr>pr_mig := pr_mig p'\<rparr>"
proof -
  have listen: "bumper_listen default_config \<noteq> []" by code_simp
  then have "start_configuration (demo_services\<lparr>sv_certs := Inl ValueError\<rparr>) demo_program = (Inl ValueError, demo_program)"
    by (simp add: start_configuration_def py_bind_def py_seq_def py_gets_def py_of_def demo_services_def demo_program_def)
  from failed_start_creates_nothing [OF this] this show ?thesis by blast
qed

text \<open>C36: the start of the services returns exactly when the broker reaches the state
  \<open>started\<close> and the helper bot connects: both waits have no time limit.\<close>

theorem start_returns_iff_connected:
  assumes "pr_mqtt p = Some st" "mqtt_start S st = Inr st'" "pr_helper p = Some h"
  shows "(\<exists>r. start_service S states connected p = Some r) \<longleftrightarrow> (\<exists>n. states n = ''started'') \<and> (\<exists>n. connected n)"
proof -
  have "pr_mqtt (snd (xmpp_start S p)) = Some st" "pr_helper (snd (xmpp_start S p)) = Some h"
    using assms by (cases "sv_listen S"; simp add: xmpp_start_def py_run)+
  then show ?thesis using assms
    by (auto simp: start_service_def Let_def poll_least split: option.splits)
qed

theorem start_returns_iff_connected_witness:
  "\<not> (\<exists>r. start_service demo_services (\<lambda>_. ''starting'') (\<lambda>_. True) (demo_program\<lparr>pr_mqtt := Some ''new'', pr_helper := Some demo_helper\<rparr>) = Some r) \<and>
   (\<exists>r. start_service demo_services (\<lambda>n. if n = 3 then ''started'' else ''starting'') (\<lambda>_. True)
      (demo_program\<lparr>pr_mqtt := Some ''new'', pr_helper := Some demo_helper\<rparr>) = Some r)"
proof -
  have "\<exists>st'. mqtt_start demo_services ''new'' = Inr st'"
    by (simp add: mqtt_start_def demo_services_def Let_def split: option.splits)
  then obtain st' where "mqtt_start demo_services ''new'' = Inr st'" by blast
  from start_returns_iff_connected [OF _ this, of "demo_program\<lparr>pr_mqtt := Some ''new'', pr_helper := Some demo_helper\<rparr>" demo_helper]
  show ?thesis by auto
qed



end
