(* ===== verification/Mitm_MQTT.thy ===== *)
theory Mitm_MQTT
  imports Py_Strings "HOL-Library.Word"
begin

text \<open>
  The MQTT sniffer (src/configs/mitm-mqtt.py): the parser of MQTT control packets, the text it
  writes for a packet, and the reassembly of packets from websocket messages. Bytes are
  \<open>8 word\<close>s. A text that was decoded from UTF-8 stays the byte string it was decoded from, so
  every character is kept; \<open>utf8_text\<close> raises where the strict decoder does. The escaping of
  bytes for print (a function of mitmproxy) is a parameter.
\<close>

unbundle bit_operations_syntax

section \<open>Bytes\<close>

type_synonym byte = "8 word"
type_synonym bytes = "byte list"

definition ascii :: "string \<Rightarrow> bytes" where
  "ascii s = List.map of_char s"

text \<open>\<open>b[i:j]\<close> for \<open>0 \<le> i \<le> j\<close>: cut off at the end of the bytes, never an error.\<close>

definition slice :: "nat \<Rightarrow> nat \<Rightarrow> bytes \<Rightarrow> bytes" where
  "slice i j b = take (j - i) (drop i b)"

text \<open>The strict UTF-8 decoder accepts exactly the well-formed sequences of the Unicode standard.\<close>

definition cont :: "byte \<Rightarrow> bool" where
  "cont b \<longleftrightarrow> 0x80 \<le> b \<and> b \<le> 0xBF"

fun utf8_valid :: "bytes \<Rightarrow> bool" where
  "utf8_valid [] = True"
| "utf8_valid (a # s) =
     (if a < 0x80 then utf8_valid s
      else if 0xC2 \<le> a \<and> a \<le> 0xDF then
        (case s of b # s \<Rightarrow> cont b \<and> utf8_valid s | _ \<Rightarrow> False)
      else if 0xE0 \<le> a \<and> a \<le> 0xEF then
        (case s of b # c # s \<Rightarrow>
           cont b \<and> cont c \<and> (a = 0xE0 \<longrightarrow> 0xA0 \<le> b) \<and> (a = 0xED \<longrightarrow> b \<le> 0x9F) \<and> utf8_valid s
         | _ \<Rightarrow> False)
      else if 0xF0 \<le> a \<and> a \<le> 0xF4 then
        (case s of b # c # d # s \<Rightarrow>
           cont b \<and> cont c \<and> cont d \<and> (a = 0xF0 \<longrightarrow> 0x90 \<le> b) \<and> (a = 0xF4 \<longrightarrow> b \<le> 0x8F) \<and> utf8_valid s
         | _ \<Rightarrow> False)
      else False)"

definition utf8_text :: "bytes \<Rightarrow> py_exc + bytes" where
  "utf8_text b = (if utf8_valid b then Inr b else Inl UnicodeError)"

section \<open>Packet types\<close>

definition CONNECT :: nat where "CONNECT = 1"
definition PUBLISH :: nat where "PUBLISH = 3"
definition SUBSCRIBE :: nat where "SUBSCRIBE = 8"
definition PINGREQ :: nat where "PINGREQ = 12"
definition PINGRESP :: nat where "PINGRESP = 13"

definition Names :: "string list" where
  "Names =
     [''reserved'', ''CONNECT'', ''CONNACK'', ''PUBLISH'', ''PUBACK'', ''PUBREC'', ''PUBREL'', ''PUBCOMP'',
      ''SUBSCRIBE'', ''SUBACK'', ''UNSUBSCRIBE'', ''UNSUBACK'', ''PINGREQ'', ''PINGRESP'', ''DISCONNECT'',
      ''reserved'']"

section \<open>A control packet\<close>

text \<open>
  The attributes of a \<open>MQTTControlPacket\<close>; \<open>None\<close> and the empty list stand for an attribute
  the constructor does not set.
\<close>

record mqtt_packet =
  mp_packet :: bytes
  mp_extra :: bytes
  mp_type :: nat
  mp_dup :: "nat option"
  mp_qos :: "nat option"
  mp_retain :: "nat option"
  mp_remaining :: nat
  mp_total :: nat
  mp_variable_headers :: "(string \<times> bytes) list"
  mp_connect_flags :: "(string \<times> bool) list"
  mp_will_qos :: "nat option"
  mp_topic_name :: bytes
  mp_identifier :: "bytes option"
  mp_content :: "(string \<times> bytes) list"
  mp_payload :: "bytes option"
  mp_filters :: "(bytes \<times> bytes) list"

definition parse_packet_type :: "byte \<Rightarrow> nat" where
  "parse_packet_type b = unat (drop_bit 4 b)"

definition parse_flags :: "nat \<Rightarrow> byte \<Rightarrow> nat option \<times> nat option \<times> nat option" where
  "parse_flags t b =
     (if t = PUBLISH
      then (Some (unat (drop_bit 3 b AND 1)), Some (unat (drop_bit 1 b AND 3)), Some (unat (b AND 1)))
      else (None, None, None))"

text \<open>
  The loop of \<open>_parse_remaining_length\<close> over the bytes from the second one on, with its
  variables \<open>multiplier\<close>, \<open>value\<close> and \<open>i\<close>. Running out of bytes is an IndexError.
\<close>

fun remaining_length_loop :: "bytes \<Rightarrow> nat \<Rightarrow> nat \<Rightarrow> nat \<Rightarrow> py_exc + nat \<times> nat" where
  "remaining_length_loop [] multiplier v i = Inl IndexError"
| "remaining_length_loop (b # bs) multiplier v i =
     (let v = v + unat (b AND 127) * multiplier; multiplier = multiplier * 128 in
      if multiplier > 128 * 128 * 128 then Inl (PlainException ''Malformed Remaining Length'')
      else if b AND 128 = 0 then Inr (v, v + i + 1)
      else remaining_length_loop bs multiplier v (i + 1))"

definition parse_remaining_length :: "bytes \<Rightarrow> py_exc + nat \<times> nat" where
  "parse_remaining_length p = remaining_length_loop (drop 1 p) 1 0 1"

text \<open>A field with a length of two bytes before it: how far it reaches and its content.\<close>

definition parse_length_prefixed_bytes :: "bytes \<Rightarrow> nat \<Rightarrow> py_exc + nat \<times> bytes" where
  "parse_length_prefixed_bytes p offset =
     (case slice offset (offset + 2) p of
        [hi, lo] \<Rightarrow> (let n = unat hi * 256 + unat lo in
                      Inr (n + 2, slice (offset + 2) (offset + 2 + n) p))
      | _ \<Rightarrow> Inl StructError)"

lemma prefixed_length: "parse_length_prefixed_bytes p offset = Inr (n, f) \<Longrightarrow> 2 \<le> n"
  by (auto simp: parse_length_prefixed_bytes_def Let_def split: list.splits)

abbreviation header_length :: "mqtt_packet \<Rightarrow> nat" where
  "header_length p \<equiv> length (mp_packet p) - mp_remaining p"

subsection \<open>PUBLISH\<close>

definition parse_publish_variable_headers :: "mqtt_packet \<Rightarrow> py_exc + mqtt_packet" where
  "parse_publish_variable_headers p =
     (let offset = header_length p in
      res_bind (parse_length_prefixed_bytes (mp_packet p) offset) (\<lambda>(n, topic).
      let p = p\<lparr>mp_topic_name := topic\<rparr> in
      if mp_qos p \<in> {Some 1, Some 2}
      then (let offset = offset + n in Inr (p\<lparr>mp_identifier := Some (slice offset (offset + 2) (mp_packet p))\<rparr>))
      else Inr p))"

definition parse_publish_payload :: "mqtt_packet \<Rightarrow> mqtt_packet" where
  "parse_publish_payload p =
     (let n = 2 + length (mp_topic_name p) + (if mp_qos p \<in> {Some 1, Some 2} then 2 else 0) in
      p\<lparr>mp_payload := Some (drop (header_length p + n) (mp_packet p))\<rparr>)"

subsection \<open>SUBSCRIBE\<close>

definition parse_packet_identifier :: "mqtt_packet \<Rightarrow> mqtt_packet" where
  "parse_packet_identifier p =
     (let offset = header_length p in p\<lparr>mp_identifier := Some (slice offset (offset + 2) (mp_packet p))\<rparr>)"

function subscribe_loop :: "bytes \<Rightarrow> nat \<Rightarrow> (bytes \<times> bytes) list \<Rightarrow> py_exc + (bytes \<times> bytes) list" where
  "subscribe_loop p offset fs =
     (if offset < length p
      then (case parse_length_prefixed_bytes p offset of
              Inl e \<Rightarrow> Inl e
            | Inr (n, f) \<Rightarrow>
                res_bind (utf8_text f) (\<lambda>t.
                subscribe_loop p (offset + n + 1) (AList.update t (slice (offset + n) (offset + n + 1) p) fs)))
      else Inr fs)"
  by pat_completeness auto
termination
  by (relation "measure (\<lambda>(p, offset, fs). length p - offset)") auto

definition parse_subscribe_payload :: "mqtt_packet \<Rightarrow> py_exc + mqtt_packet" where
  "parse_subscribe_payload p =
     res_bind (subscribe_loop (mp_packet p) (header_length p + 2) []) (\<lambda>fs. Inr (p\<lparr>mp_filters := fs\<rparr>))"

subsection \<open>CONNECT\<close>

definition parse_connect_variable_headers :: "mqtt_packet \<Rightarrow> mqtt_packet" where
  "parse_connect_variable_headers p =
     (let offset = header_length p; b = mp_packet p;
          flags = slice (offset + 7) (offset + 8) b;
          p = p\<lparr>mp_variable_headers :=
            [(''ProtocolName'', slice offset (offset + 6) b), (''ProtocolLevel'', slice (offset + 6) (offset + 7) b),
             (''ConnectFlags'', flags), (''KeepAlive'', slice (offset + 8) (offset + 10) b)],
            mp_connect_flags := []\<rparr>
      in case flags of
           [] \<Rightarrow> p
         | f # _ \<Rightarrow> p\<lparr>mp_connect_flags :=
               [(''CleanSession'', f AND 0x02 \<noteq> 0), (''Will'', f AND 0x04 \<noteq> 0), (''WillRetain'', f AND 0x20 \<noteq> 0),
                (''Password'', f AND 0x40 \<noteq> 0), (''UserName'', f AND 0x80 \<noteq> 0)],
              mp_will_qos := Some (unat (drop_bit 3 f AND 3))\<rparr>)"

function connect_fields :: "bytes \<Rightarrow> nat \<Rightarrow> py_exc + bytes list" where
  "connect_fields p offset =
     (if offset < length p
      then (case parse_length_prefixed_bytes p offset of
              Inl e \<Rightarrow> Inl e
            | Inr (n, f) \<Rightarrow> res_bind (connect_fields p (offset + n)) (\<lambda>fs. Inr (f # fs)))
      else Inr [])"
  by pat_completeness auto
termination
  by (relation "measure (\<lambda>(p, offset). length p - offset)") (auto dest: prefixed_length)

definition connect_flag :: "mqtt_packet \<Rightarrow> string \<Rightarrow> py_exc + bool" where
  "connect_flag p k = (case map_of (mp_connect_flags p) k of None \<Rightarrow> Inl KeyError | Some b \<Rightarrow> Inr b)"

text \<open>The key the next field of the payload is stored under, and whether it is text.\<close>

definition field_key :: "mqtt_packet \<Rightarrow> (string \<times> bytes) list \<Rightarrow> py_exc + string \<times> bool" where
  "field_key p d =
     (let unset = (\<lambda>k. map_of d k = None) in
      if unset ''ClientId'' then Inr (''ClientId'', True)
      else res_bind (connect_flag p ''Will'') (\<lambda>will.
        if will \<and> unset ''WillTopic'' then Inr (''WillTopic'', True)
        else if will \<and> unset ''WillMessage'' then Inr (''WillMessage'', False)
        else res_bind (connect_flag p ''UserName'') (\<lambda>user.
          if user \<and> unset ''UserName'' then Inr (''UserName'', True)
          else res_bind (connect_flag p ''Password'') (\<lambda>pass.
            if pass \<and> unset ''Password'' then Inr (''Password'', False)
            else Inl (PlainException [])))))"

fun assign_fields :: "mqtt_packet \<Rightarrow> bytes list \<Rightarrow> (string \<times> bytes) list \<Rightarrow> py_exc + (string \<times> bytes) list" where
  "assign_fields p [] d = Inr d"
| "assign_fields p (f # fs) d =
     res_bind (field_key p d) (\<lambda>(k, is_text).
     res_bind (if is_text then utf8_text f else Inr f) (\<lambda>v. assign_fields p fs (d @ [(k, v)])))"

definition parse_connect_payload :: "mqtt_packet \<Rightarrow> py_exc + mqtt_packet" where
  "parse_connect_payload p =
     res_bind (connect_fields (mp_packet p) (header_length p + 10)) (\<lambda>fields.
     res_bind (assign_fields p fields []) (\<lambda>d. Inr (p\<lparr>mp_content := d\<rparr>)))"

subsection \<open>The constructor\<close>

definition parse_body :: "mqtt_packet \<Rightarrow> py_exc + mqtt_packet" where
  "parse_body p =
     (if mp_type p = CONNECT then parse_connect_payload (parse_connect_variable_headers p)
      else if mp_type p = PUBLISH then
        res_bind (parse_publish_variable_headers p) (\<lambda>p. Inr (parse_publish_payload p))
      else if mp_type p = SUBSCRIBE then parse_subscribe_payload (parse_packet_identifier p)
      else Inr p)"

definition MQTTControlPacket :: "bytes \<Rightarrow> py_exc + mqtt_packet" where
  "MQTTControlPacket packet =
     (case packet of
        [] \<Rightarrow> Inl IndexError
      | b # _ \<Rightarrow>
          (case parse_flags (parse_packet_type b) b of (dup, qos, retain) \<Rightarrow>
           res_bind (parse_remaining_length packet) (\<lambda>(remaining, total).
           if total > length packet then Inl (BlockingIOError (length packet))
           else parse_body
             \<lparr>mp_packet = take total packet, mp_extra = drop total packet, mp_type = parse_packet_type b,
              mp_dup = dup, mp_qos = qos, mp_retain = retain, mp_remaining = remaining, mp_total = total,
              mp_variable_headers = [], mp_connect_flags = [], mp_will_qos = None, mp_topic_name = [],
              mp_identifier = None, mp_content = [], mp_payload = None, mp_filters = []\<rparr>)))"

section \<open>The text of a packet\<close>

definition newline :: byte where "newline = 10"

text \<open>A value of the payload in the text: \<open>None\<close> when it is missing.\<close>

definition content_text :: "mqtt_packet \<Rightarrow> string \<Rightarrow> bytes" where
  "content_text p k = (case map_of (mp_content p) k of None \<Rightarrow> ascii ''None'' | Some v \<Rightarrow> v)"

fun join_filters :: "bytes list \<Rightarrow> bytes" where
  "join_filters [] = []"
| "join_filters [f] = ascii [CHR 0x27] @ f @ ascii [CHR 0x27]"
| "join_filters (f # g # fs) = ascii [CHR 0x27] @ f @ ascii [CHR 0x27] @ ascii '', '' @ join_filters (g # fs)"

definition pprint :: "(bytes \<Rightarrow> bytes) \<Rightarrow> mqtt_packet \<Rightarrow> bytes" where
  "pprint escape p =
     (let s = ascii (''['' @ Names ! mp_type p @ '']'') in
      if mp_type p = CONNECT then
        s @ [newline, newline] @ ascii ''Client Id: '' @ content_text p ''ClientId'' @
        [newline] @ ascii ''Will Topic: '' @ content_text p ''WillTopic'' @
        [newline] @ ascii ''Will Message: '' @ escape (content_text p ''WillMessage'') @
        [newline] @ ascii ''User Name: '' @ content_text p ''UserName'' @
        [newline] @ ascii ''Password: '' @ escape (content_text p ''Password'') @ [newline]
      else if mp_type p = SUBSCRIBE then
        s @ ascii '' sent topic filters: '' @ join_filters (List.map fst (mp_filters p))
      else if mp_type p = PUBLISH then
        s @ ascii '' '' @ ascii [CHR 0x27] @ escape (case mp_payload p of None \<Rightarrow> [] | Some b \<Rightarrow> b) @
        ascii [CHR 0x27] @ ascii '' to topic '' @ ascii [CHR 0x27] @ escape (mp_topic_name p) @ ascii [CHR 0x27]
      else if mp_type p \<in> {PINGREQ, PINGRESP} then s
      else ascii (''Packet type '' @ Names ! mp_type p @ '' is not supported yet!''))"

section \<open>The sniffer\<close>

text \<open>
  The state of the script: the unparsed bytes of each websocket, and the contents the file of
  the traffic has had, the newest last. \<open>dump\<close> opens the file for writing, so each packet
  replaces the content before.
\<close>

record sniffer =
  sn_buffers :: "string \<rightharpoonup> bytes"
  sn_writes :: "bytes list"

definition traffic_file :: "sniffer \<Rightarrow> bytes option" where
  "traffic_file s = (if sn_writes s = [] then None else Some (last (sn_writes s)))"

definition dump :: "(bytes \<Rightarrow> bytes) \<Rightarrow> mqtt_packet \<Rightarrow> (sniffer, unit) py" where
  "dump escape p = py_modify (\<lambda>s. s\<lparr>sn_writes := sn_writes s @ [pprint escape p]\<rparr>)"

text \<open>A message of a TCP connection is one packet; what follows it in the message is not read.\<close>

definition tcp_message :: "(bytes \<Rightarrow> bytes) \<Rightarrow> bytes list \<Rightarrow> (sniffer, unit) py" where
  "tcp_message escape messages =
     (if messages = [] then py_raise IndexError
      else py_bind (py_of (MQTTControlPacket (last messages))) (dump escape))"

definition websocket_start :: "string \<Rightarrow> (sniffer, unit) py" where
  "websocket_start fid = py_modify (\<lambda>s. s\<lparr>sn_buffers := (sn_buffers s)(fid \<mapsto> [])\<rparr>)"

definition websocket_end :: "string \<Rightarrow> (sniffer, unit) py" where
  "websocket_end fid =
     py_bind (py_gets (\<lambda>s. sn_buffers s fid)) (\<lambda>b.
     case b of
       None \<Rightarrow> py_raise KeyError
     | Some _ \<Rightarrow> py_modify (\<lambda>s. s\<lparr>sn_buffers := (sn_buffers s)(fid := None)\<rparr>))"

definition set_buffer :: "string \<Rightarrow> bytes \<Rightarrow> (sniffer, unit) py" where
  "set_buffer fid b = py_modify (\<lambda>s. s\<lparr>sn_buffers := (sn_buffers s)(fid \<mapsto> b)\<rparr>)"

declare subscribe_loop.simps [simp del] connect_fields.simps [simp del]

text \<open>No step of the parser changes the bytes, the type or the lengths.\<close>

definition frame_of :: "mqtt_packet \<Rightarrow> bytes \<times> bytes \<times> nat \<times> nat option \<times> nat \<times> nat" where
  "frame_of p = (mp_packet p, mp_extra p, mp_type p, mp_qos p, mp_remaining p, mp_total p)"

lemma frame_connect: "frame_of (parse_connect_variable_headers p) = frame_of p"
  by (simp add: frame_of_def parse_connect_variable_headers_def Let_def split: list.split)

lemma frame_publish:
  "res_all (\<lambda>q. frame_of (parse_publish_payload q) = frame_of p) (parse_publish_variable_headers p)"
  unfolding parse_publish_variable_headers_def Let_def
  by (rule res_all_bind) (simp add: frame_of_def parse_publish_payload_def split: prod.split)

lemma frame_subscribe: "frame_of (parse_packet_identifier p) = frame_of p"
  by (simp add: frame_of_def parse_packet_identifier_def Let_def)

lemma frame_body: "res_all (\<lambda>q. frame_of q = frame_of p) (parse_body p)"
proof -
  have "res_all (\<lambda>q. frame_of q = frame_of p) (parse_connect_payload (parse_connect_variable_headers p))"
    unfolding parse_connect_payload_def
    by (intro res_all_bind) (use frame_connect [of p] in \<open>simp add: frame_of_def\<close>)
  moreover have "res_all (\<lambda>q. frame_of q = frame_of p) (parse_subscribe_payload (parse_packet_identifier p))"
    unfolding parse_subscribe_payload_def
    by (intro res_all_bind) (use frame_subscribe [of p] in \<open>simp add: frame_of_def\<close>)
  moreover have "res_all (\<lambda>q. frame_of q = frame_of p)
      (res_bind (parse_publish_variable_headers p) (\<lambda>p. Inr (parse_publish_payload p)))"
    by (rule res_all_bind) (use frame_publish [THEN res_allD] in simp)
  ultimately show ?thesis by (simp add: parse_body_def)
qed

lemmas parse_body_frame = frame_body [THEN res_allD]

lemma remaining_length_total:
  "remaining_length_loop bs m v i = Inr (r, t) \<Longrightarrow> i < t \<and> r < t"
proof (induction bs m v i rule: remaining_length_loop.induct)
  case (1 m v i)
  then show ?case by simp
next
  case (2 b bs m v i)
  then show ?case by (force simp: Let_def split: if_splits)
qed

lemma packet_extra:
  assumes "MQTTControlPacket b = Inr p"
  shows "mp_packet p = take (mp_total p) b" "mp_extra p = drop (mp_total p) b"
    "2 \<le> mp_total p" "mp_total p \<le> length b"
proof -
  obtain c bs where b: "b = c # bs" using assms by (cases b) (auto simp: MQTTControlPacket_def)
  obtain r t where rt: "parse_remaining_length b = Inr (r, t)"
    using assms by (auto simp: b MQTTControlPacket_def res_bind_Inr split: prod.splits)
  then have "1 < t" using remaining_length_total by (fastforce simp: parse_remaining_length_def)
  then show "mp_packet p = take (mp_total p) b" "mp_extra p = drop (mp_total p) b"
    "2 \<le> mp_total p" "mp_total p \<le> length b"
    using assms rt by (auto simp: b MQTTControlPacket_def frame_of_def split: prod.splits if_splits dest!: parse_body_frame)
qed

lemma extra_shorter: "MQTTControlPacket b = Inr p \<Longrightarrow> length (mp_extra p) < length b"
  using packet_extra [of b p] by simp

text \<open>
  The loop of \<open>websocket_message\<close> on the bytes \<open>ws_buffer[fid]\<close>: an incomplete packet ends it,
  any other exception leaves the bytes where they are.
\<close>

function drain :: "(bytes \<Rightarrow> bytes) \<Rightarrow> string \<Rightarrow> bytes \<Rightarrow> (sniffer, unit) py" where
  "drain escape fid b =
     (if b = [] then py_ret ()
      else case MQTTControlPacket b of
        Inl e \<Rightarrow> (case e of BlockingIOError _ \<Rightarrow> py_ret () | _ \<Rightarrow> py_raise e)
      | Inr p \<Rightarrow> py_seq (dump escape p) (py_seq (set_buffer fid (mp_extra p)) (drain escape fid (mp_extra p))))"
  by pat_completeness auto
termination
  by (relation "measure (\<lambda>(escape, fid, b). length b)") (auto dest: extra_shorter)

text \<open>A flow of mitmproxy: its name and, when it is a websocket, the messages so far.\<close>

record flow =
  fl_id :: string
  fl_websocket :: "bytes list option"

definition websocket_message :: "(bytes \<Rightarrow> bytes) \<Rightarrow> flow \<Rightarrow> (sniffer, unit) py" where
  "websocket_message escape f =
     (case fl_websocket f of
        None \<Rightarrow> py_raise AssertionError
      | Some messages \<Rightarrow>
          py_bind (py_gets (\<lambda>s. sn_buffers s (fl_id f))) (\<lambda>b.
          case b of
            None \<Rightarrow> py_raise KeyError
          | Some b \<Rightarrow>
              if messages = [] then py_raise IndexError
              else (let b = b @ last messages in
                    py_seq (set_buffer (fl_id f) b) (drain escape (fl_id f) b))))"

declare drain.simps [simp del]

end
