(* ===== verification/Mitm_MQTT_Laws.thy ===== *)
theory Mitm_MQTT_Laws
  imports Mitm_MQTT
begin

text \<open>
  The laws of the MQTT sniffer. The reference is the wire format of MQTT 3.1.1: \<open>encode_length\<close>
  is its variable length, \<open>frame\<close> a control packet with its fixed header.
\<close>

section \<open>The remaining length\<close>

function encode_length :: "nat \<Rightarrow> bytes" where
  "encode_length n = (if n < 128 then [of_nat n] else (of_nat (n mod 128) OR 128) # encode_length (n div 128))"
  by pat_completeness auto
termination by (relation "measure id") auto

declare encode_length.simps [simp del]

lemma low_byte:
  assumes "k < 128"
  shows "unat ((of_nat k :: byte) AND 127) = k" "(of_nat k :: byte) AND 128 = 0"
    "unat (((of_nat k :: byte) OR 128) AND 127) = k" "((of_nat k :: byte) OR 128) AND 128 \<noteq> 0"
proof -
  have 1: "list_all (\<lambda>k. unat ((of_nat k :: byte) AND 127) = k \<and> (of_nat k :: byte) AND 128 = 0 \<and>
    unat (((of_nat k :: byte) OR 128) AND 127) = k \<and> ((of_nat k :: byte) OR 128) AND 128 \<noteq> 0) [0..<128]"
    by code_simp
  then show "unat ((of_nat k :: byte) AND 127) = k" "(of_nat k :: byte) AND 128 = 0"
    "unat (((of_nat k :: byte) OR 128) AND 127) = k" "((of_nat k :: byte) OR 128) AND 128 \<noteq> 0"
    using assms by (simp_all add: list_all_iff)
qed

lemma up_to_3: "k < 3 \<longleftrightarrow> k = 0 \<or> k = 1 \<or> k = (2 :: nat)"
  by auto

lemma too_long: "k < 3 \<Longrightarrow> \<not> 16384 < (128 :: nat) ^ k"
  by (auto simp: up_to_3)

lemma bound_step: "k < 3 \<Longrightarrow> n div 128 < 128 ^ (3 - Suc k) \<longleftrightarrow> n < (128 :: nat) ^ (3 - k)"
  by (auto simp: up_to_3)

lemma last_step: "\<not> n < 128 \<Longrightarrow> n div 128 < (128 :: nat) ^ (3 - k) \<Longrightarrow> k < 3"
  by (cases "k < 3") (auto simp: div_eq_0_iff)

lemma value_step: "v + n mod 128 * 128 ^ k + n div 128 * 128 ^ Suc k = v + n * (128 :: nat) ^ k"
proof -
  have "n mod 128 * 128 ^ k + n div 128 * 128 ^ Suc k = (n mod 128 + 128 * (n div 128)) * 128 ^ k"
    by (simp only: power_Suc distrib_left distrib_right ac_simps)
  then show ?thesis by simp
qed

lemma length_loop_exact:
  assumes "k \<le> 3"
  shows "remaining_length_loop (encode_length n @ rest) (128 ^ k) v i =
    (if k < 3 \<and> n < 128 ^ (3 - k) then Inr (v + n * 128 ^ k, v + n * 128 ^ k + i + length (encode_length n))
     else Inl (PlainException ''Malformed Remaining Length''))"
  using assms
proof (induction n arbitrary: k v i rule: encode_length.induct)
  case (1 n)
  show ?case
  proof (cases "k < 3")
    case k: True
    show ?thesis
    proof (cases "n < 128")
      case True
      then have "n < 128 ^ (3 - k)" using k by (auto simp: up_to_3)
      with True k show ?thesis by (simp add: encode_length.simps [of n] Let_def low_byte too_long)
    next
      case False
      then have e: "encode_length n = (of_nat (n mod 128) OR 128) # encode_length (n div 128)"
        by (simp add: encode_length.simps [of n])
      have "remaining_length_loop (encode_length n @ rest) (128 ^ k) v i =
        remaining_length_loop (encode_length (n div 128) @ rest) (128 ^ Suc k) (v + n mod 128 * 128 ^ k) (i + 1)"
        using k by (simp add: e Let_def low_byte too_long mult.commute)
      also have "\<dots> = (if Suc k < 3 \<and> n div 128 < 128 ^ (3 - Suc k)
          then Inr (v + n mod 128 * 128 ^ k + n div 128 * 128 ^ Suc k,
            v + n mod 128 * 128 ^ k + n div 128 * 128 ^ Suc k + (i + 1) + length (encode_length (n div 128)))
          else Inl (PlainException ''Malformed Remaining Length''))"
        using k by (intro "1.IH" [OF False]) simp
      finally show ?thesis
        using k bound_step [OF k, of n] last_step [OF False, of "Suc k"] unfolding value_step by (auto simp: e)
    qed
  next
    case False
    then have "k = 3" using "1.prems" by simp
    then show ?thesis
      by (cases "encode_length n") (auto simp: encode_length.simps [of n] Let_def split: if_splits)
  qed
qed

lemma length_loop_prefix:
  assumes "encode_length n = zs @ ys" "ys \<noteq> []" "k < 3" "n < 128 ^ (3 - k)"
  shows "remaining_length_loop zs (128 ^ k) v i = Inl IndexError"
  using assms
proof (induction n arbitrary: k v i zs rule: encode_length.induct)
  case (1 n)
  show ?case
  proof (cases zs)
    case Nil
    then show ?thesis by simp
  next
    case (Cons z zs')
    with "1.prems"(1,2) have n: "\<not> n < 128" by (auto simp: encode_length.simps [of n])
    with Cons "1.prems"(1) have z: "z = of_nat (n mod 128) OR 128" and zs': "encode_length (n div 128) = zs' @ ys"
      by (auto simp: encode_length.simps [of n])
    have b: "n div 128 < 128 ^ (3 - Suc k)" using "1.prems"(3,4) bound_step by blast
    have "Suc k < 3" using last_step [OF n b] .
    with "1.IH" [OF n zs' "1.prems"(2) _ b, of "v + n mod 128 * 128 ^ k" "i + 1"] z Cons "1.prems"(3) show ?thesis
      by (simp add: Let_def low_byte too_long mult.commute)
  qed
qed

abbreviation max_length :: nat where "max_length \<equiv> 2097152"

lemma parse_length_exact:
  "parse_remaining_length (b # encode_length n @ rest) =
    (if n < max_length then Inr (n, n + 1 + length (encode_length n))
     else Inl (PlainException ''Malformed Remaining Length''))"
  using length_loop_exact [of 0 n rest 0 1] by (simp add: parse_remaining_length_def)

lemma parse_length_prefix:
  "encode_length n = zs @ ys \<Longrightarrow> ys \<noteq> [] \<Longrightarrow> n < max_length \<Longrightarrow> parse_remaining_length (b # zs) = Inl IndexError"
  using length_loop_prefix [of n zs ys 0 0 1] by (simp add: parse_remaining_length_def)

section \<open>Frames\<close>

definition frame :: "byte \<Rightarrow> bytes \<Rightarrow> bytes" where
  "frame b body = b # encode_length (length body) @ body"

definition start :: "byte \<Rightarrow> bytes \<Rightarrow> bytes \<Rightarrow> nat \<Rightarrow> mqtt_packet" where
  "start b whole extra remaining =
     (case parse_flags (parse_packet_type b) b of (dup, qos, retain) \<Rightarrow>
      \<lparr>mp_packet = whole, mp_extra = extra, mp_type = parse_packet_type b,
       mp_dup = dup, mp_qos = qos, mp_retain = retain, mp_remaining = remaining, mp_total = length whole,
       mp_variable_headers = [], mp_connect_flags = [], mp_will_qos = None, mp_topic_name = [],
       mp_identifier = None, mp_content = [], mp_payload = None, mp_filters = []\<rparr>)"

text \<open>The constructor, given the lengths it reads.\<close>

lemma constructor:
  assumes "parse_remaining_length (b # bs) = Inr (r, t)" "t \<le> length (b # bs)"
  shows "MQTTControlPacket (b # bs) = parse_body (start b (take t (b # bs)) (drop t (b # bs)) r)"
  using assms by (simp add: MQTTControlPacket_def start_def split: prod.split)

lemma constructor_incomplete:
  assumes "parse_remaining_length (b # bs) = Inr (r, t)" "length (b # bs) < t"
  shows "MQTTControlPacket (b # bs) = Inl (BlockingIOError (length (b # bs)))"
  using assms by (simp add: MQTTControlPacket_def split: prod.split)

lemma constructor_error:
  assumes "parse_remaining_length (b # bs) = Inl e"
  shows "MQTTControlPacket (b # bs) = Inl e"
  using assms by (simp add: MQTTControlPacket_def split: prod.split)

lemma packet_frame:
  assumes "length body < max_length"
  shows "MQTTControlPacket (frame b body @ rest) = parse_body (start b (frame b body) rest (length body))"
  using constructor [of b "encode_length (length body) @ body @ rest" "length body"
      "length body + 1 + length (encode_length (length body))"]
    parse_length_exact [of b "length body" "body @ rest"] assms
  by (simp add: frame_def)

text \<open>A proper beginning of a frame waits for more bytes.\<close>

lemma packet_part:
  assumes "length body < max_length" "frame b body = xs @ ys" "ys \<noteq> []"
  shows "MQTTControlPacket xs \<in> {Inl IndexError, Inl (BlockingIOError (length xs))}"
proof (cases xs)
  case Nil
  then show ?thesis by (simp add: MQTTControlPacket_def)
next
  case (Cons x zs)
  with assms(2) have x: "x = b" and zs: "encode_length (length body) @ body = zs @ ys" by (simp_all add: frame_def)
  show ?thesis
  proof (cases "length zs < length (encode_length (length body))")
    case True
    with zs obtain vs where "encode_length (length body) = zs @ vs" "vs \<noteq> []"
      by (auto simp: append_eq_append_conv2)
    then show ?thesis
      using constructor_error parse_length_prefix assms(1) Cons by simp
  next
    case False
    with zs obtain vs where vs: "zs = encode_length (length body) @ vs" "body = vs @ ys"
      by (auto simp: append_eq_append_conv2)
    then have "parse_remaining_length (x # zs) = Inr (length body, length body + 1 + length (encode_length (length body)))"
      using parse_length_exact [of x "length body" vs] assms(1) by simp
    moreover have "length (x # zs) < length body + 1 + length (encode_length (length body))"
      using vs assms(3) by (cases ys) auto
    ultimately show ?thesis using constructor_incomplete Cons by simp
  qed
qed

section \<open>The bytes after a packet do not matter\<close>

definition with_extra :: "bytes \<Rightarrow> mqtt_packet \<Rightarrow> mqtt_packet" where
  "with_extra x p = p\<lparr>mp_extra := x\<rparr>"

lemma with_extra_fields [simp]:
  "mp_packet (with_extra x p) = mp_packet p" "mp_type (with_extra x p) = mp_type p" "mp_qos (with_extra x p) = mp_qos p"
  "mp_remaining (with_extra x p) = mp_remaining p" "mp_topic_name (with_extra x p) = mp_topic_name p"
  "mp_connect_flags (with_extra x p) = mp_connect_flags p" "mp_content (with_extra x p) = mp_content p"
  "mp_payload (with_extra x p) = mp_payload p" "mp_filters (with_extra x p) = mp_filters p"
  "mp_extra (with_extra x p) = x" "mp_total (with_extra x p) = mp_total p"
  by (simp_all add: with_extra_def)

lemma with_extra_update [simp]:
  "(with_extra x p)\<lparr>mp_content := d\<rparr> = with_extra x (p\<lparr>mp_content := d\<rparr>)"
  "(with_extra x p)\<lparr>mp_topic_name := b\<rparr> = with_extra x (p\<lparr>mp_topic_name := b\<rparr>)"
  "(with_extra x p)\<lparr>mp_identifier := i\<rparr> = with_extra x (p\<lparr>mp_identifier := i\<rparr>)"
  "(with_extra x p)\<lparr>mp_payload := i\<rparr> = with_extra x (p\<lparr>mp_payload := i\<rparr>)"
  "(with_extra x p)\<lparr>mp_filters := fs\<rparr> = with_extra x (p\<lparr>mp_filters := fs\<rparr>)"
  by (cases p; simp add: with_extra_def)+

lemma map_sum_bind: "map_sum id g (res_bind r f) = res_bind r (\<lambda>x. map_sum id g (f x))"
  by (cases r) simp_all

lemma extra_connect_headers:
  "parse_connect_variable_headers (with_extra x p) = with_extra x (parse_connect_variable_headers p)"
  by (simp add: parse_connect_variable_headers_def with_extra_def Let_def split: list.split)

lemma extra_assign: "assign_fields (with_extra x p) fs d = assign_fields p fs d"
proof -
  have "connect_flag (with_extra x p) = connect_flag p"
    by (rule ext) (simp add: connect_flag_def)
  then have "field_key (with_extra x p) d = field_key p d" for d
    by (simp only: field_key_def)
  then show ?thesis by (induction fs arbitrary: d) simp_all
qed

lemma extra_body: "parse_body (with_extra x p) = map_sum id (with_extra x) (parse_body p)"
proof -
  have "parse_connect_payload (with_extra x q) = map_sum id (with_extra x) (parse_connect_payload q)" for q
    by (simp add: parse_connect_payload_def map_sum_bind extra_assign)
  moreover have "parse_publish_variable_headers (with_extra x p) = map_sum id (with_extra x) (parse_publish_variable_headers p)"
    by (cases "parse_length_prefixed_bytes (mp_packet p) (header_length p)")
      (simp_all add: parse_publish_variable_headers_def Let_def case_prod_unfold)
  moreover have "parse_publish_payload (with_extra x q) = with_extra x (parse_publish_payload q)" for q
    by (simp add: parse_publish_payload_def Let_def)
  moreover have "parse_subscribe_payload (with_extra x q) = map_sum id (with_extra x) (parse_subscribe_payload q)" for q
    by (simp add: parse_subscribe_payload_def map_sum_bind)
  moreover have "parse_packet_identifier (with_extra x p) = with_extra x (parse_packet_identifier p)"
    by (simp add: parse_packet_identifier_def Let_def)
  ultimately show ?thesis
    by (cases "parse_publish_variable_headers p") (simp_all add: parse_body_def extra_connect_headers)
qed

lemma start_extra: "start b w x r = with_extra x (start b w [] r)"
  by (simp add: start_def with_extra_def split: prod.split)

section \<open>Reassembly\<close>

text \<open>The packets of a stream: frames the parser accepts.\<close>

definition good_frame :: "byte \<times> bytes \<Rightarrow> bool" where
  "good_frame f \<longleftrightarrow> length (snd f) < max_length \<and> (\<exists>p. MQTTControlPacket (frame (fst f) (snd f)) = Inr p)"

definition wire :: "(byte \<times> bytes) list \<Rightarrow> bytes" where
  "wire fs = concat (map (\<lambda>(b, body). frame b body) fs)"

definition parsed :: "byte \<times> bytes \<Rightarrow> mqtt_packet" where
  "parsed f = projr (MQTTControlPacket (frame (fst f) (snd f)))"

lemma frame_ne [simp]: "frame b body \<noteq> []"
  by (simp add: frame_def)

lemma good_frame_parse:
  assumes "good_frame (b, body)"
  shows "MQTTControlPacket (frame b body @ rest) = Inr (with_extra rest (parsed (b, body)))"
proof -
  have l: "length body < max_length" using assms by (simp add: good_frame_def)
  obtain p where "MQTTControlPacket (frame b body) = Inr p" using assms by (auto simp: good_frame_def)
  then have "parse_body (start b (frame b body) [] (length body)) = Inr p"
    using packet_frame [OF l, of b "[]"] by simp
  then show ?thesis
    using packet_frame [OF l, of b rest] \<open>MQTTControlPacket (frame b body) = Inr p\<close>
    by (simp add: start_extra [of b _ rest] extra_body parsed_def)
qed

lemma pprint_extra [simp]: "pprint escape (with_extra x p) = pprint escape p"
  by (simp only: pprint_def content_text_def with_extra_fields)

text \<open>A cut through a stream lies between two packets or inside one.\<close>

lemma wire_cut:
  assumes "xs @ ys = wire fs"
  shows "\<exists>fs1 fs2 part. fs = fs1 @ fs2 \<and> xs = wire fs1 @ part \<and> part @ ys = wire fs2 \<and>
    (part = [] \<or> (\<exists>b body more zs. fs2 = (b, body) # more \<and> frame b body = part @ zs \<and> zs \<noteq> []))"
  using assms
proof (induction fs arbitrary: xs)
  case Nil
  then show ?case by (simp add: wire_def)
next
  case (Cons f fs)
  obtain b body where f: "f = (b, body)" by force
  have w: "wire (f # fs) = frame b body @ wire fs" by (simp add: wire_def f)
  show ?case
  proof (cases "length (frame b body) \<le> length xs")
    case True
    have "xs @ ys = frame b body @ wire fs" using Cons.prems w by simp
    with True obtain us where us: "xs = frame b body @ us" "us @ ys = wire fs"
      by (metis append_eq_append_conv_if append_take_drop_id)
    from Cons.IH [OF us(2)] obtain fs1 fs2 part where "fs = fs1 @ fs2" "us = wire fs1 @ part" "part @ ys = wire fs2"
      "part = [] \<or> (\<exists>b body more zs. fs2 = (b, body) # more \<and> frame b body = part @ zs \<and> zs \<noteq> [])"
      by blast
    then show ?thesis
      by (intro exI [of _ "f # fs1"] exI [of _ fs2] exI [of _ part]) (simp add: us wire_def f)
  next
    case False
    have "xs @ ys = frame b body @ wire fs" using Cons.prems w by simp
    with False obtain zs where zs: "xs @ zs = frame b body" by (auto simp: append_eq_append_conv2)
    with False have "frame b body = xs @ zs" "zs \<noteq> []" by auto
    then show ?thesis
      using Cons.prems by (intro exI [of _ "[]"] exI [of _ "f # fs"] exI [of _ xs]) (simp add: wire_def f)
  qed
qed

text \<open>The state after some writes, with what is left of the stream in the buffer.\<close>

definition put_buffer :: "string \<Rightarrow> bytes \<Rightarrow> bytes list \<Rightarrow> sniffer \<Rightarrow> sniffer" where
  "put_buffer fid b ws s = s\<lparr>sn_buffers := (sn_buffers s)(fid \<mapsto> b), sn_writes := sn_writes s @ ws\<rparr>"

lemma put_buffer_twice [simp]: "put_buffer fid b ws (put_buffer fid b' ws' s) = put_buffer fid b (ws' @ ws) s"
  by (simp add: put_buffer_def)

lemma put_buffer_same [simp]: "sn_buffers s fid = Some b \<Longrightarrow> put_buffer fid b [] s = s"
  by (cases s) (auto simp: put_buffer_def)

lemma buffers_put [simp]: "sn_buffers (put_buffer fid b ws s) fid = Some b"
  by (simp add: put_buffer_def)

lemma put_buffer_steps:
  "set_buffer fid b s = (Inr (), put_buffer fid b [] s)"
  "sn_buffers s fid = Some b \<Longrightarrow> dump escape p s = (Inr (), put_buffer fid b [pprint escape p] s)"
  by (cases s; auto simp: set_buffer_def dump_def put_buffer_def py_modify_def)+

lemma drain_part:
  assumes "b = [] \<or> (\<exists>x body zs. length body < max_length \<and> frame x body = b @ zs \<and> zs \<noteq> [])"
  shows "snd (drain escape fid b s) = s"
proof (cases "b = []")
  case True
  then show ?thesis by (simp add: drain.simps [of escape fid "[]"] py_run)
next
  case False
  with assms packet_part have "MQTTControlPacket b \<in> {Inl IndexError, Inl (BlockingIOError (length b))}" by blast
  then show ?thesis using False by (auto simp: drain.simps [of escape fid b] py_run)
qed

lemma drain_wire:
  assumes "\<forall>f \<in> set fs. good_frame f"
    and "part = [] \<or> (\<exists>x body zs. length body < max_length \<and> frame x body = part @ zs \<and> zs \<noteq> [])"
    and "sn_buffers s fid = Some (wire fs @ part)"
  shows "snd (drain escape fid (wire fs @ part) s) = put_buffer fid part (map (pprint escape \<circ> parsed) fs) s"
  using assms(1,3)
proof (induction fs arbitrary: s)
  case Nil
  then show ?case using drain_part [OF assms(2)] by (simp add: wire_def)
next
  case (Cons f fs)
  obtain b body where f: "f = (b, body)" by force
  let ?rest = "wire fs @ part"
  let ?s = "put_buffer fid ?rest [pprint escape (parsed f)] s"
  have w: "wire (f # fs) @ part = frame b body @ ?rest" by (simp add: wire_def f)
  have "MQTTControlPacket (frame b body @ ?rest) = Inr (with_extra ?rest (parsed f))"
    using good_frame_parse Cons.prems(1) by (simp add: f)
  then have "drain escape fid (frame b body @ ?rest) s = drain escape fid ?rest ?s"
    using put_buffer_steps(2) [OF Cons.prems(2), of escape "with_extra ?rest (parsed f)"]
    by (simp add: drain.simps [of escape fid "frame b body @ ?rest"] py_seq_def py_bind_def put_buffer_steps(1))
  then show ?case using Cons.IH [of ?s] Cons.prems(1) by (simp add: w)
qed

text \<open>The messages of one websocket, one after the other; an exception is logged by mitmproxy.\<close>

fun feed :: "(bytes \<Rightarrow> bytes) \<Rightarrow> string \<Rightarrow> bytes list \<Rightarrow> bytes list \<Rightarrow> sniffer \<Rightarrow> sniffer" where
  "feed escape fid old [] s = s"
| "feed escape fid old (m # ms) s =
     feed escape fid (old @ [m]) ms
       (snd (websocket_message escape \<lparr>fl_id = fid, fl_websocket = Some (old @ [m])\<rparr> s))"

lemma message_run:
  assumes "sn_buffers s fid = Some b"
  shows "websocket_message escape \<lparr>fl_id = fid, fl_websocket = Some (old @ [m])\<rparr> s
    = drain escape fid (b @ m) (put_buffer fid (b @ m) [] s)"
  using assms by (simp add: websocket_message_def py_gets_def py_seq_def py_bind_def put_buffer_steps(1) Let_def)

lemma feed_wire:
  assumes "\<forall>f \<in> set fs. good_frame f" "sn_buffers s fid = Some b" "b @ concat ms = wire fs"
    and "b = [] \<or> (\<exists>x body zs. length body < max_length \<and> frame x body = b @ zs \<and> zs \<noteq> [])"
  shows "feed escape fid old ms s = put_buffer fid [] (map (pprint escape \<circ> parsed) fs) s"
  using assms
proof (induction ms arbitrary: fs s b old)
  case Nil
  then have "b = wire fs" by simp
  have "fs = []"
  proof (rule ccontr)
    assume "fs \<noteq> []"
    then obtain f gs where fs: "fs = f # gs" by (cases fs) auto
    obtain y body' where f: "f = (y, body')" by force
    have b: "b = frame y body' @ wire gs" using \<open>b = wire fs\<close> by (simp add: fs f wire_def)
    then obtain x body zs where "length body < max_length" "frame x body = b @ zs" "zs \<noteq> []"
      using Nil.prems(4) by auto
    then have "MQTTControlPacket b \<in> {Inl IndexError, Inl (BlockingIOError (length b))}" by (rule packet_part)
    moreover have "good_frame (y, body')" using Nil.prems(1) by (simp add: fs f)
    ultimately show False by (simp add: b good_frame_parse)
  qed
  with Nil \<open>b = wire fs\<close> show ?case by (simp add: wire_def)
next
  case (Cons m ms)
  from Cons.prems(3) have "(b @ m) @ concat ms = wire fs" by simp
  from wire_cut [OF this] obtain fs1 fs2 part where cut: "fs = fs1 @ fs2" "b @ m = wire fs1 @ part"
    "part @ concat ms = wire fs2"
    and "part = [] \<or> (\<exists>b body more zs. fs2 = (b, body) # more \<and> frame b body = part @ zs \<and> zs \<noteq> [])" by blast
  then have part: "part = [] \<or> (\<exists>x body zs. length body < max_length \<and> frame x body = part @ zs \<and> zs \<noteq> [])"
    using Cons.prems(1) by (force simp: good_frame_def)
  let ?s = "put_buffer fid part (map (pprint escape \<circ> parsed) fs1) s"
  have "snd (websocket_message escape \<lparr>fl_id = fid, fl_websocket = Some (old @ [m])\<rparr> s) = ?s"
    using drain_wire [OF _ part, of fs1 "put_buffer fid (b @ m) [] s" fid escape]
      message_run [OF Cons.prems(2)] Cons.prems(1) by (simp add: cut(1,2))
  moreover have "feed escape fid (old @ [m]) ms ?s = put_buffer fid [] (map (pprint escape \<circ> parsed) fs2) ?s"
    using Cons.prems(1) cut(1) by (intro Cons.IH [OF _ _ cut(3) part]) simp_all
  ultimately show ?case by (simp add: cut(1) comp_def)
qed

section \<open>Malformed packets\<close>

lemma loop_append:
  "remaining_length_loop bs m v i \<noteq> Inl IndexError \<Longrightarrow> remaining_length_loop (bs @ x) m v i = remaining_length_loop bs m v i"
  by (induction bs m v i rule: remaining_length_loop.induct) (auto simp: Let_def split: if_splits)

text \<open>What is wrong with the first packet of some bytes stays wrong when more bytes arrive.\<close>

lemma error_persists:
  assumes "MQTTControlPacket b = Inl e" "e \<noteq> IndexError" "\<forall>n. e \<noteq> BlockingIOError n"
  shows "MQTTControlPacket (b @ x) = Inl e"
proof -
  obtain c bs where b: "b = c # bs" using assms by (cases b) (auto simp: MQTTControlPacket_def)
  show ?thesis
  proof (cases "parse_remaining_length b")
    case (Inl e')
    with assms(1) b have "e' = e" using constructor_error by auto
    with Inl assms(2) b have "parse_remaining_length (c # bs @ x) = Inl e"
      using loop_append [of bs 1 0 1 x] by (simp add: parse_remaining_length_def)
    then show ?thesis using constructor_error b by simp
  next
    case (Inr rt)
    obtain r t where rt: "rt = (r, t)" by force
    with Inr assms(1,3) b have t: "t \<le> length (c # bs)"
      using constructor_incomplete [of c bs r t] by (metis not_le sum.inject(1))
    from Inr rt b have "parse_remaining_length (c # bs @ x) = Inr (r, t)"
      using loop_append [of bs 1 0 1 x] by (simp add: parse_remaining_length_def)
    moreover have "take t (c # bs @ x) = take t (c # bs)" using t by (metis append_Cons take_append take_0 diff_is_0_eq append_Nil2)
    moreover have "MQTTControlPacket (c # bs) = parse_body (start c (take t (c # bs)) (drop t (c # bs)) r)"
      using constructor [OF _ t, of r] Inr rt b by simp
    ultimately show ?thesis
      using constructor [of c "bs @ x" r t] t assms(1) b
      by (auto simp: start_extra [of c _ "drop _ _"] extra_body map_sum_def split: sum.splits)
  qed
qed

lemma feed_stuck:
  assumes "sn_buffers s fid = Some b" "MQTTControlPacket b = Inl e" "e \<noteq> IndexError" "\<forall>n. e \<noteq> BlockingIOError n"
  shows "feed escape fid old ms s = put_buffer fid (b @ concat ms) [] s"
  using assms(1,2)
proof (induction ms arbitrary: s b old)
  case Nil
  then show ?case by simp
next
  case (Cons m ms)
  have err: "MQTTControlPacket (b @ m) = Inl e" using error_persists Cons.prems assms(3,4) by blast
  then have ne: "b @ m \<noteq> []" using assms(3) by (auto simp: MQTTControlPacket_def)
  let ?s = "put_buffer fid (b @ m) [] s"
  have "snd (drain escape fid (b @ m) ?s) = ?s"
    using ne err assms(3,4) by (cases e) (simp_all add: drain.simps [of escape fid "b @ m"] py_run)
  then show ?case
    using Cons.IH [of ?s "b @ m" "old @ [m]"] err message_run [OF Cons.prems(1), of escape old m] by simp
qed

end
