(* ===== verification/Mitm_MQTT_Format.thy ===== *)
theory Mitm_MQTT_Format
  imports Mitm_MQTT_Laws
begin

text \<open>
  The control packets of MQTT 3.1.1 the sniffer shows, as a reference: \<open>encode\<close> writes a packet
  as the standard says, \<open>control_of\<close> reads it back from the attributes the parser sets.
\<close>

definition be16 :: "nat \<Rightarrow> bytes" where
  "be16 n = [of_nat (n div 256), of_nat (n mod 256)]"

definition field :: "bytes \<Rightarrow> bytes" where
  "field f = be16 (length f) @ f"

datatype control =
    Publish nat nat nat bytes bytes bytes
  | Subscribe bytes "(bytes \<times> byte) list"
  | Connect bool bytes "(bytes \<times> bytes) option" "bytes option" "bytes option"

definition opt_field :: "bytes option \<Rightarrow> bytes list" where
  "opt_field f = (case f of None \<Rightarrow> [] | Some b \<Rightarrow> [b])"

definition will_fields :: "(bytes \<times> bytes) option \<Rightarrow> bytes list" where
  "will_fields w = (case w of None \<Rightarrow> [] | Some (topic, message) \<Rightarrow> [topic, message])"

definition flags_byte :: "bool \<Rightarrow> bool \<Rightarrow> bool \<Rightarrow> bool \<Rightarrow> byte" where
  "flags_byte clean will user pass =
     of_nat (2 * of_bool clean + 4 * of_bool will + 64 * of_bool pass + 128 * of_bool user)"

fun first_byte :: "control \<Rightarrow> byte" where
  "first_byte (Publish dup qos retain _ _ _) = of_nat (48 + 8 * dup + 2 * qos + retain)"
| "first_byte (Subscribe _ _) = 0x82"
| "first_byte (Connect _ _ _ _ _) = 0x10"

fun body_of :: "control \<Rightarrow> bytes" where
  "body_of (Publish dup qos retain topic ident payload) = field topic @ ident @ payload"
| "body_of (Subscribe ident fs) = ident @ concat (map (\<lambda>(f, q). field f @ [q]) fs)"
| "body_of (Connect clean client will user pass) =
     field (ascii ''MQTT'') @ [4, flags_byte clean (will \<noteq> None) (user \<noteq> None) (pass \<noteq> None), 0, 60] @
     concat (map field (client # will_fields will @ opt_field user @ opt_field pass))"

definition encode :: "control \<Rightarrow> bytes" where
  "encode c = frame (first_byte c) (body_of c)"

text \<open>What the standard and the parser's length limit ask of a packet.\<close>

fun control_ok :: "control \<Rightarrow> bool" where
  "control_ok (Publish dup qos retain topic ident payload) \<longleftrightarrow>
     dup < 2 \<and> qos < 4 \<and> retain < 2 \<and> length topic < 65536 \<and> length ident = (if qos \<in> {1, 2} then 2 else 0)"
| "control_ok (Subscribe ident fs) \<longleftrightarrow>
     length ident = 2 \<and> distinct (map fst fs) \<and> (\<forall>f \<in> fst ` set fs. utf8_valid f \<and> length f < 65536)"
| "control_ok (Connect clean client will user pass) \<longleftrightarrow>
     utf8_valid client \<and> (\<forall>t m. will = Some (t, m) \<longrightarrow> utf8_valid t) \<and> (\<forall>u. user = Some u \<longrightarrow> utf8_valid u) \<and>
     (\<forall>f \<in> set (client # will_fields will @ opt_field user @ opt_field pass). length f < 65536)"

definition control_of :: "mqtt_packet \<Rightarrow> control" where
  "control_of p =
     (if mp_type p = PUBLISH then
        Publish (the (mp_dup p)) (the (mp_qos p)) (the (mp_retain p)) (mp_topic_name p)
          (case mp_identifier p of None \<Rightarrow> [] | Some i \<Rightarrow> i) (the (mp_payload p))
      else if mp_type p = SUBSCRIBE then
        Subscribe (the (mp_identifier p)) (map (\<lambda>(f, q). (f, hd q)) (mp_filters p))
      else (let c = map_of (mp_content p) in
        Connect (the (map_of (mp_connect_flags p) ''CleanSession'')) (the (c ''ClientId''))
          (case c ''WillTopic'' of None \<Rightarrow> None | Some t \<Rightarrow> Some (t, the (c ''WillMessage'')))
          (c ''UserName'') (c ''Password'')))"

section \<open>Fields\<close>

lemma byte_of_nat: "n < 256 \<Longrightarrow> unat (of_nat n :: byte) = n"
  by (simp add: unat_of_nat)

lemma read_field:
  assumes "length f < 65536"
  shows "parse_length_prefixed_bytes (pre @ field f @ post) (length pre) = Inr (length f + 2, f)"
proof -
  have "unat (of_nat (length f div 256) :: byte) * 256 + unat (of_nat (length f mod 256) :: byte) = length f"
    using assms by (simp add: byte_of_nat less_mult_imp_div_less)
  then show ?thesis by (simp add: parse_length_prefixed_bytes_def slice_def field_def be16_def Let_def)
qed

lemma length_field [simp]: "length (field f) = length f + 2"
  by (simp add: field_def be16_def)

lemma connect_fields_step:
  assumes "length f < 65536"
  shows "connect_fields (pre @ field f @ post) (length pre)
    = res_bind (connect_fields ((pre @ field f) @ post) (length (pre @ field f))) (\<lambda>fs. Inr (f # fs))"
proof -
  have "connect_fields (pre @ field f @ post) (length pre)
      = res_bind (connect_fields (pre @ field f @ post) (length pre + (length f + 2))) (\<lambda>fs. Inr (f # fs))"
    by (subst connect_fields.simps) (simp add: read_field [OF assms])
  then show ?thesis by simp
qed

lemma read_connect_fields:
  "\<forall>f \<in> set fs. length f < 65536 \<Longrightarrow> connect_fields (pre @ concat (map field fs)) (length pre) = Inr fs"
proof (induction fs arbitrary: pre)
  case Nil
  then show ?case by (simp add: connect_fields.simps)
next
  case (Cons f fs)
  have "connect_fields ((pre @ field f) @ concat (map field fs)) (length (pre @ field f)) = Inr fs"
    using Cons.prems by (intro Cons.IH) simp
  then show ?case using connect_fields_step [of f pre "concat (map field fs)"] Cons.prems by simp
qed

lemma subscribe_loop_step:
  assumes "length f < 65536" "utf8_valid f"
  shows "subscribe_loop (pre @ field f @ q # post) (length pre) acc
    = subscribe_loop ((pre @ field f @ [q]) @ post) (length (pre @ field f @ [q])) (AList.update f [q] acc)"
proof -
  let ?b = "pre @ field f @ q # post"
  have "slice (length pre + (length f + 2)) (length pre + (length f + 2) + 1) ?b = [q]"
    by (simp add: slice_def)
  then have "subscribe_loop ?b (length pre) acc
      = subscribe_loop ?b (length pre + (length f + 2) + 1) (AList.update f [q] acc)"
    using assms(2) by (subst subscribe_loop.simps) (simp add: read_field [OF assms(1)] utf8_text_def)
  then show ?thesis by simp
qed

lemma update_new: "k \<notin> fst ` set d \<Longrightarrow> AList.update k v d = d @ [(k, v)]"
  by (induction d) auto

lemma read_filters:
  assumes "\<forall>f \<in> fst ` set fs. utf8_valid f \<and> length f < 65536" "distinct (map fst acc @ map fst fs)"
  shows "subscribe_loop (pre @ concat (map (\<lambda>(f, q). field f @ [q]) fs)) (length pre) acc
    = Inr (acc @ map (\<lambda>(f, q). (f, [q])) fs)"
  using assms
proof (induction fs arbitrary: pre acc)
  case Nil
  then show ?case by (simp add: subscribe_loop.simps)
next
  case (Cons x fs)
  obtain f q where x: "x = (f, q)" by force
  let ?more = "concat (map (\<lambda>(f, q). field f @ [q]) fs)"
  have "subscribe_loop ((pre @ field f @ [q]) @ ?more) (length (pre @ field f @ [q])) (acc @ [(f, [q])])
    = Inr ((acc @ [(f, [q])]) @ map (\<lambda>(f, q). (f, [q])) fs)"
    using Cons.prems x by (intro Cons.IH) auto
  moreover have "AList.update f [q] acc = acc @ [(f, [q])]"
    using Cons.prems(2) x by (intro update_new) auto
  ultimately show ?case
    using subscribe_loop_step [of f pre q ?more acc] Cons.prems(1) x by simp
qed

section \<open>Reading back\<close>

lemma publish_flags:
  assumes "dup < 2" "qos < 4" "retain < 2"
  shows "parse_packet_type (of_nat (48 + 8 * dup + 2 * qos + retain)) = PUBLISH"
    "parse_flags PUBLISH (of_nat (48 + 8 * dup + 2 * qos + retain)) = (Some dup, Some qos, Some retain)"
proof -
  let ?P = "\<lambda>d q r. parse_packet_type (of_nat (48 + 8 * d + 2 * q + r)) = PUBLISH \<and>
      parse_flags PUBLISH (of_nat (48 + 8 * d + 2 * q + r)) = (Some d, Some q, Some r)"
  have "list_all (\<lambda>d. list_all (\<lambda>q. list_all (\<lambda>r. ?P d q r) [0, 1]) [0, 1, 2, 3]) [0, 1]"
    by code_simp
  then have "\<forall>d \<in> set [0, 1]. \<forall>q \<in> set [0, 1, 2, 3]. \<forall>r \<in> set [0, 1]. ?P d q r"
    by (simp only: list_all_iff)
  moreover have "dup \<in> set [0, 1]" "qos \<in> set [0, 1, 2, 3]" "retain \<in> set [0, 1]" using assms by auto
  ultimately have "?P dup qos retain" by blast
  then show "parse_packet_type (of_nat (48 + 8 * dup + 2 * qos + retain)) = PUBLISH"
    "parse_flags PUBLISH (of_nat (48 + 8 * dup + 2 * qos + retain)) = (Some dup, Some qos, Some retain)" by blast+
qed

lemma other_flags: "parse_packet_type 0x82 = SUBSCRIBE" "parse_packet_type 0x10 = CONNECT"
  by code_simp+

lemma connect_flag_bits:
  "flags_byte c w u p AND 0x02 \<noteq> 0 \<longleftrightarrow> c" "flags_byte c w u p AND 0x04 \<noteq> 0 \<longleftrightarrow> w"
  "flags_byte c w u p AND 0x40 \<noteq> 0 \<longleftrightarrow> p" "flags_byte c w u p AND 0x80 \<noteq> 0 \<longleftrightarrow> u"
  by (cases c; cases w; cases u; cases p; simp add: flags_byte_def)+

text \<open>The bytes of a packet behind its fixed header.\<close>

lemma frame_split:
  obtains pre where "frame b body = pre @ body" "length (frame b body) - length body = length pre"
  by (rule that [of "b # encode_length (length body)"]) (simp_all add: frame_def)

lemma encode_parse:
  assumes "length (body_of c) < max_length"
  shows "MQTTControlPacket (encode c @ rest) =
    map_sum id (with_extra rest) (parse_body (start (first_byte c) (encode c) [] (length (body_of c))))"
  using packet_frame [OF assms, of "first_byte c" rest] start_extra [of "first_byte c" "encode c" rest]
  by (simp add: encode_def extra_body)

lemma publish_back:
  assumes ok: "control_ok (Publish dup qos retain topic ident payload)"
  defines "c \<equiv> Publish dup qos retain topic ident payload"
  shows "\<exists>p. parse_body (start (first_byte c) (encode c) [] (length (body_of c))) = Inr p \<and> control_of p = c"
proof -
  obtain pre where pre: "encode c = pre @ body_of c" "length (encode c) - length (body_of c) = length pre"
    unfolding encode_def by (rule frame_split)
  define s where "s = start (first_byte c) (encode c) [] (length (body_of c))"
  have s: "mp_packet s = pre @ field topic @ ident @ payload" "header_length s = length pre" "mp_type s = PUBLISH"
    "mp_qos s = Some qos" "mp_dup s = Some dup" "mp_retain s = Some retain" "mp_identifier s = None"
    using pre ok publish_flags [of dup qos retain] by (simp_all add: s_def start_def c_def)
  let ?i = "if qos \<in> {1, 2} then Some ident else None"
  have "parse_length_prefixed_bytes (mp_packet s) (length pre) = Inr (length topic + 2, topic)"
    using read_field [of topic pre "ident @ payload"] ok by (simp add: s)
  then have "parse_publish_variable_headers s = Inr (s\<lparr>mp_topic_name := topic, mp_identifier := ?i\<rparr>)"
    using ok s by (simp add: parse_publish_variable_headers_def Let_def slice_def)
  then have "parse_body s = Inr (s\<lparr>mp_topic_name := topic, mp_identifier := ?i, mp_payload := Some payload\<rparr>)"
    using ok s by (simp add: parse_body_def parse_publish_payload_def CONNECT_def PUBLISH_def)
  moreover have "control_of (s\<lparr>mp_topic_name := topic, mp_identifier := ?i, mp_payload := Some payload\<rparr>) = c"
    using ok s by (cases "qos \<in> {1, 2}") (simp_all add: control_of_def c_def)
  ultimately show ?thesis unfolding s_def by blast
qed

lemma subscribe_back:
  assumes ok: "control_ok (Subscribe ident fs)"
  defines "c \<equiv> Subscribe ident fs"
  shows "\<exists>p. parse_body (start (first_byte c) (encode c) [] (length (body_of c))) = Inr p \<and> control_of p = c"
proof -
  obtain pre where pre: "encode c = pre @ body_of c" "length (encode c) - length (body_of c) = length pre"
    unfolding encode_def by (rule frame_split)
  define s where "s = start (first_byte c) (encode c) [] (length (body_of c))"
  let ?fs = "concat (map (\<lambda>(f, q). field f @ [q]) fs)" and ?read = "map (\<lambda>(f, q). (f, [q])) fs"
  have s: "mp_packet s = pre @ ident @ ?fs" "header_length s = length pre" "mp_type s = SUBSCRIBE"
    using pre ok other_flags by (simp_all add: s_def start_def c_def parse_flags_def)
  have "subscribe_loop ((pre @ ident) @ ?fs) (length (pre @ ident)) [] = Inr ([] @ ?read)"
    using ok by (intro read_filters) simp_all
  then have "parse_body s = Inr (s\<lparr>mp_identifier := Some ident, mp_filters := ?read\<rparr>)"
    using ok s by (simp add: parse_body_def parse_subscribe_payload_def parse_packet_identifier_def Let_def slice_def
        CONNECT_def PUBLISH_def SUBSCRIBE_def)
  moreover have "control_of (s\<lparr>mp_identifier := Some ident, mp_filters := ?read\<rparr>) = c"
    using s(3) by (simp add: control_of_def c_def PUBLISH_def SUBSCRIBE_def comp_def case_prod_unfold)
  ultimately show ?thesis unfolding s_def by blast
qed

text \<open>The ten bytes before the fields of a CONNECT packet, and the fields in their order.\<close>

definition connect_flags :: "bool \<Rightarrow> bool \<Rightarrow> bool \<Rightarrow> bool \<Rightarrow> (string \<times> bool) list" where
  "connect_flags clean will user pass =
     [(''CleanSession'', clean), (''Will'', will), (''WillRetain'', flags_byte clean will user pass AND 0x20 \<noteq> 0),
      (''Password'', pass), (''UserName'', user)]"

definition connect_content :: "bytes \<Rightarrow> (bytes \<times> bytes) option \<Rightarrow> bytes option \<Rightarrow> bytes option \<Rightarrow> (string \<times> bytes) list" where
  "connect_content client will user pass =
     [(''ClientId'', client)] @
     (case will of None \<Rightarrow> [] | Some (t, m) \<Rightarrow> [(''WillTopic'', t), (''WillMessage'', m)]) @
     (case user of None \<Rightarrow> [] | Some u \<Rightarrow> [(''UserName'', u)]) @ (case pass of None \<Rightarrow> [] | Some p \<Rightarrow> [(''Password'', p)])"

lemma assign_connect:
  assumes "mp_connect_flags p = connect_flags clean (will \<noteq> None) (user \<noteq> None) (pass \<noteq> None)"
    and "control_ok (Connect clean client will user pass)"
  shows "assign_fields p (client # will_fields will @ opt_field user @ opt_field pass) []
    = Inr (connect_content client will user pass)"
  using assms
  by (cases will; cases user; cases pass)
    (auto simp: will_fields_def opt_field_def connect_content_def connect_flags_def field_key_def connect_flag_def
      Let_def utf8_text_def)

lemma connect_back:
  assumes ok: "control_ok (Connect clean client will user pass)"
  defines "c \<equiv> Connect clean client will user pass"
  shows "\<exists>p. parse_body (start (first_byte c) (encode c) [] (length (body_of c))) = Inr p \<and> control_of p = c"
proof -
  obtain pre where pre: "encode c = pre @ body_of c" "length (encode c) - length (body_of c) = length pre"
    unfolding encode_def by (rule frame_split)
  define s where "s = start (first_byte c) (encode c) [] (length (body_of c))"
  let ?flags = "flags_byte clean (will \<noteq> None) (user \<noteq> None) (pass \<noteq> None)"
  let ?head = "field (ascii ''MQTT'') @ [4, ?flags, 0, 60]"
  let ?fs = "client # will_fields will @ opt_field user @ opt_field pass"
  have s: "mp_packet s = pre @ ?head @ concat (map field ?fs)" "header_length s = length pre" "mp_type s = CONNECT"
    using pre other_flags by (simp_all add: s_def start_def c_def parse_flags_def)
  have head: "length (ascii ''MQTT'') = 4" by (simp add: ascii_def)
  define q where "q = parse_connect_variable_headers s"
  have "slice (length pre + 7) (length pre + 8) (mp_packet s) = [?flags]"
    by (simp add: s slice_def head)
  then have q: "mp_packet q = mp_packet s" "header_length q = length pre" "mp_type q = CONNECT"
    "mp_connect_flags q = connect_flags clean (will \<noteq> None) (user \<noteq> None) (pass \<noteq> None)"
    using s(2,3) by (simp_all add: q_def parse_connect_variable_headers_def Let_def connect_flags_def connect_flag_bits)
  have f: "connect_fields (mp_packet q) (header_length q + 10) = Inr ?fs"
    unfolding q(2) unfolding q(1) s(1) using read_connect_fields [of ?fs "pre @ ?head"] ok by (simp add: head)
  have "parse_connect_payload q = Inr (q\<lparr>mp_content := connect_content client will user pass\<rparr>)"
    by (simp only: parse_connect_payload_def f res_bind_simps assign_connect [OF q(4) ok])
  then have "parse_body s = Inr (q\<lparr>mp_content := connect_content client will user pass\<rparr>)"
    using s(3) by (simp add: parse_body_def q_def)
  moreover have "control_of (q\<lparr>mp_content := connect_content client will user pass\<rparr>) = c"
    using q(3,4) by (simp add: control_of_def c_def connect_content_def connect_flags_def Let_def
        CONNECT_def PUBLISH_def SUBSCRIBE_def split: option.splits prod.splits)
  ultimately show ?thesis unfolding s_def by blast
qed

lemma control_round_trip:
  assumes "control_ok c" "length (body_of c) < max_length"
  shows "\<exists>p. MQTTControlPacket (encode c @ rest) = Inr p \<and> control_of p = c \<and> mp_extra p = rest"
proof -
  obtain p where "parse_body (start (first_byte c) (encode c) [] (length (body_of c))) = Inr p" "control_of p = c"
    using publish_back subscribe_back connect_back assms(1) by (cases c) blast+
  moreover have "control_of (with_extra rest p) = control_of p"
    by (simp add: control_of_def with_extra_def)
  ultimately show ?thesis using encode_parse [OF assms(2)] by simp
qed

lemma encoded_good_frame: "control_ok c \<Longrightarrow> length (body_of c) < max_length \<Longrightarrow> good_frame (first_byte c, body_of c)"
  using control_round_trip [of c "[]"] by (auto simp: good_frame_def encode_def)

end
