(* ===== verification/Mitm_MQTT_Types.thy ===== *)
theory Mitm_MQTT_Types
  imports Mitm_MQTT_Laws
begin

text \<open>
  What the parser of control packets promises of every packet it accepts, whatever the bytes:
  \<open>packet_wf\<close>. The code has no such check; it follows from its branches.
\<close>

definition text_keys :: "string list" where
  "text_keys = [''ClientId'', ''WillTopic'', ''UserName'']"

definition content_wf :: "(string \<times> bytes) list \<Rightarrow> bool" where
  "content_wf d \<longleftrightarrow> distinct (map fst d) \<and>
     (\<forall>(k, v) \<in> set d. k \<in> set (text_keys @ [''WillMessage'', ''Password'']) \<and> (k \<in> set text_keys \<longrightarrow> utf8_valid v))"

definition filters_wf :: "(bytes \<times> bytes) list \<Rightarrow> bool" where
  "filters_wf fs \<longleftrightarrow> distinct (map fst fs) \<and> (\<forall>f \<in> fst ` set fs. utf8_valid f)"

definition flags_wf :: "mqtt_packet \<Rightarrow> bool" where
  "flags_wf p \<longleftrightarrow>
     (if mp_type p = PUBLISH
      then \<exists>d q r. mp_dup p = Some d \<and> mp_qos p = Some q \<and> mp_retain p = Some r \<and> d < 2 \<and> q < 4 \<and> r < 2
      else mp_dup p = None \<and> mp_qos p = None \<and> mp_retain p = None)"

definition packet_wf :: "mqtt_packet \<Rightarrow> bool" where
  "packet_wf p \<longleftrightarrow> mp_type p < 16 \<and> flags_wf p \<and> content_wf (mp_content p) \<and> filters_wf (mp_filters p) \<and>
     (mp_payload p \<noteq> None \<longleftrightarrow> mp_type p = PUBLISH) \<and>
     (mp_content p \<noteq> [] \<longrightarrow> mp_type p = CONNECT) \<and> (mp_filters p \<noteq> [] \<longrightarrow> mp_type p = SUBSCRIBE)"

section \<open>The parts of the payload\<close>

lemma content_wf_Nil: "content_wf []" "filters_wf []"
  by (simp_all add: content_wf_def filters_wf_def)

lemma field_key_wf:
  "field_key p d = Inr (k, t) \<Longrightarrow> map_of d k = None \<and> k \<in> set (text_keys @ [''WillMessage'', ''Password'']) \<and>
    (t \<longleftrightarrow> k \<in> set text_keys)"
  by (auto simp: field_key_def connect_flag_def Let_def text_keys_def split: if_splits option.splits)

lemma content_wf_snoc:
  "content_wf d \<Longrightarrow> map_of d k = None \<Longrightarrow> k \<in> set (text_keys @ [''WillMessage'', ''Password'']) \<Longrightarrow>
    (k \<in> set text_keys \<longrightarrow> utf8_valid v) \<Longrightarrow> content_wf (d @ [(k, v)])"
  unfolding content_wf_def by (simp add: map_of_eq_None_iff)

lemma assign_fields_wf: "content_wf d \<Longrightarrow> res_all content_wf (assign_fields p fs d)"
proof (induction fs arbitrary: d)
  case Nil
  then show ?case by simp
next
  case (Cons f fs)
  show ?case
  proof (cases "field_key p d")
    case (Inl e)
    then show ?thesis by simp
  next
    case (Inr kt)
    obtain k t where kt: "kt = (k, t)" by force
    note wf = field_key_wf [OF Inr [unfolded kt]]
    show ?thesis
    proof (cases "t \<and> \<not> utf8_valid f")
      case True
      then show ?thesis using Inr kt by (simp add: utf8_text_def)
    next
      case False
      then have "content_wf (d @ [(k, f)])"
        using content_wf_snoc [OF Cons.prems conjunct1 [OF wf], of f] wf by (meson conjunct1 conjunct2)
      then show ?thesis using Cons.IH False Inr kt by (cases t) (simp_all add: utf8_text_def)
    qed
  qed
qed

lemma subscribe_loop_wf: "filters_wf fs \<Longrightarrow> res_all filters_wf (subscribe_loop b i fs)"
proof (induction b i fs rule: subscribe_loop.induct)
  case (1 b i fs)
  show ?case
  proof (cases "i < length b")
    case False
    then show ?thesis using "1.prems" by (simp add: subscribe_loop.simps [of b i fs])
  next
    case True
    show ?thesis
    proof (cases "parse_length_prefixed_bytes b i")
      case (Inl e)
      then show ?thesis using True by (simp add: subscribe_loop.simps [of b i fs])
    next
      case (Inr nf)
      obtain n f where nf: "nf = (n, f)" by force
      show ?thesis
      proof (cases "utf8_valid f")
        case False
        then show ?thesis using True Inr nf by (simp add: subscribe_loop.simps [of b i fs] utf8_text_def)
      next
        case valid: True
        have "filters_wf (AList.update f (slice (i + n) (i + n + 1) b) fs)"
          using "1.prems" valid by (simp add: filters_wf_def distinct_update dom_update)
        then show ?thesis
          using "1.IH" [OF True Inr nf [symmetric]] True Inr nf valid by (simp add: subscribe_loop.simps [of b i fs] utf8_text_def)
      qed
    qed
  qed
qed

section \<open>The packet\<close>

lemma nibble: "unat (drop_bit 4 b) < 16" for b :: byte
proof -
  have "unat b < 256" using unsigned_less [of b, where ?'a = nat] by simp
  then show ?thesis by (simp add: drop_bit_eq_div unat_div less_mult_imp_div_less)
qed

lemma low_bits: "unat (b AND 1) < 2" "unat (b AND 3) < 4" for b :: byte
proof -
  have "b AND 1 \<le> 1" "b AND 3 \<le> 3" by (rule word_and_le1)+
  then have "unat (b AND 1) \<le> unat (1 :: byte)" "unat (b AND 3) \<le> unat (3 :: byte)"
    by (simp_all only: word_le_nat_alt)
  then show "unat (b AND 1) < 2" "unat (b AND 3) < 4" by simp_all
qed

lemma start_fields: "mp_type (start b w x r) < 16" "flags_wf (start b w x r)"
  by (auto simp: start_def flags_wf_def parse_flags_def parse_packet_type_def low_bits nibble PUBLISH_def)

lemma packet_wf_fields:
  "packet_wf p \<Longrightarrow> mp_type p = CONNECT \<Longrightarrow> content_wf d \<Longrightarrow> packet_wf (p\<lparr>mp_content := d\<rparr>)"
  "packet_wf p \<Longrightarrow> mp_type p = SUBSCRIBE \<Longrightarrow> filters_wf fs \<Longrightarrow> packet_wf (p\<lparr>mp_filters := fs\<rparr>)"
  by (auto simp: packet_wf_def flags_wf_def)

lemma publish_headers_keep:
  "res_all (\<lambda>q. mp_type q = mp_type p \<and> mp_dup q = mp_dup p \<and> mp_qos q = mp_qos p \<and> mp_retain q = mp_retain p \<and>
    mp_content q = mp_content p \<and> mp_filters q = mp_filters p) (parse_publish_variable_headers p)"
  unfolding parse_publish_variable_headers_def Let_def by (rule res_all_bind) (simp split: prod.split)

lemma connect_headers_keep:
  "mp_type (parse_connect_variable_headers p) = mp_type p" "mp_dup (parse_connect_variable_headers p) = mp_dup p"
  "mp_qos (parse_connect_variable_headers p) = mp_qos p" "mp_retain (parse_connect_variable_headers p) = mp_retain p"
  "mp_content (parse_connect_variable_headers p) = mp_content p" "mp_payload (parse_connect_variable_headers p) = mp_payload p"
  "mp_filters (parse_connect_variable_headers p) = mp_filters p"
  by (simp_all add: parse_connect_variable_headers_def Let_def split: list.split)

text \<open>The three payloads, from a packet that is well formed but for the payload of a PUBLISH.\<close>

definition header_wf :: "mqtt_packet \<Rightarrow> bool" where
  "header_wf p \<longleftrightarrow> mp_type p < 16 \<and> flags_wf p \<and> mp_payload p = None \<and> mp_content p = [] \<and> mp_filters p = []"

lemma header_packet_wf: "header_wf p \<Longrightarrow> mp_type p \<noteq> PUBLISH \<Longrightarrow> packet_wf p"
  by (simp add: header_wf_def packet_wf_def content_wf_def filters_wf_def)

lemma connect_wf:
  assumes "header_wf s" "mp_type s = CONNECT"
  shows "res_all packet_wf (parse_connect_payload (parse_connect_variable_headers s))"
  unfolding parse_connect_payload_def
proof (rule res_all_bind, rule res_all_bind)
  let ?q = "parse_connect_variable_headers s"
  fix fs d assume "assign_fields ?q fs [] = Inr d"
  with content_wf_Nil(1) have "content_wf d" by (rule res_allD [OF assign_fields_wf])
  moreover have "header_wf ?q" using assms by (simp add: connect_headers_keep header_wf_def flags_wf_def CONNECT_def PUBLISH_def)
  ultimately show "res_all packet_wf (Inr (?q\<lparr>mp_content := d\<rparr>))"
    using header_packet_wf packet_wf_fields(1) assms(2) by (simp add: connect_headers_keep CONNECT_def PUBLISH_def)
qed

lemma publish_wf:
  assumes "header_wf s" "mp_type s = PUBLISH"
  shows "res_all packet_wf (res_bind (parse_publish_variable_headers s) (\<lambda>p. Inr (parse_publish_payload p)))"
proof (rule res_all_bind)
  fix p assume "parse_publish_variable_headers s = Inr p"
  then have p: "mp_type p = mp_type s" "mp_dup p = mp_dup s" "mp_qos p = mp_qos s" "mp_retain p = mp_retain s"
    "mp_content p = mp_content s" "mp_filters p = mp_filters s"
    using res_allD [OF publish_headers_keep] by blast+
  show "res_all packet_wf (Inr (parse_publish_payload p))"
    using assms by (simp add: p parse_publish_payload_def packet_wf_def header_wf_def flags_wf_def Let_def
        content_wf_def filters_wf_def)
qed

lemma subscribe_wf:
  assumes "header_wf s" "mp_type s = SUBSCRIBE"
  shows "res_all packet_wf (parse_subscribe_payload (parse_packet_identifier s))"
  unfolding parse_subscribe_payload_def
proof (rule res_all_bind)
  let ?q = "parse_packet_identifier s"
  fix fs assume "subscribe_loop (mp_packet ?q) (header_length ?q + 2) [] = Inr fs"
  with content_wf_Nil(2) have "filters_wf fs" by (rule res_allD [OF subscribe_loop_wf])
  moreover have "header_wf ?q" "mp_type ?q = SUBSCRIBE"
    using assms by (simp_all add: parse_packet_identifier_def Let_def header_wf_def flags_wf_def SUBSCRIBE_def PUBLISH_def)
  ultimately show "res_all packet_wf (Inr (?q\<lparr>mp_filters := fs\<rparr>))"
    using header_packet_wf packet_wf_fields(2) by (simp add: SUBSCRIBE_def PUBLISH_def)
qed

lemma body_wf: "res_all packet_wf (parse_body (start b w x r))"
proof -
  have "header_wf (start b w x r)"
    using start_fields [of b w x r] by (simp add: header_wf_def) (simp add: start_def split: prod.split)
  then show ?thesis
    using connect_wf publish_wf subscribe_wf header_packet_wf by (simp add: parse_body_def)
qed

lemma parsed_wf: "MQTTControlPacket b = Inr p \<Longrightarrow> packet_wf p"
proof -
  assume p: "MQTTControlPacket b = Inr p"
  obtain c bs where b: "b = c # bs" using p by (cases b) (auto simp: MQTTControlPacket_def)
  obtain r t where rt: "parse_remaining_length (c # bs) = Inr (r, t)"
    using p b constructor_error [of c bs] by (cases "parse_remaining_length (c # bs)") auto
  have "t \<le> length (c # bs)"
    using p b constructor_incomplete [OF rt] by (cases "t \<le> length (c # bs)") simp_all
  then show "packet_wf p" using p b constructor [OF rt] by (intro res_allD [OF body_wf]) auto
qed

end
