(* ===== verification/Certs.thy ===== *)
theory Certs
  imports Settings
begin

text \<open>
  The certificates (src/bumper/utils/certs.py; src/scripts/clean-domains.py holds the same
  domains and the same two functions): the tree of the domains, the wildcard names made from
  it, the names of the server certificate, and the generation of keys, certificates and files.
  What the cryptography package computes (keys, signatures, PEM texts) is a parameter; a
  certificate is known by what its builder was given and the key that signed it.
\<close>

section \<open>The domains\<close>

definition RAW_DOMAINS :: "string list" where
  "RAW_DOMAINS =
     [''a1zYhiMF5J3.iot-as-mqtt.cn-shanghai.aliyuncs.com'', ''mpush-api.aliyun.com'',
      ''sdk.openaccount.aliyun.com'', ''api.link.aliyun.com'', ''itls.eu-central-1.aliyuncs.com'',
      ''eu-central-1.aliyuncs.com'', ''ca.robotww.ecouser.net'', ''ca.robotcn.ecouser.net'',
      ''robotcn.ecouser.net'', ''dc.robotcn.ecouser.net'', ''area.robotww.ecouser.net'',
      ''area.robotcn.ecouser.net'', ''autodiscover.ecovacs.com'', ''cfjump.ecovacs.com'',
      ''checkout-au.ecovacs.com'', ''checkout-test.ecovacs.com'', ''checkout-uk.ecovacs.com'',
      ''comingsoon.ecovacs.com'', ''czjquw.ecovacs.com'', ''ecovacs.com'', ''eml.ecovacs.com'',
      ''www.eml.ecovacs.com'', ''exchange.ecovacs.com'', ''gl-de-api.ecovacs.com'',
      ''gl-de-openapi.ecovacs.com'', ''gl-us-pub.ecovacs.com'', ''mail.ecovacs.com'',
      ''parts-apac.ecovacs.com'', ''qdbdrg.ecovacs.com'', ''recommender.ecovacs.com'',
      ''sa-eu-datasink.ecovacs.com'', ''site-static.ecovacs.com'', ''store-de.ecovacs.com'',
      ''store-fr.ecovacs.com'', ''storehk.ecovacs.com'', ''store-it.ecovacs.com'',
      ''store-jp.ecovacs.com'', ''storesg.ecovacs.com'', ''store-uk.ecovacs.com'',
      ''usshop.ecovacs.com'', ''vpn.ecovacs.com'', ''dc-cn.bizcn.ecouser.net'',
      ''dc-as.bizww.ecouser.net'', ''dc-eu.bizww.ecouser.net'', ''dc-na.bizww.ecouser.net'',
      ''dc-cn.app.cn.ecouser.net'', ''area.cn.ecouser.net'', ''dc-cn.base.cn.ecouser.net'',
      ''cloud-ui.dc-cn.cloud.cn.ecouser.net'', ''dc-cn.cloud.cn.ecouser.net'', ''cn.ecouser.net'',
      ''cn.dc.cn.ecouser.net'', ''dc-cn.cn.ecouser.net'', ''dc.cn.ecouser.net'',
      ''dc-hq.cn.ecouser.net'', ''dc-cn.ngiot.cn.ecouser.net'', ''dc-cn.rapp.cn.ecouser.net'',
      ''dc-cn.rop.cn.ecouser.net'', ''dc.ecouser.net'', ''dev.ecouser.net'', ''dc-hq.devhq.ecouser.net'',
      ''dl.ecouser.net'', ''ecouser.net'', ''lb.ecouser.net'', ''lbo.ecouser.net'',
      ''msg-eu.ecouser.net'', ''portal-ww.ecouser.net'', ''portal-ww-qa1.ecouser.net'',
      ''portal-ww-qa.ecouser.net'', ''jmq-ngiot-eu.dc.robotww.ecouser.net'', ''api-app.ww.ecouser.net'',
      ''dc-as.app.ww.ecouser.net'', ''dc-eu.app.ww.ecouser.net'', ''dc-na.app.ww.ecouser.net'',
      ''area.ww.ecouser.net'', ''dc-as.base.ww.ecouser.net'', ''dc-eu.base.ww.ecouser.net'',
      ''dc-na.base.ww.ecouser.net'', ''cloud-ui.dc-as.cloud.ww.ecouser.net'',
      ''dc-as.cloud.ww.ecouser.net'', ''cloud-ui.dc-eu.cloud.ww.ecouser.net'',
      ''dc-eu.cloud.ww.ecouser.net'', ''cloud-ui.dc-na.cloud.ww.ecouser.net'',
      ''dc-na.cloud.ww.ecouser.net'', ''as.dc.ww.ecouser.net'', ''dc-as.ww.ecouser.net'',
      ''dc-aus.ww.ecouser.net'', ''dc.ww.ecouser.net'', ''api-app.dc-eu.ww.ecouser.net'',
      ''api-base.dc-eu.ww.ecouser.net'', ''api-ngiot.dc-eu.ww.ecouser.net'', ''dc-eu.ww.ecouser.net'',
      ''eis-nlp.dc-eu.ww.ecouser.net'', ''eu.dc.ww.ecouser.net'', ''users-base.dc-eu.ww.ecouser.net'',
      ''codepush-base.dc-na.ww.ecouser.net'', ''dc-na.ww.ecouser.net'', ''na.dc.ww.ecouser.net'',
      ''dc-as.ngiot.ww.ecouser.net'', ''dc-eu.ngiot.ww.ecouser.net'', ''dc-na.ngiot.ww.ecouser.net'',
      ''dc-as.rapp.ww.ecouser.net'', ''dc-eu.rapp.ww.ecouser.net'', ''dc-na.rapp.ww.ecouser.net'',
      ''dc-as.rop.ww.ecouser.net'', ''dc-eu.rop.ww.ecouser.net'', ''dc-na.rop.ww.ecouser.net'',
      ''ww.ecouser.net'', ''www.ecouser.net'']"

section \<open>The tree of the domains\<close>

text \<open>A dictionary from a label to the tree below it, in insertion order.\<close>

datatype dtree = Node "(string \<times> dtree) list"

fun insert_path :: "string list \<Rightarrow> dtree \<Rightarrow> dtree" where
  "insert_path [] t = t"
| "insert_path (part # ps) (Node cs) =
     Node (AList.update part (insert_path ps (case map_of cs part of None \<Rightarrow> Node [] | Some t \<Rightarrow> t)) cs)"

definition labels :: "string \<Rightarrow> string list" where
  "labels d = py_split (CHR ''.'') d"

definition dotted :: "string list \<Rightarrow> string" where
  "dotted ls = py_join ''.'' ls"

definition add_domain :: "string \<Rightarrow> (string \<times> dtree) list \<Rightarrow> (string \<times> dtree) list" where
  "add_domain d tree =
     (let parts = labels d in
      if length parts < 2 then tree
      else (let root = dotted (drop (length parts - 2) parts);
                subparts = take (length parts - 2) parts
            in AList.update root
                 (insert_path (rev subparts) (case map_of tree root of None \<Rightarrow> Node [] | Some t \<Rightarrow> t)) tree))"

definition build_domain_tree :: "string list \<Rightarrow> (string \<times> dtree) list" where
  "build_domain_tree domains = fold add_domain domains []"

section \<open>The wildcard names\<close>

definition wildcard :: "string list \<Rightarrow> string" where
  "wildcard parent_parts = ''*.'' @ dotted parent_parts"

definition add_wildcard :: "string list \<Rightarrow> string set \<Rightarrow> string set" where
  "add_wildcard parent_parts wildcard_set =
     (if parent_parts = [] then wildcard_set else insert (wildcard parent_parts) wildcard_set)"

fun generate_wildcards :: "string set \<Rightarrow> dtree \<Rightarrow> string list \<Rightarrow> string set"
  and generate_children :: "string set \<Rightarrow> (string \<times> dtree) list \<Rightarrow> string list \<Rightarrow> string set" where
  "generate_wildcards ws (Node cs) parent_parts =
     (if cs = [] then add_wildcard parent_parts ws
      else generate_children (add_wildcard parent_parts ws) cs parent_parts)"
| "generate_children ws [] parent_parts = ws"
| "generate_children ws ((child, t) # cs) parent_parts =
     generate_children (generate_wildcards ws t (child # parent_parts)) cs parent_parts"

text \<open>The loop over the roots, and the names in their order. \<open>build_san_list\<close> takes the domains.\<close>

definition wildcard_set :: "(string \<times> dtree) list \<Rightarrow> string set" where
  "wildcard_set tree = fold (\<lambda>(root, t) ws. generate_wildcards (insert root ws) t [root]) tree {}"

definition build_san_list :: "string list \<Rightarrow> string list" where
  "build_san_list domains =
     [''IP:127.0.0.1'', ''DNS:localhost''] @
     map (\<lambda>entry. ''DNS:'' @ entry) (sorted_list_of_set (wildcard_set (build_domain_tree domains)))"

datatype general_name = IPAddress string | DNSName string

fun parse_names :: "string list \<Rightarrow> general_name list" where
  "parse_names [] = []"
| "parse_names (san # sans) =
     (if py_startswith san ''IP:'' then IPAddress (drop 3 san) # parse_names sans
      else if py_startswith san ''DNS:'' then DNSName (drop 4 san) # parse_names sans
      else parse_names sans)"

definition parse_san_list :: "general_name list" where
  "parse_san_list = parse_names (build_san_list RAW_DOMAINS)"

section \<open>Keys and certificates\<close>

text \<open>What a certificate builder was given, and the key that signed it.\<close>

record certificate =
  ct_subject :: "(string \<times> string) list"
  ct_issuer :: "(string \<times> string) list"
  ct_public_key :: string
  ct_not_before :: int
  ct_not_after :: int
  ct_ca :: bool
  ct_key_usage :: "string list"
  ct_subject_key :: "string option"
  ct_server_auth :: bool
  ct_names :: "general_name list"

text \<open>
  The cryptography package: keys drawn one after the other, the public part of a key, signing
  (which also draws the serial number and checks the fields), the PEM texts; the clock in
  microseconds; and which directories can be made and which files written.
\<close>

record crypto =
  cr_ec :: "nat \<Rightarrow> string"
  cr_rsa :: "int \<Rightarrow> nat \<Rightarrow> string"
  cr_public :: "string \<Rightarrow> string"
  cr_sign :: "string \<Rightarrow> certificate \<Rightarrow> py_exc + string"
  cr_key_pem :: "string \<Rightarrow> string"
  cr_cert_pem :: "string \<Rightarrow> string"
  cr_now :: int
  cr_mkdir :: "string \<Rightarrow> bool"
  cr_write :: "string \<Rightarrow> bool"

text \<open>The files by their paths, the ones only the owner may read, the directories, the keys drawn so far.\<close>

record cert_world =
  cw_files :: "string \<rightharpoonup> string"
  cw_private :: "string set"
  cw_dirs :: "string set"
  cw_keys :: nat

definition generate_key :: "crypto \<Rightarrow> config \<Rightarrow> string \<Rightarrow> (cert_world, string) py" where
  "generate_key C cfg key_type =
     (if key_type = ''rsa'' then
        (if \<not> (2048 \<le> cert_rsa_key_size cfg \<and> cert_rsa_key_size cfg \<le> 4096) then py_raise ValueError
         else py_bind (py_gets cw_keys) (\<lambda>n. py_seq (py_modify (\<lambda>w. w\<lparr>cw_keys := n + 1\<rparr>))
           (py_ret (cr_rsa C (cert_rsa_key_size cfg) n))))
      else py_bind (py_gets cw_keys) (\<lambda>n. py_seq (py_modify (\<lambda>w. w\<lparr>cw_keys := n + 1\<rparr>)) (py_ret (cr_ec C n))))"

definition common_name :: "string \<Rightarrow> (string \<times> string) list" where
  "common_name cn = [(''ORGANIZATION_NAME'', ''ecovacs''), (''COMMON_NAME'', cn)]"

text \<open>\<open>now + timedelta(days=n)\<close>: too many days, or a date outside the years 1 to 9999, raise.\<close>

definition add_days :: "int \<Rightarrow> int \<Rightarrow> py_exc + int" where
  "add_days now days =
     (let t = now + days * 86400000000 in
      if \<bar>days\<bar> > 999999999 \<or> t < -62135596800000000 \<or> t > 253402300799999999 then Inl OverflowError else Inr t)"

definition ca_request :: "crypto \<Rightarrow> string \<Rightarrow> int \<Rightarrow> certificate" where
  "ca_request C key until =
     \<lparr>ct_subject = common_name ''ECOVACS CA'', ct_issuer = common_name ''ECOVACS CA'',
      ct_public_key = cr_public C key, ct_not_before = cr_now C, ct_not_after = until, ct_ca = True,
      ct_key_usage = [''key_cert_sign'', ''crl_sign''], ct_subject_key = Some (cr_public C key),
      ct_server_auth = False, ct_names = []\<rparr>"

definition server_request :: "crypto \<Rightarrow> string \<Rightarrow> (string \<times> string) list \<Rightarrow> int \<Rightarrow> certificate" where
  "server_request C key issuer until =
     \<lparr>ct_subject = common_name ''*.ecouser.net'', ct_issuer = issuer,
      ct_public_key = cr_public C key, ct_not_before = cr_now C, ct_not_after = until, ct_ca = False,
      ct_key_usage = [''digital_signature''], ct_subject_key = None,
      ct_server_auth = True, ct_names = parse_san_list\<rparr>"

text \<open>Both return the subject beside the signed certificate, which the next one takes as its issuer.\<close>

definition create_ca_certificate :: "crypto \<Rightarrow> config \<Rightarrow> string \<Rightarrow> py_exc + (string \<times> string) list \<times> string" where
  "create_ca_certificate C cfg k =
     res_bind (add_days (cr_now C) (ca_valid_days cfg)) (\<lambda>until.
     let r = ca_request C k until in
     res_bind (cr_sign C k r) (\<lambda>cert. Inr (ct_subject r, cert)))"

definition create_server_certificate ::
    "crypto \<Rightarrow> config \<Rightarrow> string \<Rightarrow> string \<Rightarrow> (string \<times> string) list \<times> string \<Rightarrow> py_exc + string" where
  "create_server_certificate C cfg k ca ca_crt =
     res_bind (add_days (cr_now C) (server_valid_days cfg)) (\<lambda>until.
     cr_sign C ca (server_request C k (fst ca_crt) until))"

section \<open>Files\<close>

definition write_bytes :: "crypto \<Rightarrow> string \<Rightarrow> string \<Rightarrow> (cert_world, unit) py" where
  "write_bytes C path b =
     (if cr_write C path then py_modify (\<lambda>w. w\<lparr>cw_files := (cw_files w)(path \<mapsto> b)\<rparr>) else py_raise OSError)"

definition write_key :: "crypto \<Rightarrow> string \<Rightarrow> string \<Rightarrow> (cert_world, unit) py" where
  "write_key C key path =
     py_seq (write_bytes C path (cr_key_pem C key))
       (py_modify (\<lambda>w. w\<lparr>cw_private := insert path (cw_private w)\<rparr>))"

definition write_cert :: "crypto \<Rightarrow> string \<Rightarrow> string \<Rightarrow> (cert_world, unit) py" where
  "write_cert C cert path = write_bytes C path (cr_cert_pem C cert)"

definition make_dir :: "crypto \<Rightarrow> string \<Rightarrow> (cert_world, unit) py" where
  "make_dir C path =
     (if cr_mkdir C path then py_modify (\<lambda>w. w\<lparr>cw_dirs := insert path (cw_dirs w)\<rparr>) else py_raise OSError)"

text \<open>\<open>p.parent\<close> of a normalised path; paths are ordered by their parts.\<close>

definition parent :: "string \<Rightarrow> string" where
  "parent path =
     (let parts = py_split (CHR ''/'') path in
      if length parts = 1 then ''.''
      else if butlast parts = [[]] then ''/'' else py_join ''/'' (butlast parts))"

definition ca_pem_path :: "config \<Rightarrow> string" where
  "ca_pem_path cfg = path_join (certs_dir cfg) ''ca.pem''"

definition parent_dirs :: "config \<Rightarrow> string list" where
  "parent_dirs cfg = sort_key (py_split (CHR ''/'')) (remdups (map parent
     [ca_pem_path cfg, ca_cert cfg, ca_key cfg, server_cert cfg, server_key cfg]))"

definition have_certificates :: "config \<Rightarrow> cert_world \<Rightarrow> bool" where
  "have_certificates cfg w \<longleftrightarrow>
     list_all (\<lambda>p. cw_files w p \<noteq> None) [ca_cert cfg, server_cert cfg, server_key cfg]"

text \<open>The part of \<open>generate_certificates\<close> after its checks.\<close>

definition new_certificates :: "crypto \<Rightarrow> config \<Rightarrow> (cert_world, unit) py" where
  "new_certificates C cfg =
     py_seq (py_for (parent_dirs cfg) (make_dir C))
       (py_bind (generate_key C cfg (cert_key_type cfg)) (\<lambda>k0.
        py_bind (py_of (create_ca_certificate C cfg k0)) (\<lambda>ca.
        py_seq (write_key C k0 (ca_key cfg))
       (py_seq (write_cert C (snd ca) (ca_cert cfg))
       (py_bind (generate_key C cfg (cert_key_type cfg)) (\<lambda>k1.
        py_bind (py_of (create_server_certificate C cfg k1 k0 ca)) (\<lambda>crt.
        py_seq (write_key C k1 (server_key cfg))
       (py_seq (write_cert C crt (server_cert cfg))
       (write_bytes C (ca_pem_path cfg)
          (cr_key_pem C k1 @ cr_cert_pem C crt @ cr_cert_pem C (snd ca)))))))))))"

definition generate_certificates :: "crypto \<Rightarrow> config \<Rightarrow> (cert_world, bool) py" where
  "generate_certificates C cfg =
     (if cert_key_type cfg \<notin> {''ec'', ''rsa''} then py_raise ValueError
      else py_bind (py_gets (have_certificates cfg)) (\<lambda>have_all.
        if have_all then py_ret False else py_seq (new_certificates C cfg) (py_ret True)))"

end
