(* ===== verification/Certs_Laws.thy ===== *)
theory Certs_Laws
  imports Certs
begin

text \<open>
  The laws of the certificates: the tree of the domains holds exactly the paths of the domains,
  the wildcard names are exactly those of their suffixes, and which hosts the names cover.
\<close>

section \<open>Paths\<close>

fun paths :: "dtree \<Rightarrow> string list set" and child_paths :: "(string \<times> dtree) list \<Rightarrow> string list set" where
  "paths (Node cs) = insert [] (child_paths cs)"
| "child_paths [] = {}"
| "child_paths ((c, t) # cs) = (#) c ` paths t \<union> child_paths cs"

lemma Nil_in_paths [simp]: "[] \<in> paths t"
  by (cases t) simp

lemma child_paths_update:
  assumes "\<And>u. map_of cs p = Some u \<Longrightarrow> paths u \<subseteq> paths t"
  shows "child_paths (AList.update p t cs) = child_paths cs \<union> (#) p ` paths t"
  using assms
proof (induction cs)
  case Nil
  then show ?case by simp
next
  case (Cons x cs)
  obtain c u where x: "x = (c, u)" by force
  show ?case
  proof (cases "c = p")
    case True
    with Cons.prems x have "paths u \<subseteq> paths t" by simp
    then show ?thesis using True x by auto
  next
    case False
    then show ?thesis using Cons x by auto
  qed
qed

lemma paths_insert: "paths (insert_path ps t) = paths t \<union> set (prefixes ps)"
proof (induction ps t rule: insert_path.induct)
  case (1 t)
  then show ?case by (auto simp: insert_absorb)
next
  case (2 part ps cs)
  let ?old = "case map_of cs part of None \<Rightarrow> Node [] | Some t \<Rightarrow> t"
  have old: "paths (insert_path ps ?old) = paths ?old \<union> set (prefixes ps)" by (rule "2.IH")
  have "child_paths (AList.update part (insert_path ps ?old) cs) = child_paths cs \<union> (#) part ` paths (insert_path ps ?old)"
    by (rule child_paths_update) (use old in auto)
  moreover have "(#) part ` paths ?old \<subseteq> child_paths cs \<union> {[part]}"
  proof (cases "map_of cs part")
    case None
    then show ?thesis by simp
  next
    case (Some u)
    then show ?thesis by (induction cs) (auto split: if_splits)
  qed
  moreover have "set (prefixes (part # ps)) = insert [] ((#) part ` set (prefixes ps))"
    by simp
  ultimately show ?case using old by (auto simp: image_Un)
qed

text \<open>The path of a domain: its root, then the labels before it from right to left.\<close>

definition domain_path :: "string \<Rightarrow> string list" where
  "domain_path d =
     (let parts = labels d in
      dotted (drop (length parts - 2) parts) # rev (take (length parts - 2) parts))"

lemma add_domain_path:
  "add_domain d tree = (if length (labels d) < 2 then tree
     else case insert_path (domain_path d) (Node tree) of Node cs \<Rightarrow> cs)"
  by (simp add: add_domain_def domain_path_def Let_def)

lemma child_paths_add:
  "insert [] (child_paths (add_domain d tree)) =
    insert [] (child_paths tree) \<union> (if length (labels d) < 2 then {} else set (prefixes (domain_path d)))"
  using paths_insert [of "domain_path d" "Node tree"]
  by (cases "insert_path (domain_path d) (Node tree)") (simp add: add_domain_path)

lemma tree_paths:
  "insert [] (child_paths (fold add_domain ds tree)) =
    insert [] (child_paths tree) \<union> (\<Union>d \<in> {d \<in> set ds. 2 \<le> length (labels d)}. set (prefixes (domain_path d)))"
proof (induction ds arbitrary: tree)
  case Nil
  then show ?case by simp
next
  case (Cons d ds)
  have "insert [] (child_paths (fold add_domain (d # ds) tree)) = insert [] (child_paths (add_domain d tree)) \<union>
      (\<Union>d \<in> {d \<in> set ds. 2 \<le> length (labels d)}. set (prefixes (domain_path d)))"
    using Cons.IH by simp
  also have "\<dots> = insert [] (child_paths tree) \<union>
      (\<Union>d \<in> {e \<in> set (d # ds). 2 \<le> length (labels e)}. set (prefixes (domain_path d)))"
    unfolding child_paths_add by (cases "length (labels d) < 2") auto
  finally show ?case .
qed

section \<open>Wildcards\<close>

lemma generate_wildcards_paths:
  "parents \<noteq> [] \<Longrightarrow> generate_wildcards ws t parents = ws \<union> (\<lambda>q. wildcard (rev q @ parents)) ` paths t"
  "parents \<noteq> [] \<Longrightarrow> generate_children ws cs parents = ws \<union> (\<lambda>q. wildcard (rev q @ parents)) ` child_paths cs"
proof (induction ws t parents and ws cs parents rule: generate_wildcards_generate_children.induct)
  case (1 ws cs parents)
  then show ?case by (auto simp: add_wildcard_def)
next
  case (2 ws parents)
  then show ?case by simp
next
  case (3 ws child t cs parents)
  then show ?case by (simp add: image_Un image_image Un_assoc)
qed

lemma wildcard_set_paths:
  "wildcard_set tree = fst ` set tree \<union> (\<lambda>(r, q). wildcard (rev q @ [r])) ` {(r, q). r # q \<in> child_paths tree}"
proof -
  have "fold (\<lambda>(root, t) ws. generate_wildcards (insert root ws) t [root]) tree ws
      = ws \<union> fst ` set tree \<union> (\<lambda>(r, q). wildcard (rev q @ [r])) ` {(r, q). r # q \<in> child_paths tree}" for ws
  proof (induction tree arbitrary: ws)
    case Nil
    then show ?case by simp
  next
    case (Cons x tree)
    obtain r t where x: "x = (r, t)" by force
    have "{(r', q). r' # q \<in> child_paths ((r, t) # tree)} = Pair r ` paths t \<union> {(r, q). r # q \<in> child_paths tree}"
      by auto
    then show ?case
      using generate_wildcards_paths(1) [of "[r]" "insert r ws" t]
      by (simp add: Cons.IH x image_Un image_image) blast
  qed
  from this [of "{}"] show ?thesis by (simp add: wildcard_set_def)
qed

lemma roots_of_paths: "fst ` set tree = {r. [r] \<in> child_paths tree}"
  by (induction tree) auto

text \<open>The names that are written: every root, and a wildcard above every part of a path.\<close>

lemma wildcard_set_domains:
  "wildcard_set (build_domain_tree ds) =
    {r. \<exists>d \<in> set ds. 2 \<le> length (labels d) \<and> r = hd (domain_path d)} \<union>
    {wildcard (rev p) |p d. d \<in> set ds \<and> 2 \<le> length (labels d) \<and> prefix p (domain_path d) \<and> p \<noteq> []}"
proof -
  let ?tree = "build_domain_tree ds"
  have in_tree: "p \<in> child_paths ?tree \<longleftrightarrow> (\<exists>d \<in> set ds. 2 \<le> length (labels d) \<and> prefix p (domain_path d))"
    if "p \<noteq> []" for p
  proof -
    have "p \<in> child_paths ?tree \<longleftrightarrow> p \<in> insert [] (child_paths ?tree)" using that by blast
    also have "\<dots> \<longleftrightarrow> p \<in> (\<Union>d \<in> {d \<in> set ds. 2 \<le> length (labels d)}. set (prefixes (domain_path d)))"
      unfolding build_domain_tree_def tree_paths using that by simp
    finally show ?thesis by auto
  qed
  have "fst ` set ?tree = {r. \<exists>d \<in> set ds. 2 \<le> length (labels d) \<and> r = hd (domain_path d)}"
  proof -
    have "prefix [r] (domain_path d) \<longleftrightarrow> r = hd (domain_path d)" for r d
      by (cases "domain_path d") (auto simp: domain_path_def Let_def)
    then show ?thesis unfolding roots_of_paths by (simp add: in_tree)
  qed
  moreover have "(\<lambda>(r, q). wildcard (rev q @ [r])) ` {(r, q). r # q \<in> child_paths ?tree}
    = {wildcard (rev p) |p d. d \<in> set ds \<and> 2 \<le> length (labels d) \<and> prefix p (domain_path d) \<and> p \<noteq> []}"
    (is "?A = ?B")
  proof (rule set_eqI, rule iffI)
    fix w assume "w \<in> ?A"
    then obtain r q where w: "w = wildcard (rev (r # q))" and "r # q \<in> child_paths ?tree" by auto
    then obtain d where "d \<in> set ds" "2 \<le> length (labels d)" "prefix (r # q) (domain_path d)"
      using in_tree [of "r # q"] by blast
    then show "w \<in> ?B" unfolding w by (intro CollectI exI [of _ "r # q"] exI [of _ d]) simp
  next
    fix w assume "w \<in> ?B"
    then obtain p d where p: "w = wildcard (rev p)" "p \<noteq> []"
      and "d \<in> set ds" "2 \<le> length (labels d)" "prefix p (domain_path d)" by blast
    then have "p \<in> child_paths ?tree" using in_tree [of p] by blast
    moreover obtain r q where "p = r # q" using p(2) by (cases p) auto
    ultimately show "w \<in> ?A" using p(1) by (intro image_eqI [of _ _ "(r, q)"]) simp_all
  qed
  ultimately show ?thesis unfolding wildcard_set_paths by simp
qed

text \<open>Joining with a joined tail is joining everything.\<close>

lemma dotted_append: "ys \<noteq> [] \<Longrightarrow> dotted (xs @ [dotted ys]) = dotted (xs @ ys)"
proof (induction xs)
  case Nil
  then show ?case by (simp add: dotted_def)
next
  case (Cons x xs)
  then show ?case by (cases xs; cases ys) (auto simp: dotted_def)
qed

definition root_of :: "string \<Rightarrow> string" where
  "root_of d = dotted (drop (length (labels d) - 2) (labels d))"

lemma wildcards_of_path:
  assumes "2 \<le> length (labels d)"
  shows "{wildcard (rev p) |p. prefix p (domain_path d) \<and> p \<noteq> []}
    = {wildcard s |s. suffix s (labels d) \<and> 2 \<le> length s}" (is "?A = ?B")
proof -
  let ?n = "length (labels d) - 2"
  have ne: "drop ?n (labels d) \<noteq> []" using assms by simp
  have path: "domain_path d = root_of d # rev (take ?n (labels d))" by (simp add: domain_path_def root_of_def Let_def)
  have w: "wildcard (rev (root_of d # q)) = wildcard (rev q @ drop ?n (labels d))" for q
    using dotted_append [OF ne] by (simp add: wildcard_def root_of_def)
  show ?thesis
  proof (rule set_eqI, rule iffI)
    fix x assume "x \<in> ?A"
    then obtain q where x: "x = wildcard (rev (root_of d # q))" and q: "prefix q (rev (take ?n (labels d)))"
      unfolding path by (auto simp: prefix_Cons)
    then have "suffix (rev q) (take ?n (labels d))" by (simp add: suffix_to_prefix)
    then have "suffix (rev q @ drop ?n (labels d)) (labels d)"
      by (metis append_take_drop_id same_suffix_suffix)
    then show "x \<in> ?B" using x w assms by (intro CollectI exI [of _ "rev q @ drop ?n (labels d)"]) simp
  next
    fix x assume "x \<in> ?B"
    then obtain s where x: "x = wildcard s" and s: "suffix s (labels d)" "2 \<le> length s" by blast
    let ?q = "rev (take (length s - 2) s)"
    obtain us where us: "labels d = us @ s" using s(1) by (auto simp: suffix_def)
    then have "drop ?n (labels d) = drop (length s - 2) s" "take ?n (labels d) = us @ take (length s - 2) s"
      using s(2) by simp_all
    then have "s = rev ?q @ drop ?n (labels d)" "prefix ?q (rev (take ?n (labels d)))" by simp_all
    then have "x = wildcard (rev (root_of d # ?q))" "prefix (root_of d # ?q) (domain_path d)"
      using x w [of ?q] by (simp_all add: path)
    then show "x \<in> ?A" by blast
  qed
qed

text \<open>The reference: the roots, and a wildcard for every suffix of two or more labels.\<close>

definition certified :: "string list \<Rightarrow> string set" where
  "certified ds = {root_of d |d. d \<in> set ds \<and> 2 \<le> length (labels d)} \<union>
     {wildcard s |s d. d \<in> set ds \<and> suffix s (labels d) \<and> 2 \<le> length s}"

lemma wildcard_set_certified: "wildcard_set (build_domain_tree ds) = certified ds"
proof -
  have "hd (domain_path d) = root_of d" for d by (simp add: domain_path_def root_of_def Let_def)
  then have "{r. \<exists>d \<in> set ds. 2 \<le> length (labels d) \<and> r = hd (domain_path d)}
      = {root_of d |d. d \<in> set ds \<and> 2 \<le> length (labels d)}" by auto
  moreover have "{wildcard (rev p) |p d. d \<in> set ds \<and> 2 \<le> length (labels d) \<and> prefix p (domain_path d) \<and> p \<noteq> []}
      = (\<Union>d \<in> {d \<in> set ds. 2 \<le> length (labels d)}. {wildcard (rev p) |p. prefix p (domain_path d) \<and> p \<noteq> []})"
    by blast
  moreover have "\<dots> = (\<Union>d \<in> {d \<in> set ds. 2 \<le> length (labels d)}. {wildcard s |s. suffix s (labels d) \<and> 2 \<le> length s})"
    using wildcards_of_path by simp
  moreover have "\<dots> = {wildcard s |s d. d \<in> set ds \<and> suffix s (labels d) \<and> 2 \<le> length s}"
    using suffix_length_le by force
  ultimately show ?thesis unfolding wildcard_set_domains certified_def by simp
qed

lemma finite_certified: "finite (certified ds)"
proof -
  have "finite (\<Union>d \<in> set ds. {s. suffix s (labels d)})"
    by (auto simp: set_suffixes_eq [symmetric])
  then have "finite (wildcard ` (\<Union>d \<in> set ds. {s. suffix s (labels d)}))" by (rule finite_imageI)
  moreover have "{wildcard s |s d. d \<in> set ds \<and> suffix s (labels d) \<and> 2 \<le> length s}
      \<subseteq> wildcard ` (\<Union>d \<in> set ds. {s. suffix s (labels d)})" by blast
  ultimately have "finite {wildcard s |s d. d \<in> set ds \<and> suffix s (labels d) \<and> 2 \<le> length s}"
    by (rule finite_subset [rotated])
  moreover have "finite {root_of d |d. d \<in> set ds \<and> 2 \<le> length (labels d)}" by simp
  ultimately show ?thesis by (simp add: certified_def)
qed

section \<open>Which hosts are covered\<close>

lemma set_parse_names: "DNSName n \<in> set (parse_names (map (\<lambda>e. ''DNS:'' @ e) es)) \<longleftrightarrow> n \<in> set es"
  by (induction es) (auto simp: py_startswith_def)

lemmas set_parse_dns = set_parse_names [simplified]

lemma parse_san_names: "DNSName n \<in> set parse_san_list \<longleftrightarrow> n = ''localhost'' \<or> n \<in> certified RAW_DOMAINS"
  using finite_certified [of RAW_DOMAINS]
  by (auto simp: parse_san_list_def build_san_list_def wildcard_set_certified py_startswith_def set_parse_dns)

definition dns_matches :: "string \<Rightarrow> string \<Rightarrow> bool" where
  "dns_matches pattern host \<longleftrightarrow> pattern = host \<or>
     (case py_split1 (CHR ''.'') host of
        (l, Some rest) \<Rightarrow> l \<noteq> [] \<and> pattern = ''*.'' @ rest
      | _ \<Rightarrow> False)"

definition covered :: "general_name list \<Rightarrow> string \<Rightarrow> bool" where
  "covered names host \<longleftrightarrow> (\<exists>p. DNSName p \<in> set names \<and> dns_matches p host)"

lemma labels_ne [simp]: "labels h \<noteq> []"
  by (simp add: labels_def)

lemma dotted_labels [simp]: "dotted (labels h) = h"
  by (simp add: dotted_def labels_def py_join_split)

lemma no_dot_in_labels: "l \<in> set (labels h) \<Longrightarrow> CHR ''.'' \<notin> set l"
  unfolding labels_def by (rule py_split_parts_no_sep)

lemma labels_dotted: "s \<noteq> [] \<Longrightarrow> \<forall>l \<in> set s. CHR ''.'' \<notin> set l \<Longrightarrow> labels (dotted s) = s"
  unfolding labels_def dotted_def by (rule py_split_join)

lemma dotted_Cons: "s \<noteq> [] \<Longrightarrow> dotted (l # s) = l @ CHR ''.'' # dotted s"
  by (cases s) (simp_all add: dotted_def)

lemma labels_wildcard: "s \<noteq> [] \<Longrightarrow> \<forall>l \<in> set s. CHR ''.'' \<notin> set l \<Longrightarrow> labels (wildcard s) = ''*'' # s"
  using labels_dotted [of "''*'' # s"] by (auto simp: wildcard_def dotted_Cons)

text \<open>The split of a host at its first dot.\<close>

lemma split1_host:
  "py_split1 (CHR ''.'') h = (hd (labels h), if tl (labels h) = [] then None else Some (dotted (tl (labels h))))"
proof (cases "tl (labels h) = []")
  case True
  then have l: "labels h = [hd (labels h)]" using list.collapse [OF labels_ne [of h]] by simp
  then have h: "hd (labels h) = h" using dotted_labels [of h] by (metis dotted_def py_join.simps(2))
  moreover have "CHR ''.'' \<notin> set h" using no_dot_in_labels [OF list.set_sel(1) [OF labels_ne]] h by metis
  ultimately show ?thesis using True by (simp add: py_split1_no_sep)
next
  case False
  have "h = hd (labels h) @ CHR ''.'' # dotted (tl (labels h))"
    using dotted_Cons [OF False, of "hd (labels h)"] by simp
  moreover have "CHR ''.'' \<notin> set (hd (labels h))" using no_dot_in_labels [of "hd (labels h)" h] by simp
  ultimately show ?thesis using False by (metis py_split1_append)
qed

lemma suffix_no_dot: "suffix s (labels d) \<Longrightarrow> \<forall>l \<in> set s. CHR ''.'' \<notin> set l"
  using no_dot_in_labels by (meson set_mono_suffix subsetD)

lemma no_wildcard_root: "d \<in> set RAW_DOMAINS \<Longrightarrow> \<not> prefix ''*.'' (root_of d)"
proof -
  have "list_all (\<lambda>d. \<not> prefix ''*.'' (root_of d)) RAW_DOMAINS" by code_simp
  then show "d \<in> set RAW_DOMAINS \<Longrightarrow> \<not> prefix ''*.'' (root_of d)"
    unfolding list_all_iff by blast
qed

lemma covered_exact:
  "covered parse_san_list h \<longleftrightarrow> h = ''localhost'' \<or> (\<exists>d \<in> set RAW_DOMAINS. 2 \<le> length (labels d) \<and> h = root_of d) \<or>
    (\<exists>d \<in> set RAW_DOMAINS. suffix (tl (labels h)) (labels d) \<and> 2 \<le> length (tl (labels h)) \<and> hd (labels h) \<noteq> [])"
  (is "?L \<longleftrightarrow> ?local \<or> ?root \<or> ?wild")
proof
  assume ?L
  then obtain p where p: "p = ''localhost'' \<or> p \<in> certified RAW_DOMAINS" "dns_matches p h"
    unfolding covered_def parse_san_names by blast
  consider "p = h" | "hd (labels h) \<noteq> []" "tl (labels h) \<noteq> []" "p = ''*.'' @ dotted (tl (labels h))"
    using p(2) by (auto simp: dns_matches_def split1_host split: if_splits)
  then show "?local \<or> ?root \<or> ?wild"
  proof cases
    case 1
    { fix s d assume s: "d \<in> set RAW_DOMAINS" "suffix s (labels d)" "2 \<le> length s" "h = wildcard s"
      then have "s \<noteq> []" by auto
      then have "labels h = ''*'' # s" using labels_wildcard suffix_no_dot s by blast
      then have ?wild using s by (intro bexI [of _ d]) simp_all }
    then show ?thesis using p(1) 1 unfolding certified_def by blast
  next
    case 2
    then have "p \<noteq> ''localhost''" by auto
    moreover have "p \<noteq> root_of d" if "d \<in> set RAW_DOMAINS" for d
      using no_wildcard_root [OF that] 2(3) by (metis prefixI)
    ultimately obtain s d where s: "d \<in> set RAW_DOMAINS" "suffix s (labels d)" "2 \<le> length s" "p = wildcard s"
      using p(1) unfolding certified_def by blast
    then have "dotted s = dotted (tl (labels h))" using 2 by (simp add: wildcard_def)
    moreover have "s \<noteq> []" using s(3) by auto
    moreover have "\<forall>l \<in> set (tl (labels h)). CHR ''.'' \<notin> set l"
      using no_dot_in_labels by (meson list.set_sel(2) labels_ne)
    ultimately have "s = tl (labels h)" using labels_dotted 2(2) suffix_no_dot [OF s(2)] by metis
    then show ?thesis using s 2 by blast
  qed
next
  assume "?local \<or> ?root \<or> ?wild"
  then show ?L
  proof (elim disjE)
    assume ?local
    then show ?L unfolding covered_def parse_san_names by (intro exI [of _ h]) (simp add: dns_matches_def)
  next
    assume ?root
    then show ?L unfolding covered_def parse_san_names
      by (intro exI [of _ h]) (auto simp: dns_matches_def certified_def)
  next
    assume ?wild
    then obtain d where d: "d \<in> set RAW_DOMAINS" "suffix (tl (labels h)) (labels d)" "2 \<le> length (tl (labels h))"
      and "hd (labels h) \<noteq> []" by blast
    moreover have "tl (labels h) \<noteq> []" using d(3) by (cases "tl (labels h)") simp_all
    moreover have "wildcard (tl (labels h)) \<in> certified RAW_DOMAINS" using d unfolding certified_def by blast
    ultimately have "wildcard (tl (labels h)) \<in> certified RAW_DOMAINS" "tl (labels h) \<noteq> []" "hd (labels h) \<noteq> []" by blast+
    then show ?L unfolding covered_def parse_san_names
      by (intro exI [of _ "wildcard (tl (labels h))"]) (simp add: dns_matches_def split1_host wildcard_def)
  qed
qed

lemma raw_labels: "d \<in> set RAW_DOMAINS \<Longrightarrow> 2 \<le> length (labels d) \<and> hd (labels d) \<noteq> []"
proof -
  have "list_all (\<lambda>d. 2 \<le> length (labels d) \<and> hd (labels d) \<noteq> []) RAW_DOMAINS" by code_simp
  then show "d \<in> set RAW_DOMAINS \<Longrightarrow> 2 \<le> length (labels d) \<and> hd (labels d) \<noteq> []"
    unfolding list_all_iff by blast
qed

lemma covered_raw:
  assumes d: "d \<in> set RAW_DOMAINS"
  shows "covered parse_san_list d"
proof (cases "length (labels d) = 2")
  case True
  then have "d = root_of d" by (simp add: root_of_def)
  then show ?thesis unfolding covered_exact using d raw_labels [OF d] by blast
next
  case False
  then have "2 < length (labels d)" using raw_labels [OF d] by linarith
  then have "2 \<le> length (tl (labels d))" by simp
  moreover have "suffix (tl (labels d)) (labels d)" by (simp add: suffix_tl)
  ultimately show ?thesis unfolding covered_exact using d raw_labels [OF d] by blast
qed

section \<open>Generation\<close>

lemma run_dirs:
  "\<forall>d \<in> set ds. cr_mkdir C d \<Longrightarrow> py_for ds (make_dir C) w = (Inr (), w\<lparr>cw_dirs := cw_dirs w \<union> set ds\<rparr>)"
  by (induction ds arbitrary: w) (simp_all add: py_run make_dir_def)

text \<open>The key that is drawn next.\<close>

definition next_key :: "crypto \<Rightarrow> config \<Rightarrow> nat \<Rightarrow> string" where
  "next_key C cfg n = (if cert_key_type cfg = ''rsa'' then cr_rsa C (cert_rsa_key_size cfg) n else cr_ec C n)"

definition key_size_ok :: "config \<Rightarrow> bool" where
  "key_size_ok cfg \<longleftrightarrow> (cert_key_type cfg = ''rsa'' \<longrightarrow> 2048 \<le> cert_rsa_key_size cfg \<and> cert_rsa_key_size cfg \<le> 4096)"

lemma run_key:
  "key_size_ok cfg \<Longrightarrow> generate_key C cfg (cert_key_type cfg) w = (Inr (next_key C cfg (cw_keys w)), w\<lparr>cw_keys := cw_keys w + 1\<rparr>)"
  by (auto simp: generate_key_def py_run next_key_def key_size_ok_def)

lemma run_no_key:
  "\<not> key_size_ok cfg \<Longrightarrow> generate_key C cfg (cert_key_type cfg) w = (Inl ValueError, w)"
  by (auto simp: generate_key_def py_run key_size_ok_def)

lemma generate_success:
  assumes "cert_key_type cfg \<in> {''ec'', ''rsa''}" "key_size_ok cfg" "\<not> have_certificates cfg w"
    and dirs: "\<forall>d \<in> set (parent_dirs cfg). cr_mkdir C d"
    and writes: "\<forall>p \<in> {ca_key cfg, ca_cert cfg, server_key cfg, server_cert cfg, ca_pem_path cfg}. cr_write C p"
    and days: "add_days (cr_now C) (ca_valid_days cfg) = Inr t0" "add_days (cr_now C) (server_valid_days cfg) = Inr t1"
    and keys: "k0 = next_key C cfg (cw_keys w)" "k1 = next_key C cfg (cw_keys w + 1)"
    and ca: "cr_sign C k0 (ca_request C k0 t0) = Inr ca"
    and crt: "cr_sign C k0 (server_request C k1 (common_name ''ECOVACS CA'') t1) = Inr crt"
  shows "generate_certificates C cfg w = (Inr True,
    \<lparr>cw_files = (cw_files w)(ca_key cfg \<mapsto> cr_key_pem C k0, ca_cert cfg \<mapsto> cr_cert_pem C ca,
       server_key cfg \<mapsto> cr_key_pem C k1, server_cert cfg \<mapsto> cr_cert_pem C crt,
       ca_pem_path cfg \<mapsto> cr_key_pem C k1 @ cr_cert_pem C crt @ cr_cert_pem C ca),
     cw_private = cw_private w \<union> {ca_key cfg, server_key cfg},
     cw_dirs = cw_dirs w \<union> set (parent_dirs cfg), cw_keys = cw_keys w + 2\<rparr>)"
proof -
  have "create_ca_certificate C cfg k0 = Inr (common_name ''ECOVACS CA'', ca)"
    by (simp add: create_ca_certificate_def days Let_def ca) (simp add: ca_request_def)
  moreover have "create_server_certificate C cfg k1 k0 (common_name ''ECOVACS CA'', ca) = Inr crt"
    by (simp add: create_server_certificate_def days crt)
  ultimately show ?thesis
    using assms(1,3) writes run_dirs [OF dirs, of w] keys
    by (cases w) (simp add: generate_certificates_def new_certificates_def py_run run_key [OF assms(2)] write_key_def write_cert_def
        write_bytes_def insert_commute)
qed

section \<open>A second run\<close>

definition exists_file :: "string \<Rightarrow> cert_world \<Rightarrow> bool" where
  "exists_file p w \<longleftrightarrow> cw_files w p \<noteq> None"

lemma keeps_exists:
  "keeps (exists_file p) (write_bytes C q b)" "keeps (exists_file p) (write_key C k q)"
  "keeps (exists_file p) (write_cert C c q)" "keeps (exists_file p) (make_dir C q)"
  "keeps (exists_file p) (generate_key C cfg t)"
  by (simp_all add: keeps_def write_bytes_def write_key_def write_cert_def make_dir_def generate_key_def exists_file_def py_run)

lemma writes_establish:
  "establishes (exists_file p) (write_bytes C p b)" "establishes (exists_file p) (write_key C k p)"
  "establishes (exists_file p) (write_cert C c p)"
  by (simp_all add: establishes_def write_bytes_def write_key_def write_cert_def exists_file_def py_run)

lemmas keep_rules = keeps_rules keeps_exists

lemma new_certificates_exist:
  "establishes (exists_file (ca_cert cfg)) (new_certificates C cfg)"
  "establishes (exists_file (server_key cfg)) (new_certificates C cfg)"
  "establishes (exists_file (server_cert cfg)) (new_certificates C cfg)"
proof -
  note later = establishes_later establishes_seq(2)
  show "establishes (exists_file (ca_cert cfg)) (new_certificates C cfg)" unfolding new_certificates_def
    by (rule later(2), (rule later(1))+, rule later(2), rule establishes_seq(1) [OF writes_establish(3)])
      (intro keep_rules)
  show "establishes (exists_file (server_key cfg)) (new_certificates C cfg)" unfolding new_certificates_def
    by (rule later(2), (rule later(1))+, (rule later(2))+, (rule later(1))+,
        rule establishes_seq(1) [OF writes_establish(2)]) (intro keep_rules)
  show "establishes (exists_file (server_cert cfg)) (new_certificates C cfg)" unfolding new_certificates_def
    by (rule later(2), (rule later(1))+, (rule later(2))+, (rule later(1))+, rule later(2),
        rule establishes_seq(1) [OF writes_establish(3)]) (intro keep_rules)
qed

lemma second_run:
  assumes "generate_certificates C cfg w = (Inr b, w')"
  shows "generate_certificates C cfg w' = (Inr False, w')"
proof -
  have t: "cert_key_type cfg \<in> {''ec'', ''rsa''}"
    by (rule ccontr) (use assms in \<open>simp add: generate_certificates_def py_raise_def\<close>)
  have "have_certificates cfg w'"
  proof (cases "have_certificates cfg w")
    case True
    with assms t show ?thesis by (auto simp: generate_certificates_def py_run)
  next
    case False
    then obtain u where u: "new_certificates C cfg w = (Inr u, w')"
      using assms t by (auto simp: generate_certificates_def py_run split: prod.splits sum.splits)
    then have "exists_file (ca_cert cfg) w'" "exists_file (server_key cfg) w'" "exists_file (server_cert cfg) w'"
      using establishesD [OF new_certificates_exist(1) u] establishesD [OF new_certificates_exist(2) u]
        establishesD [OF new_certificates_exist(3) u] by simp_all
    then show ?thesis by (simp add: have_certificates_def exists_file_def)
  qed
  with t show ?thesis by (auto simp: generate_certificates_def py_run)
qed

end
