(* ===== verification/Logging.thy ===== *)
theory Logging
  imports Settings
begin

text \<open>
  The set-up of the logging (src/bumper/utils/log_helper.py): levels, the loggers and their
  handlers, and the four filters. Handlers and filters are known by numbers and kinds; the
  colouring package only installs a handler and is not modelled.
\<close>

section \<open>Levels\<close>

text \<open>A level is a name or a number; \<open>getLevelName\<close> goes from either to the other.\<close>

datatype level = Level_Name string | Level_Number int

definition level_numbers :: "(string \<times> int) list" where
  "level_numbers =
     [(''CRITICAL'', 50), (''FATAL'', 50), (''ERROR'', 40), (''WARN'', 30), (''WARNING'', 30), (''INFO'', 20),
      (''DEBUG'', 10), (''NOTSET'', 0)]"

definition level_names :: "(int \<times> string) list" where
  "level_names =
     [(50, ''CRITICAL''), (40, ''ERROR''), (30, ''WARNING''), (20, ''INFO''), (10, ''DEBUG''), (0, ''NOTSET'')]"

definition get_level_name :: "level \<Rightarrow> level" where
  "get_level_name l =
     (case l of
        Level_Number n \<Rightarrow>
          (case map_of level_names n of Some s \<Rightarrow> Level_Name s | None \<Rightarrow> Level_Name (''Level '' @ py_str (JInt n)))
      | Level_Name s \<Rightarrow>
          (case map_of level_numbers s of Some n \<Rightarrow> Level_Number n | None \<Rightarrow> Level_Name (''Level '' @ s)))"

text \<open>\<open>logger.setLevel(l)\<close>: a name that is not a level raises.\<close>

definition check_level :: "level \<Rightarrow> py_exc + int" where
  "check_level l =
     (case l of
        Level_Number n \<Rightarrow> Inr n
      | Level_Name s \<Rightarrow> (case map_of level_numbers s of Some n \<Rightarrow> Inr n | None \<Rightarrow> Inl ValueError))"

section \<open>Records and filters\<close>

datatype log_args = No_Args | Dict_Args doc | Tuple_Args "json list"

record log_record =
  lr_name :: string
  lr_levelno :: int
  lr_msg :: string
  lr_args :: log_args
  lr_exc_info :: "string option"

definition is_debug :: "config \<Rightarrow> bool" where
  "is_debug cfg \<longleftrightarrow>
     get_level_name (Level_Name (debug_bumper_level cfg)) = get_level_name (Level_Number 10)"

definition AioHttpFilter :: "config \<Rightarrow> log_record \<Rightarrow> bool" where
  "AioHttpFilter cfg r = (if lr_name r = ''aiohttp.access'' then is_debug cfg else True)"

definition AmqttFilter :: "config \<Rightarrow> log_record \<Rightarrow> bool" where
  "AmqttFilter cfg r =
     (if lr_name r = ''amqtt.broker'' \<and> contains ''No more data'' (lr_msg r) \<and> lr_levelno r \<in> {30, 40}
      then is_debug cfg else True)"

definition args_text :: "log_args \<Rightarrow> string" where
  "args_text a =
     (case a of
        No_Args \<Rightarrow> ''None''
      | Dict_Args d \<Rightarrow> py_str (JObj d)
      | Tuple_Args [x] \<Rightarrow> ''('' @ py_repr x @ '',)''
      | Tuple_Args xs \<Rightarrow> ''('' @ comma_sep (map py_repr xs) @ '')'')"

definition cert_alert :: string where
  "cert_alert = ''SSLV3_ALERT_CERTIFICATE_UNKNOWN''"

definition CertFilter :: "log_record \<Rightarrow> bool \<times> log_record" where
  "CertFilter r =
     (True,
      case lr_exc_info r of
        None \<Rightarrow> r
      | Some e \<Rightarrow>
          if contains cert_alert (args_text (lr_args r)) \<or> contains cert_alert (lr_msg r) \<or> contains cert_alert e
          then r\<lparr>lr_msg := cert_alert @ '' :: possible cert pinning'', lr_args := No_Args, lr_exc_info := None\<rparr>
          else r)"

definition SANITIZE_LOG_KEYS :: "string list" where
  "SANITIZE_LOG_KEYS = [''auth'', ''did'', ''email'', ''login'', ''mobile'', ''token'', ''uid'', ''user'']"

definition sensitive :: "string \<Rightarrow> bool" where
  "sensitive s \<longleftrightarrow> list_ex (\<lambda>k. contains k (py_lower s)) SANITIZE_LOG_KEYS"

definition removed :: json where
  "removed = JStr ''[REMOVED]''"

text \<open>In a dictionary only values that are dictionaries or lists are looked into.\<close>

fun sanitize_data :: "json \<Rightarrow> json" where
  "sanitize_data (JList xs) = JList (map sanitize_data xs)"
| "sanitize_data (JStr s) = (if sensitive s then removed else JStr s)"
| "sanitize_data (JObj d) =
     JObj (map (\<lambda>(k, v). (k, if sensitive k then removed
       else (case v of JObj _ \<Rightarrow> sanitize_data v | JList _ \<Rightarrow> sanitize_data v | _ \<Rightarrow> v))) d)"
| "sanitize_data v = v"

definition sanitize_args :: "log_args \<Rightarrow> log_args" where
  "sanitize_args a =
     (case a of
        No_Args \<Rightarrow> No_Args
      | Dict_Args d \<Rightarrow> (case sanitize_data (JObj d) of JObj e \<Rightarrow> Dict_Args e | _ \<Rightarrow> Dict_Args d)
      | Tuple_Args xs \<Rightarrow> Tuple_Args (map sanitize_data xs))"

definition SanitizeFilter :: "log_record \<Rightarrow> bool \<times> log_record" where
  "SanitizeFilter r = (True, r\<lparr>lr_args := sanitize_args (lr_args r)\<rparr>)"

section \<open>Loggers\<close>

datatype filter_kind = Aio_Filter | Amqtt_Filter | Cert_Filter | Sanitize_Filter

record handler =
  hd_id :: nat
  hd_format :: string
  hd_filters :: "filter_kind list"

record logger =
  lg_name :: string
  lg_level :: int
  lg_handlers :: "handler list"
  lg_filters :: "filter_kind list"

text \<open>
  \<open>for handler in logger.handlers: logger.removeHandler(handler)\<close>: the loop goes on at the next
  index of the list it removes from.
\<close>

function remove_handlers :: "nat \<Rightarrow> handler list \<Rightarrow> handler list" where
  "remove_handlers i hs = (if i < length hs then remove_handlers (i + 1) (remove1 (hs ! i) hs) else hs)"
  by pat_completeness auto
termination
  by (relation "measure (\<lambda>(i, hs). length hs - i)") (auto simp: length_remove1)

definition clean_logger :: "config \<Rightarrow> logger \<Rightarrow> logger" where
  "clean_logger cfg l =
     (let l = l\<lparr>lg_handlers := remove_handlers 0 (lg_handlers l)\<rparr>;
          info = debug_bumper_level cfg = ''INFO'';
          l = (if info \<and> (py_startswith (lg_name l) ''httpx'' \<or> py_startswith (lg_name l) ''transitions.core''
                 \<or> py_startswith (lg_name l) ''amqtt'') then l\<lparr>lg_level := 30\<rparr> else l);
          l = (if py_startswith (lg_name l) ''aiohttp.access'' \<and> info then l\<lparr>lg_level := 10\<rparr> else l)
      in if py_startswith (lg_name l) ''asyncio'' then l\<lparr>lg_filters := lg_filters l @ [Cert_Filter]\<rparr> else l)"

text \<open>\<open>getLogger(name)\<close> makes a logger that is not there yet.\<close>

definition with_logger :: "string \<Rightarrow> (logger \<Rightarrow> logger) \<Rightarrow> logger list \<Rightarrow> logger list" where
  "with_logger n f ls =
     (let ls = (if n \<in> set (map lg_name ls) then ls
                else ls @ [\<lparr>lg_name = n, lg_level = 0, lg_handlers = [], lg_filters = []\<rparr>])
      in map (\<lambda>l. if lg_name l = n then f l else l) ls)"

definition add_filter :: "filter_kind \<Rightarrow> logger \<Rightarrow> logger" where
  "add_filter k l = l\<lparr>lg_filters := lg_filters l @ [k]\<rparr>"

definition clean_logs :: "config \<Rightarrow> logger list \<Rightarrow> nat \<times> logger list" where
  "clean_logs cfg ls =
     (fold max (map (\<lambda>l. length (lg_name l)) ls) 0 + 1,
      with_logger ''amqtt.broker'' (add_filter Amqtt_Filter)
        (with_logger ''aiohttp.access'' (add_filter Aio_Filter) (map (clean_logger cfg) ls)))"

definition remove_existing_filter :: "handler \<Rightarrow> filter_kind \<Rightarrow> handler" where
  "remove_existing_filter h k = h\<lparr>hd_filters := filter (\<lambda>f. f \<noteq> k) (hd_filters h)\<rparr>"

definition log_format :: "config \<Rightarrow> nat \<Rightarrow> string" where
  "log_format cfg width =
     (if debug_bumper_verbose cfg = 2
      then ''[%(asctime)s] %(levelname)-7s :: %(name)-'' @ nat_str width @ ''s - %(message)s''
      else if debug_bumper_verbose cfg = 1 then ''[%(asctime)s] - %(message)s''
      else ''%(message)s'')"

text \<open>\<open>LogHelper()\<close> with the number of the new handler of the root logger.\<close>

definition LogHelper :: "config \<Rightarrow> nat \<Rightarrow> logger list \<Rightarrow> py_exc + logger list" where
  "LogHelper cfg h ls =
     (case clean_logs cfg ls of (width, ls) \<Rightarrow>
      res_bind (check_level (get_level_name (Level_Name (debug_bumper_level cfg)))) (\<lambda>n.
      let root_handler = \<lparr>hd_id = h, hd_format = log_format cfg width, hd_filters = []\<rparr>;
          root_handler = remove_existing_filter root_handler Sanitize_Filter;
          root_handler = root_handler\<lparr>hd_filters := hd_filters root_handler @ [Sanitize_Filter]\<rparr>
      in Inr (with_logger ''root'' (\<lambda>l. l\<lparr>lg_level := n, lg_handlers := lg_handlers l @ [root_handler]\<rparr>) ls)))"

declare remove_handlers.simps [simp del]

section \<open>Laws\<close>

text \<open>
  A name of a level never equals the name of the number: \<open>getLevelName\<close> gives a number for
  the one and a name for the other.
\<close>

lemma not_is_debug: "\<not> is_debug cfg"
  by (simp add: is_debug_def get_level_name_def level_names_def split: option.split)

fun every_second :: "'a list \<Rightarrow> 'a list" where
  "every_second [] = []"
| "every_second [x] = []"
| "every_second (x # y # zs) = y # every_second zs"

lemma remove_handlers_from:
  "distinct (pre @ hs) \<Longrightarrow> remove_handlers (length pre) (pre @ hs) = pre @ every_second hs"
proof (induction hs arbitrary: pre rule: every_second.induct)
  case 1
  then show ?case by (simp add: remove_handlers.simps)
next
  case (2 x)
  have "remove_handlers (length pre) (pre @ [x]) = remove_handlers (length pre + 1) pre"
    using 2 by (subst remove_handlers.simps) (simp add: remove1_append)
  then show ?case by (simp add: remove_handlers.simps)
next
  case (3 x y zs)
  have "remove_handlers (length pre) (pre @ x # y # zs) = remove_handlers (length pre + 1) (pre @ y # zs)"
    using 3(2) by (subst remove_handlers.simps) (simp add: remove1_append)
  then show ?case using "3.IH" [of "pre @ [y]"] 3 by simp
qed

lemma remove_handlers_exact: "distinct hs \<Longrightarrow> remove_handlers 0 hs = every_second hs"
  using remove_handlers_from [of "[]" hs] by simp

text \<open>What a sanitized value may contain.\<close>

fun sanitized :: "json \<Rightarrow> bool" where
  "sanitized (JList xs) \<longleftrightarrow> list_all sanitized xs"
| "sanitized (JStr s) \<longleftrightarrow> \<not> sensitive s"
| "sanitized (JObj d) \<longleftrightarrow>
     list_all (\<lambda>(k, v). (sensitive k \<longrightarrow> v = removed) \<and>
       (case v of JObj _ \<Rightarrow> sanitized v | JList _ \<Rightarrow> sanitized v | _ \<Rightarrow> True)) d"
| "sanitized v \<longleftrightarrow> True"

lemma not_sensitive_removed [simp]: "\<not> sensitive ''[REMOVED]''"
  by code_simp

text \<open>The value a dictionary gets for a key.\<close>

definition sanitize_entry :: "string \<Rightarrow> json \<Rightarrow> json" where
  "sanitize_entry k v = (if sensitive k then removed
     else (case v of JObj _ \<Rightarrow> sanitize_data v | JList _ \<Rightarrow> sanitize_data v | _ \<Rightarrow> v))"

lemma sanitize_dict: "sanitize_data (JObj d) = JObj (map (\<lambda>(k, v). (k, sanitize_entry k v)) d)"
  by (simp add: sanitize_entry_def)

lemma sanitize_data_sanitized: "sanitized (sanitize_data v)"
proof (induction v rule: measure_induct_rule [where f = size])
  case (less v)
  show ?case
  proof (cases v)
    case (JStr s)
    then show ?thesis by (simp add: removed_def)
  next
    case (JList xs)
    then have "x \<in> set xs \<Longrightarrow> size x < size v" for x by (simp add: size_list_estimation' less_Suc_eq_le)
    then show ?thesis using less JList by (simp add: list_all_iff)
  next
    case (JObj d)
    have "(sensitive k \<longrightarrow> sanitize_entry k w = removed) \<and>
        (case sanitize_entry k w of JObj _ \<Rightarrow> sanitized (sanitize_entry k w)
          | JList _ \<Rightarrow> sanitized (sanitize_entry k w) | _ \<Rightarrow> True)"
      if "(k, w) \<in> set d" for k w
    proof -
      have "size w < size v" using that JObj
        by (simp add: less_Suc_eq_le) (rule size_list_estimation' [of "(k, w)"]; simp)
      then have "sanitized (sanitize_data w)" by (rule less)
      then show ?thesis by (cases w) (simp_all add: sanitize_entry_def removed_def)
    qed
    then show ?thesis unfolding JObj sanitize_dict by (auto simp: list_all_iff)
  qed simp_all
qed

lemma sanitize_data_idem: "sanitize_data (sanitize_data v) = sanitize_data v"
proof (induction v rule: measure_induct_rule [where f = size])
  case (less v)
  show ?case
  proof (cases v)
    case (JStr s)
    then show ?thesis by (simp add: removed_def)
  next
    case (JList xs)
    then have "x \<in> set xs \<Longrightarrow> size x < size v" for x by (simp add: size_list_estimation' less_Suc_eq_le)
    then show ?thesis using less JList by simp
  next
    case (JObj d)
    have "sanitize_entry k (sanitize_entry k w) = sanitize_entry k w" if "(k, w) \<in> set d" for k w
    proof -
      have "size w < size v" using that JObj
        by (simp add: less_Suc_eq_le) (rule size_list_estimation' [of "(k, w)"]; simp)
      then have "sanitize_data (sanitize_data w) = sanitize_data w" by (rule less)
      then show ?thesis by (cases w) (simp_all add: sanitize_entry_def removed_def)
    qed
    then show ?thesis unfolding JObj sanitize_dict by auto
  qed simp_all
qed

end
