(* ===== verification/Middleware.thy ===== *)
theory Middleware
  imports Logging Py_Bytes
begin

text \<open>
  The middleware that logs requests (src/bumper/web/utils/middlewares.py) around any handler
  of the web server. The handler works on its own state; the second component of the state
  here is the log. Reading the request (aiohttp), decoding with a named charset, \<open>json.loads\<close>
  and the search of a regular expression are parameters. A set is logged as the list of its
  elements.
\<close>

record http_request =
  hq_method :: string
  hq_url :: string
  hq_path :: string
  hq_query_string :: string
  hq_headers :: "(string \<times> string) list"
  hq_resource :: "string option"
  hq_content_length :: "int option"
  hq_content_type :: string
  hq_json :: "py_exc + json"
  hq_post :: "py_exc + string list"
  hq_text :: "py_exc + string"

text \<open>
  The body of an answer: none that can be seen (a stream or a file), bytes, or a payload object
  with what \<open>bytes\<close> makes of it.
\<close>

datatype http_body = Streamed | Bytes string | Payload "py_exc + string"

record http_response =
  hr_status :: nat
  hr_headers :: "(string \<times> string) list"
  hr_body :: http_body
  hr_content_type :: "string option"
  hr_charset :: "string option"

record log_env =
  le_cfg :: config
  le_patterns :: "py_exc + json"
  le_search :: "string \<Rightarrow> string \<Rightarrow> bool"
  le_decode :: "string \<Rightarrow> string \<Rightarrow> py_exc + string"
  le_decode_replace :: "string \<Rightarrow> string \<Rightarrow> py_exc + string"
  le_loads :: "string \<Rightarrow> py_exc + json"

text \<open>\<open>utils.check_url_not_used\<close>: whether the path is in the list of known APIs.\<close>

fun any_pattern :: "log_env \<Rightarrow> json list \<Rightarrow> string \<Rightarrow> bool option" where
  "any_pattern L [] url = Some False"
| "any_pattern L (JStr p # ps) url = (if le_search L p url then Some True else any_pattern L ps url)"
| "any_pattern L (_ # ps) url = None"

definition check_url_not_used :: "log_env \<Rightarrow> string \<Rightarrow> bool" where
  "check_url_not_used L url =
     (case le_patterns L of
        Inr (JList ps) \<Rightarrow> (case any_pattern L ps url of Some b \<Rightarrow> b | None \<Rightarrow> False)
      | _ \<Rightarrow> False)"

definition EXCLUDE_FROM_LOGGING :: "string list" where
  "EXCLUDE_FROM_LOGGING =
     [''/'', ''/static'', ''/restart_{service}'', ''/server-status'', ''/bots'', ''/bot/remove/{did}'', ''/clients'',
      ''/client/remove/{resource}'', ''/users'', ''/user/remove/{userid}'']"

type_synonym 's logged = "'s \<times> json list"

definition write_log :: "json \<Rightarrow> ('s logged, unit) py" where
  "write_log j = py_modify (\<lambda>s. (fst s, snd s @ [j]))"

definition run_handler :: "('s, 'a) py \<Rightarrow> ('s logged, 'a) py" where
  "run_handler h = py_zoom fst (\<lambda>t s. (t, snd s)) h"

definition log_debug_request :: "log_env \<Rightarrow> http_request \<Rightarrow> ('s logged, unit) py" where
  "log_debug_request L rq =
     (if DEBUG_LOGGING_API_REQUEST (le_cfg L)
       \<or> DEBUG_LOGGING_API_REQUEST_MISSING (le_cfg L) \<and> \<not> check_url_not_used L (hq_path rq)
      then (case hq_text rq of
              Inl _ \<Rightarrow> py_ret ()
            | Inr body \<Rightarrow> write_log (JObj [(''warning'', JStr ''Requested API is not implemented!''),
                (''method'', JStr (hq_method rq)), (''url'', JStr (hq_url rq)), (''body'', JStr body)]))
      else py_ret ())"

section \<open>What is logged\<close>

definition pairs_json :: "(string \<times> string) list \<Rightarrow> json" where
  "pairs_json ps = JList (map (\<lambda>(k, v). JList [JStr k, JStr v]) (remdups ps))"

text \<open>The body of the request: JSON, or the names of the form fields.\<close>

definition request_body :: "http_request \<Rightarrow> py_exc + json option" where
  "request_body rq =
     (let form = res_bind (hq_post rq) (\<lambda>ks. Inr (Some (JList (map JStr (remdups ks))))) in
      case hq_content_length rq of
        None \<Rightarrow> Inr None
      | Some n \<Rightarrow>
          if n = 0 then Inr None
          else if hq_content_type rq = ''application/json'' then
            (case hq_json rq of Inr j \<Rightarrow> Inr (Some j) | Inl _ \<Rightarrow> form)
          else form)"

definition request_log :: "http_request \<Rightarrow> string \<Rightarrow> json option \<Rightarrow> json" where
  "request_log rq canonical body =
     JObj ([(''method'', JStr (hq_method rq)), (''url'', JStr (hq_url rq)), (''path'', JStr (hq_path rq)),
        (''query_string'', JStr (hq_query_string rq)), (''headers'', pairs_json (hq_headers rq)),
        (''route_resource'', JStr canonical)] @ (case body of None \<Rightarrow> [] | Some b \<Rightarrow> [(''body'', b)]))"

definition is_text_like :: "string \<Rightarrow> bool" where
  "is_text_like t \<longleftrightarrow> py_startswith t ''text'' \<or> t = ''application/json''
     \<or> t \<in> {''application/javascript'', ''application/xml'', ''application/xhtml+xml''}"

definition content_encoding :: "http_response \<Rightarrow> string" where
  "content_encoding r = py_lower (case map_of (hr_headers r) ''Content-Encoding'' of None \<Rightarrow> [] | Some v \<Rightarrow> v)"

definition binary_log :: "string \<Rightarrow> string \<Rightarrow> string \<Rightarrow> json" where
  "binary_log t e b =
     JObj [(''type'', JStr ''binary''), (''content_type'', JStr t), (''content_encoding'', JStr e),
       (''length'', JInt (int (length b))), (''sample_b64'', JStr (b64encode (take 64 b)))]"

text \<open>The strict decoder first, then the lenient one, which still needs a known charset.\<close>

definition decode_body :: "log_env \<Rightarrow> string option \<Rightarrow> string \<Rightarrow> py_exc + string" where
  "decode_body L charset b =
     (let c = (case charset of None \<Rightarrow> ''utf-8'' | Some c \<Rightarrow> if c = [] then ''utf-8'' else c) in
      case le_decode L c b of Inr t \<Rightarrow> Inr t | Inl _ \<Rightarrow> le_decode_replace L c b)"

definition body_log :: "log_env \<Rightarrow> http_response \<Rightarrow> string \<Rightarrow> py_exc + json" where
  "body_log L r b =
     (let t = py_lower (case hr_content_type r of None \<Rightarrow> [] | Some t \<Rightarrow> t); e = content_encoding r in
      if (contains ''gzip'' e \<or> contains ''deflate'' e) \<or> \<not> is_text_like t then Inr (binary_log t e b)
      else res_bind (decode_body L (hr_charset r) b) (\<lambda>text.
        if t = ''application/json'' then (case le_loads L text of Inr j \<Rightarrow> Inr j | Inl _ \<Rightarrow> Inr (JStr text))
        else Inr (JStr text)))"

definition response_log :: "http_response \<Rightarrow> json \<Rightarrow> json" where
  "response_log r body =
     JObj [(''status'', JStr (nat_str (hr_status r))), (''headers'', pairs_json (hr_headers r)), (''body'', body)]"

section \<open>The middleware\<close>

text \<open>After the handler: \<open>None\<close> as the log entry stands for the early return without one.\<close>

definition response_entry :: "log_env \<Rightarrow> http_response \<Rightarrow> py_exc + json option" where
  "response_entry L r =
     (case hr_body r of
        Streamed \<Rightarrow> Inr (Some (JStr ''<streamed or file response; body not available for logging>''))
      | Bytes b \<Rightarrow> res_bind (body_log L r b) (\<lambda>j. Inr (Some j))
      | Payload (Inr b) \<Rightarrow> res_bind (body_log L r b) (\<lambda>j. Inr (Some j))
      | Payload (Inl _) \<Rightarrow> Inr None)"

definition logged_run ::
    "log_env \<Rightarrow> http_request \<Rightarrow> string \<Rightarrow> ('s, http_response option) py \<Rightarrow> ('s logged, http_response option) py" where
  "logged_run L rq canonical h =
     py_bind (py_of (request_body rq)) (\<lambda>body.
     let to_log = (''request'', request_log rq canonical body) in
     py_bind (run_handler h) (\<lambda>response.
     case response of
       None \<Rightarrow> py_seq (write_log (JObj [to_log])) (py_raise (HTTPException 204))
     | Some r \<Rightarrow>
         py_bind (py_of (response_entry L r)) (\<lambda>entry.
         case entry of
           None \<Rightarrow> py_ret (Some r)
         | Some j \<Rightarrow> py_seq (write_log (JObj [to_log, (''response'', response_log r j)])) (py_ret (Some r)))))"

definition log_all_requests ::
    "log_env \<Rightarrow> http_request \<Rightarrow> ('s, http_response option) py \<Rightarrow> ('s logged, http_response option) py" where
  "log_all_requests L rq h =
     py_seq (log_debug_request L rq)
     (case hq_resource rq of
        None \<Rightarrow> run_handler h
      | Some canonical \<Rightarrow>
          if canonical \<in> set EXCLUDE_FROM_LOGGING then run_handler h
          else if \<not> DEBUG_LOGGING_API_REQUEST (le_cfg L) then run_handler h
          else logged_run L rq canonical h)"

text \<open>
  An exception of the logged part is logged and raised again; \<open>HTTPNotFound\<close> is raised anew.
  Neither changes the state or which exception it is, so the handlers of \<open>try\<close> do not occur above.
\<close>

section \<open>Laws\<close>

lemma debug_request_silent: "\<exists>log. log_debug_request L rq s = (Inr (), (fst s, log))"
  by (cases s; cases "hq_text rq") (auto simp: log_debug_request_def write_log_def py_run)

lemma run_handler_run: "run_handler h s = (case h (fst s) of (r, t) \<Rightarrow> (r, (t, snd s)))"
  by (simp add: run_handler_def py_zoom_def)

lemma unlogged:
  assumes "hq_resource rq = None \<or> (\<exists>c. hq_resource rq = Some c \<and> c \<in> set EXCLUDE_FROM_LOGGING)
      \<or> \<not> DEBUG_LOGGING_API_REQUEST (le_cfg L)"
  shows "\<exists>log. log_all_requests L rq h s = (case h (fst s) of (r, t) \<Rightarrow> (r, (t, log)))"
proof -
  obtain log where "log_debug_request L rq s = (Inr (), (fst s, log))" using debug_request_silent by blast
  then show ?thesis using assms
    by (auto simp: log_all_requests_def py_seq_def py_bind_def run_handler_run split: option.split)
qed

text \<open>With logging on, the state of the handler is kept whatever happens to the answer.\<close>

definition logged_result :: "log_env \<Rightarrow> py_exc + http_response option \<Rightarrow> py_exc + http_response option" where
  "logged_result L r =
     (case r of
        Inl e \<Rightarrow> Inl e
      | Inr None \<Rightarrow> Inl (HTTPException 204)
      | Inr (Some x) \<Rightarrow> res_bind (response_entry L x) (\<lambda>_. Inr (Some x)))"

lemma logged:
  assumes "hq_resource rq = Some c" "c \<notin> set EXCLUDE_FROM_LOGGING" "DEBUG_LOGGING_API_REQUEST (le_cfg L)"
    and "request_body rq = Inr body"
  shows "\<exists>log. log_all_requests L rq h s = (case h (fst s) of (r, t) \<Rightarrow> (logged_result L r, (t, log)))"
proof -
  obtain log where log: "log_debug_request L rq s = (Inr (), (fst s, log))" using debug_request_silent by blast
  obtain r t where h: "h (fst s) = (r, t)" by force
  have "log_all_requests L rq h s = logged_run L rq c h (fst s, log)"
    using assms log by (simp add: log_all_requests_def py_seq_def py_bind_def)
  moreover have "\<exists>log'. logged_run L rq c h (fst s, log) = (logged_result L r, (t, log'))"
    using h assms(4)
    by (cases r) (auto simp: logged_run_def py_run run_handler_run write_log_def logged_result_def Let_def res_bind_def
      split: option.splits sum.splits)
  ultimately show ?thesis using h by simp
qed

end
