(* ===== verification/Tools_Properties.thy ===== *)
theory Tools_Properties
  imports Web_Properties Mitm_MQTT_Format Mitm_MQTT_Types Certs_Laws Middleware
begin

text \<open>
  The properties of the parts around the servers: the sniffer of MQTT packets, the certificates,
  the logging of the program and of the requests.
\<close>

section \<open>The sniffer\<close>

definition demo_publish :: control where
  "demo_publish = Publish 0 1 0 (ascii ''iot/atr/x'') [0, 7] (ascii ''on'')"

definition demo_subscribe :: control where
  "demo_subscribe = Subscribe [0, 1] [(ascii ''iot/#'', 0)]"

definition demo_connect :: control where
  "demo_connect = Connect True (ascii ''d1'') None (Some (ascii ''u'')) (Some [0xFF, 1])"

lemma demo_controls: "control_ok demo_publish" "length (body_of demo_publish) < 2097152"
  "control_ok demo_subscribe" "length (body_of demo_subscribe) < 2097152"
  "control_ok demo_connect" "length (body_of demo_connect) < 2097152"
  by (simp_all add: demo_publish_def demo_subscribe_def demo_connect_def ascii_def field_def be16_def will_fields_def
      opt_field_def of_char_def)

definition demo_sniffer :: sniffer where
  "demo_sniffer = \<lparr>sn_buffers = Map.empty, sn_writes = []\<rparr>"

text \<open>C5: However the bytes of a sequence of control packets are cut into the messages of a
  websocket, the sniffer shows every packet once and in order, reads each one back as it was
  encoded, and has no bytes left.\<close>

theorem packets_reassembled:
  assumes "\<forall>c \<in> set cs. control_ok c \<and> length (body_of c) < 2097152" "concat ms = concat (map encode cs)"
  shows "\<exists>ps. map control_of ps = cs \<and>
    feed escape fid [] ms (snd (websocket_start fid s)) =
      s\<lparr>sn_buffers := (sn_buffers s)(fid \<mapsto> []), sn_writes := sn_writes s @ map (pprint escape) ps\<rparr>"
proof -
  let ?fs = "map (\<lambda>c. (first_byte c, body_of c)) cs"
  let ?s = "snd (websocket_start fid s)"
  have "wire ?fs = concat (map encode cs)" by (simp add: wire_def encode_def [abs_def] comp_def)
  moreover have "\<forall>f \<in> set ?fs. good_frame f" using assms(1) encoded_good_frame by auto
  moreover have "sn_buffers ?s fid = Some []" by (simp add: websocket_start_def py_modify_def)
  ultimately have "feed escape fid [] ms ?s = put_buffer fid [] (map (pprint escape \<circ> parsed) ?fs) ?s"
    using assms(2) by (intro feed_wire [OF _ _ _ disjI1]) simp_all
  moreover have "control_of (parsed (first_byte c, body_of c)) = c" if "c \<in> set cs" for c
    using control_round_trip [of c "[]"] that assms(1) by (auto simp: parsed_def encode_def)
  ultimately show ?thesis
    by (intro exI [of _ "map parsed ?fs"])
      (simp add: comp_def map_idI websocket_start_def py_modify_def put_buffer_def)
qed

theorem packets_reassembled_witness:
  "\<exists>ps. map control_of ps = [demo_connect, demo_publish] \<and>
    feed id ''f'' [] [take 9 (encode demo_connect), drop 9 (encode demo_connect) @ encode demo_publish]
      (snd (websocket_start ''f'' demo_sniffer)) =
    demo_sniffer\<lparr>sn_buffers := [''f'' \<mapsto> []], sn_writes := map (pprint id) ps\<rparr>"
  using packets_reassembled [of "[demo_connect, demo_publish]"
      "[take 9 (encode demo_connect), drop 9 (encode demo_connect) @ encode demo_publish]" id "''f''" demo_sniffer]
  by (simp add: demo_controls demo_sniffer_def)

text \<open>C15: A CONNECT, PUBLISH or SUBSCRIBE packet that is encoded as the standard says is parsed
  back to its fields, whatever bytes follow it, and these bytes are kept.\<close>

theorem control_packet_round_trip:
  assumes "control_ok c" "length (body_of c) < 2097152"
  shows "\<exists>p. MQTTControlPacket (encode c @ rest) = Inr p \<and> control_of p = c \<and> mp_packet p = encode c \<and> mp_extra p = rest"
proof -
  obtain p where p: "MQTTControlPacket (encode c @ rest) = Inr p" "control_of p = c" "mp_extra p = rest"
    using control_round_trip [OF assms] by blast
  moreover have "mp_packet p @ mp_extra p = encode c @ rest" using packet_extra(1,2) [OF p(1)] by (simp only: append_take_drop_id)
  ultimately show ?thesis by simp
qed

theorem control_packet_round_trip_witness:
  "\<exists>p. MQTTControlPacket (encode demo_connect @ [1, 2]) = Inr p \<and> control_of p = demo_connect \<and>
    mp_packet p = encode demo_connect \<and> mp_extra p = [1, 2]"
  using control_packet_round_trip [of demo_connect "[1, 2]"] demo_controls by blast

text \<open>The sniffer rejects exactly the packets of 2 MB or more, although the standard allows
  up to four bytes of length, that is 256 MB.\<close>

theorem packet_length_limit:
  assumes "control_ok c"
  shows "MQTTControlPacket (encode c) =
      Inl (PlainException ''Malformed Remaining Length'') \<longleftrightarrow> 2097152 \<le> length (body_of c)"
proof (cases "length (body_of c) < 2097152")
  case True
  then show ?thesis using control_round_trip [OF assms True, of "[]"] by auto
next
  case False
  then have "MQTTControlPacket (encode c) = Inl (PlainException ''Malformed Remaining Length'')"
    unfolding encode_def frame_def by (intro constructor_error) (simp add: parse_length_exact)
  then show ?thesis using False by simp
qed

theorem packet_length_limit_witness:
  "MQTTControlPacket (encode (Publish 0 0 0 [] [] (replicate 2097150 0))) =
    Inl (PlainException ''Malformed Remaining Length'')"
  using packet_length_limit [of "Publish 0 0 0 [] [] (replicate 2097150 0)"] by (simp add: field_def be16_def)

text \<open>C11: Every packet the parser accepts is well formed: the type is a nibble, the flags are
  bits and set for PUBLISH only, as is the payload; the fields of a CONNECT packet have distinct
  known names and its texts are valid UTF-8, as are the distinct filters of a SUBSCRIBE packet;
  the packet and the bytes behind it are what was read.\<close>

theorem accepted_packet_well_formed:
  assumes "MQTTControlPacket b = Inr p"
  shows "packet_wf p \<and> mp_packet p @ mp_extra p = b \<and> length (mp_packet p) = mp_total p"
  using assms parsed_wf packet_extra [OF assms] by simp

theorem accepted_packet_well_formed_witness:
  "\<exists>p. MQTTControlPacket (encode demo_subscribe @ [9]) = Inr p \<and> packet_wf p \<and>
    mp_packet p @ mp_extra p = encode demo_subscribe @ [9]"
  using control_round_trip [OF demo_controls(3,4), of "[9]"] accepted_packet_well_formed by meson

text \<open>C26: A packet of a websocket that the parser rejects stays at the head of the buffer: nothing
  that arrives afterwards on this websocket is ever shown.\<close>

theorem rejected_packet_blocks:
  assumes "MQTTControlPacket b = Inl e" "e \<noteq> IndexError" "\<And>n. e \<noteq> BlockingIOError n"
  shows "feed escape fid [] (b # ms) (snd (websocket_start fid s)) =
    s\<lparr>sn_buffers := (sn_buffers s)(fid \<mapsto> b @ concat ms)\<rparr>"
proof -
  let ?s = "snd (websocket_start fid s)"
  have err: "MQTTControlPacket ([] @ b) = Inl e" using assms by simp
  have b: "sn_buffers ?s fid = Some []" by (simp add: websocket_start_def py_modify_def)
  have "b \<noteq> []" using assms(1,2) by (auto simp: MQTTControlPacket_def)
  then have "snd (drain escape fid b (put_buffer fid b [] ?s)) = put_buffer fid b [] ?s"
    using assms by (cases e) (simp_all add: drain.simps [of escape fid b] py_run)
  then have "feed escape fid [] (b # ms) ?s = feed escape fid [b] ms (put_buffer fid b [] ?s)"
    using message_run [OF b, of escape "[]" b] by simp
  also have "\<dots> = put_buffer fid (b @ concat ms) [] (put_buffer fid b [] ?s)"
    using assms(1,2,3) by (intro feed_stuck) auto
  finally show ?thesis by (simp add: put_buffer_def websocket_start_def py_modify_def)
qed

theorem rejected_packet_blocks_witness:
  "feed id ''f'' [] [[0x10, 0xFF, 0xFF, 0xFF, 1], encode demo_publish] (snd (websocket_start ''f'' demo_sniffer)) =
    demo_sniffer\<lparr>sn_buffers := [''f'' \<mapsto> [0x10, 0xFF, 0xFF, 0xFF, 1] @ encode demo_publish]\<rparr>"
proof -
  have "MQTTControlPacket [0x10, 0xFF, 0xFF, 0xFF, 1] = Inl (PlainException ''Malformed Remaining Length'')"
    by (simp add: MQTTControlPacket_def parse_remaining_length_def Let_def split: prod.split)
  from rejected_packet_blocks [OF this, of id "''f''" "[encode demo_publish]" demo_sniffer] show ?thesis
    by (simp add: demo_sniffer_def)
qed

section \<open>Certificates\<close>

text \<open>Every name with one label before a two-label root of a known domain is covered.\<close>

lemma covered_below:
  assumes "d \<in> set RAW_DOMAINS" "suffix (labels r) (labels d)" "2 \<le> length (labels r)" "l \<noteq> []" "CHR ''.'' \<notin> set l"
  shows "covered parse_san_list (l @ CHR ''.'' # r)"
proof -
  have "labels (l @ CHR ''.'' # r) = l # labels r"
    using labels_dotted [of "l # labels r"] no_dot_in_labels [of _ r] assms(5) by (auto simp: dotted_Cons)
  then show ?thesis unfolding covered_exact using assms by auto
qed

lemma covered_ecouser:
  assumes "l \<noteq> []" "CHR ''.'' \<notin> set l"
  shows "covered parse_san_list (l @ ''.ecouser.net'')"
proof -
  have "''dc.ecouser.net'' \<in> set RAW_DOMAINS \<and> suffix (labels ''ecouser.net'') (labels ''dc.ecouser.net'') \<and>
      2 \<le> length (labels ''ecouser.net'')"
    by code_simp
  then show ?thesis using covered_below [of "''dc.ecouser.net''" "''ecouser.net''" l] assms by simp
qed

lemma ali_not_covered: "\<not> covered parse_san_list ''globalapp-eu.oss-eu-central-1.aliyuncs.com''"
proof -
  have "\<not> (\<exists>d \<in> set RAW_DOMAINS. ''globalapp-eu.oss-eu-central-1.aliyuncs.com'' = root_of d)"
    "\<not> (\<exists>d \<in> set RAW_DOMAINS. suffix (tl (labels ''globalapp-eu.oss-eu-central-1.aliyuncs.com'')) (labels d))"
    by code_simp+
  then show ?thesis unfolding covered_exact by blast
qed

text \<open>C8: A host is covered by the server certificate exactly when it is localhost, the two-label
  root of a known domain, or has one label before a suffix of a known domain; so every known
  domain is covered.\<close>

theorem certificate_covers_exactly:
  "(covered parse_san_list h \<longleftrightarrow> h = ''localhost'' \<or> (\<exists>d \<in> set RAW_DOMAINS. h = root_of d) \<or>
     (\<exists>d \<in> set RAW_DOMAINS. suffix (tl (labels h)) (labels d) \<and> 2 \<le> length (tl (labels h)) \<and> hd (labels h) \<noteq> [])) \<and>
   list_all (covered parse_san_list) RAW_DOMAINS"
  using raw_labels covered_raw unfolding covered_exact list_all_iff by blast

lemma loaded_domains:
  "load_config e cwd host ver = Inr cfg \<Longrightarrow> DOMAIN_MAIN cfg = ''ecouser.net'' \<and> DOM_SUB_1 cfg = [] \<and> DOM_SUB_2 cfg = [] \<and>
    DOM_SUB_3 cfg = [] \<and> DOMAIN_ALI cfg = ''globalapp-eu.oss-eu-central-1.aliyuncs.com''"
  by (auto simp: load_config_def config_of_def Let_def split: sum.splits)

text \<open>The hosts of the service list, as label and port.\<close>

definition service_host :: "string \<Rightarrow> bool" where
  "service_host v \<longleftrightarrow> covered parse_san_list (fst (py_split1 (CHR '':'') v))"

lemma named_host:
  assumes "l \<noteq> []" "CHR ''.'' \<notin> set l" "CHR '':'' \<notin> set l"
  shows "service_host (l @ ''.ecouser.net'')" "service_host (l @ ''.ecouser.net:5223'')"
proof -
  have "CHR '':'' \<notin> set (l @ ''.ecouser.net'')" using assms(3) by simp
  then have "py_split1 (CHR '':'') (l @ ''.ecouser.net'') = (l @ ''.ecouser.net'', None)"
    "py_split1 (CHR '':'') ((l @ ''.ecouser.net'') @ CHR '':'' # ''5223'') = (l @ ''.ecouser.net'', Some ''5223'')"
    by (rule py_split1_no_sep, rule py_split1_append)
  then show "service_host (l @ ''.ecouser.net'')" "service_host (l @ ''.ecouser.net:5223'')"
    using covered_ecouser [OF assms(1,2)] by (simp_all add: service_host_def)
qed

lemmas named_hosts = named_host(1) [of "''users-base''", simplified] named_host(1) [of "''adv-app''", simplified]
  named_host(1) [of "''jmq-ngiot-eu''", simplified] named_host(1) [of "''lbo''", simplified]
  named_host(1) [of "''api-app''", simplified] named_host(2) [of "''msg-eu''", simplified]
  named_host(1) [of "''api-ngiot''", simplified] named_host(1) [of "''jmq-ngiot-de''", simplified]
  named_host(1) [of "''iot-api-nlp''", simplified] named_host(1) [of "''api-rop''", simplified]
  named_host(1) [of "''bigdata-europe''", simplified] named_host(1) [of "''api-base''", simplified]
  named_host(1) [of "''eis-nlp''", simplified] named_host(1) [of "''codepush-base''", simplified]

definition hosts_ok :: "doc \<Rightarrow> bool" where
  "hosts_ok data \<longleftrightarrow> list_all (\<lambda>(k, v). case v of JStr v \<Rightarrow> k = ''dc'' \<or> service_host v | _ \<Rightarrow> True) data"

lemma service_list_hosts:
  assumes "load_config e cwd host ver = Inr (ap_cfg A)"
  shows "\<exists>data. handle_service_list A rq s = (Inr (success_v2 (JObj data)), s) \<and> hosts_ok data"
  using loaded_domains [OF assms]
  by (auto simp: handle_service_list_def app_guarded_def py_try_def py_ret_def Let_def hosts_ok_def named_hosts
      split: json.split)

text \<open>C13: In every configuration the certificate covers each host that the list of services names
  to an app, but not the host of the configured links to images and videos.\<close>

theorem service_hosts_covered:
  assumes "load_config e cwd host ver = Inr (ap_cfg A)"
  shows "(\<exists>data. handle_service_list A rq s = (Inr (success_v2 (JObj data)), s) \<and>
      (\<forall>k v. (k, JStr v) \<in> set data \<and> k \<noteq> ''dc'' \<longrightarrow> covered parse_san_list (fst (py_split1 (CHR '':'') v)))) \<and>
    \<not> covered parse_san_list (DOMAIN_ALI (ap_cfg A))"
proof -
  obtain data where "handle_service_list A rq s = (Inr (success_v2 (JObj data)), s)" "hosts_ok data"
    using service_list_hosts [OF assms] by blast
  moreover from this(2) have "(k, JStr v) \<in> set data \<Longrightarrow> k \<noteq> ''dc'' \<Longrightarrow> service_host v" for k v
    by (auto simp: hosts_ok_def list_all_iff)
  ultimately show ?thesis
    using loaded_domains [OF assms] ali_not_covered unfolding service_host_def by auto
qed

theorem service_hosts_covered_witness:
  "\<exists>data. handle_service_list demo_api demo_request demo_app = (Inr (success_v2 (JObj data)), demo_app) \<and>
      (\<forall>k v. (k, JStr v) \<in> set data \<and> k \<noteq> ''dc'' \<longrightarrow> covered parse_san_list (fst (py_split1 (CHR '':'') v)))"
  using service_hosts_covered [of "\<lambda>_. None" "''/bumper''" "''127.0.0.1''" "''0.2.3''" demo_api demo_request demo_app]
  by (simp add: load_config_empty)

definition demo_crypto :: crypto where
  "demo_crypto = \<lparr>cr_ec = (\<lambda>n. ''ec'' @ nat_str n), cr_rsa = (\<lambda>_ n. ''rsa'' @ nat_str n), cr_public = (\<lambda>k. ''pub '' @ k),
     cr_sign = (\<lambda>k c. Inr (''signed by '' @ k)), cr_key_pem = (\<lambda>k. ''key '' @ k), cr_cert_pem = (\<lambda>c. ''cert '' @ c),
     cr_now = 1748779200000000, cr_mkdir = (\<lambda>_. True), cr_write = (\<lambda>_. True)\<rparr>"

definition demo_disk :: cert_world where
  "demo_disk = \<lparr>cw_files = Map.empty, cw_private = {}, cw_dirs = {}, cw_keys = 0\<rparr>"

text \<open>C17: When a certificate or the key of the server is missing, two new keys are drawn and a new
  authority and a server certificate signed by it are written, the keys readable for their owner
  only, and the bundle beside them; an authority that was there is replaced. A second run then
  finds everything and changes nothing.\<close>

theorem certificates_generated_once:
  assumes "cert_key_type cfg \<in> {''ec'', ''rsa''}" "key_size_ok cfg" "\<not> have_certificates cfg w"
    and "\<forall>d \<in> set (parent_dirs cfg). cr_mkdir C d"
    and "\<forall>p \<in> {ca_key cfg, ca_cert cfg, server_key cfg, server_cert cfg, ca_pem_path cfg}. cr_write C p"
    and "add_days (cr_now C) (ca_valid_days cfg) = Inr t0" "add_days (cr_now C) (server_valid_days cfg) = Inr t1"
    and "k0 = next_key C cfg (cw_keys w)" "k1 = next_key C cfg (cw_keys w + 1)"
    and "cr_sign C k0 (ca_request C k0 t0) = Inr ca"
    and "cr_sign C k0 (server_request C k1 (common_name ''ECOVACS CA'') t1) = Inr crt"
  shows "\<exists>w'. generate_certificates C cfg w = (Inr True, w') \<and>
    cw_files w' = (cw_files w)(ca_key cfg \<mapsto> cr_key_pem C k0, ca_cert cfg \<mapsto> cr_cert_pem C ca,
       server_key cfg \<mapsto> cr_key_pem C k1, server_cert cfg \<mapsto> cr_cert_pem C crt,
       ca_pem_path cfg \<mapsto> cr_key_pem C k1 @ cr_cert_pem C crt @ cr_cert_pem C ca) \<and>
    cw_private w' = cw_private w \<union> {ca_key cfg, server_key cfg} \<and> cw_keys w' = cw_keys w + 2 \<and>
    generate_certificates C cfg w' = (Inr False, w')"
  using second_run [OF generate_success [OF assms]] generate_success [OF assms] by auto

lemma default_keys: "cert_key_type default_config = ''ec''" "key_size_ok default_config"
    "ca_valid_days default_config = 6669" "server_valid_days default_config = 666"
  by (simp_all add: default_config_def config_of_def Let_def env_or_empty_def key_size_ok_def py_lower_def
      lower_char_def)

lemma demo_crypto_simps:
  "cr_mkdir demo_crypto d" "cr_write demo_crypto p" "cr_sign demo_crypto k c = Inr (''signed by '' @ k)"
  "add_days (cr_now demo_crypto) (ca_valid_days default_config) = Inr 2324980800000000"
  "add_days (cr_now demo_crypto) (server_valid_days default_config) = Inr 1806321600000000"
  by (simp_all add: demo_crypto_def add_days_def default_keys)

lemma empty_disk: "\<not> have_certificates cfg demo_disk" "cw_private demo_disk = {}" "cw_files demo_disk = Map.empty"
  by (simp_all add: have_certificates_def demo_disk_def)

theorem certificates_generated_once_witness:
  "\<exists>w'. generate_certificates demo_crypto default_config demo_disk = (Inr True, w') \<and>
    cw_private w' = {ca_key default_config, server_key default_config} \<and>
    generate_certificates demo_crypto default_config w' = (Inr False, w')"
proof -
  have "cert_key_type default_config \<in> {''ec'', ''rsa''}" by (simp add: default_keys)
  from certificates_generated_once [OF this default_keys(2) empty_disk(1) _ _ demo_crypto_simps(4,5) refl refl
      demo_crypto_simps(3,3)] show ?thesis
    using demo_crypto_simps(1,2) by (auto simp: empty_disk)
qed

text \<open>A key type or an RSA key size outside the supported ones is refused with a ValueError before
  any key is drawn or any file is written.\<close>

theorem key_settings_refused:
  assumes "\<not> key_size_ok cfg \<or> cert_key_type cfg \<notin> {''ec'', ''rsa''}" "\<not> have_certificates cfg w"
    and "\<forall>d \<in> set (parent_dirs cfg). cr_mkdir C d"
  shows "\<exists>w'. generate_certificates C cfg w = (Inl ValueError, w') \<and>
    cw_files w' = cw_files w \<and> cw_private w' = cw_private w \<and> cw_keys w' = cw_keys w"
proof (cases "cert_key_type cfg \<in> {''ec'', ''rsa''}")
  case True
  then have "\<not> key_size_ok cfg" using assms(1) by simp
  then show ?thesis
    using assms(2) True run_dirs [OF assms(3), of w] run_no_key
    by (auto simp: generate_certificates_def new_certificates_def py_run)
next
  case False
  then show ?thesis by (auto simp: generate_certificates_def py_raise_def)
qed

definition small_rsa :: config where
  "small_rsa = default_config\<lparr>cert_key_type := ''rsa'', cert_rsa_key_size := 1024\<rparr>"

theorem key_settings_refused_witness:
  "\<exists>w'. generate_certificates demo_crypto small_rsa demo_disk = (Inl ValueError, w') \<and> cw_files w' = Map.empty"
  using key_settings_refused [of small_rsa demo_disk demo_crypto]
  by (auto simp: small_rsa_def key_size_ok_def empty_disk demo_crypto_simps)

section \<open>Logging\<close>

text \<open>C32: No configuration lets the filters of the loggers find out that the level is DEBUG: every
  access record of the web server and every "No more data" warning of the broker is dropped.\<close>

theorem access_records_dropped:
  "(AioHttpFilter cfg r \<longleftrightarrow> lr_name r \<noteq> ''aiohttp.access'') \<and>
   (AmqttFilter cfg r \<longleftrightarrow> \<not> (lr_name r = ''amqtt.broker'' \<and> contains ''No more data'' (lr_msg r) \<and> lr_levelno r \<in> {30, 40}))"
  by (simp add: AioHttpFilter_def AmqttFilter_def not_is_debug)









end
