(* ===== verification/Clean_Domains.thy ===== *)
theory Clean_Domains
  imports Certs_Laws "HOL-Library.Multiset"
begin

text \<open>
  The script that shows the domains (src/scripts/clean-domains.py): the same tree of domains as
  the certificates, printed with two spaces for each level, and the wildcard names in order.
\<close>

definition domains :: "string list" where
  "domains = RAW_DOMAINS"

definition create_tree :: "(string \<times> dtree) list" where
  "create_tree = fold add_domain domains []"

lemma size_child: "(k, t) \<in> set cs \<Longrightarrow> size t < Suc (size_list (size_prod (\<lambda>_. 0) size) cs)"
  by (rule le_imp_less_Suc) (rule size_list_estimation' [of "(k, t)"]; simp)

function print_tree :: "dtree \<Rightarrow> nat \<Rightarrow> string list" where
  "print_tree (Node cs) indent =
     concat (map (\<lambda>(key, t). (replicate (2 * indent) CHR '' '' @ ''- '' @ key) # print_tree t (indent + 1))
       (sort_key fst cs))"
  by pat_completeness auto
termination
  by (relation "measure (\<lambda>(t, n). size t)") (auto dest: size_child)

declare print_tree.simps [simp del]

text \<open>The lines of the script's output: an empty line and the tree of each root, then the names.\<close>

definition printed_tree :: "(string \<times> dtree) list \<Rightarrow> string list" where
  "printed_tree tree = concat (map (\<lambda>(root, t). [[], root] @
     (if print_tree t 1 = [] then [[]] else print_tree t 1)) (sort_key fst tree))"

definition clean_domains :: "string list" where
  "clean_domains = printed_tree create_tree @ sorted_list_of_set (wildcard_set create_tree)"

text \<open>Every node of the tree has one line.\<close>

fun nodes :: "dtree \<Rightarrow> nat" and child_nodes :: "(string \<times> dtree) list \<Rightarrow> nat" where
  "nodes (Node cs) = child_nodes cs"
| "child_nodes [] = 0"
| "child_nodes ((_, t) # cs) = Suc (nodes t) + child_nodes cs"

lemma child_nodes_sum: "child_nodes cs = sum_list (map (\<lambda>(_, t). Suc (nodes t)) cs)"
  by (induction cs) auto

lemma length_print_tree: "length (print_tree t n) = nodes t"
proof (induction t n rule: print_tree.induct)
  case (1 cs n)
  have "length (print_tree (Node cs) n) = sum_list (map (\<lambda>(_, t). Suc (nodes t)) (sort_key fst cs))"
    unfolding print_tree.simps [of cs] length_concat map_map
    by (rule arg_cong [of _ _ sum_list]) (use 1 in \<open>auto simp: comp_def\<close>)
  also have "\<dots> = sum_list (map (\<lambda>(_, t). Suc (nodes t)) cs)"
    by (simp flip: sum_mset_sum_list)
  finally show ?case by (simp add: child_nodes_sum)
qed

text \<open>The names the script prints are those of the certificate but for localhost.\<close>

lemma clean_domains_names:
  "build_san_list RAW_DOMAINS = [''IP:127.0.0.1'', ''DNS:localhost''] @
     map (\<lambda>e. ''DNS:'' @ e) (drop (length (printed_tree create_tree)) clean_domains)"
  by (simp add: build_san_list_def clean_domains_def create_tree_def domains_def build_domain_tree_def)

end
