(* ===== verification/MQTT_Connect.thy ===== *)
theory MQTT_Connect
  imports MQTT_Proxy Py_Url
begin

text \<open>
  The connection of the MQTT proxy to the vendor's broker (src/bumper/mqtt/proxy.py,
  \<open>connect\<close> and \<open>_connect_coro\<close>): the URL with the credentials, its parts as
  urllib.parse reads them, the TLS context, and the steps of the connection. Sockets,
  websockets, the MQTT handshake and the loading of certificate files are parameters; the
  transitions of the session are a list of the calls made on it.
\<close>

section \<open>The parts of a URL\<close>

record uri =
  u_scheme :: string
  u_netloc :: string
  u_path :: string
  u_query :: string
  u_fragment :: string

definition cut :: "char \<Rightarrow> string \<Rightarrow> string \<times> string" where
  "cut c s = (case py_split1 c s of (a, None) \<Rightarrow> (a, []) | (a, Some b) \<Rightarrow> (a, b))"

definition urlparse :: "string \<Rightarrow> py_exc + uri" where
  "urlparse s =
     (case split_scheme (clean_url s) of (scheme, r) \<Rightarrow>
      res_bind (split_host r) (\<lambda>(netloc, r).
      case cut (CHR ''#'') r of (r, fragment) \<Rightarrow>
      case cut (CHR ''?'') r of (path, query) \<Rightarrow>
      Inr \<lparr>u_scheme = scheme, u_netloc = netloc, u_path = path, u_query = query, u_fragment = fragment\<rparr>))"

text \<open>\<open>netloc.rpartition("@")\<close>.\<close>

definition user_host :: "string \<Rightarrow> string option \<times> string" where
  "user_host netloc =
     (let parts = py_split (CHR ''@'') netloc in
      (if length parts = 1 then None else Some (py_join ''@'' (butlast parts)), last parts))"

definition uri_username :: "uri \<Rightarrow> string option" where
  "uri_username u = map_option (\<lambda>i. fst (py_split1 (CHR '':'') i)) (fst (user_host (u_netloc u)))"

definition uri_password :: "uri \<Rightarrow> string option" where
  "uri_password u = (case fst (user_host (u_netloc u)) of None \<Rightarrow> None | Some i \<Rightarrow> snd (py_split1 (CHR '':'') i))"

text \<open>The host and the port; a host in square brackets is an IPv6 address.\<close>

definition host_port :: "string \<Rightarrow> string \<times> string" where
  "host_port netloc =
     (let info = snd (user_host netloc) in
      case py_split1 (CHR ''['') info of
        (_, Some r) \<Rightarrow> (case cut (CHR '']'') r of (h, p) \<Rightarrow> (h, snd (cut (CHR '':'') p)))
      | (_, None) \<Rightarrow> cut (CHR '':'') info)"

definition uri_hostname :: "uri \<Rightarrow> string option" where
  "uri_hostname u =
     (let h = fst (host_port (u_netloc u)) in
      if h = [] then None
      else Some (case py_split1 (CHR ''%'') h of (a, None) \<Rightarrow> py_lower a | (a, Some z) \<Rightarrow> py_lower a @ CHR ''%'' # z))"

definition uri_port :: "uri \<Rightarrow> py_exc + int option" where
  "uri_port u =
     (let p = snd (host_port (u_netloc u)) in
      if p = [] then Inr None
      else if \<not> list_all is_digit p \<or> 65535 < num_of p then Inl ValueError
      else Inr (Some (int (num_of p))))"

text \<open>\<open>urlunparse\<close> of a websocket's URL.\<close>

definition ws_uri :: "uri \<Rightarrow> string \<Rightarrow> string" where
  "ws_uri u netloc =
     u_scheme u @ ''://'' @ netloc @ (if u_path u \<noteq> [] \<and> hd (u_path u) \<noteq> CHR ''/'' then ''/'' else []) @ u_path u @
     (if u_query u = [] then [] else CHR ''?'' # u_query u) @
     (if u_fragment u = [] then [] else CHR ''#'' # u_fragment u)"

section \<open>The session and the surroundings\<close>

record mqtt_session =
  se_username :: "string option"
  se_password :: "string option"
  se_address :: "string option"
  se_port :: "int option"
  se_uri :: string
  se_transitions :: "string list"

record mqtt_client =
  mc_session :: "mqtt_session option"
  mc_connected :: bool

record tls =
  tl_check_hostname :: bool
  tl_verify :: bool
  tl_chain :: "(string \<times> string) option"

record connect_env =
  cv_chain :: "(string \<times> string) option"
  cv_check_hostname :: "json option"
  cv_context :: "py_exc + unit"
  cv_load_chain :: "string \<Rightarrow> string \<Rightarrow> py_exc + unit"
  cv_open :: "string option \<Rightarrow> int option \<Rightarrow> tls option \<Rightarrow> py_exc + unit"
  cv_websocket :: "string \<Rightarrow> tls option \<Rightarrow> py_exc + unit"
  cv_mqtt_connect :: "mqtt_session \<Rightarrow> py_exc + nat"
  cv_start :: "py_exc + unit"

definition SERVER_UNAVAILABLE :: nat where "SERVER_UNAVAILABLE = 3"
definition CONNECTION_ACCEPTED :: nat where "CONNECTION_ACCEPTED = 0"

section \<open>The steps\<close>

definition connect_uri :: "string \<Rightarrow> string \<Rightarrow> string \<Rightarrow> int \<Rightarrow> string" where
  "connect_uri username password host port =
     ''mqtts://'' @ username @ '':'' @ password @ ''@'' @ host @ '':'' @ int_str port"

definition or_else :: "string option \<Rightarrow> string option \<Rightarrow> string option" where
  "or_else a b = (case a of Some (c # s) \<Rightarrow> a | _ \<Rightarrow> b)"

definition default_port :: "string \<Rightarrow> int option \<Rightarrow> int option" where
  "default_port scheme port =
     (if port \<noteq> None \<and> port \<noteq> Some 0 then port
      else if scheme = ''mqtts'' then Some 8883
      else if scheme = ''mqtt'' then Some 1883
      else if scheme = ''wss'' then Some 443
      else if scheme = ''ws'' then Some 80
      else port)"

definition none_or_text :: "string option \<Rightarrow> string" where
  "none_or_text h = (case h of None \<Rightarrow> ''None'' | Some s \<Rightarrow> s)"

text \<open>The attributes of the session, set one after the other: a bad port leaves the ones before it.\<close>

definition read_uri :: "mqtt_session \<Rightarrow> uri \<Rightarrow> (py_exc + unit) \<times> mqtt_session" where
  "read_uri se u =
     (let se = se\<lparr>se_username := or_else (se_username se) (uri_username u)\<rparr>;
          se = se\<lparr>se_password := or_else (se_password se) (uri_password u)\<rparr>;
          se = se\<lparr>se_address := uri_hostname u\<rparr>
      in case uri_port u of
           Inl e \<Rightarrow> (Inl e, se)
         | Inr p \<Rightarrow>
             (let port = default_port (u_scheme u) p; se = se\<lparr>se_port := port\<rparr> in
              (Inr (), if u_scheme u \<in> {''ws'', ''wss''}
                then se\<lparr>se_uri := ws_uri u (none_or_text (se_address se) @ '':'' @
                  (case port of None \<Rightarrow> ''None'' | Some n \<Rightarrow> int_str n))\<rparr> else se)))"

text \<open>The verification cannot be switched off while the host name is to be checked.\<close>

definition tls_context :: "connect_env \<Rightarrow> py_exc + tls" where
  "tls_context V =
     res_bind (cv_context V) (\<lambda>_.
     res_bind (case cv_chain V of None \<Rightarrow> Inr () | Some (c, k) \<Rightarrow> cv_load_chain V c k) (\<lambda>_.
     let check = (case cv_check_hostname V of Some (JBool b) \<Rightarrow> b | _ \<Rightarrow> True) in
     if check then Inl ValueError
     else Inr \<lparr>tl_check_hostname = check, tl_verify = False, tl_chain = cv_chain V\<rparr>))"

text \<open>The part inside the \<open>try\<close>; the state of the client is its session.\<close>

definition transition :: "string \<Rightarrow> (mqtt_session, unit) py" where
  "transition t = py_modify (\<lambda>se. se\<lparr>se_transitions := se_transitions se @ [t]\<rparr>)"

definition open_and_start :: "connect_env \<Rightarrow> string \<Rightarrow> tls option \<Rightarrow> (mqtt_session, nat) py" where
  "open_and_start V scheme t =
     py_bind (py_gets id) (\<lambda>se.
     py_seq (py_of (if scheme \<in> {''mqtt'', ''mqtts''} then cv_open V (se_address se) (se_port se) t
                    else if scheme \<in> {''ws'', ''wss''} then cv_websocket V (se_uri se) t
                    else Inr ()))
    (py_bind (py_of (cv_mqtt_connect V se)) (\<lambda>code.
     if code \<noteq> CONNECTION_ACCEPTED then py_seq (transition ''disconnect'') (py_raise (ConnectError code))
     else py_seq (py_of (cv_start V)) (py_seq (transition ''connect'') (py_ret code)))))"

definition is_os_error :: "py_exc \<Rightarrow> bool" where
  "is_os_error e = (case e of OSError \<Rightarrow> True | ConnectionError \<Rightarrow> True | TimeoutError \<Rightarrow> True | BlockingIOError _ \<Rightarrow> True | _ \<Rightarrow> False)"

definition guarded_start :: "connect_env \<Rightarrow> string \<Rightarrow> tls option \<Rightarrow> (mqtt_session, nat) py" where
  "guarded_start V scheme t =
     py_try (open_and_start V scheme t) (\<lambda>e.
       if e \<in> {InvalidURI, InvalidHandshake, ProtocolHandlerError} \<or> is_os_error e
       then py_seq (transition ''disconnect'') (py_raise e) else py_raise e)"

definition connect_session :: "connect_env \<Rightarrow> (mqtt_session, uri \<times> tls option) py" where
  "connect_session V =
     py_bind (py_gets se_uri) (\<lambda>broker_uri.
     py_bind (py_of (urlparse broker_uri)) (\<lambda>u.
     py_bind (\<lambda>se. read_uri se u) (\<lambda>_.
     py_bind (py_of (if u_scheme u \<in> {''mqtts'', ''wss''} then res_bind (tls_context V) (\<lambda>t. Inr (Some t)) else Inr None)) (\<lambda>t.
     py_ret (u, t)))))"

text \<open>
  The event that tells whether the client is connected is cleared after the TLS context is
  made and set only when everything succeeded.
\<close>

definition connect_coro :: "connect_env \<Rightarrow> (mqtt_client, nat) py" where
  "connect_coro V c =
     (case mc_session c of
        None \<Rightarrow> (Inr SERVER_UNAVAILABLE, c)
      | Some se \<Rightarrow>
          (case connect_session V se of
             (Inl e, se) \<Rightarrow> (Inl e, c\<lparr>mc_session := Some se\<rparr>)
           | (Inr (u, t), se) \<Rightarrow>
               (case guarded_start V (u_scheme u) t se of
                  (Inl e, se) \<Rightarrow> (Inl e, c\<lparr>mc_session := Some se, mc_connected := False\<rparr>)
                | (Inr code, se) \<Rightarrow> (Inr code, c\<lparr>mc_session := Some se, mc_connected := True\<rparr>))))"

section \<open>The credentials\<close>

definition url_text :: "string \<Rightarrow> bool" where
  "url_text s \<longleftrightarrow> (\<forall>c \<in> set s. c \<notin> set ''/?#[]'' \<and> (of_char c :: nat) \<notin> {9, 10, 13})"

lemma url_text_append [simp]: "url_text (a @ b) \<longleftrightarrow> url_text a \<and> url_text b"
  by (auto simp: url_text_def)

lemma url_text_Cons: "url_text (c # s) \<longleftrightarrow> c \<notin> set ''/?#[]'' \<and> (of_char c :: nat) \<notin> {9, 10, 13} \<and> url_text s"
  by (auto simp: url_text_def)

lemma url_text_digits: "list_all is_digit s \<Longrightarrow> url_text s"
  by (auto simp: url_text_def list_all_iff is_digit_def)

lemma clean_mqtts: "url_text s \<Longrightarrow> clean_url (''mqtts://'' @ s) = ''mqtts://'' @ s"
  by (simp add: clean_url_def url_text_def filter_id_conv)

lemma split_netloc:
  assumes "url_text s"
  shows "split_host (''//'' @ s) = Inr (s, [])"
proof -
  have "\<forall>c \<in> set s. c \<noteq> CHR ''/'' \<and> c \<noteq> CHR ''?'' \<and> c \<noteq> CHR ''#''" using assms by (simp add: url_text_def)
  then have "takeWhile (\<lambda>c. c \<noteq> CHR ''/'' \<and> c \<noteq> CHR ''?'' \<and> c \<noteq> CHR ''#'') s = s"
    "dropWhile (\<lambda>c. \<not> (c = CHR ''/'' \<or> c = CHR ''?'' \<or> c = CHR ''#'')) s = []"
    by (simp_all add: takeWhile_eq_all_conv dropWhile_eq_Nil_conv)
  moreover have "CHR ''['' \<notin> set s" "CHR '']'' \<notin> set s" using assms by (auto simp: url_text_def)
  ultimately show ?thesis by (simp add: split_host_def Let_def del: takeWhile_eq_all_conv dropWhile_eq_Nil_conv)
qed

lemma parse_mqtts:
  assumes "url_text s"
  shows "urlparse (''mqtts://'' @ s) = Inr \<lparr>u_scheme = ''mqtts'', u_netloc = s, u_path = [], u_query = [], u_fragment = []\<rparr>"
proof -
  have "split_scheme (''mqtts'' @ CHR '':'' # ''//'' @ s) = (''mqtts'', ''//'' @ s)"
    unfolding split_scheme_def by (subst py_split1_append) (simp_all add: scheme_char_def is_alpha_def py_lower_def lower_char_def)
  then show ?thesis using clean_mqtts [OF assms] split_netloc [OF assms] by (simp add: urlparse_def cut_def)
qed

lemma py_split_last: "c \<notin> set b \<Longrightarrow> py_split c (a @ c # b) = py_split c a @ [b]"
proof (induction a)
  case Nil
  then show ?case by (simp add: py_split_no_sep)
next
  case (Cons x a)
  then show ?case by (cases "py_split c a") auto
qed

lemma user_host_at:
  assumes "CHR ''@'' \<notin> set host"
  shows "user_host (info @ CHR ''@'' # host) = (Some info, host)"
proof -
  have "py_split (CHR ''@'') (info @ CHR ''@'' # host) = py_split (CHR ''@'') info @ [host]"
    using assms by (rule py_split_last)
  then show ?thesis by (simp add: user_host_def py_join_split py_split_ne)
qed

definition host_text :: "string \<Rightarrow> bool" where
  "host_text h \<longleftrightarrow> h \<noteq> [] \<and> url_text h \<and> py_lower h = h \<and> (\<forall>c \<in> set h. c \<notin> set ''@:%'')"

lemma nat_str_chars: "c \<in> set (nat_str n) \<Longrightarrow> is_digit c"
  using digits_nat_str [of n] by (simp add: list_all_iff)

lemma parse_credentials:
  assumes u: "url_text username" "CHR '':'' \<notin> set username" and p: "url_text password"
    and h: "host_text host" and port: "0 < port" "port \<le> 65535"
  shows "\<exists>i. urlparse (connect_uri username password host (int port)) = Inr i \<and> u_scheme i = ''mqtts'' \<and>
    uri_username i = Some username \<and> uri_password i = Some password \<and> uri_hostname i = Some host \<and>
    uri_port i = Inr (Some (int port))"
proof -
  let ?hp = "host @ CHR '':'' # nat_str port" and ?info = "username @ CHR '':'' # password"
  let ?netloc = "?info @ CHR ''@'' # ?hp"
  define i where "i = \<lparr>u_scheme = ''mqtts'', u_netloc = ?netloc, u_path = [], u_query = [], u_fragment = []\<rparr>"
  have d: "url_text (nat_str port)" "CHR ''@'' \<notin> set (nat_str port)" "CHR ''['' \<notin> set (nat_str port)"
    by (auto simp: url_text_def dest!: nat_str_chars) (simp_all add: is_digit_def)
  have "url_text ?netloc" using u p h d by (simp add: url_text_Cons host_text_def)
  moreover have "connect_uri username password host (int port) = ''mqtts://'' @ ?netloc"
    by (simp add: connect_uri_def int_str_def)
  ultimately have parsed: "urlparse (connect_uri username password host (int port)) = Inr i"
    using parse_mqtts by (simp only: i_def)
  have uh: "user_host (u_netloc i) = (Some ?info, ?hp)"
    unfolding i_def uri.simps using h d by (intro user_host_at) (auto simp: host_text_def)
  have info: "py_split1 (CHR '':'') ?info = (username, Some password)" using u(2) by (rule py_split1_append)
  have "CHR ''['' \<notin> set host" using h by (simp add: host_text_def url_text_def) blast
  then have "CHR ''['' \<notin> set ?hp" using d(3) by simp
  then have "py_split1 (CHR ''['') ?hp = (?hp, None)" by (rule py_split1_no_sep)
  moreover have "CHR '':'' \<notin> set host" using h by (auto simp: host_text_def)
  then have "py_split1 (CHR '':'') ?hp = (host, Some (nat_str port))" by (rule py_split1_append)
  ultimately have "host_port (u_netloc i) = (host, nat_str port)"
    by (simp add: host_port_def uh cut_def)
  moreover have "CHR ''%'' \<notin> set host" using h by (auto simp: host_text_def)
  then have "py_split1 (CHR ''%'') host = (host, None)" by (rule py_split1_no_sep)
  ultimately show ?thesis
    using h port parsed info uh
    by (intro exI [of _ i]) (simp add: uri_username_def uri_password_def uri_hostname_def uri_port_def host_text_def i_def)
qed

section \<open>The outcome\<close>

text \<open>The session after the URL of the proxy was read, and the TLS context without any check.\<close>

definition with_credentials :: "string \<Rightarrow> string \<Rightarrow> string \<Rightarrow> int \<Rightarrow> mqtt_session \<Rightarrow> mqtt_session" where
  "with_credentials username password host port se =
     se\<lparr>se_username := or_else (se_username se) (Some username), se_password := or_else (se_password se) (Some password),
       se_address := Some host, se_port := Some port\<rparr>"

definition unverified :: "(string \<times> string) option \<Rightarrow> tls" where
  "unverified chain = \<lparr>tl_check_hostname = False, tl_verify = False, tl_chain = chain\<rparr>"

lemma read_credentials:
  assumes "urlparse (connect_uri username password host (int port)) = Inr i" "u_scheme i = ''mqtts''"
    "uri_username i = Some username" "uri_password i = Some password" "uri_hostname i = Some host"
    "uri_port i = Inr (Some (int port))" and "0 < port"
  shows "read_uri se i = (Inr (), with_credentials username password host (int port) se)"
  using assms by (simp add: read_uri_def Let_def default_port_def with_credentials_def)

lemma tls_unverified:
  assumes "cv_context V = Inr ()" "case cv_chain V of None \<Rightarrow> True | Some (c, k) \<Rightarrow> cv_load_chain V c k = Inr ()"
  shows "tls_context V = (if cv_check_hostname V = Some (JBool False) then Inr (unverified (cv_chain V)) else Inl ValueError)"
  using assms by (auto simp: tls_context_def Let_def unverified_def split: option.splits json.splits)

lemma proxy_session:
  assumes "url_text username" "CHR '':'' \<notin> set username" "url_text password" "host_text host" "0 < port" "port \<le> 65535"
    and "se_uri se = connect_uri username password host (int port)"
    and "cv_context V = Inr ()" "case cv_chain V of None \<Rightarrow> True | Some (c, k) \<Rightarrow> cv_load_chain V c k = Inr ()"
  shows "\<exists>i. u_scheme i = ''mqtts'' \<and> connect_session V se =
    (if cv_check_hostname V = Some (JBool False) then Inr (i, Some (unverified (cv_chain V))) else Inl ValueError,
     with_credentials username password host (int port) se)"
proof -
  obtain i where i: "urlparse (se_uri se) = Inr i" "u_scheme i = ''mqtts''"
    "uri_username i = Some username" "uri_password i = Some password" "uri_hostname i = Some host"
    "uri_port i = Inr (Some (int port))"
    using parse_credentials [OF assms(1-6)] assms(7) by metis
  then have "read_uri se i = (Inr (), with_credentials username password host (int port) se)"
    using read_credentials assms(5,7) by simp
  then show ?thesis
    using i tls_unverified [OF assms(8,9)]
    by (intro exI [of _ i]) (simp add: connect_session_def py_run)
qed

lemma start_run:
  assumes "cv_open V (se_address se) (se_port se) t = Inr ()" "cv_mqtt_connect V se = Inr CONNECTION_ACCEPTED"
    and "cv_start V = Inr ()"
  shows "guarded_start V ''mqtts'' t se = (Inr CONNECTION_ACCEPTED, se\<lparr>se_transitions := se_transitions se @ [''connect'']\<rparr>)"
  using assms by (simp add: guarded_start_def open_and_start_def transition_def py_run)

lemma refused_run:
  assumes "cv_open V (se_address se) (se_port se) t = Inr ()" "cv_mqtt_connect V se = Inr code" "code \<noteq> CONNECTION_ACCEPTED"
  shows "guarded_start V ''mqtts'' t se = (Inl (ConnectError code), se\<lparr>se_transitions := se_transitions se @ [''disconnect'']\<rparr>)"
  using assms by (simp add: guarded_start_def open_and_start_def transition_def py_run is_os_error_def)

text \<open>The client counts as connected exactly when the broker accepted the connection.\<close>

lemma guarded_accepts: "guarded_start V scheme t se = (Inr code, se') \<Longrightarrow> code = CONNECTION_ACCEPTED"
  by (auto simp: guarded_start_def open_and_start_def transition_def py_run split: sum.splits if_splits)

lemma connected_exactly:
  assumes "connect_coro V c = (r, c')" "mc_session c \<noteq> None" "\<not> mc_connected c"
  shows "mc_connected c' \<longleftrightarrow> r = Inr CONNECTION_ACCEPTED"
  using assms by (auto simp: connect_coro_def dest: guarded_accepts split: prod.splits sum.splits)

section \<open>Properties\<close>

text \<open>C22: The proxy connects with exactly the name and the password it was given, over a TLS
  connection that verifies nothing. It does so only when its configuration says not to check
  the host name: otherwise the verification cannot be switched off, \<open>ValueError\<close> is raised and
  nothing is opened.\<close>

theorem proxy_connects_unverified:
  assumes "url_text username" "CHR '':'' \<notin> set username" "username \<noteq> []" "url_text password" "password \<noteq> []"
    and "host_text host" "0 < port" "port \<le> 65535"
    and "mc_session c = Some se" "se_uri se = connect_uri username password host (int port)"
    and "se_username se = None" "se_password se = None" "\<not> mc_connected c"
    and ctx: "cv_context V = Inr ()" "case cv_chain V of None \<Rightarrow> True | Some (f, k) \<Rightarrow> cv_load_chain V f k = Inr ()"
    and broker: "cv_open V (Some host) (Some (int port)) (Some (unverified (cv_chain V))) = Inr ()"
      "\<And>s. se_username s = Some username \<Longrightarrow> se_password s = Some password \<Longrightarrow> cv_mqtt_connect V s = Inr CONNECTION_ACCEPTED"
      "cv_start V = Inr ()"
  shows "\<exists>se' c'. connect_coro V c =
      (if cv_check_hostname V = Some (JBool False) then Inr CONNECTION_ACCEPTED else Inl ValueError, c') \<and>
    (mc_connected c' \<longleftrightarrow> cv_check_hostname V = Some (JBool False)) \<and> mc_session c' = Some se' \<and>
    se_username se' = Some username \<and> se_password se' = Some password \<and>
    se_address se' = Some host \<and> se_port se' = Some (int port)"
proof -
  let ?se = "with_credentials username password host (int port) se"
  obtain i where i: "u_scheme i = ''mqtts''" "connect_session V se =
    (if cv_check_hostname V = Some (JBool False) then Inr (i, Some (unverified (cv_chain V))) else Inl ValueError, ?se)"
    using proxy_session [OF assms(1,2,4,6,7,8,10) ctx] by blast
  have se: "se_username ?se = Some username" "se_password ?se = Some password" "se_address ?se = Some host"
    "se_port ?se = Some (int port)"
    using assms(11,12) by (simp_all add: with_credentials_def or_else_def)
  have "guarded_start V ''mqtts'' (Some (unverified (cv_chain V))) ?se =
    (Inr CONNECTION_ACCEPTED, ?se\<lparr>se_transitions := se_transitions ?se @ [''connect'']\<rparr>)"
    using broker se by (intro start_run) simp_all
  then show ?thesis
    using assms(9,13) i se by (simp add: connect_coro_def)
qed

definition demo_connect_env :: connect_env where
  "demo_connect_env = \<lparr>cv_chain = None, cv_check_hostname = Some (JBool False), cv_context = Inr (),
     cv_load_chain = (\<lambda>_ _. Inl OSError), cv_open = (\<lambda>_ _ _. Inr ()), cv_websocket = (\<lambda>_ _. Inl OSError),
     cv_mqtt_connect = (\<lambda>s. if se_password s = Some ''p:w'' then Inr 0 else Inr 4), cv_start = Inr ()\<rparr>"

definition demo_session :: mqtt_session where
  "demo_session = \<lparr>se_username = None, se_password = None, se_address = None, se_port = None,
     se_uri = ''mqtts://u:p:w@mq.ecouser.net:443'', se_transitions = []\<rparr>"

theorem proxy_connects_unverified_witness:
  "\<exists>c'. connect_coro demo_connect_env \<lparr>mc_session = Some demo_session,
     mc_connected = False\<rparr> = (Inr CONNECTION_ACCEPTED, c') \<and> mc_connected c'"
proof -
  have uri: "se_uri demo_session = connect_uri ''u'' ''p:w'' ''mq.ecouser.net'' (int 443)" by code_simp
  have parts: "url_text ''u''" "url_text ''p:w''" "host_text ''mq.ecouser.net''" by code_simp+
  show ?thesis
    using proxy_connects_unverified [OF parts(1) _ _ parts(2) _ parts(3) _ _ _ uri,
      of "\<lparr>mc_session = Some demo_session, mc_connected = False\<rparr>" demo_connect_env]
    by (fastforce simp: demo_connect_env_def demo_session_def CONNECTION_ACCEPTED_def)
qed

end
