(* ===== verification/Mitm_CMD.thy ===== *)
theory Mitm_CMD
  imports Py_Bytes
begin

text \<open>
  The scripts that record the commands of the app (src/configs/mitm-cmd.py) and redirect
  requests (src/configs/mitm-dns.py). The recorded requests and answers are stored by command
  and told apart by a hash of their payload; \<open>json.loads\<close> and SHA-256 are parameters, and the
  file of the traffic can always be opened.
\<close>

section \<open>Requests\<close>

record cmd_flow =
  cf_text :: "string option"
  cf_query :: doc
  cf_response :: "string option"

record cmd_name =
  cn_id :: string
  cn_request :: json
  cn_response :: json
  cn_count :: nat

record cmd_env =
  ce_loads :: "string \<Rightarrow> py_exc + json"
  ce_sha256 :: "string \<Rightarrow> string"

definition ignore_list :: "json list" where
  "ignore_list = []"

text \<open>A text that is \<open>None\<close> fails again in the handler that logs the first failure.\<close>

definition safe_json_load :: "cmd_env \<Rightarrow> string option \<Rightarrow> py_exc + json" where
  "safe_json_load E text =
     (case text of
        None \<Rightarrow> Inl TypeError
      | Some t \<Rightarrow>
          if py_strip t = [] then Inr JNull else (case ce_loads E t of Inr j \<Rightarrow> Inr j | Inl _ \<Rightarrow> Inr JNull))"

definition attr_get :: "json \<Rightarrow> string \<Rightarrow> json \<Rightarrow> py_exc + json" where
  "attr_get v k v0 = (case v of JObj d \<Rightarrow> Inr (dget_or d k v0) | _ \<Rightarrow> Inl AttributeError)"

definition payload_data :: "doc \<Rightarrow> py_exc + json" where
  "payload_data d =
     (if map_of d ''cmdName'' \<noteq> None then
        res_bind (attr_get (dget_or d ''payload'' (JObj [])) ''body'' (JObj [])) (\<lambda>body.
        res_bind (attr_get body ''data'' JNull) (\<lambda>v.
        Inr (case v of JObj e \<Rightarrow> JObj (dpop e ''bdTaskID'') | _ \<Rightarrow> v)))
      else attr_get (dget_or d ''body'' (JObj [])) ''data'' JNull)"

definition extract_payload_id :: "cmd_env \<Rightarrow> doc \<Rightarrow> py_exc + string option" where
  "extract_payload_id E d =
     (let command = dget d (if map_of d ''cmdName'' \<noteq> None then ''cmdName'' else ''apn'') in
      if \<not> truthy command \<or> py_in command ignore_list then Inr None
      else res_bind (payload_data d) (\<lambda>v.
        Inr (if v = JNull then None else Some (py_str command @ ''_'' @ ce_sha256 E (utf8_encode (py_str v))))))"

text \<open>\<open>_create_id\<close>: everything that is raised is logged and gives \<open>None\<close>.\<close>

definition create_id :: "cmd_env \<Rightarrow> cmd_flow \<Rightarrow> (json \<times> string) option" where
  "create_id E f =
     (case safe_json_load E (cf_text f) of
        Inr (JObj d) \<Rightarrow>
          (let d = dupdate d (cf_query f);
               command = (if truthy (dget d ''cmdName'') then dget d ''cmdName'' else dget d ''apn'')
           in if \<not> truthy command \<or> py_in command ignore_list then None
              else (case extract_payload_id E d of Inr (Some i) \<Rightarrow> Some (command, i) | _ \<Rightarrow> None))
      | _ \<Rightarrow> None)"

section \<open>The recorded traffic\<close>

type_synonym recorded = "(json \<times> cmd_name list) list"

record traffic =
  tr_unique :: recorded
  tr_file :: "string option"

definition key_ok :: "json \<Rightarrow> bool" where
  "key_ok v = (case v of JList _ \<Rightarrow> False | JObj _ \<Rightarrow> False | _ \<Rightarrow> True)"

fun messages_of :: "json \<Rightarrow> recorded \<Rightarrow> cmd_name list" where
  "messages_of c [] = []"
| "messages_of c ((k, ms) # r) = (if py_eq k c then ms else messages_of c r)"

fun put_messages :: "json \<Rightarrow> cmd_name list \<Rightarrow> recorded \<Rightarrow> recorded" where
  "put_messages c ms [] = [(c, ms)]"
| "put_messages c ms ((k, old) # r) = (if py_eq k c then (k, ms) # r else (k, old) # put_messages c ms r)"

text \<open>The first entry with an id is changed.\<close>

fun with_entry :: "string \<Rightarrow> (cmd_name \<Rightarrow> cmd_name) \<Rightarrow> cmd_name list \<Rightarrow> cmd_name list" where
  "with_entry i f [] = []"
| "with_entry i f (e # es) = (if cn_id e = i then f e # es else e # with_entry i f es)"

definition new_messages :: "cmd_env \<Rightarrow> cmd_flow \<Rightarrow> string \<Rightarrow> cmd_name list \<Rightarrow> cmd_name list" where
  "new_messages E f i ms =
     (if list_ex (\<lambda>e. cn_id e = i) ms then with_entry i (\<lambda>e. e\<lparr>cn_count := cn_count e + 1\<rparr>) ms
      else (case safe_json_load E (cf_text f) of
              Inr (JObj d) \<Rightarrow>
                ms @ [\<lparr>cn_id = i, cn_request = JObj (dset d ''query'' (JObj (cf_query f))), cn_response = JNull,
                  cn_count = 1\<rparr>]
            | _ \<Rightarrow> ms))"

definition on_request :: "cmd_env \<Rightarrow> cmd_flow \<Rightarrow> traffic \<Rightarrow> traffic" where
  "on_request E f s =
     (case create_id E f of
        None \<Rightarrow> s
      | Some (c, i) \<Rightarrow>
          if \<not> key_ok c then s
          else s\<lparr>tr_unique := put_messages c (new_messages E f i (messages_of c (tr_unique s))) (tr_unique s)\<rparr>)"

section \<open>The file\<close>

definition nl :: string where "nl = [char_of (10 :: nat)]"

definition plain_char :: "char \<Rightarrow> string" where
  "plain_char c = (if 127 \<le> (of_char c :: nat) then [c] else dumps_char c)"

definition plain_str :: "string \<Rightarrow> string" where
  "plain_str s = [char_of (34::nat)] @ concat (map plain_char s) @ [char_of (34::nat)]"

text \<open>\<open>json.dump(v, indent=2, ensure_ascii=False)\<close>, at a depth of \<open>n\<close> spaces.\<close>

definition broken :: "nat \<Rightarrow> string \<Rightarrow> string list \<Rightarrow> string \<Rightarrow> string" where
  "broken n open_text items close_text =
     (if items = [] then open_text @ close_text
      else open_text @ nl @ replicate (n + 2) CHR '' '' @ py_join ('','' @ nl @ replicate (n + 2) CHR '' '') items
        @ nl @ replicate n CHR '' '' @ close_text)"

fun dump_indent :: "nat \<Rightarrow> json \<Rightarrow> string" where
  "dump_indent n (JList xs) = broken n ''['' (map (dump_indent (n + 2)) xs) '']''"
| "dump_indent n (JObj d) =
     broken n ''{'' (map (\<lambda>(k, v). plain_str k @ '': '' @ dump_indent (n + 2) v) d) ''}''"
| "dump_indent n (JStr s) = plain_str s"
| "dump_indent n v = json_dumps v"

definition possible_keys :: "string list" where
  "possible_keys = [''eid'', ''er'', ''realm'', ''resource'', ''toId'', ''token'', ''toRes'', ''userid'', ''with'', ''did'']"

definition replaced :: json where
  "replaced = JStr ''REPLACED''"

definition replace_known :: "doc \<Rightarrow> doc" where
  "replace_known d = fold (\<lambda>k d. if map_of d k \<noteq> None then dset d k replaced else d) possible_keys d"

definition replace_all :: "doc \<Rightarrow> doc" where
  "replace_all d = fold (\<lambda>k d. dset d k replaced) possible_keys d"

definition set_request :: "json \<Rightarrow> (cmd_name, unit) py" where
  "set_request j = py_modify (\<lambda>e. e\<lparr>cn_request := j\<rparr>)"

text \<open>
  \<open>_replace_sensitive_info\<close> works in place: what it changed before it raises stays changed. The
  stored requests are dictionaries, an answer is any value of a JSON text.
\<close>

definition replace_auth :: "doc \<Rightarrow> (cmd_name, doc) py" where
  "replace_auth d =
     (case map_of d ''auth'' of
        None \<Rightarrow> py_ret d
      | Some (JObj a) \<Rightarrow> (let d = dset d ''auth'' (JObj (replace_all a)) in py_seq (set_request (JObj d)) (py_ret d))
      | Some _ \<Rightarrow> py_raise TypeError)"

definition replace_query :: "doc \<Rightarrow> (cmd_name, doc) py" where
  "replace_query d =
     (case map_of d ''query'' of
        None \<Rightarrow> py_ret d
      | Some (JObj q) \<Rightarrow> (let d = dset d ''query'' (JObj (replace_known q)) in py_seq (set_request (JObj d)) (py_ret d))
      | Some (JStr s) \<Rightarrow> if list_ex (\<lambda>k. contains k s) possible_keys then py_raise TypeError else py_ret d
      | Some (JList xs) \<Rightarrow> if list_ex (\<lambda>k. py_in (JStr k) xs) possible_keys then py_raise TypeError else py_ret d
      | Some _ \<Rightarrow> py_raise TypeError)"

definition replace_response :: "(cmd_name, unit) py" where
  "replace_response =
     py_bind (py_gets cn_response) (\<lambda>r.
     if \<not> truthy r then py_ret ()
     else (case r of
        JObj d \<Rightarrow> if map_of d ''id'' \<noteq> None then py_modify (\<lambda>e. e\<lparr>cn_response := JObj (dset d ''id'' replaced)\<rparr>) else py_ret ()
      | JStr s \<Rightarrow> if contains ''id'' s then py_raise TypeError else py_ret ()
      | JList xs \<Rightarrow> if py_in (JStr ''id'') xs then py_raise TypeError else py_ret ()
      | _ \<Rightarrow> py_raise TypeError))"

definition replace_sensitive_info :: "(cmd_name, unit) py" where
  "replace_sensitive_info =
     py_bind (py_gets cn_request) (\<lambda>r.
     py_seq
       (case r of
          JObj d \<Rightarrow>
            if d = [] then py_ret ()
            else (let d = replace_known d in
              py_seq (set_request (JObj d)) (py_bind (replace_auth d) (\<lambda>d. py_bind (replace_query d) (\<lambda>_. py_ret ()))))
        | _ \<Rightarrow> py_ret ())
       replace_response)"

definition message_text :: "cmd_name \<Rightarrow> string" where
  "message_text e =
     ''**Seen:** '' @ nat_str (cn_count e) @ '' times'' @ nl @ nl @ [CHR 0x60, CHR 0x60, CHR 0x60] @ ''json'' @ nl @
     dump_indent 0 (JObj [(''request'', cn_request e), (''response'', cn_response e)]) @
     nl @ [CHR 0x60, CHR 0x60, CHR 0x60] @ nl @ nl"

text \<open>The loops of \<open>_save_traffic\<close>: the changed entries, the text, and whether they came to their end.\<close>

fun save_messages :: "cmd_name list \<Rightarrow> cmd_name list \<times> string \<times> bool" where
  "save_messages [] = ([], [], True)"
| "save_messages (e # es) =
     (case replace_sensitive_info e of
        (Inl _, e) \<Rightarrow> (e # es, [], False)
      | (Inr _, e) \<Rightarrow> (case save_messages es of (es, t, ok) \<Rightarrow> (e # es, message_text e @ t, ok)))"

definition command_head :: "json \<Rightarrow> string" where
  "command_head c =
     ''<details>'' @ nl @ ''  <summary>'' @ py_str c @ ''</summary>'' @ nl @ nl @
     ''!['' @ py_str c @ ''](''  @ py_str c @ ''.png)'' @ nl @ nl"

fun save_commands :: "recorded \<Rightarrow> recorded \<times> string \<times> bool" where
  "save_commands [] = ([], [], True)"
| "save_commands ((c, ms) # r) =
     (case save_messages ms of
        (ms, t, False) \<Rightarrow> ((c, ms) # r, command_head c @ t, False)
      | (ms, t, True) \<Rightarrow>
          (case save_commands r of
             (r, u, ok) \<Rightarrow> ((c, ms) # r, command_head c @ t @ ''</details>'' @ nl @ nl @ u, ok)))"

definition save_traffic :: "traffic \<Rightarrow> traffic" where
  "save_traffic s = (case save_commands (tr_unique s) of (r, t, _) \<Rightarrow> \<lparr>tr_unique = r, tr_file = Some t\<rparr>)"

definition on_response :: "cmd_env \<Rightarrow> cmd_flow \<Rightarrow> traffic \<Rightarrow> traffic" where
  "on_response E f s =
     (case create_id E f of
        None \<Rightarrow> s
      | Some (c, i) \<Rightarrow>
          let ms = messages_of c (tr_unique s) in
          if \<not> key_ok c \<or> \<not> list_ex (\<lambda>e. cn_id e = i) ms then s
          else (case safe_json_load E (cf_response f) of
                  Inl _ \<Rightarrow> s
                | Inr j \<Rightarrow>
                    save_traffic (s\<lparr>tr_unique :=
                      put_messages c (with_entry i (\<lambda>e. e\<lparr>cn_response := j\<rparr>) ms) (tr_unique s)\<rparr>)))"

definition on_done :: "traffic \<Rightarrow> traffic" where
  "on_done s = save_traffic s"

section \<open>The redirection of requests\<close>

definition host_override :: "string \<Rightarrow> string \<Rightarrow> string" where
  "host_override url host =
     (let domain = ''dc-na.ww.ecouser.net'';
          host = (if contains ''codepush.appcenter.ms'' url then ''codepush-base.'' @ domain else host);
          host = (if contains ''adv-app.ecouser.net'' url then ''adv-app.'' @ domain else host)
      in if contains ''gl-de-wap.ecovacs.com'' url then ''gl-de-wap.'' @ domain else host)"

section \<open>Counts\<close>

datatype cmd_event = Request cmd_flow | Response cmd_flow | Done

definition step :: "cmd_env \<Rightarrow> cmd_event \<Rightarrow> traffic \<Rightarrow> traffic" where
  "step E e s = (case e of Request f \<Rightarrow> on_request E f s | Response f \<Rightarrow> on_response E f s | Done \<Rightarrow> on_done s)"

text \<open>How often a command with an id was seen, by what is recorded.\<close>

fun count_in :: "string \<Rightarrow> cmd_name list \<Rightarrow> nat" where
  "count_in i [] = 0"
| "count_in i (e # es) = (if cn_id e = i then cn_count e else count_in i es)"

definition seen :: "json \<Rightarrow> string \<Rightarrow> recorded \<Rightarrow> nat" where
  "seen c i r = count_in i (messages_of c r)"

lemma messages_put:
  "messages_of (JStr c) (put_messages (JStr c') ms r) = (if c = c' then ms else messages_of (JStr c) r)"
  by (induction r) auto

lemma count_with_entry:
  "(\<And>e. cn_id (f e) = cn_id e) \<Longrightarrow> list_ex (\<lambda>e. cn_id e = j) es \<Longrightarrow> (\<And>e. cn_count (f e) = cn_count e + k) \<Longrightarrow>
    count_in i (with_entry j f es) = count_in i es + (if i = j then k else 0)"
  by (induction es) auto

lemma count_absent: "\<not> list_ex (\<lambda>e. cn_id e = i) es \<Longrightarrow> count_in i es = 0"
  by (induction es) auto

lemma count_append: "count_in i (es @ [e]) = (if list_ex (\<lambda>e. cn_id e = i) es \<or> cn_id e \<noteq> i then count_in i es else cn_count e)"
  by (induction es) auto

lemma create_id_loads: "create_id E f = Some (c, i) \<Longrightarrow> \<exists>d. safe_json_load E (cf_text f) = Inr (JObj d)"
  by (auto simp: create_id_def split: sum.splits json.splits)

lemma count_new_messages:
  assumes "create_id E f = Some (c, j)"
  shows "count_in i (new_messages E f j ms) = count_in i ms + (if i = j then 1 else 0)"
proof (cases "list_ex (\<lambda>e. cn_id e = j) ms")
  case True
  then show ?thesis by (simp add: new_messages_def count_with_entry)
next
  case False
  then show ?thesis using create_id_loads [OF assms] by (auto simp: new_messages_def count_append count_absent)
qed

text \<open>Saving keeps the commands, the ids and the counts.\<close>

definition same_entry :: "cmd_name \<Rightarrow> cmd_name \<Rightarrow> bool" where
  "same_entry e e' \<longleftrightarrow> cn_id e' = cn_id e \<and> cn_count e' = cn_count e"

lemma keeps_same:
  "keeps (same_entry e) (set_request j)" "keeps (same_entry e) (replace_auth d)" "keeps (same_entry e) (replace_query d)"
  "keeps (same_entry e) replace_response"
  by (auto simp: keeps_def same_entry_def set_request_def replace_auth_def replace_query_def replace_response_def py_run
      Let_def split: option.splits json.splits if_splits)

lemma keeps_replace: "keeps (same_entry e) replace_sensitive_info"
  unfolding replace_sensitive_info_def
  by (intro keeps_bind keeps_seq keeps_gets keeps_same) (auto split: json.split intro!: keeps_rules keeps_same simp: Let_def)

lemma same_entry_refl: "same_entry e e"
  by (simp add: same_entry_def)

lemma save_messages_same: "list_all2 same_entry es (fst (save_messages es))"
proof (induction es)
  case Nil
  then show ?case by simp
next
  case (Cons e es)
  obtain r e' where run: "replace_sensitive_info e = (r, e')" by force
  have "same_entry e e'"
    using keepsD [OF keeps_replace same_entry_refl, of e] run by simp
  then show ?case using Cons run same_entry_refl
    by (cases r) (auto simp: list.rel_refl split: prod.split)
qed

definition same_messages :: "json \<times> cmd_name list \<Rightarrow> json \<times> cmd_name list \<Rightarrow> bool" where
  "same_messages p q \<longleftrightarrow> fst p = fst q \<and> list_all2 same_entry (snd p) (snd q)"

lemma same_messages_refl: "same_messages p p"
  by (simp add: same_messages_def list.rel_refl same_entry_refl)

lemma save_commands_same: "list_all2 same_messages r (fst (save_commands r))"
proof (induction r)
  case Nil
  then show ?case by simp
next
  case (Cons p r)
  obtain c ms where p: "p = (c, ms)" by force
  obtain ms' t ok where ms': "save_messages ms = (ms', t, ok)" by (metis prod_cases3)
  have "same_messages p (c, ms')" using save_messages_same [of ms] ms' p by (simp add: same_messages_def)
  then show ?case using Cons ms' p
    by (cases ok) (auto simp: list.rel_refl same_messages_refl split: prod.split)
qed

lemma count_same: "list_all2 same_entry es es' \<Longrightarrow> count_in i es' = count_in i es"
  by (induction rule: list_all2_induct) (auto simp: same_entry_def)

lemma seen_same: "list_all2 same_messages r r' \<Longrightarrow> seen c i r' = seen c i r"
  unfolding seen_def by (induction rule: list_all2_induct) (auto simp: same_messages_def count_same)

lemma seen_save: "seen c i (tr_unique (save_traffic s)) = seen c i (tr_unique s)"
  using seen_same [OF save_commands_same] by (simp add: save_traffic_def split: prod.split) (metis fst_conv)

text \<open>A request of a command with an id.\<close>

definition asks :: "cmd_env \<Rightarrow> string \<Rightarrow> string \<Rightarrow> cmd_event \<Rightarrow> bool" where
  "asks E c i e \<longleftrightarrow> (\<exists>f. e = Request f \<and> create_id E f = Some (JStr c, i))"

lemma key_ok_JStr [simp]: "key_ok (JStr c)"
  by (simp add: key_ok_def)

text \<open>The commands are texts, as the app sends them; another value may be no key of a dictionary.\<close>

definition flow_of :: "cmd_event \<Rightarrow> cmd_flow option" where
  "flow_of e = (case e of Request f \<Rightarrow> Some f | Response f \<Rightarrow> Some f | Done \<Rightarrow> None)"

definition text_command :: "cmd_env \<Rightarrow> cmd_event \<Rightarrow> bool" where
  "text_command E e \<longleftrightarrow>
     (case flow_of e of
        None \<Rightarrow> True
      | Some f \<Rightarrow> (case create_id E f of Some (JStr c, i) \<Rightarrow> True | None \<Rightarrow> True | _ \<Rightarrow> False))"

lemma text_commandD: "text_command E e \<Longrightarrow> flow_of e = Some f \<Longrightarrow> create_id E f = Some (c, i) \<Longrightarrow> \<exists>s. c = JStr s"
  by (auto simp: text_command_def split: json.splits)

lemma seen_step:
  assumes "text_command E e"
  shows "seen (JStr c) i (tr_unique (step E e s)) = seen (JStr c) i (tr_unique s) + (if asks E c i e then 1 else 0)"
proof (cases e)
  case (Request f)
  show ?thesis
  proof (cases "create_id E f")
    case None
    then show ?thesis using Request by (simp add: step_def on_request_def asks_def)
  next
    case (Some ci)
    obtain c' j where ci: "create_id E f = Some (JStr c', j)"
      using Some Request text_commandD [OF assms, of f "fst ci" "snd ci"] by (cases ci) (auto simp: flow_of_def)
    then show ?thesis using Request count_new_messages [OF ci]
      by (auto simp: step_def on_request_def asks_def seen_def messages_put)
  qed
next
  case (Response f)
  show ?thesis
  proof (cases "create_id E f")
    case None
    then show ?thesis using Response by (simp add: step_def on_response_def asks_def)
  next
    case (Some ci)
    obtain c' j where ci: "create_id E f = Some (JStr c', j)"
      using Some Response text_commandD [OF assms, of f "fst ci" "snd ci"] by (cases ci) (auto simp: flow_of_def)
    then show ?thesis using Response
      by (auto simp: step_def on_response_def asks_def seen_save Let_def split: sum.split)
        (auto simp: seen_def messages_put count_with_entry)
  qed
next
  case Done
  then show ?thesis by (simp add: step_def on_done_def asks_def seen_save)
qed

section \<open>What is replaced\<close>

lemma replace_known_get:
  "map_of (replace_known d) k = (if k \<in> set possible_keys \<and> map_of d k \<noteq> None then Some replaced else map_of d k)"
proof -
  have "map_of (fold (\<lambda>k d. if map_of d k \<noteq> None then dset d k replaced else d) ks d) k =
      (if k \<in> set ks \<and> map_of d k \<noteq> None then Some replaced else map_of d k)" for ks
    by (induction ks arbitrary: d) auto
  then show ?thesis by (simp add: replace_known_def)
qed

text \<open>
  A request whose \<open>auth\<close> is a text stops the saving: the file ends before it, whatever was
  recorded after it.
\<close>

lemma text_auth_stops_saving:
  assumes "cn_request e = JObj d" "map_of d ''auth'' = Some (JStr a)"
  shows "\<exists>e'. save_commands ((c, e # es) # r) = ((c, e' # es) # r, command_head c, False)"
proof -
  have "map_of (replace_known d) ''auth'' = Some (JStr a)"
    using assms(2) by (simp add: replace_known_get possible_keys_def)
  moreover have "d \<noteq> []" using assms(2) by auto
  ultimately have "\<exists>e'. replace_sensitive_info e = (Inl TypeError, e')"
    using assms(1) by (auto simp: replace_sensitive_info_def set_request_def replace_auth_def py_run Let_def)
  then show ?thesis by (auto)
qed

text \<open>A token below the first level of a request, outside \<open>auth\<close> and \<open>query\<close>, is not replaced.\<close>

lemma nested_token_stays:
  assumes "cn_request e = JObj d" "k \<notin> set possible_keys" "k \<notin> {''auth'', ''query''}"
    and "replace_sensitive_info e = (Inr u, e')"
  shows "\<exists>d'. cn_request e' = JObj d' \<and> map_of d' k = map_of d k"
  using assms
  by (auto simp: replace_sensitive_info_def set_request_def replace_auth_def replace_query_def replace_response_def py_run
      Let_def replace_known_get split: if_splits option.splits json.splits)

section \<open>Properties\<close>

text \<open>C29: Whatever requests, answers and saves follow each other, the number recorded for a
  command with an id grows by the number of the requests with this command and id.\<close>

theorem counts_exact:
  assumes "\<forall>e \<in> set es. text_command E e"
  shows "seen (JStr c) i (tr_unique (fold (step E) es s)) = seen (JStr c) i (tr_unique s) + length (filter (asks E c i) es)"
  using assms by (induction es arbitrary: s) (simp_all add: seen_step)

definition demo_cmd_env :: cmd_env where
  "demo_cmd_env = \<lparr>ce_loads = (\<lambda>t. if t = ''x'' then Inr (JObj
     [(''body'', JObj [(''data'', JObj [])])]) else Inr (JObj [])), ce_sha256 = (\<lambda>s. s)\<rparr>"

definition demo_cmd_flow :: cmd_flow where
  "demo_cmd_flow = \<lparr>cf_text = Some ''x'', cf_query = [(''apn'', JStr ''clean'')], cf_response = Some ''y''\<rparr>"

theorem counts_exact_witness:
  "seen (JStr ''clean'') ''clean_{}'' (tr_unique (fold (step demo_cmd_env)
     [Request demo_cmd_flow, Response demo_cmd_flow, Request demo_cmd_flow, Done] \<lparr>tr_unique = [], tr_file = None\<rparr>)) = 2"
proof -
  let ?es = "[Request demo_cmd_flow, Response demo_cmd_flow, Request demo_cmd_flow, Done]"
  have id: "create_id demo_cmd_env demo_cmd_flow = Some (JStr ''clean'', ''clean_{}'')" by code_simp
  have "\<forall>e \<in> set ?es. text_command demo_cmd_env e"
    by (simp add: text_command_def flow_of_def id)
  moreover have "length (filter (asks demo_cmd_env ''clean'' ''clean_{}'') ?es) = 2"
    by (simp add: asks_def id)
  moreover have "seen (JStr ''clean'') ''clean_{}'' [] = 0" by (simp add: seen_def)
  ultimately show ?thesis
    using counts_exact [of ?es demo_cmd_env "''clean''" "''clean_{}''" "\<lparr>tr_unique = [], tr_file = None\<rparr>"]
    by (simp del: fold_simps)
qed

end
