(* ===== verification/Routes.thy ===== *)
theory Routes
  imports Middleware
begin

text \<open>
  The routes of the web server (the \<open>routes\<close> of the plugins, src/bumper/web/plugins/__init__.py,
  \<open>WebServer._add_routes\<close>, \<open>bumper_routes\<close>): the table of every plugin, the packages of the
  plugins, and the applications made from them. The modules are those of the directory, in
  the order of their names; handlers are known by the expressions that name them.
\<close>

section \<open>Routes and applications\<close>

record route =
  rt_method :: string
  rt_path :: string
  rt_handler :: string

abbreviation route :: "string \<Rightarrow> string \<Rightarrow> string \<Rightarrow> route" where
  "route m p h \<equiv> \<lparr>rt_method = m, rt_path = p, rt_handler = h\<rparr>"

text \<open>An application: its own routes, and the applications below a prefix.\<close>

datatype application = App "route list" "(string \<times> application) list"

text \<open>A module with the routes of its classes, or a package of such.\<close>

datatype plugin = Module string "route list list" | Package string "route list list" "plugin list"

fun add_classes :: "route list list \<Rightarrow> application \<Rightarrow> application" where
  "add_classes cs (App rs ss) = App (rs @ concat cs) ss"

text \<open>\<open>_add_routes\<close>: a package makes an application of its own and adds it under its name.\<close>

fun add_routes :: "plugin \<Rightarrow> application \<Rightarrow> application" where
  "add_routes (Module name classes) a = add_classes classes a"
| "add_routes (Package name classes members) (App rs ss) =
     App rs (ss @ [(CHR ''/'' # name, fold add_routes members (add_classes classes (App [] [])))])"

section \<open>The tables of the plugins\<close>

definition BASE_URL_v1 :: string where
  "BASE_URL_v1 = ''/{country}/{language}/{devid}/{apptype}/{appversion}/{devtype}/{aid}/''"

definition BASE_URL_v2 :: string where
  "BASE_URL_v2 = ''/{country}/{language}/{devid}/{apptype}/{appversion}/{devtype}/{aid}/''"

definition BASE_URL_v3 :: string where
  "BASE_URL_v3 = ''/{country}/{language}/{devid}/{apptype}/{appversion}/{devtype}/{aid}/''"

definition AppsvrPlugin_routes :: "route list" where
  "AppsvrPlugin_routes =
     [
      route ''POST'' ''/appsvr/app.do'' ''_handle_app_do'',
      route ''*'' ''/appsvr/app/config'' ''_handle_app_config'',
      route ''*'' ''/appsvr/improve'' ''_handle_improve'',
      route ''*'' ''/appsvr/improve/accept'' ''_handle_improve_accept'',
      route ''*'' ''/appsvr/improve/user/accept'' ''_handle_improve_user_accept'',
      route ''*'' ''/appsvr/notice/home'' ''_handle_notice_home'',
      route ''*'' ''/appsvr/notice/list'' ''_handle_notice_list'',
      route ''*'' ''/appsvr/oauth_callback'' ''auth_service.oauth_callback'',
      route ''*'' ''/appsvr/oauth/token'' ''auth_service.oauth_callback'',
      route ''*'' ''/appsvr/service/list'' ''_handle_service_list'',
      route ''*'' ''/appsvr/ota/firmware'' ''_handle_ota_firmware'',
      route ''*'' ''/appsvr/device/blacklist/check'' ''_handle_device_blacklist_check'',
      route ''*'' ''/appsvr/akvs/start_watch'' ''_handle_akvs_start_watch'',
      route ''*'' ''/appsvr/product/getConfigGroups'' ''_handle_get_config_groups'',
      route ''*'' ''/appsvr/codepush/checkupdate'' ''_handle_codepush_update_check'',
      route ''GET'' ''/appsvr/device/prop/list'' ''_handle_device_prop_list'']"

definition BasisPlugin_routes :: "route list" where
  "BasisPlugin_routes =
     [
      route ''*'' ''/basis/dc/get-by-area'' ''_handle_get_by_area'']"

definition DimPlugin_content_routes :: "route list" where
  "DimPlugin_content_routes =
     [
      route ''POST'' ''/content/agreement'' ''_handle_content_agreement'']"

definition DimPlugin_dim_routes :: "route list" where
  "DimPlugin_dim_routes =
     [
      route ''POST'' ''/dim/devmanager.do'' ''_handle_dev_manager'']"

definition EcmsPlugin_routes :: "route list" where
  "EcmsPlugin_routes =
     [
      route ''*'' ''/ecms/file/get/{id}'' ''_get_bot_image'',
      route ''*'' ''/ecms/app/ad/res'' ''_handle_ad_res'',
      route ''*'' ''/ecms/app/ad/res/v2'' ''_handle_ad_res'',
      route ''*'' ''/ecms/app/ad/res/v3'' ''_handle_ad_res'',
      route ''*'' ''/ecms/app/element/hint'' ''_handle_hint'',
      route ''*'' ''/ecms/app/resources'' ''_handle_resources'',
      route ''*'' ''/ecms/app/push/event'' ''_handle_push_event'',
      route ''*'' ''/ecms/app/user/theme'' ''_handle_user_theme'']"

definition HomedPlugin_routes :: "route list" where
  "HomedPlugin_routes =
     [
      route ''*'' ''/homed/home/list'' ''_handle_home_list'',
      route ''POST'' ''/homed/home/create'' ''_handle_home_create'',
      route ''*'' ''/homed/home/update'' ''_handle_home_update'',
      route ''POST'' ''/homed/home/delete'' ''_handle_home_delete'',
      route ''*'' ''/homed/member/list'' ''_handle_member_list'',
      route ''POST'' ''/homed/device/move'' ''_handle_device_move'']"

definition IotPlugin_routes :: "route list" where
  "IotPlugin_routes =
     [
      route ''POST'' ''/iot/devmanager.do'' ''_handle_devmanager_bot_command'',
      route ''POST'' ''/iot/endpoint/control'' ''_handle_endpoint_control'']"

definition LgPlugin_routes :: "route list" where
  "LgPlugin_routes =
     [
      route ''POST'' ''/lg/log.do'' ''_handle_lg_log'']"

definition MicroserviceRecomendPlugin_routes :: "route list" where
  "MicroserviceRecomendPlugin_routes =
     [
      route ''*'' ''/microservice-recomend/userReminderResult/'' ''_handle_user_reminder_result'']"

definition NengPlugin_routes :: "route list" where
  "NengPlugin_routes =
     [
      route ''*'' ''/neng/message/hasUnreadMsg'' ''_handle_has_unread_message'',
      route ''*'' ''/neng/message/getShareMsgs'' ''_handle_get_share_msgs'',
      route ''*'' ''/neng/message/getlist'' ''_handle_get_list'',
      route ''*'' ''/neng/message/read'' ''_handle_read'',
      route ''*'' ''/neng/v2/message/push'' ''_handle_v2_message_push'',
      route ''*'' ''/neng/v3/message/pushStatus'' ''_handle_v3_message_push_status'',
      route ''*'' ''/neng/v3/message/latest_by_did'' ''_handle_v3_latest_by_did'',
      route ''*'' ''/neng/v3/message/list'' ''_handle_v3_message_list'',
      route ''*'' ''/neng/v3/product/msg/tabs'' ''_handle_v3_product_msg_tabs'',
      route ''*'' ''/neng/v3/shareMsg/hasUnreadMsg'' ''_handle_v3_share_msg_has_unread_msg'']"

definition NewPermPlugin_routes :: "route list" where
  "NewPermPlugin_routes =
     [
      route ''POST'' ''/new-perm/token/sst/issue'' ''_handle_sst_issue'']"

definition NoticePlugin_routes :: "route list" where
  "NoticePlugin_routes =
     [
      route ''*'' ''/notice/app'' ''_handle_notice_app'']"

definition OtaPlugin_routes :: "route list" where
  "OtaPlugin_routes =
     [
      route ''*'' ''/ota/products/wukong/class/{class}/firmware/latest.json'' ''_handle_products_firmware_latest'']"

definition PhotoPlugin_routes :: "route list" where
  "PhotoPlugin_routes =
     [
      route ''*'' ''/photo/list'' ''_handle_photo_list'']"

definition ConsumablePlugin_routes :: "route list" where
  "ConsumablePlugin_routes =
     [
      route ''*'' ''/consumable/getPurchaseUrl'' ''_handle_get_purchase_url'']"

definition DictionaryPlugin_routes :: "route list" where
  "DictionaryPlugin_routes =
     [
      route ''*'' ''/dictionary/getErrDetail'' ''_handle_get_err_detail'']"

definition EventDetailPlugin_eventdetail_routes :: "route list" where
  "EventDetailPlugin_eventdetail_routes =
     [
      route ''*'' ''/eventdetail.html'' ''_handle_event_detail'']"

definition FaqProblemPlugin_routes :: "route list" where
  "FaqProblemPlugin_routes =
     [
      route ''*'' ''/faqproblem.html'' ''_handle_faq_problem'']"

definition FilePlugin_routes :: "route list" where
  "FilePlugin_routes =
     [
      route ''*'' ''/file/get/{id}'' ''_get_bot_image'',
      route ''*'' ''/api/pim/file/get/{id}'' ''_get_bot_image'']"

definition ProductPlugin_routes :: "route list" where
  "ProductPlugin_routes =
     [
      route ''*'' ''/product/getProductIotMap'' ''_handle_get_product_iot_map'',
      route ''*'' ''/product/getConfignetAll'' ''_handle_get_config_net_all'',
      route ''*'' ''/product/getConfigGroups'' ''_handle_get_config_groups'',
      route ''POST'' ''/product/software/config/batch'' ''_handle_config_batch'',
      route ''POST'' ''/product/getShareInfo'' ''_handle_get_share_info'',
      route ''GET'' ''/product/image'' ''_get_bot_image'',
      route ''GET'' ''/product/entry/group'' ''_get_entry_group'']"

definition VoicePlugin_routes :: "route list" where
  "VoicePlugin_routes =
     [
      route ''*'' ''/voice/get'' ''_handle_get'',
      route ''*'' ''/voice/getLanuages'' ''_handle_get_lanuages'',
      route ''*'' ''/v2/voice/getLanuages'' ''_handle_get_lanuages'',
      route ''*'' ''/voice/download/{id}'' ''_handle_download'']"

definition RappPlugin_routes :: "route list" where
  "RappPlugin_routes =
     [
      route ''*'' ''/rapp/sds/user/data/map/get'' ''_handle_map_get'',
      route ''*'' ''/rapp/sds/user/data/del'' ''_handle_user_data_del'',
      route ''*'' ''/rapp/sds/user/data/list'' ''_handle_user_data_list'']"

definition SdsPlugin_routes :: "route list" where
  "SdsPlugin_routes =
     [
      route ''*'' ''/sds/baidu/audio/getcred'' ''_handle_baidu_audio_getcred'']"

definition UsersPlugin_routes :: "route list" where
  "UsersPlugin_routes =
     [
      route ''POST'' ''/users/user.do'' ''_handle_user'']"

definition DlnPlugin_routes :: "route list" where
  "DlnPlugin_routes =
     [
      route ''*'' ''/dln/api/log/clean_result/list'' ''_handle_clean_result_list'',
      route ''*'' ''/dln/api/log/clean_result/del'' ''_handle_clean_result_del'']"

definition PimPlugin_routes :: "route list" where
  "PimPlugin_routes =
     [
      route ''*'' ''/pim/offline.html'' ''_handle_offline'',
      route ''*'' ''/pim/network_setup_preparation_by_series.html'' ''_handle_network_setup_preparation_by_series'',
      route ''*'' ''/pim/find_qrcode.html'' ''_handle_find_qrcode'',
      route ''*'' ''/pim/faq_problem_new.html'' ''_handle_faq_problem_new'',
      route ''*'' ''/pim/active_discovery.html'' ''_handle_active_discovery'',
      route ''*'' ''/pim/viewWiFi.html'' ''_handle_view_wifi'']"

definition EventDetailPlugin_base_station_guide_newton_curi_routes :: "route list" where
  "EventDetailPlugin_base_station_guide_newton_curi_routes =
     [
      route ''*'' ''/base_station_guide_newton_curi.html'' ''_handle_base_station_guide_newton_curi'',
      route ''*'' ''/images/{id}'' ''_get_bot_image'']"

definition ImagePlugin_routes :: "route list" where
  "ImagePlugin_routes =
     [
      route ''*'' ''/{id}/{image}'' ''_get_bot_image'']"

definition GlobalPlugin_routes :: "route list" where
  "GlobalPlugin_routes =
     [
      route ''*'' ''/global/{year}/{month}/{day}/{id}'' ''_get_bot_image'']"

definition GlobalAuthPlugin_routes :: "route list" where
  "GlobalAuthPlugin_routes =
     [
      route ''*'' ''/global/auth/getAuthCode'' ''auth_service.get_auth_code'']"

definition AdPlugin_routes :: "route list" where
  "AdPlugin_routes =
     [
      route ''*'' (BASE_URL_v1 @ ''ad/getAdByPositionType'') ''_handle'',
      route ''*'' (BASE_URL_v1 @ ''ad/getBootScreen'') ''_handle'']"

definition AgreementPlugin_routes :: "route list" where
  "AgreementPlugin_routes =
     [
      route ''*'' (BASE_URL_v1 @ ''agreement/getUserAcceptInfo'') ''_handle_get_user_accept_info'']"

definition CampaignPlugin_routes :: "route list" where
  "CampaignPlugin_routes =
     [
      route ''*'' (BASE_URL_v1 @ ''campaign/homePageAlert'') ''_handle_home_page_alert'']"

definition CommonPlugin_v1_routes :: "route list" where
  "CommonPlugin_v1_routes =
     [
      route ''*'' (BASE_URL_v1 @ ''common/checkAPPVersion'') ''_handle_check_app_version'',
      route ''*'' (BASE_URL_v1 @ ''common/checkVersion'') ''_handle_check_version'',
      route ''*'' (BASE_URL_v1 @ ''common/uploadDeviceInfo'') ''_handle_upload_device_info'',
      route ''*'' (BASE_URL_v1 @ ''common/getSystemReminder'') ''_handle_get_system_reminder'',
      route ''*'' (BASE_URL_v1 @ ''common/getConfig'') ''_handle_get_config'',
      route ''*'' (BASE_URL_v1 @ ''common/getUserConfig'') ''_handle_get_user_config'',
      route ''*'' (BASE_URL_v1 @ ''common/getAreas'') ''_handle_get_areas'',
      route ''*'' (BASE_URL_v1 @ ''common/getAreaSupportService'') ''_handle_common_get_area_support_service'',
      route ''*'' (BASE_URL_v1 @ ''common/getAgreementURLBatch'') ''_handle_get_agreement_url_batch'',
      route ''*'' (BASE_URL_v1 @ ''common/getTimestamp'') ''_handle_get_timestamp'',
      route ''*'' (BASE_URL_v1 @ ''common/getBottomNavigateInfoList'') ''_handle_get_bottom_navigate_info_list'',
      route ''*'' (BASE_URL_v1 @ ''common/getAboutBriefItem'') ''_handle_get_about_brief_item'',
      route ''*'' (BASE_URL_v1 @ ''common/getCurrentAreaSupportServiceInfo'') ''handle_get_current_area_support_service_info'']"

definition DiscoverPlugin_routes :: "route list" where
  "DiscoverPlugin_routes =
     [
      route ''GET'' (BASE_URL_v1 @ ''discover/info/getLabelList'') ''_handle_get_label_list'',
      route ''GET'' (BASE_URL_v1 @ ''discover/info/getAllInfoPage'') ''_handle_get_all_info_page'']"

definition HelpPlugin_routes :: "route list" where
  "HelpPlugin_routes =
     [
      route ''*'' (BASE_URL_v1 @ ''help/getHelpIndex'') ''_handle_get_help_index'',
      route ''*'' (BASE_URL_v1 @ ''help/getProductHelpIndex'') ''_handle_get_product_help_index'']"

definition IntlPlugin_routes :: "route list" where
  "IntlPlugin_routes =
     [
      route ''*'' (BASE_URL_v1 @ ''intl/member/basicInfo'') ''_handle_basic_info'',
      route ''*'' (BASE_URL_v1 @ ''intl/member/signStatus'') ''_handle_sign_status'']"

definition MemberPlugin_v1_routes :: "route list" where
  "MemberPlugin_v1_routes =
     [
      route ''*'' (BASE_URL_v1 @ ''member/getExpByScene'') ''handle_get_exp_by_scene'']"

definition MessagePlugin_v1_routes :: "route list" where
  "MessagePlugin_v1_routes =
     [
      route ''*'' (BASE_URL_v1 @ ''message/hasUnreadMsg'') ''_handle_has_unread_message'',
      route ''*'' (BASE_URL_v1 @ ''message/getMsgList'') ''_handle_get_msg_list'']"

definition OsMallPlugin_routes :: "route list" where
  "OsMallPlugin_routes =
     [
      route ''*'' (BASE_URL_v1 @ ''osmall/getCountryConfig'') ''_handle_get_country_config'',
      route ''*'' (BASE_URL_v1 @ ''osmall/index/getLayout'') ''_handle_get_layout'',
      route ''*'' (BASE_URL_v1 @ ''osmall/index/getBannerList'') ''_handle_get_banner_list'',
      route ''*'' (BASE_URL_v1 @ ''osmall/index/getGoodsCategory'') ''_handle_get_goods_category'',
      route ''*'' (BASE_URL_v1 @ ''osmall/index/getConfNetRobotPartsGoods'') ''_handle_get_conf_net_robot_parts_goods'',
      route ''*'' (BASE_URL_v1 @ ''osmall/index/getRecommendGoods'') ''_handle_get_recommend_goods'',
      route ''*'' (BASE_URL_v1 @ ''osmall/proxy/my/get-user-center-coupon-list'') ''_handle_get_user_center_coupon_list'',
      route ''*'' (BASE_URL_v1 @ ''osmall/proxy/my/get-my-coupon'') ''_handle_get_my_coupon'',
      route ''*'' (BASE_URL_v1 @ ''osmall/proxy/coupon-send-activity/get-customer-coupon-send-activity-coupon'') ''_handle_get_customer_coupon_send_activity_coupon'',
      route ''*'' (BASE_URL_v1 @ ''osmall/proxy/cart/get-count'') ''_handle_get_count'',
      route ''*'' (BASE_URL_v1 @ ''osmall/proxy/order/list'') ''_handle_order_list'',
      route ''*'' (BASE_URL_v1 @ ''osmall/proxy/product/material-accessory-list'') ''_handle_material_accessory_list'',
      route ''*'' (BASE_URL_v1 @ ''osmall/proxy/v2/web/benefit/get-benefits'') ''_handle_v2_get_benefits'',
      route ''*'' (BASE_URL_v1 @ ''osmall/proxy/v2/web/payment-icon/index'') ''_handle_v2_payment_icon_index'']"

definition OsMall2Plugin_routes :: "route list" where
  "OsMall2Plugin_routes =
     [
      route ''*'' (BASE_URL_v1 @ ''osmall2/index/getLayout'') ''_handle_get_layout'']"

definition ShopPlugin_routes :: "route list" where
  "ShopPlugin_routes =
     [
      route ''*'' (BASE_URL_v1 @ ''shop/getCnWapShopConfig'') ''_handle_get_cn_wap_shop_config'']"

definition UserPlugin_v1_routes :: "route list" where
  "UserPlugin_v1_routes =
     [
      route ''*'' (BASE_URL_v1 @ ''user/login'') ''auth_service.login'',
      route ''*'' (BASE_URL_v1 @ ''user/checkLogin'') ''auth_service.login'',
      route ''*'' (BASE_URL_v1 @ ''user/getAuthCode'') ''auth_service.get_auth_code'',
      route ''*'' (BASE_URL_v1 @ ''user/logout'') ''_logout'',
      route ''*'' (BASE_URL_v1 @ ''user/checkAgreement'') ''_handle_check_agreement'',
      route ''*'' (BASE_URL_v1 @ ''user/checkAgreementBatch'') ''handle_check_agreement_batch'',
      route ''*'' (BASE_URL_v1 @ ''user/getUserAccountInfo'') ''_handle_get_user_account_info'',
      route ''*'' (BASE_URL_v1 @ ''user/getUserMenuInfo'') ''_handle_get_user_menu_info'',
      route ''*'' (BASE_URL_v1 @ ''/user/getMyUserMenuInfo'') ''_handle_get_my_user_menu_info'',
      route ''*'' (BASE_URL_v1 @ ''user/getMyUserMenuInfo'') ''_handle_get_my_user_menu_info'',
      route ''*'' (BASE_URL_v1 @ ''user/changeArea'') ''_handle_change_area'',
      route ''*'' (BASE_URL_v1 @ ''user/queryChangeArea'') ''_handle_change_area'',
      route ''*'' (BASE_URL_v1 @ ''user/acceptAgreementBatch'') ''_handle_accept_agreement_batch'',
      route ''*'' (BASE_URL_v1 @ ''user/getMemberInfo'') ''_handle_get_member_info'']"

definition UserSettingPlugin_v1_routes :: "route list" where
  "UserSettingPlugin_v1_routes =
     [
      route ''*'' (BASE_URL_v1 @ ''userSetting/getSuggestionSetting'') ''_handle_get_suggestion_setting'',
      route ''*'' (BASE_URL_v1 @ ''userSetting/getMsgReceiveSetting'') ''handle_get_msg_receive_setting'',
      route ''*'' (BASE_URL_v1 @ ''userSetting/saveUserSetting'') ''_handle_save_user_setting'']"

definition CommonPlugin_v2_routes :: "route list" where
  "CommonPlugin_v2_routes =
     [
      route ''*'' (BASE_URL_v2 @ ''common/getBottomNavigateInfoList'') ''handle_get_bottom_navigate_info_list'',
      route ''GET'' (BASE_URL_v2 @ ''common/YIKOBasicSetting'') ''_handle_yiko_basic_setting'',
      route ''*'' (BASE_URL_v2 @ ''common/getCurrentAreaSupportServiceInfo'') ''handle_get_current_area_support_service_info'']"

definition MemberPlugin_v2_routes :: "route list" where
  "MemberPlugin_v2_routes =
     [
      route ''*'' (BASE_URL_v2 @ ''member/getExpByScene'') ''handle_get_exp_by_scene'',
      route ''*'' (BASE_URL_v2 @ ''member/getBindBenefit'') ''_handle_get_bind_benefit'']"

definition MessagePlugin_v2_routes :: "route list" where
  "MessagePlugin_v2_routes =
     [
      route ''*'' (BASE_URL_v2 @ ''message/hasMoreUnReadMsg'') ''_handle_has_more_unread_message'',
      route ''*'' (BASE_URL_v2 @ ''message/waterfallFlow'') ''_handle_waterfall_flow'',
      route ''*'' (BASE_URL_v2 @ ''message/moduleConfiguration'') ''_handle_module_configuration'']"

definition UserPlugin_v2_routes :: "route list" where
  "UserPlugin_v2_routes =
     [
      route ''*'' (BASE_URL_v2 @ ''user/login'') ''auth_service.login'',
      route ''*'' (BASE_URL_v2 @ ''user/checkLogin'') ''auth_service.login'',
      route ''*'' (BASE_URL_v2 @ ''user/checkAgreementBatch'') ''handle_check_agreement_batch'']"

definition UserSettingPlugin_v2_routes :: "route list" where
  "UserSettingPlugin_v2_routes =
     [
      route ''*'' (BASE_URL_v2 @ ''userSetting/getMsgReceiveSetting'') ''handle_get_msg_receive_setting'']"

definition CommonPlugin_v3_routes :: "route list" where
  "CommonPlugin_v3_routes =
     [
      route ''*'' (BASE_URL_v3 @ ''common/getBottomNavigateInfoList'') ''handle_get_bottom_navigate_info_list'']"

section \<open>The server\<close>

definition plugins :: "plugin list" where
  "plugins =
     [Package ''api'' [] [Module ''appsvr'' [AppsvrPlugin_routes],
       Module ''basis'' [BasisPlugin_routes],
       Module ''content'' [DimPlugin_content_routes],
       Module ''dim'' [DimPlugin_dim_routes],
       Module ''ecms'' [EcmsPlugin_routes],
       Module ''homed'' [HomedPlugin_routes],
       Module ''iot'' [IotPlugin_routes],
       Module ''lg'' [LgPlugin_routes],
       Module ''microservice_recomend'' [MicroserviceRecomendPlugin_routes],
       Module ''neng'' [NengPlugin_routes],
       Module ''new_perm'' [NewPermPlugin_routes],
       Module ''notice'' [NoticePlugin_routes],
       Module ''ota'' [OtaPlugin_routes],
       Module ''photo'' [PhotoPlugin_routes],
       Package ''pim'' [] [Module ''consumable'' [ConsumablePlugin_routes],
       Module ''dictionary'' [DictionaryPlugin_routes],
       Module ''eventdetail'' [EventDetailPlugin_eventdetail_routes],
       Module ''faqproblem'' [FaqProblemPlugin_routes],
       Module ''file'' [FilePlugin_routes],
       Module ''product'' [ProductPlugin_routes],
       Module ''voice'' [VoicePlugin_routes]],
       Module ''rapp'' [RappPlugin_routes],
       Module ''sds'' [SdsPlugin_routes],
       Module ''users'' [UsersPlugin_routes]],
      Package ''app'' [] [Module ''dln'' [DlnPlugin_routes]],
      Package ''app_adv'' [] [Module ''pim'' [PimPlugin_routes]],
      Package ''pim'' [] [Module ''base_station_guide_newton_curi'' [EventDetailPlugin_base_station_guide_newton_curi_routes]],
      Package ''public'' [] [Module ''image'' [ImagePlugin_routes]],
      Package ''upload'' [] [Module ''global_upload'' [GlobalPlugin_routes]],
      Package ''v1'' [] [Module ''global_auth'' [GlobalAuthPlugin_routes],
       Package ''private'' [] [Module ''ad'' [AdPlugin_routes],
       Module ''agreement'' [AgreementPlugin_routes],
       Module ''campaign'' [CampaignPlugin_routes],
       Module ''common'' [CommonPlugin_v1_routes],
       Module ''discover'' [DiscoverPlugin_routes],
       Module ''help'' [HelpPlugin_routes],
       Module ''intl'' [IntlPlugin_routes],
       Module ''member'' [MemberPlugin_v1_routes],
       Module ''message'' [MessagePlugin_v1_routes],
       Module ''osmall'' [OsMallPlugin_routes],
       Module ''osmall2'' [OsMall2Plugin_routes],
       Module ''shop'' [ShopPlugin_routes],
       Module ''user'' [UserPlugin_v1_routes],
       Module ''user_setting'' [UserSettingPlugin_v1_routes]]],
      Package ''v2'' [] [Package ''private'' [] [Module ''common'' [CommonPlugin_v2_routes],
       Module ''member'' [MemberPlugin_v2_routes],
       Module ''message'' [MessagePlugin_v2_routes],
       Module ''user'' [UserPlugin_v2_routes],
       Module ''user_setting'' [UserSettingPlugin_v2_routes]]],
      Package ''v3'' [] [Package ''private'' [] [Module ''common'' [CommonPlugin_v3_routes]]]]"

definition add_plugins :: "application \<Rightarrow> application" where
  "add_plugins a = fold add_routes plugins a"

definition bumper_routes :: "route list" where
  "bumper_routes =
     [
      route ''GET'' [] ''handle_base'',
      route ''GET'' ''/favicon.ico'' ''_handle_favicon'',
      route ''GET'' ''/restart_{service}'' ''_handle_restart_service'',
      route ''GET'' ''/server-status'' ''_handle_partial(server_status)'',
      route ''GET'' ''/bots'' ''_handle_partial(bots)'',
      route ''GET'' ''/bot/remove/{did}'' ''_handle_remove_entity(bot)'',
      route ''GET'' ''/clients'' ''_handle_partial(clients)'',
      route ''GET'' ''/client/remove/{userid}'' ''_handle_remove_entity(client)'',
      route ''GET'' ''/users'' ''_handle_partial(users)'',
      route ''GET'' ''/user/remove/{userid}'' ''_handle_remove_entity(user)'',
      route ''GET'' ''/clean_logs'' ''_handle_partial(clean_logs)'',
      route ''GET'' ''/clean_log/remove/{clean_log_id}'' ''_handle_remove_entity(clean_log)'',
      route ''GET'' ''/clean_logs/remove/{placeholder}'' ''_handle_remove_entity(clean_logs)'']"

text \<open>A directory of files is a route of its own kind: it serves every path below it.\<close>

definition static_route :: route where
  "static_route = route ''STATIC'' ''/static'' ''static_path''"

definition single_routes :: "route list" where
  "single_routes =
     [
      route ''GET'' ''/ca-certificates.tar.gz'' ''single_paths.handle_ca_certificates'',
      route ''POST'' ''/newauth.do'' ''single_paths.handle_new_auth'',
      route ''POST'' ''/lookup.do'' ''single_paths.handle_lookup'',
      route ''GET'' ''/config/Android.conf'' ''single_paths.handle_config_android_conf'',
      route ''GET'' ''/data_collect/upload/generalData'' ''single_paths.handle_data_collect'',
      route ''POST'' ''/sa'' ''single_paths.handle_sa'',
      route ''POST'' ''/v0.1/public/codepush/report_status/deploy'' ''single_paths.handle_codepush_report_status_deploy'',
      route ''GET'' ''/v0.1/public/codepush/update_check'' ''single_paths.handle_codepush_update_check'',
      route ''POST'' ''/Global_APP_BuryPoint/api'' ''single_paths.handle_global_app_bury_point_api'',
      route ''POST'' ''/Global_APP_BuryPoint/api/appevent'' ''single_paths.handle_global_app_bury_point_api_appevent'',
      route ''POST'' ''/biz-app-config/api/v2/chat_bot_id/config'' ''single_paths.handle_chat_bot_id_config'',
      route ''GET'' ''/content/agreement'' ''single_paths.handle_content_agreement'']"

text \<open>\<open>WebServer._add_routes\<close>: the plugins first, then the routes of the server itself.\<close>

definition server_routes :: "bool \<Rightarrow> application" where
  "server_routes proxy_mode =
     (let start = [static_route] @ bumper_routes in
      if proxy_mode then add_classes [start @ [route ''*'' ''/{path:.*}'' ''self._handle_proxy'']] (App [] [])
      else add_classes [start @ single_routes] (add_plugins (App [] [])))"

text \<open>All routes, with the prefixes of their applications before their paths.\<close>

definition at_prefix :: "string \<Rightarrow> route \<Rightarrow> route" where
  "at_prefix q r = r\<lparr>rt_path := q @ rt_path r\<rparr>"

fun all_routes :: "application \<Rightarrow> route list" where
  "all_routes (App rs ss) = rs @ concat (map (\<lambda>(q, a). map (at_prefix q) (all_routes a)) ss)"

end
