(* ===== verification/Routing.thy ===== *)
theory Routing
  imports Routes
begin

text \<open>
  Which route serves a request. How aiohttp compares a path with a template is a parameter with
  the laws of the locale \<open>path_matching\<close>; the lemmas show that no request has two routes in the
  table of the server, so that the order in which the plugins are found does not matter.
\<close>

section \<open>Templates\<close>

text \<open>
  The documented behaviour of a template without a regular expression: the text before a brace
  is matched as it is, a variable matches no slash. An empty template stands for the root.
\<close>

definition segments :: "string \<Rightarrow> string list" where
  "segments p = py_split (CHR ''/'') (drop 1 p)"

definition segment_ok :: "string \<Rightarrow> string \<Rightarrow> bool" where
  "segment_ok s x \<longleftrightarrow> (case py_split1 (CHR ''{'') s of (a, None) \<Rightarrow> x = s | (a, Some _) \<Rightarrow> prefix a x)"

definition path_ok :: "string \<Rightarrow> bool" where
  "path_ok t \<longleftrightarrow> (t = [] \<or> hd t = CHR ''/'') \<and> CHR '':'' \<notin> set t"

locale path_matching =
  fixes matches :: "string \<Rightarrow> string \<Rightarrow> bool"
  assumes by_segments: "path_ok t \<Longrightarrow> matches t p \<Longrightarrow> list_all2 segment_ok (segments t) (segments p)"

text \<open>A matching that has these laws: variables are not empty and hold no brace.\<close>

definition segment_match :: "string \<Rightarrow> string \<Rightarrow> bool" where
  "segment_match s x \<longleftrightarrow>
     (case py_split1 (CHR ''{'') s of
        (a, None) \<Rightarrow> x = s
      | (a, Some r) \<Rightarrow>
          prefix a x \<and> suffix (drop 1 (dropWhile (\<lambda>c. c \<noteq> CHR ''}'') r)) x \<and>
          length a + length (drop 1 (dropWhile (\<lambda>c. c \<noteq> CHR ''}'') r)) < length x \<and>
          CHR ''{'' \<notin> set x \<and> CHR ''}'' \<notin> set x)"

definition template_match :: "string \<Rightarrow> string \<Rightarrow> bool" where
  "template_match t p \<longleftrightarrow> list_all2 segment_match (segments t) (segments p)"

lemma segment_match_ok: "segment_match s x \<Longrightarrow> segment_ok s x"
  by (cases "py_split1 (CHR ''{'') s"; cases "snd (py_split1 (CHR ''{'') s)")
    (simp_all add: segment_match_def segment_ok_def)

interpretation templates: path_matching template_match
  by unfold_locales (auto simp: template_match_def intro: list_all2_mono segment_match_ok)

section \<open>Which route serves a request\<close>

abbreviation is_static :: "route \<Rightarrow> bool" where
  "is_static r \<equiv> rt_method r = ''STATIC''"

definition admits :: "route \<Rightarrow> string \<Rightarrow> bool" where
  "admits r verb \<longleftrightarrow>
     (if is_static r then verb \<in> {''GET'', ''HEAD''}
      else rt_method r \<in> {''*'', verb} \<or> rt_method r = ''GET'' \<and> verb = ''HEAD'')"

definition serves :: "(string \<Rightarrow> string \<Rightarrow> bool) \<Rightarrow> route \<Rightarrow> string \<Rightarrow> string \<Rightarrow> bool" where
  "serves matches r verb p \<longleftrightarrow>
     admits r verb \<and> (if is_static r then prefix (rt_path r @ ''/'') p else matches (rt_path r) p)"

section \<open>Routes apart\<close>

abbreviation rsegs :: "route \<Rightarrow> string list" where
  "rsegs r \<equiv> segments (rt_path r)"

definition fits :: "route \<Rightarrow> string list \<Rightarrow> bool" where
  "fits r vs \<longleftrightarrow> list_all2 segment_ok (rsegs r) (if is_static r then take (length (rsegs r)) vs else vs)"

definition apart :: "route \<Rightarrow> route \<Rightarrow> bool" where
  "apart r r' \<longleftrightarrow> (\<forall>verb vs. admits r verb \<longrightarrow> admits r' verb \<longrightarrow> fits r vs \<longrightarrow> \<not> fits r' vs)"

lemma apartD: "apart r r' \<Longrightarrow> admits r verb \<Longrightarrow> admits r' verb \<Longrightarrow> fits r vs \<Longrightarrow> fits r' vs \<Longrightarrow> False"
  by (auto simp: apart_def)

lemma apart_sym: "apart r r' \<Longrightarrow> apart r' r"
  by (auto simp: apart_def)

lemma segments_ne [simp]: "segments p \<noteq> []"
  by (simp add: segments_def)

lemma segment_ok_literal: "CHR ''{'' \<notin> set s \<Longrightarrow> segment_ok s x \<longleftrightarrow> x = s"
  by (simp add: segment_ok_def py_split1_no_sep)

lemma py_split_append_split: "py_split c (a @ c # b) = py_split c a @ py_split c b"
  by (induction a) (auto split: list.splits simp: neq_Nil_conv)

lemma segments_static:
  assumes "prefix (t @ ''/'') p" "t = CHR ''/'' # n"
  shows "take (length (segments t)) (segments p) = segments t"
proof -
  obtain w where "p = CHR ''/'' # n @ CHR ''/'' # w"
    using assms by (auto simp: prefix_def)
  then show ?thesis
    by (simp add: assms(2) segments_def py_split_append_split)
qed

lemma py_split_part_chars: "x \<in> set (py_split c s) \<Longrightarrow> set x \<subseteq> set s"
proof (induction s arbitrary: x)
  case (Cons a s)
  then show ?case
    by (cases "py_split c s") (fastforce split: if_splits)+
qed simp

lemma literal_segments: "CHR ''{'' \<notin> set t \<Longrightarrow> s \<in> set (segments t) \<Longrightarrow> CHR ''{'' \<notin> set s"
  using py_split_part_chars [of s "CHR ''/''" "drop 1 t"] set_drop_subset [of 1 t]
  by (auto simp: segments_def)

text \<open>What the checks below ask of every route.\<close>

definition route_ok :: "route \<Rightarrow> bool" where
  "route_ok r \<longleftrightarrow> path_ok (rt_path r) \<and>
     (is_static r \<longrightarrow> rt_path r \<noteq> [] \<and> CHR ''{'' \<notin> set (rt_path r))"

lemma serves_fits:
  assumes "path_matching matches" "route_ok r" "serves matches r verb p"
  shows "admits r verb \<and> fits r (segments p)"
proof (cases "is_static r")
  case True
  then obtain n where n: "rt_path r = CHR ''/'' # n"
    using assms(2) by (cases "rt_path r") (auto simp: route_ok_def path_ok_def)
  have "list_all2 segment_ok (rsegs r) (rsegs r)"
    using True assms(2) by (auto simp: route_ok_def list_all2_same segment_ok_literal literal_segments)
  moreover have "take (length (rsegs r)) (segments p) = rsegs r"
    using True assms(3) n by (intro segments_static [of _ _ n]) (auto simp: serves_def)
  ultimately show ?thesis
    using True assms(3) by (simp add: serves_def fits_def)
next
  case False
  then show ?thesis
    using assms path_matching.by_segments [OF assms(1)] by (simp add: serves_def fits_def route_ok_def)
qed

section \<open>Two routes of one application\<close>

text \<open>A criterion that two routes have no request in common, on their segments.\<close>

definition segment_parts :: "string \<Rightarrow> string \<times> bool" where
  "segment_parts s = (case py_split1 (CHR ''{'') s of (a, None) \<Rightarrow> (s, True) | (a, Some _) \<Rightarrow> (a, False))"

fun same :: "string \<Rightarrow> string \<Rightarrow> bool" where
  "same [] [] = True"
| "same (x # xs) (y # ys) = (if x = y then same xs ys else False)"
| "same _ _ = False"

fun starts :: "string \<Rightarrow> string \<Rightarrow> bool" where
  "starts [] ys = True"
| "starts (x # xs) (y # ys) = (if x = y then starts xs ys else False)"
| "starts _ _ = False"

fun parts_meet :: "string \<times> bool \<Rightarrow> string \<times> bool \<Rightarrow> bool" where
  "parts_meet (a, True) (b, True) \<longleftrightarrow> same a b"
| "parts_meet (a, True) (b, False) \<longleftrightarrow> starts b a"
| "parts_meet (a, False) (b, True) \<longleftrightarrow> starts a b"
| "parts_meet (a, False) (b, False) \<longleftrightarrow> (if starts a b then True else starts b a)"

lemma same_eq: "same xs ys \<longleftrightarrow> xs = ys"
  by (induction xs ys rule: same.induct) auto

lemma starts_eq: "starts xs ys \<longleftrightarrow> prefix xs ys"
  by (induction xs ys rule: starts.induct) auto

lemma parts_meet:
  assumes "segment_ok s x" "segment_ok s' x"
  shows "parts_meet (segment_parts s) (segment_parts s')"
proof (cases "py_split1 (CHR ''{'') s")
  case a: (Pair a r)
  show ?thesis
  proof (cases "py_split1 (CHR ''{'') s'")
    case b: (Pair b r')
    show ?thesis
      using assms prefix_same_cases [of a x b]
      by (cases r; cases r') (auto simp: a b segment_ok_def segment_parts_def same_eq starts_eq)
  qed
qed

text \<open>The segments of the routes, side by side; of a directory only its own are compared.\<close>

fun meet :: "bool \<Rightarrow> (string \<times> bool) list \<Rightarrow> bool \<Rightarrow> (string \<times> bool) list \<Rightarrow> bool" where
  "meet st (x # xs) st' (y # ys) = (if parts_meet x y then meet st xs st' ys else False)"
| "meet st [] st' ys = (if st then True else ys = [])"
| "meet st (x # xs) st' [] = st'"

lemma meet:
  "list_all2 segment_ok ss (if st then take (length ss) vs else vs) \<Longrightarrow>
   list_all2 segment_ok ss' (if st' then take (length ss') vs else vs) \<Longrightarrow>
   meet st (map segment_parts ss) st' (map segment_parts ss')"
proof (induction ss arbitrary: ss' vs)
  case Nil
  then show ?case by (cases st; cases st') auto
next
  case (Cons s ss)
  then obtain v ws where v: "vs = v # ws" by (cases vs) (auto split: if_splits)
  show ?case
  proof (cases ss')
    case Nil
    then show ?thesis using Cons.prems v by (auto split: if_splits)
  next
    case s': (Cons s' ts)
    have "segment_ok s v" "list_all2 segment_ok ss (if st then take (length ss) ws else ws)"
      "segment_ok s' v" "list_all2 segment_ok ts (if st' then take (length ts) ws else ws)"
      using Cons.prems by (auto simp: v s' split: if_splits)
    then show ?thesis using Cons.IH [of ws ts] by (simp add: s' parts_meet)
  qed
qed

definition verbs_meet :: "string \<Rightarrow> string \<Rightarrow> bool" where
  "verbs_meet m m' \<longleftrightarrow> \<not> (m = ''GET'' \<and> m' = ''POST'' \<or> m = ''POST'' \<and> m' = ''GET'')"

lemma verbs_meet: "admits r verb \<Longrightarrow> admits r' verb \<Longrightarrow> verbs_meet (rt_method r) (rt_method r')"
  by (auto simp: admits_def verbs_meet_def split: if_splits)

type_synonym route_shape = "(string \<times> bool) list \<times> bool \<times> string"

definition shape :: "route \<Rightarrow> route_shape" where
  "shape r = (map segment_parts (rsegs r), is_static r, rt_method r)"

fun clash :: "route_shape \<Rightarrow> route_shape \<Rightarrow> bool" where
  "clash (ps, st, m) (ps', st', m') = (if meet st ps st' ps' then verbs_meet m m' else False)"

lemma clash: "\<not> clash (shape r) (shape r') \<Longrightarrow> apart r r'"
  using meet [of "rsegs r" "is_static r" _ "rsegs r'" "is_static r'"] verbs_meet [of r _ r']
  by (auto simp: apart_def fits_def shape_def)

fun none_clashes :: "route_shape \<Rightarrow> route_shape list \<Rightarrow> bool" where
  "none_clashes x [] = True"
| "none_clashes x (y # ys) = (if clash x y then False else none_clashes x ys)"

fun no_clash :: "route_shape list \<Rightarrow> bool" where
  "no_clash [] = True"
| "no_clash (x # xs) = (if none_clashes x xs then no_clash xs else False)"

lemma none_clashes: "none_clashes x ys \<longleftrightarrow> (\<forall>y \<in> set ys. \<not> clash x y)"
  by (induction ys) auto

lemma no_clash: "no_clash (map shape rs) \<Longrightarrow> sorted_wrt apart rs"
  by (induction rs) (auto simp: none_clashes clash split: if_splits)

section \<open>The applications\<close>

definition name_ok :: "string \<Rightarrow> bool" where
  "name_ok q \<longleftrightarrow> q \<noteq> [] \<and> hd q = CHR ''/'' \<and> list_all (\<lambda>c. c \<notin> {CHR ''/'', CHR ''{'', CHR '':''}) (tl q)"

lemma name_okE:
  assumes "name_ok q"
  obtains n where "q = CHR ''/'' # n" "CHR ''/'' \<notin> set n" "CHR ''{'' \<notin> set n" "CHR '':'' \<notin> set n"
  using assms by (cases q) (auto simp: name_ok_def list_all_iff)

definition below_ok :: "route \<Rightarrow> bool" where
  "below_ok r \<longleftrightarrow> route_ok r \<and> rt_path r \<noteq> []"

lemma at_segments:
  assumes "below_ok r" "CHR ''/'' \<notin> set n"
  shows "rsegs (at_prefix (CHR ''/'' # n) r) = n # rsegs r"
proof -
  obtain y where "rt_path r = CHR ''/'' # y"
    using assms(1) by (cases "rt_path r") (auto simp: below_ok_def route_ok_def path_ok_def)
  then show ?thesis
    using assms(2) by (simp add: at_prefix_def segments_def py_split_append)
qed

lemma at_method [simp]: "rt_method (at_prefix q r) = rt_method r"
  by (simp add: at_prefix_def)

lemma at_admits [simp]: "admits (at_prefix q r) = admits r"
  by (simp add: admits_def fun_eq_iff)

lemma at_fits:
  assumes "below_ok r" "CHR ''/'' \<notin> set n" "CHR ''{'' \<notin> set n" "fits (at_prefix (CHR ''/'' # n) r) vs"
  obtains ws where "vs = n # ws" "fits r ws"
  using assms(4) by (cases vs) (auto simp: fits_def at_segments [OF assms(1,2)] segment_ok_literal [OF assms(3)] split: if_splits)

lemma at_ok: "name_ok q \<Longrightarrow> below_ok r \<Longrightarrow> below_ok (at_prefix q r)"
  by (erule name_okE) (auto simp: below_ok_def route_ok_def path_ok_def at_prefix_def)

lemma at_apart:
  assumes "name_ok q" "below_ok r" "below_ok r'" "apart r r'"
  shows "apart (at_prefix q r) (at_prefix q r')"
proof -
  obtain n where q: "q = CHR ''/'' # n" "CHR ''/'' \<notin> set n" "CHR ''{'' \<notin> set n"
    using assms(1) by (rule name_okE)
  show ?thesis
    unfolding apart_def
  proof (intro allI impI notI)
    fix verb vs
    assume "admits (at_prefix q r) verb" "admits (at_prefix q r') verb" "fits (at_prefix q r) vs" "fits (at_prefix q r') vs"
    moreover obtain ws where "vs = n # ws" "fits r ws"
      using at_fits [OF assms(2) q(2,3)] calculation(3) by (auto simp: q(1))
    moreover obtain ws' where "vs = n # ws'" "fits r' ws'"
      using at_fits [OF assms(3) q(2,3)] calculation(4) by (auto simp: q(1))
    ultimately show False
      using apartD [OF assms(4), of verb ws] by simp
  qed
qed

lemma names_apart:
  assumes "name_ok q" "name_ok q'" "q \<noteq> q'" "below_ok r" "below_ok r'"
  shows "apart (at_prefix q r) (at_prefix q' r')"
proof -
  obtain n where q: "q = CHR ''/'' # n" "CHR ''/'' \<notin> set n" "CHR ''{'' \<notin> set n"
    using assms(1) by (rule name_okE)
  obtain n' where q': "q' = CHR ''/'' # n'" "CHR ''/'' \<notin> set n'" "CHR ''{'' \<notin> set n'"
    using assms(2) by (rule name_okE)
  show ?thesis
    unfolding apart_def
    using assms(3) at_fits [OF assms(4) q(2,3)] at_fits [OF assms(5) q'(2,3)]
    by (metis list.inject q(1) q'(1))
qed

text \<open>An own route keeps away from a name by its first segment.\<close>

definition away :: "string \<Rightarrow> route \<Rightarrow> bool" where
  "away q r \<longleftrightarrow> \<not> parts_meet (segment_parts (hd (rsegs r))) (tl q, True)"

lemma away_apart:
  assumes "name_ok q" "below_ok r'" "away q r"
  shows "apart r (at_prefix q r')"
proof -
  obtain n where q: "q = CHR ''/'' # n" "CHR ''/'' \<notin> set n" "CHR ''{'' \<notin> set n"
    using assms(1) by (rule name_okE)
  have parts: "segment_parts n = (n, True)"
    by (simp add: segment_parts_def py_split1_no_sep q(3))
  have "\<not> segment_ok (hd (rsegs r)) n"
    using assms(3) parts_meet [of _ n n] by (auto simp: away_def q(1) parts segment_ok_literal [OF q(3)])
  then have "\<not> fits r (n # ws)" for ws
    by (cases "rsegs r") (auto simp: fits_def split: if_splits)
  then show ?thesis
    unfolding apart_def using at_fits [OF assms(2) q(2,3)] by (metis q(1))
qed

fun below :: "application \<Rightarrow> bool" where
  "below (App rs ss) \<longleftrightarrow> list_all below_ok rs \<and> list_all (\<lambda>(q, a). name_ok q \<and> below a) ss"

lemma below_table: "below a \<Longrightarrow> r \<in> set (all_routes a) \<Longrightarrow> below_ok r"
proof (induction a arbitrary: r rule: all_routes.induct)
  case (1 rs ss)
  from "1.prems"(2) consider "r \<in> set rs"
    | q a r' where "(q, a) \<in> set ss" "r' \<in> set (all_routes a)" "r = at_prefix q r'"
    by auto
  then show ?case
  proof cases
    case 1
    then show ?thesis using "1.prems"(1) by (simp add: list_all_iff)
  next
    case 2
    then have "name_ok q" "below a"
      using "1.prems"(1) by (auto simp: list_all_iff)
    moreover from this have "below_ok r'"
      using "1.IH" 2 by blast
    ultimately show ?thesis using 2 at_ok by simp
  qed
qed

lemma subs_apart:
  assumes "\<forall>(q, a) \<in> set ss. name_ok q \<and> below a \<and> sorted_wrt apart (all_routes a)" "distinct (map fst ss)"
  shows "sorted_wrt apart (concat (map (\<lambda>(q, a). map (at_prefix q) (all_routes a)) ss))"
  using assms
proof (induction ss)
  case (Cons s ss)
  obtain q a where s: "s = (q, a)" by (cases s)
  have q: "name_ok q" "below a" "sorted_wrt apart (all_routes a)"
    using Cons.prems(1) by (simp_all add: s)
  have "sorted_wrt apart (map (at_prefix q) (all_routes a))"
    using q by (auto simp: sorted_wrt_map intro!: at_apart below_table elim!: sorted_wrt_mono_rel [rotated])
  moreover have "apart (at_prefix q r) (at_prefix q' r')"
    if "r \<in> set (all_routes a)" "(q', a') \<in> set ss" "r' \<in> set (all_routes a')" for r q' a' r'
  proof (rule names_apart)
    show "q \<noteq> q'" using Cons.prems(2) that(2) by (force simp: s)
    show "name_ok q'" "below_ok r'"
      using Cons.prems(1) that(2,3) below_table by auto
  qed (use q that below_table in auto)
  ultimately show ?case
    using Cons by (auto simp: s sorted_wrt_append)
qed simp

text \<open>The routes of an application are apart when its own are, and those of the parts.\<close>

lemma app_apart:
  assumes "no_clash (map shape rs)" "distinct (map fst ss)"
    "\<forall>(q, a) \<in> set ss. name_ok q \<and> list_all (away q) rs \<and> below a \<and> sorted_wrt apart (all_routes a)"
  shows "sorted_wrt apart (all_routes (App rs ss))"
proof -
  have "apart r (at_prefix q r')" if "r \<in> set rs" "(q, a) \<in> set ss" "r' \<in> set (all_routes a)" for r q a r'
    using assms(3) that by (intro away_apart) (auto simp: list_all_iff below_table)
  then show ?thesis
    using assms by (auto simp: sorted_wrt_append no_clash intro!: subs_apart)
qed

section \<open>The applications of the server\<close>


abbreviation app_ok :: "application \<Rightarrow> bool" where
  "app_ok a \<equiv> below a \<and> sorted_wrt apart (all_routes a)"

lemma app_okI:
  assumes "no_clash (map shape rs)" "list_all below_ok rs" "distinct (map fst ss)"
    "list_all (\<lambda>q. name_ok q \<and> list_all (away q) rs) (map fst ss)" "\<forall>(q, a) \<in> set ss. app_ok a"
  shows "app_ok (App rs ss)"
proof
  show "below (App rs ss)"
    using assms by (auto simp: list_all_iff)
  show "sorted_wrt apart (all_routes (App rs ss))"
    using assms by (intro app_apart) (auto simp: list_all_iff)
qed

lemma app_ok_leaf: "no_clash (map shape rs) \<Longrightarrow> list_all below_ok rs \<Longrightarrow> app_ok (App rs [])"
  by (intro app_okI) auto

lemma app_routes_ok:
  assumes "list_all route_ok rs" "\<forall>(q, a) \<in> set ss. name_ok q \<and> below a" "r \<in> set (all_routes (App rs ss))"
  shows "route_ok r"
  using assms at_ok below_table by (fastforce simp: list_all_iff below_ok_def)

lemma filter_one:
  assumes "sorted_wrt P xs" "x \<in> set xs" "Q x" "\<And>y z. P y z \<Longrightarrow> y \<in> set xs \<Longrightarrow> z \<in> set xs \<Longrightarrow> Q y \<Longrightarrow> Q z \<Longrightarrow> False"
  shows "filter Q xs = [x]"
proof -
  obtain as bs where xs: "xs = as @ x # bs" using assms(2) by (meson split_list)
  have "filter Q as = []" "filter Q bs = []"
    using assms by (auto simp: xs sorted_wrt_append filter_empty_conv)
  then show ?thesis using assms(3) by (simp add: xs)
qed

lemma serves_alone:
  assumes "path_matching matches" "sorted_wrt apart rs" "\<forall>r \<in> set rs. route_ok r" "r \<in> set rs" "serves matches r verb p"
  shows "filter (\<lambda>r. serves matches r verb p) rs = [r]"
  using assms(2,4,5)
proof (rule filter_one)
  fix y z
  assume "apart y z" "y \<in> set rs" "z \<in> set rs" "serves matches y verb p" "serves matches z verb p"
  then show False
    using assms(3) serves_fits [OF assms(1)] apartD by blast
qed

end
