(* ===== verification/Route_Properties.thy ===== *)
theory Route_Properties
  imports Routing
begin

text \<open>
  The applications the plugins make of the tables, and that no request has two routes in the
  table of the server.
\<close>

section \<open>The routes of each application\<close>

abbreviation api_own :: "route list" where
  "api_own \<equiv> AppsvrPlugin_routes @ BasisPlugin_routes @ DimPlugin_content_routes @ DimPlugin_dim_routes @ EcmsPlugin_routes @ HomedPlugin_routes @ IotPlugin_routes @ LgPlugin_routes @ MicroserviceRecomendPlugin_routes @ NengPlugin_routes @ NewPermPlugin_routes @ NoticePlugin_routes @ OtaPlugin_routes @ PhotoPlugin_routes @ RappPlugin_routes @ SdsPlugin_routes @ UsersPlugin_routes"

abbreviation api_pim_own :: "route list" where
  "api_pim_own \<equiv> ConsumablePlugin_routes @ DictionaryPlugin_routes @ EventDetailPlugin_eventdetail_routes @ FaqProblemPlugin_routes @ FilePlugin_routes @ ProductPlugin_routes @ VoicePlugin_routes"

abbreviation app_own :: "route list" where
  "app_own \<equiv> DlnPlugin_routes"

abbreviation app_adv_own :: "route list" where
  "app_adv_own \<equiv> PimPlugin_routes"

abbreviation pim_own :: "route list" where
  "pim_own \<equiv> EventDetailPlugin_base_station_guide_newton_curi_routes"

abbreviation public_own :: "route list" where
  "public_own \<equiv> ImagePlugin_routes"

abbreviation upload_own :: "route list" where
  "upload_own \<equiv> GlobalPlugin_routes"

abbreviation v1_own :: "route list" where
  "v1_own \<equiv> GlobalAuthPlugin_routes"

abbreviation v1_private_own :: "route list" where
  "v1_private_own \<equiv> AdPlugin_routes @ AgreementPlugin_routes @ CampaignPlugin_routes @ CommonPlugin_v1_routes @ DiscoverPlugin_routes @ HelpPlugin_routes @ IntlPlugin_routes @ MemberPlugin_v1_routes @ MessagePlugin_v1_routes @ OsMallPlugin_routes @ OsMall2Plugin_routes @ ShopPlugin_routes @ UserPlugin_v1_routes @ UserSettingPlugin_v1_routes"

abbreviation v2_own :: "route list" where
  "v2_own \<equiv> []"

abbreviation v2_private_own :: "route list" where
  "v2_private_own \<equiv> CommonPlugin_v2_routes @ MemberPlugin_v2_routes @ MessagePlugin_v2_routes @ UserPlugin_v2_routes @ UserSettingPlugin_v2_routes"

abbreviation v3_own :: "route list" where
  "v3_own \<equiv> []"

abbreviation v3_private_own :: "route list" where
  "v3_private_own \<equiv> CommonPlugin_v3_routes"

abbreviation server_own :: "route list" where
  "server_own \<equiv> static_route # bumper_routes @ single_routes"

abbreviation plugin_apps :: "(string \<times> application) list" where
  "plugin_apps \<equiv>
     [(''/api'', App api_own [(''/pim'', App api_pim_own [])]),
      (''/app'', App app_own []),
      (''/app_adv'', App app_adv_own []),
      (''/pim'', App pim_own []),
      (''/public'', App public_own []),
      (''/upload'', App upload_own []),
      (''/v1'', App v1_own [(''/private'', App v1_private_own [])]),
      (''/v2'', App v2_own [(''/private'', App v2_private_own [])]),
      (''/v3'', App v3_own [(''/private'', App v3_private_own [])])]"

lemma plugin_apps: "add_plugins (App [] []) = App [] plugin_apps"
  by (simp add: add_plugins_def plugins_def)

lemma server_apps: "server_routes False = App server_own plugin_apps"
  by (simp add: server_routes_def Let_def plugin_apps)

lemma api_no_clash: "no_clash (map shape api_own)"
  by code_simp

lemma api_pim_no_clash: "no_clash (map shape api_pim_own)"
  by code_simp

lemma app_no_clash: "no_clash (map shape app_own)"
  by code_simp

lemma app_adv_no_clash: "no_clash (map shape app_adv_own)"
  by code_simp

lemma pim_no_clash: "no_clash (map shape pim_own)"
  by code_simp

lemma public_no_clash: "no_clash (map shape public_own)"
  by code_simp

lemma upload_no_clash: "no_clash (map shape upload_own)"
  by code_simp

lemma v1_no_clash: "no_clash (map shape v1_own)"
  by code_simp

lemma v1_private_no_clash: "no_clash (map shape v1_private_own)"
  by code_simp

lemma v2_no_clash: "no_clash (map shape v2_own)"
  by code_simp

lemma v2_private_no_clash: "no_clash (map shape v2_private_own)"
  by code_simp

lemma v3_no_clash: "no_clash (map shape v3_own)"
  by code_simp

lemma v3_private_no_clash: "no_clash (map shape v3_private_own)"
  by code_simp

lemma server_no_clash: "no_clash (map shape server_own)"
  by code_simp

lemma plugin_names: "distinct (map fst plugin_apps) \<and> list_all (\<lambda>q. name_ok q \<and> list_all (away q) server_own) (map fst plugin_apps)"
  by code_simp

lemma api_below: "list_all below_ok api_own"
  by code_simp

lemma api_pim_below: "list_all below_ok api_pim_own"
  by code_simp

lemma app_below: "list_all below_ok app_own"
  by code_simp

lemma app_adv_below: "list_all below_ok app_adv_own"
  by code_simp

lemma pim_below: "list_all below_ok pim_own"
  by code_simp

lemma public_below: "list_all below_ok public_own"
  by code_simp

lemma upload_below: "list_all below_ok upload_own"
  by code_simp

lemma v1_below: "list_all below_ok v1_own"
  by code_simp

lemma v1_private_below: "list_all below_ok v1_private_own"
  by code_simp

lemma v2_below: "list_all below_ok v2_own"
  by code_simp

lemma v2_private_below: "list_all below_ok v2_private_own"
  by code_simp

lemma v3_below: "list_all below_ok v3_own"
  by code_simp

lemma v3_private_below: "list_all below_ok v3_private_own"
  by code_simp

lemma server_ok: "list_all route_ok server_own"
  by code_simp

lemma sub_names:
  "name_ok ''/pim'' \<and> list_all (away ''/pim'') api_own"
  "name_ok ''/private'' \<and> list_all (away ''/private'') v1_own"
  by code_simp+

lemmas leaf_apps =
  app_ok_leaf [OF api_pim_no_clash api_pim_below] app_ok_leaf [OF v1_private_no_clash v1_private_below]
  app_ok_leaf [OF v2_private_no_clash v2_private_below] app_ok_leaf [OF v3_private_no_clash v3_private_below]
  app_ok_leaf [OF app_no_clash app_below] app_ok_leaf [OF app_adv_no_clash app_adv_below]
  app_ok_leaf [OF pim_no_clash pim_below] app_ok_leaf [OF public_no_clash public_below]
  app_ok_leaf [OF upload_no_clash upload_below]

lemma api_app: "app_ok (App api_own [(''/pim'', App api_pim_own [])])"
  using sub_names(1) by (intro app_okI api_no_clash api_below) (simp_all del: below.simps all_routes.simps add: leaf_apps)

lemma v1_app: "app_ok (App v1_own [(''/private'', App v1_private_own [])])"
  using sub_names(2) by (intro app_okI v1_no_clash v1_below) (simp_all del: below.simps all_routes.simps add: leaf_apps)

lemma v2_app: "app_ok (App v2_own [(''/private'', App v2_private_own [])])"
  using sub_names(2) by (intro app_okI v2_no_clash v2_below) (simp_all del: below.simps all_routes.simps add: leaf_apps)

lemma v3_app: "app_ok (App v3_own [(''/private'', App v3_private_own [])])"
  using sub_names(2) by (intro app_okI v3_no_clash v3_below) (simp_all del: below.simps all_routes.simps add: leaf_apps)

lemma plugin_apps_ok: "\<forall>(q, a) \<in> set plugin_apps. app_ok a"
  by (simp del: below.simps all_routes.simps add: leaf_apps api_app v1_app v2_app v3_app)

lemma server_apart: "sorted_wrt apart (all_routes (server_routes False))"
  unfolding server_apps
  using plugin_apps_ok plugin_names
  by (intro app_apart server_no_clash) (auto simp del: below.simps all_routes.simps simp: list_all_iff)

lemma server_routes_ok: "\<forall>r \<in> set (all_routes (server_routes False)). route_ok r"
  unfolding server_apps
  using plugin_apps_ok plugin_names server_ok
  by (intro ballI app_routes_ok [of server_own plugin_apps]) (auto simp del: below.simps all_routes.simps simp: list_all_iff)

section \<open>Properties\<close>

text \<open>C21: No request has two routes: of all routes of the server and its plugins, under the
  prefixes of their packages, at most one serves a method and a path, so it does not matter in
  which order the plugins are found.\<close>

theorem one_route_serves:
  assumes "path_matching matches" "r \<in> set (all_routes (server_routes False))" "serves matches r verb p"
  shows "filter (\<lambda>r. serves matches r verb p) (all_routes (server_routes False)) = [r]"
  using assms(1) server_apart server_routes_ok assms(2,3) by (rule serves_alone)

theorem one_route_serves_witness:
  "filter (\<lambda>r. serves template_match r ''GET'' ''/bot/remove/b1'') (all_routes (server_routes False)) =
     [route ''GET'' ''/bot/remove/{did}'' ''_handle_remove_entity(bot)'']"
proof (rule one_route_serves [OF templates.path_matching_axioms])
  show "route ''GET'' ''/bot/remove/{did}'' ''_handle_remove_entity(bot)'' \<in> set (all_routes (server_routes False))"
    by (simp add: server_apps bumper_routes_def del: append.simps)
  show "serves template_match (route ''GET'' ''/bot/remove/{did}'' ''_handle_remove_entity(bot)'') ''GET'' ''/bot/remove/b1''"
    by code_simp
qed

text \<open>
  The routes of the server that the middleware does not log, by the path they were registered
  with. Its list names the removal of clients by a template that no route has; the pages of the
  cleaning logs are not on it.
\<close>

lemma excluded_routes:
  "map rt_path (filter (\<lambda>r. rt_path r \<in> set EXCLUDE_FROM_LOGGING) server_own) =
     [''/static'', ''/restart_{service}'', ''/server-status'', ''/bots'', ''/bot/remove/{did}'', ''/clients'',
      ''/users'', ''/user/remove/{userid}'']"
  by code_simp

lemma logged_pages:
  "list_all (\<lambda>p. p \<in> rt_path ` set bumper_routes \<and> p \<notin> set EXCLUDE_FROM_LOGGING)
     [[], ''/client/remove/{userid}'', ''/clean_logs'', ''/clean_log/remove/{clean_log_id}'',
      ''/clean_logs/remove/{placeholder}'']"
  by code_simp

end
