(* ===== verification/Spec2Isabelle.thy ===== *)
theory Spec2Isabelle
  imports Web_Properties Tools_Properties Clean_Domains MQTT_Connect Mitm_CMD Route_Properties
begin

text \<open>
  bumper (src/bumper) is a local replacement for the cloud of Ecovacs robots: robots and apps
  talk to it over MQTT, XMPP and HTTPS as they would to the vendor's servers. This library
  models the program and proves what makes its parts correct, and what in them is not.

  \<^bold>\<open>How the program is modelled.\<close> A value of a request, a message or a stored document is a
  \<open>json\<close> (Prelude); a \<open>dict\<close> is an association list in insertion order. Code that reads and
  writes a state and may raise is a program \<open>('s, 'a) py\<close>: a function from the state to an
  exception or a value and the state it leaves, so what was written before a raise stays
  written. Pure code that may raise returns \<open>py_exc + 'a\<close>. Definitions keep the names of the
  source. Code outside the repository is an argument: TinyDB (the record \<open>store_ops\<close> with the
  laws of the locale \<open>tinydb\<close>, interpreted on \<open>mem_store\<close>), the clock and the time zone, uuid
  and random texts, hashing, PyJWT and \<open>json.loads\<close> (the record \<open>env\<close> of Web_Core, \<open>api\<close> of
  App_State), the XML parser and printer (\<open>xenv\<close> of XMPP), the MQTT broker and client
  libraries, certificates and sockets (\<open>services\<close> of Services).

  \<^bold>\<open>The parts, in the order of the imports.\<close>
  \<^item> Prelude, Py_Strings, Py_Datetime, Py_Format, Py_Bytes, Py_Url: the Python the code uses:
    values, exceptions, string methods, aware date-times with \<open>isoformat\<close> and \<open>fromisoformat\<close>,
    \<open>json.dumps\<close>, UTF-8 and base64, \<open>urlparse\<close> and \<open>parse_qs\<close>.
  \<^item> Doc_Store: tables and queries of TinyDB. Settings: the configuration
    (utils/settings.py) and the helpers of utils/utils.py. Models: the records of web/utils/models.py
    and their dictionaries.
  \<^item> Base_Repo, Bot_Repo, Client_Repo, User_Repo, Token_Repo, Clean_Log_Repo: the repositories
    of src/bumper/db. The locale \<open>record_repo\<close> is their contract (what a lookup returns after
    an insertion or a removal), \<open>flag_repo\<close> extends it by a field that can be set; the
    repositories of robots, clients and users are shown to be such by \<open>sublocale\<close>. Each has an
    invariant (\<open>bots_ok\<close>, \<open>clients_ok\<close>, \<open>users_ok\<close>, \<open>tokens_ok\<close>, \<open>logs_ok\<close>; together \<open>db_ok\<close>).
    Migration: db/migration.py, the versions of the database and the flattening of the old logs.
  \<^item> Response_Helper, Web_Core, Auth_Service: the answers, the request, and
    web/auth_service.py (login, tokens, codes, OAuth, JWT). Auth_Laws holds their lemmas.
  \<^item> Helper_Bot, MQTT_Proxy, MQTT_Server: src/bumper/mqtt. Commands are sent in two steps with
    the messages of the meantime between them, so answers of other requests interleave.
    MQTT_Laws holds their lemmas.
  \<^item> XMPP, XMPP_Server, XMPP_Laws, XMPP_Delivery: xmpp/xmpp.py, its connections in an
    explicit store, the handlers of the stanzas, the step relation \<open>xmpp_step\<close>, the
    invariant of all reachable states, who receives a message.
  \<^item> App_State, Api_Appsvr, Api_App_Info, Api_Users, Api_Devices, Api_Private, Static_Api,
    Static_Private: the plugins of the web server. Their state \<open>app\<close> is the database, the
    helper bot and the cached configuration groups, which one handler changes in place.
    Single_Paths: web/single_paths.py and the proxy of web/server.py. Web_Paths:
    web/web_paths.py, the administration pages.
  \<^item> Web_Server: the web server of web/server.py as an object, its sites with every failure of
    their start and shutdown, the icon and the images. Services: bumper/__init__.py, the
    configuration, start, maintenance, shutdown and restart of the services over one database.
  \<^item> Web_Laws, App_Laws: the lemmas of the web handlers, the invariants of the tables along
    them, ordered lists, pages, and the loops of the start.
  \<^item> Routes: the tables of the routes (\<open>routes\<close> of every plugin, \<open>bumper_routes\<close>), the
    applications made of the packages (web/plugins/__init__.py) and those of web/server.py.
    Routing: which route serves a request; the comparison of a path with a template is aiohttp's,
    given by the locale \<open>path_matching\<close> and interpreted on \<open>template_match\<close>.
  \<^item> Certs, Certs_Laws: utils/certs.py, the tree of the domains, the names of the certificate,
    the files; the cryptography package is a parameter. Clean_Domains: scripts/clean-domains.py.
  \<^item> Logging: utils/log_helper.py, loggers, handlers and the four filters. Middleware:
    web/utils/middlewares.py, what is logged of requests and answers, around any handler.
  \<^item> MQTT_Connect: the connection of the MQTT proxy to the vendor (\<open>_connect_coro\<close> of
    mqtt/proxy.py), the URL with the credentials and the TLS context.
  \<^item> Mitm_MQTT, Mitm_MQTT_Laws, Mitm_MQTT_Format, Mitm_MQTT_Types: configs/mitm-mqtt.py, the
    parser of MQTT packets and the reassembly of the streams. Mitm_CMD: configs/mitm-cmd.py
    and mitm-dns.py, the recorded commands and the redirection of requests.
  \<^item> Samples: concrete states for the witnesses.

  \<^bold>\<open>What is proved.\<close> Store_Properties: the repositories refine maps, revocation by text
  comparison is right with one UTC offset and wrong across summer time, migration is all or
  nothing and idempotent, records are read back as written. Auth_Properties: a login issues a
  token valid for exactly its validity, codes lead back to their user, where a revoked code
  is still handed out. MQTT_Properties: answers reach the command they name, authentication
  registers exactly the robot that connects or changes nothing, the proxy hides and restores
  senders. XMPP_Properties: the invariant of reachable states; readiness without
  authentication and what such a connection receives. Web_Properties: the device list, the
  scan of a QR code, lists and pages of logs, the account actions and the tables after them,
  commands from the REST interface down to the published message, the proxy, removal, start
  and end of the program. Tools_Properties: the names of the certificate are exactly those
  of the domain tree and cover the hosts of the service list, the files are made once; the
  sniffer shows exactly the packets that were encoded, however they are cut, and accepts only
  well-formed ones; the filters and the middleware of the log. Route_Properties: no request has
  two routes. MQTT_Connect: which credentials the proxy connects with, and that it verifies
  nothing. Mitm_CMD: the counts of the recorded commands. Where the code does not do what it
  means to, the theorem states what it does.

  \<^bold>\<open>Loops and bounds.\<close> Loops over lists are recursions on the list. The migration loop is
  bounded by the table of versions, date arithmetic by counting days, percent decoding by the
  length of the text. The waits of the start and of the shutdown have no time limit in the
  code: \<open>poll\<close> is a \<open>partial_function\<close> whose value is \<open>None\<close> when the wait never ends, and
  \<open>poll_least\<close> says exactly when it does. Times are integers of microseconds; Python's
  integers have no width.

  \<^bold>\<open>Not modelled.\<close> The import of the plugins by reflection: the modules are listed as they
  stand in the directory. The handler that coloredlogs installs; the templates, the content
  of the image files; the placeholder pages and literal answers whose text is not
  ASCII or that hold floats, and the table of language names (a parameter of
  \<open>handle_app_config\<close>); the printing of XML; what third-party code does (sockets, TLS, the MQTT
  broker and client, the cryptography package, mitmproxy itself); the scheduling of asyncio
  below the granularity of a handler: a handler is one step, except where it waits for the
  answer of a robot.
\<close>

end
